(* ===== verification/Prelude.thy ===== *)
theory Prelude
  imports Main "HOL-Library.State_Monad" "HOL-Library.AList"
begin

text \<open>
  Shared material of the development: the Go strings and maps the code uses, Go error
  values, the monad in which the handlers run and the reasoning rules for it.

  A handler runs over a state \<open>st\<close> that holds the Kubernetes object it works on (the Go
  pointer it mutates, \<open>cur\<close>) and the list of the calls it has made so far to the outside
  (\<open>calls\<close>, oldest first).  What the outside answers is a function of that history, so a
  theorem for every environment covers every reaction of the API server and of the cloud,
  concurrent changes by others included.
\<close>

section \<open>Strings\<close>

text \<open>Go strings are byte sequences, as \<open>string\<close> is here.\<close>

definition hasPrefix :: "string \<Rightarrow> string \<Rightarrow> bool" where
  "hasPrefix s p \<longleftrightarrow> take (length p) s = p"

definition hasSuffix :: "string \<Rightarrow> string \<Rightarrow> bool" where
  "hasSuffix s p \<longleftrightarrow> length p \<le> length s \<and> drop (length s - length p) s = p"

definition trimPrefix :: "string \<Rightarrow> string \<Rightarrow> string" where
  "trimPrefix s p = (if hasPrefix s p then drop (length p) s else s)"

definition trimSuffix :: "string \<Rightarrow> string \<Rightarrow> string" where
  "trimSuffix s p = (if hasSuffix s p then take (length s - length p) s else s)"

definition cutPrefix :: "string \<Rightarrow> string \<Rightarrow> string option" where
  "cutPrefix s p = (if hasPrefix s p then Some (drop (length p) s) else None)"

fun containsStr :: "string \<Rightarrow> string \<Rightarrow> bool" where
  "containsStr [] p \<longleftrightarrow> p = []"
| "containsStr (c # cs) p \<longleftrightarrow> hasPrefix (c # cs) p \<or> containsStr cs p"

text \<open>\<open>strings.TrimSpace\<close> on ASCII white space.\<close>

definition isSpaceChar :: "char \<Rightarrow> bool" where
  "isSpaceChar c \<longleftrightarrow> c \<in> {CHR 0x09, CHR 0x0A, CHR 0x0B, CHR 0x0C, CHR 0x0D, CHR '' ''}"

definition trimSpace :: "string \<Rightarrow> string" where
  "trimSpace s = rev (dropWhile isSpaceChar (rev (dropWhile isSpaceChar s)))"

definition trimLeftNewlines :: "string \<Rightarrow> string" where
  "trimLeftNewlines s = dropWhile (\<lambda>c. c = CHR 0x0A) s"

definition toLowerChar :: "char \<Rightarrow> char" where
  "toLowerChar c = (let n = of_char c :: nat in
     if 65 \<le> n \<and> n \<le> 90 then char_of (n + 32) else c)"

definition toLowerStr :: "string \<Rightarrow> string" where
  "toLowerStr s = map toLowerChar s"

text \<open>\<open>strings.Split(s, d)\<close> at a one-byte separator: always at least one part.\<close>

fun splitOn :: "char \<Rightarrow> string \<Rightarrow> string list" where
  "splitOn d [] = [[]]"
| "splitOn d (c # cs) =
     (if c = d then [] # splitOn d cs
      else (case splitOn d cs of [] \<Rightarrow> [[c]] | p # ps \<Rightarrow> (c # p) # ps))"

fun joinStr :: "string \<Rightarrow> string list \<Rightarrow> string" where
  "joinStr sep [] = []"
| "joinStr sep [s] = s"
| "joinStr sep (s # t # ss) = s @ sep @ joinStr sep (t # ss)"

text \<open>Decimal rendering (\<open>%d\<close>).\<close>

fun showNat :: "nat \<Rightarrow> string" where
  "showNat n = (if n < 10 then [char_of (48 + n)]
     else showNat (n div 10) @ [char_of (48 + n mod 10)])"

declare showNat.simps [simp del]

definition showInt :: "int \<Rightarrow> string" where
  "showInt i = (if i < 0 then ''-'' @ showNat (nat (- i)) else showNat (nat i))"

text \<open>
  \<open>%q\<close>: double quotes, with backslash escapes for the quote, the backslash and the control
  characters.  Bytes from 0x80 on are kept: for printable UTF-8 text, which is what the code
  quotes, that is what Go prints.
\<close>

definition hexDigit :: "nat \<Rightarrow> char" where
  "hexDigit n = (if n < 10 then char_of (48 + n) else char_of (87 + n))"

definition quoteChar :: "char \<Rightarrow> string" where
  "quoteChar c = (let n = of_char c :: nat in
     if c = CHR 0x22 then [CHR 0x5C, CHR 0x22]
     else if c = CHR 0x5C then [CHR 0x5C, CHR 0x5C]
     else if n = 7 then [CHR 0x5C, CHR ''a'']
     else if n = 8 then [CHR 0x5C, CHR ''b'']
     else if n = 9 then [CHR 0x5C, CHR ''t'']
     else if n = 10 then [CHR 0x5C, CHR ''n'']
     else if n = 11 then [CHR 0x5C, CHR ''v'']
     else if n = 12 then [CHR 0x5C, CHR ''f'']
     else if n = 13 then [CHR 0x5C, CHR ''r'']
     else if n < 32 \<or> n = 127 then [CHR 0x5C, CHR ''x'', hexDigit (n div 16), hexDigit (n mod 16)]
     else [c])"

definition quoted :: "string \<Rightarrow> string" where
  "quoted s = [CHR 0x22] @ concat (map quoteChar s) @ [CHR 0x22]"

definition newline :: string where
  "newline = [CHR 0x0A]"

lemma hasPrefix_append [simp]: "hasPrefix (p @ s) p"
  by (simp add: hasPrefix_def)

lemma hasPrefix_same_prefix [simp]: "hasPrefix (p @ s) (p @ q) \<longleftrightarrow> hasPrefix s q"
  by (simp add: hasPrefix_def)

lemma hasPrefix_Nil [simp]: "hasPrefix s []"
  by (simp add: hasPrefix_def)

lemma hasPrefix_Nil2 [simp]: "hasPrefix [] (c # p) = False"
  by (simp add: hasPrefix_def)

lemma hasPrefix_Cons [simp]: "hasPrefix (c # s) (d # p) \<longleftrightarrow> c = d \<and> hasPrefix s p"
  by (auto simp: hasPrefix_def)

lemma hasPrefixE:
  assumes "hasPrefix s p"
  obtains r where "s = p @ r"
  using assms append_take_drop_id [of "length p" s] by (metis hasPrefix_def)

lemma hasSuffix_append [simp]: "hasSuffix (s @ p) p"
  by (simp add: hasSuffix_def)

lemma hasSuffixE:
  assumes "hasSuffix s p"
  obtains r where "s = r @ p"
  using assms append_take_drop_id [of "length s - length p" s] by (metis hasSuffix_def)

lemma trimSuffix_append [simp]: "trimSuffix (s @ p) p = s"
  by (simp add: trimSuffix_def)

lemma trimPrefix_append [simp]: "trimPrefix (p @ s) p = s"
  by (simp add: trimPrefix_def)

lemma splitOn_not_Nil [simp]: "splitOn d s \<noteq> []"
  by (induction s) (auto split: list.splits)

lemma splitOn_absent: "d \<notin> set s \<Longrightarrow> splitOn d s = [s]"
  by (induction s) auto

lemma splitOn_append: "d \<notin> set p \<Longrightarrow> splitOn d (p @ d # s) = p # splitOn d s"
  by (induction p) auto

lemma length_splitOn_append: "2 \<le> length (splitOn d (p @ d # n))"
proof (induction p)
  case Nil
  then show ?case by (cases "splitOn d n") auto
next
  case (Cons c p)
  then show ?case by (auto split: list.splits)
qed

lemma last_splitOn_append: "d \<notin> set n \<Longrightarrow> last (splitOn d (p @ d # n)) = n"
proof (induction p)
  case Nil
  then show ?case by (simp add: splitOn_absent)
next
  case (Cons c p)
  have "length (splitOn d (p @ d # n)) \<ge> 2"
    by (rule length_splitOn_append)
  then obtain a b ps where "splitOn d (p @ d # n) = a # b # ps"
    by (metis One_nat_def Suc_le_length_iff numeral_2_eq_2)
  with Cons show ?case by simp
qed

lemma containsStr_hasPrefix: "hasPrefix s p \<Longrightarrow> containsStr s p"
  by (cases s) (auto simp: hasPrefix_def)

lemma containsStr_append2: "containsStr s p \<Longrightarrow> containsStr (r @ s) p"
  by (induction r) auto

lemma containsStr_Nil [simp]: "containsStr s []"
  by (cases s) auto

lemma hasPrefix_append_mono: "hasPrefix s p \<Longrightarrow> hasPrefix (s @ t) p"
  by (erule hasPrefixE) simp

lemma containsStr_append1: "containsStr s p \<Longrightarrow> containsStr (s @ t) p"
proof (induction s)
  case Nil
  then show ?case by (cases t) auto
next
  case (Cons c s)
  then show ?case using hasPrefix_append_mono [of "c # s" p t] by auto
qed

section \<open>Go maps with string keys\<close>

text \<open>
  A Go map is an association list; the order of the list is the order in which \<open>range\<close>
  visits it, so a theorem for every list covers Go's random order.  Reading a missing key
  gives the zero value \<open>''''\<close>.
\<close>

type_synonym gomap = "(string \<times> string) list"

definition mget :: "gomap \<Rightarrow> string \<Rightarrow> string" where
  "mget m k = (case map_of m k of None \<Rightarrow> '''' | Some v \<Rightarrow> v)"

definition mhas :: "gomap \<Rightarrow> string \<Rightarrow> bool" where
  "mhas m k \<longleftrightarrow> map_of m k \<noteq> None"

definition mput :: "string \<Rightarrow> string \<Rightarrow> gomap \<Rightarrow> gomap" where
  "mput k v m = AList.update k v m"

text \<open>\<open>for k, v := range extra { labels[k] = v }\<close>\<close>

definition mergeInto :: "gomap \<Rightarrow> gomap \<Rightarrow> gomap" where
  "mergeInto extra m = fold (\<lambda>kv m. mput (fst kv) (snd kv) m) extra m"

lemma map_of_mput [simp]: "map_of (mput k v m) = (map_of m)(k \<mapsto> v)"
  by (simp add: mput_def update_conv')

lemma mget_mput [simp]: "mget (mput k v m) k' = (if k' = k then v else mget m k')"
  by (simp add: mget_def)

lemma mhas_mput [simp]: "mhas (mput k v m) k' \<longleftrightarrow> k' = k \<or> mhas m k'"
  by (simp add: mhas_def)

lemma mget_not_has: "\<not> mhas m k \<Longrightarrow> mget m k = ''''"
  by (simp add: mget_def mhas_def)

lemma distinct_mput [simp]: "distinct (map fst m) \<Longrightarrow> distinct (map fst (mput k v m))"
  by (simp add: mput_def distinct_update)

lemma mergeInto_Nil [simp]: "mergeInto [] m = m"
  by (simp add: mergeInto_def)

lemma mergeInto_Cons [simp]: "mergeInto (kv # e) m = mergeInto e (mput (fst kv) (snd kv) m)"
  by (simp add: mergeInto_def)

lemma map_of_mergeInto_notin: "k \<notin> fst ` set e \<Longrightarrow> map_of (mergeInto e m) k = map_of m k"
  by (induction e arbitrary: m) auto

lemma map_of_mergeInto:
  "distinct (map fst e) \<Longrightarrow> map_of (mergeInto e m) = map_of m ++ map_of e"
proof (induction e arbitrary: m)
  case Nil
  then show ?case by simp
next
  case (Cons kv e)
  have "fst kv \<notin> dom (map_of e)"
    using Cons.prems by (simp add: dom_map_of_conv_image_fst)
  then have "((map_of m)(fst kv \<mapsto> snd kv) ++ map_of e) k = (map_of m ++ map_of (kv # e)) k" for k
    by (simp add: map_add_def dom_def split: option.splits)
  moreover have "map_of (mergeInto (kv # e) m) = (map_of m)(fst kv \<mapsto> snd kv) ++ map_of e"
    using Cons by simp
  ultimately show ?case by (metis ext)
qed

section \<open>Go error values\<close>

text \<open>
  An error is its text and the sentinels it wraps: what \<open>errors.Is\<close>, the SDK's
  \<open>IsQuotaError\<close> and the API machinery's \<open>IsNotFound\<close> find in its chain.  \<open>fmt.Errorf\<close> with
  \<open>%w\<close> keeps the sentinels, with \<open>%v\<close> it drops them.
\<close>

datatype mark =
    NotFoundM              \<comment> \<open>evroc.ErrNotFound\<close>
  | ConflictM              \<comment> \<open>evroc.ErrConflict\<close>
  | ForbiddenM             \<comment> \<open>evroc.ErrForbidden\<close>
  | BadRequestM            \<comment> \<open>evroc.ErrBadRequest\<close>
  | QuotaM                 \<comment> \<open>evroc.IsQuotaError\<close>
  | K8sNotFoundM           \<comment> \<open>apierrors.IsNotFound\<close>
  | MachineDeletionPendingM
  | CloudResourcesDeletingM
  | TerminalM              \<comment> \<open>reconcile.TerminalError\<close>

datatype goerr = GoErr (errMsg: string) (errMarks: "mark list")

definition errIs :: "goerr \<Rightarrow> mark \<Rightarrow> bool" where
  "errIs e k \<longleftrightarrow> k \<in> set (errMarks e)"

definition newErr :: "string \<Rightarrow> goerr" where
  "newErr s = GoErr s []"

text \<open>\<open>fmt.Errorf("<context>: %w", err)\<close>\<close>

definition wrapErr :: "string \<Rightarrow> goerr \<Rightarrow> goerr" where
  "wrapErr ctx e = GoErr (ctx @ '': '' @ errMsg e) (errMarks e)"

text \<open>\<open>errors.Join\<close> of non-nil errors; no error at all is \<open>nil\<close>.\<close>

definition joinErrs :: "goerr list \<Rightarrow> goerr option" where
  "joinErrs es = (if es = [] then None
     else Some (GoErr (joinStr newline (map errMsg es)) (concat (map errMarks es))))"

lemma errIs_wrapErr [simp]: "errIs (wrapErr c e) k = errIs e k"
  by (simp add: wrapErr_def errIs_def)

lemma errIs_newErr [simp]: "\<not> errIs (newErr s) k"
  by (simp add: newErr_def errIs_def)

lemma errIs_GoErr [simp]: "errIs (GoErr s ks) k \<longleftrightarrow> k \<in> set ks"
  by (simp add: errIs_def)

lemma joinErrs_None [simp]: "joinErrs es = None \<longleftrightarrow> es = []"
  by (simp add: joinErrs_def)

lemma joinErrs_Nil [simp]: "joinErrs [] = None"
  by (simp add: joinErrs_def)

section \<open>The handler monad\<close>

record ('o, 'c) st =
  cur :: 'o
  calls :: "'c list"

abbreviation ret :: "'a \<Rightarrow> ('s, 'a) state" where
  "ret \<equiv> State_Monad.return"

definition getCur :: "(('o, 'c) st, 'o) state" where
  "getCur = State (\<lambda>s. (cur s, s))"

definition modCur :: "('o \<Rightarrow> 'o) \<Rightarrow> (('o, 'c) st, unit) state" where
  "modCur f = State (\<lambda>s. ((), s\<lparr>cur := f (cur s)\<rparr>))"

text \<open>A call to the outside: it is recorded, and answered from the history before it.\<close>

definition invoke :: "('c list \<Rightarrow> 'c \<Rightarrow> 'a) \<Rightarrow> 'c \<Rightarrow> (('o, 'c) st, 'a) state" where
  "invoke f c = State (\<lambda>s. (f (calls s) c, s\<lparr>calls := calls s @ [c]\<rparr>))"

text \<open>Reading the clock or a random source: not recorded, but dependent on the history.\<close>

definition ask :: "('c list \<Rightarrow> 'a) \<Rightarrow> (('o, 'c) st, 'a) state" where
  "ask f = State (\<lambda>s. (f (calls s), s))"

text \<open>
  The two shapes of Go's \<open>if err != nil\<close>: on a call that returns a value and an error, and on
  a call that returns an error alone.
\<close>

definition onResult :: "('s, 'e + 'a) state \<Rightarrow> ('e \<Rightarrow> ('s, 'b) state) \<Rightarrow> ('a \<Rightarrow> ('s, 'b) state) \<Rightarrow> ('s, 'b) state" where
  "onResult m h k = do { r \<leftarrow> m; (case r of Inl e \<Rightarrow> h e | Inr x \<Rightarrow> k x) }"

definition onError :: "('s, 'e option) state \<Rightarrow> ('e \<Rightarrow> ('s, 'b) state) \<Rightarrow> ('s, 'b) state \<Rightarrow> ('s, 'b) state" where
  "onError m h k = do { r \<leftarrow> m; (case r of Some e \<Rightarrow> h e | None \<Rightarrow> k) }"

text \<open>A loop whose body may return early with an error.\<close>

primrec forEach :: "('a \<Rightarrow> ('s, 'e option) state) \<Rightarrow> 'a list \<Rightarrow> ('s, 'e option) state" where
  "forEach f [] = ret None"
| "forEach f (x # xs) = onError (f x) (\<lambda>e. ret (Some e)) (forEach f xs)"

text \<open>A loop that goes on after an error and collects them.\<close>

primrec collectErrs :: "('a \<Rightarrow> ('s, 'e option) state) \<Rightarrow> 'a list \<Rightarrow> ('s, 'e list) state" where
  "collectErrs f [] = ret []"
| "collectErrs f (x # xs) = do {
     r \<leftarrow> f x;
     es \<leftarrow> collectErrs f xs;
     ret ((case r of None \<Rightarrow> [] | Some e \<Rightarrow> [e]) @ es) }"

text \<open>A loop that appends a value per element and may return early with an error.\<close>

primrec mapEach :: "('a \<Rightarrow> ('s, 'e + 'b) state) \<Rightarrow> 'a list \<Rightarrow> ('s, 'e + 'b list) state" where
  "mapEach f [] = ret (Inr [])"
| "mapEach f (x # xs) = onResult (f x) (\<lambda>e. ret (Inl e))
     (\<lambda>y. onResult (mapEach f xs) (\<lambda>e. ret (Inl e)) (\<lambda>ys. ret (Inr (y # ys))))"

lemma run_getCur [simp]: "run_state getCur s = (cur s, s)"
  by (simp add: getCur_def)

lemma run_modCur [simp]: "run_state (modCur f) s = ((), s\<lparr>cur := f (cur s)\<rparr>)"
  by (simp add: modCur_def)

lemma run_invoke [simp]: "run_state (invoke f c) s = (f (calls s) c, s\<lparr>calls := calls s @ [c]\<rparr>)"
  by (simp add: invoke_def)

lemma run_ask [simp]: "run_state (ask f) s = (f (calls s), s)"
  by (simp add: ask_def)

lemma run_onResult [simp]:
  "run_state (onResult m h k) s = (case run_state m s of (r, s') \<Rightarrow>
     (case r of Inl e \<Rightarrow> run_state (h e) s' | Inr x \<Rightarrow> run_state (k x) s'))"
  by (simp add: onResult_def split: prod.splits sum.splits)

lemma run_onError [simp]:
  "run_state (onError m h k) s = (case run_state m s of (r, s') \<Rightarrow>
     (case r of Some e \<Rightarrow> run_state (h e) s' | None \<Rightarrow> run_state k s'))"
  by (simp add: onError_def split: prod.splits option.splits)

text \<open>The calls a computation adds to the history.\<close>

definition emitted :: "(('o, 'c) st, 'a) state \<Rightarrow> ('o, 'c) st \<Rightarrow> 'c list" where
  "emitted m s = drop (length (calls s)) (calls (snd (run_state m s)))"

definition resultOf :: "('s, 'a) state \<Rightarrow> 's \<Rightarrow> 'a" where
  "resultOf m s = fst (run_state m s)"

definition finalCur :: "(('o, 'c) st, 'a) state \<Rightarrow> ('o, 'c) st \<Rightarrow> 'o" where
  "finalCur m s = cur (snd (run_state m s))"

definition stateAfter :: "('s, 'a) state \<Rightarrow> 's \<Rightarrow> 's" where
  "stateAfter m s = snd (run_state m s)"

text \<open>The result of a computation, step by step, when the effects do not matter.\<close>

lemma resultOf_return [simp]: "resultOf (ret x) s = x"
  by (simp add: resultOf_def)

lemma resultOf_bind:
  "resultOf (State_Monad.bind m f) s = resultOf (f (resultOf m s)) (stateAfter m s)"
  by (simp add: resultOf_def stateAfter_def split: prod.splits)

lemma resultOf_onResult:
  "resultOf (onResult m h k) s = (case resultOf m s of
     Inl e \<Rightarrow> resultOf (h e) (stateAfter m s) | Inr x \<Rightarrow> resultOf (k x) (stateAfter m s))"
  by (simp add: resultOf_def stateAfter_def split: prod.splits sum.splits)

lemma resultOf_onError:
  "resultOf (onError m h k) s = (case resultOf m s of
     Some e \<Rightarrow> resultOf (h e) (stateAfter m s) | None \<Rightarrow> resultOf k (stateAfter m s))"
  by (simp add: resultOf_def stateAfter_def split: prod.splits option.splits)

lemmas resultOf_rules = resultOf_bind resultOf_onResult resultOf_onError

section \<open>Relations every step of a computation keeps\<close>

text \<open>
  A computation keeps a reflexive and transitive relation between the states before and
  after it when each of its steps does.  The rules below take a handler apart along its
  syntax; they are proved once here and used through the interpretations that follow.
\<close>

locale step_relation =
  fixes R :: "'s \<Rightarrow> 's \<Rightarrow> bool"
  assumes R_refl: "R s s"
    and R_trans: "R s t \<Longrightarrow> R t u \<Longrightarrow> R s u"
begin

lemma keeps_return: "state_io_rel R (ret x)"
  by (auto simp: state_io_rel_def R_refl)

lemma keeps_bind:
  assumes "state_io_rel R m" and "\<And>x. state_io_rel R (f x)"
  shows "state_io_rel R (State_Monad.bind m f)"
  using assms by (auto simp: state_io_rel_def split: prod.splits) (metis R_trans snd_conv)

lemma keeps_onResult:
  assumes "state_io_rel R m" and "\<And>e. state_io_rel R (h e)" and "\<And>x. state_io_rel R (k x)"
  shows "state_io_rel R (onResult m h k)"
  unfolding onResult_def by (rule keeps_bind [OF assms(1)]) (auto split: sum.split intro: assms)

lemma keeps_onError:
  assumes "state_io_rel R m" and "\<And>e. state_io_rel R (h e)" and "state_io_rel R k"
  shows "state_io_rel R (onError m h k)"
  unfolding onError_def by (rule keeps_bind [OF assms(1)]) (auto split: option.split intro: assms)

lemma keeps_if:
  assumes "b \<Longrightarrow> state_io_rel R m" and "\<not> b \<Longrightarrow> state_io_rel R n"
  shows "state_io_rel R (if b then m else n)"
  using assms by simp

lemma keeps_case_option:
  assumes "x = None \<Longrightarrow> state_io_rel R m" and "\<And>y. x = Some y \<Longrightarrow> state_io_rel R (f y)"
  shows "state_io_rel R (case x of None \<Rightarrow> m | Some y \<Rightarrow> f y)"
  using assms by (simp split: option.split)

lemma keeps_case_sum:
  assumes "\<And>e. x = Inl e \<Longrightarrow> state_io_rel R (f e)" and "\<And>y. x = Inr y \<Longrightarrow> state_io_rel R (g y)"
  shows "state_io_rel R (case x of Inl e \<Rightarrow> f e | Inr y \<Rightarrow> g y)"
  using assms by (simp split: sum.split)

lemma keeps_case_prod:
  assumes "\<And>a b. x = (a, b) \<Longrightarrow> state_io_rel R (f a b)"
  shows "state_io_rel R (case x of (a, b) \<Rightarrow> f a b)"
  using assms by (simp split: prod.split)

lemma keeps_forEach:
  assumes "\<And>x. x \<in> set xs \<Longrightarrow> state_io_rel R (f x)"
  shows "state_io_rel R (forEach f xs)"
  using assms by (induction xs) (simp_all add: keeps_return keeps_onError)

lemma keeps_collectErrs:
  assumes "\<And>x. x \<in> set xs \<Longrightarrow> state_io_rel R (f x)"
  shows "state_io_rel R (collectErrs f xs)"
  using assms by (induction xs) (simp_all add: keeps_return keeps_bind)

lemma keeps_mapEach:
  assumes "\<And>x. x \<in> set xs \<Longrightarrow> state_io_rel R (f x)"
  shows "state_io_rel R (mapEach f xs)"
  using assms by (induction xs) (simp_all add: keeps_return keeps_onResult)

lemmas keeps_rules =
  keeps_return keeps_bind keeps_onResult keeps_onError keeps_if keeps_case_option
  keeps_case_sum keeps_case_prod keeps_forEach keeps_collectErrs keeps_mapEach

end

text \<open>
  A relation from a known object: for a handler that read the object \<open>x\<close> and goes on with it.
  As long as the steps leave the object alone, the rest still starts from \<open>x\<close>.
\<close>

definition fromRel ::
    "'o \<Rightarrow> (('o, 'c) st \<Rightarrow> ('o, 'c) st \<Rightarrow> bool) \<Rightarrow> ('o, 'c) st \<Rightarrow> ('o, 'c) st \<Rightarrow> bool" where
  "fromRel x R s t \<longleftrightarrow> cur s = x \<longrightarrow> R s t"

definition frameRel :: "('o \<Rightarrow> 'v) \<Rightarrow> ('o, 'c) st \<Rightarrow> ('o, 'c) st \<Rightarrow> bool" where
  "frameRel v s t \<longleftrightarrow> v (cur t) = v (cur s)"

locale object_relation = step_relation R for R :: "('o, 'c) st \<Rightarrow> ('o, 'c) st \<Rightarrow> bool"
begin

lemma read:
  assumes "\<And>x. state_io_rel (fromRel x R) (f x)"
  shows "state_io_rel R (State_Monad.bind getCur f)"
  using assms by (auto simp: state_io_rel_def fromRel_def)

lemma from_keeps: "state_io_rel R m \<Longrightarrow> state_io_rel (fromRel x R) m"
  by (auto simp: state_io_rel_def fromRel_def)

lemma from_return: "state_io_rel (fromRel x R) (ret y)"
  by (rule from_keeps) (rule keeps_return)

lemma from_getCur:
  "state_io_rel (fromRel x R) (f x) \<Longrightarrow> state_io_rel (fromRel x R) (State_Monad.bind getCur f)"
  by (auto simp: state_io_rel_def fromRel_def)

lemma from_bind:
  fixes m :: "(('o, 'c) st, 'a) state"
  assumes "state_io_rel R m" and "state_io_rel (frameRel (\<lambda>x. x)) m"
    and "\<And>y. state_io_rel (fromRel x R) (f y)"
  shows "state_io_rel (fromRel x R) (State_Monad.bind m f)"
  unfolding state_io_rel_def fromRel_def
proof (intro allI impI)
  fix s :: "('o, 'c) st"
  assume x: "cur s = x"
  obtain y t where run: "run_state m s = (y, t)"
    by fastforce
  have "cur t = x" and "R s t"
    using assms(1,2) run x by (auto simp: state_io_rel_def frameRel_def dest!: spec [of _ s])
  moreover have "fromRel x R t (snd (run_state (f y) t))"
    using assms(3) by (simp add: state_io_rel_def)
  ultimately show "R s (snd (run_state (State_Monad.bind m f) s))"
    using run R_trans by (auto simp: fromRel_def)
qed

lemma from_onResult:
  assumes "state_io_rel R m" and "state_io_rel (frameRel (\<lambda>x. x)) m"
    and "\<And>e. state_io_rel (fromRel x R) (h e)" and "\<And>y. state_io_rel (fromRel x R) (k y)"
  shows "state_io_rel (fromRel x R) (onResult m h k)"
  unfolding onResult_def by (rule from_bind [OF assms(1,2)]) (auto split: sum.split intro: assms)

lemma from_onError:
  assumes "state_io_rel R m" and "state_io_rel (frameRel (\<lambda>x. x)) m"
    and "\<And>e. state_io_rel (fromRel x R) (h e)" and "state_io_rel (fromRel x R) k"
  shows "state_io_rel (fromRel x R) (onError m h k)"
  unfolding onError_def by (rule from_bind [OF assms(1,2)]) (auto split: option.split intro: assms)

text \<open>A first part from \<open>x\<close>, and a rest from wherever it ends.\<close>

lemma from_then:
  fixes m :: "(('o, 'c) st, 'a) state"
  assumes "state_io_rel (fromRel x R) m" and "\<And>y. state_io_rel R (f y)"
  shows "state_io_rel (fromRel x R) (State_Monad.bind m f)"
  unfolding state_io_rel_def fromRel_def
proof (intro allI impI)
  fix s :: "('o, 'c) st"
  assume x: "cur s = x"
  obtain y t where run: "run_state m s = (y, t)"
    by fastforce
  have "R s t"
    using assms(1) run x by (auto simp: state_io_rel_def fromRel_def dest!: spec [of _ s])
  moreover have "R t (snd (run_state (f y) t))"
    using assms(2) by (simp add: state_io_rel_def)
  ultimately show "R s (snd (run_state (State_Monad.bind m f) s))"
    using run R_trans by auto
qed

lemma from_onError_then:
  assumes "state_io_rel (fromRel x R) m" and "\<And>e. state_io_rel R (h e)" and "state_io_rel R k"
  shows "state_io_rel (fromRel x R) (onError m h k)"
  unfolding onError_def by (rule from_then [OF assms(1)]) (auto split: option.split intro: assms)

lemma from_if:
  assumes "b \<Longrightarrow> state_io_rel (fromRel x R) m" and "\<not> b \<Longrightarrow> state_io_rel (fromRel x R) k"
  shows "state_io_rel (fromRel x R) (if b then m else k)"
  using assms by simp

lemma from_case_sum:
  assumes "\<And>e. y = Inl e \<Longrightarrow> state_io_rel (fromRel x R) (h e)"
    and "\<And>z. y = Inr z \<Longrightarrow> state_io_rel (fromRel x R) (k z)"
  shows "state_io_rel (fromRel x R) (case y of Inl e \<Rightarrow> h e | Inr z \<Rightarrow> k z)"
  using assms by (simp split: sum.split)

lemma from_case_option:
  assumes "y = None \<Longrightarrow> state_io_rel (fromRel x R) h"
    and "\<And>z. y = Some z \<Longrightarrow> state_io_rel (fromRel x R) (k z)"
  shows "state_io_rel (fromRel x R) (case y of None \<Rightarrow> h | Some z \<Rightarrow> k z)"
  using assms by (simp split: option.split)

lemma from_case_prod:
  assumes "\<And>a b. y = (a, b) \<Longrightarrow> state_io_rel (fromRel x R) (f a b)"
  shows "state_io_rel (fromRel x R) (case y of (a, b) \<Rightarrow> f a b)"
  using assms by (simp split: prod.split)

lemmas from_rules =
  from_return from_getCur from_if from_case_sum from_case_option from_case_prod

end

text \<open>Instance 1: every call added to the history satisfies a predicate.\<close>

definition emitRel :: "('c \<Rightarrow> bool) \<Rightarrow> ('o, 'c) st \<Rightarrow> ('o, 'c) st \<Rightarrow> bool" where
  "emitRel P s t \<longleftrightarrow> (\<exists>xs. calls t = calls s @ xs \<and> (\<forall>c\<in>set xs. P c))"

text \<open>Instance 2: a view of the object is left alone (\<open>frameRel\<close>).\<close>

lemma emitRel_refl: "emitRel P s s"
  by (simp add: emitRel_def)

lemma emitRel_trans: "emitRel P s t \<Longrightarrow> emitRel P t u \<Longrightarrow> emitRel P s u"
  by (auto simp: emitRel_def)

interpretation emit: object_relation "emitRel P" for P :: "'c \<Rightarrow> bool"
  by unfold_locales (rule emitRel_refl, erule (1) emitRel_trans)

interpretation frame: step_relation "frameRel v" for v :: "'o \<Rightarrow> 'v"
  by unfold_locales (simp_all add: frameRel_def)

abbreviation emits :: "('c \<Rightarrow> bool) \<Rightarrow> (('o, 'c) st, 'a) state \<Rightarrow> bool" where
  "emits P \<equiv> state_io_rel (emitRel P)"

abbreviation frames :: "('o \<Rightarrow> 'v) \<Rightarrow> (('o, 'c) st, 'a) state \<Rightarrow> bool" where
  "frames v \<equiv> state_io_rel (frameRel v)"

lemma emits_invoke: "P c \<Longrightarrow> emits P (invoke f c)"
  by (auto simp: state_io_rel_def emitRel_def)

lemma emits_ask: "emits P (ask f)"
  by (auto simp: state_io_rel_def emitRel_def)

lemma emits_getCur: "emits P getCur"
  by (auto simp: state_io_rel_def emitRel_def)

lemma emits_modCur: "emits P (modCur f)"
  by (auto simp: state_io_rel_def emitRel_def)

lemma frames_invoke: "frames v (invoke f c)"
  by (auto simp: state_io_rel_def frameRel_def)

lemma frames_ask: "frames v (ask f)"
  by (auto simp: state_io_rel_def frameRel_def)

lemma frames_getCur: "frames v getCur"
  by (auto simp: state_io_rel_def frameRel_def)

lemma frames_modCur: "(\<And>x. v (f x) = v x) \<Longrightarrow> frames v (modCur f)"
  by (auto simp: state_io_rel_def frameRel_def)

named_theorems emits_ops "per-operation facts about the calls it makes"
named_theorems frames_ops "per-operation facts about the parts of the object it keeps"

lemmas emits_rules = emit.keeps_rules emits_invoke emits_ask emits_getCur emits_modCur

lemmas frames_rules = frame.keeps_rules frames_invoke frames_ask frames_getCur frames_modCur

lemma emits_mono: "emits P m \<Longrightarrow> (\<And>c. P c \<Longrightarrow> Q c) \<Longrightarrow> emits Q m"
  unfolding state_io_rel_def emitRel_def by blast

lemma emits_calls:
  assumes "emits P m"
  shows "\<exists>xs. calls (snd (run_state m s)) = calls s @ xs \<and> (\<forall>c\<in>set xs. P c)"
  using assms by (auto simp: state_io_rel_def emitRel_def)

lemma emitted_emits: "emits P m \<Longrightarrow> c \<in> set (emitted m s) \<Longrightarrow> P c"
  using emits_calls [of P m s] by (auto simp: emitted_def)

lemma calls_emitted:
  assumes "emits P m"
  shows "calls (snd (run_state m s)) = calls s @ emitted m s"
  using emits_calls [OF assms, of s] by (auto simp: emitted_def)

lemma finalCur_frames: "frames v m \<Longrightarrow> v (finalCur m s) = v (cur s)"
  by (auto simp: state_io_rel_def frameRel_def finalCur_def)

section \<open>Triples\<close>

text \<open>
  Where a property depends on the answers, a computation is described by what holds of its
  result and final state.
\<close>

definition holds :: "('s, 'a) state \<Rightarrow> 's \<Rightarrow> ('a \<Rightarrow> 's \<Rightarrow> bool) \<Rightarrow> bool" where
  "holds m s Q \<longleftrightarrow> Q (fst (run_state m s)) (snd (run_state m s))"

lemma holds_return [simp]: "holds (ret x) s Q \<longleftrightarrow> Q x s"
  by (simp add: holds_def)

lemma holds_bind: "holds (State_Monad.bind m f) s Q \<longleftrightarrow> holds m s (\<lambda>x t. holds (f x) t Q)"
  by (simp add: holds_def split: prod.splits)

lemma holds_onResult:
  "holds (onResult m h k) s Q \<longleftrightarrow>
     holds m s (\<lambda>r t. case r of Inl e \<Rightarrow> holds (h e) t Q | Inr x \<Rightarrow> holds (k x) t Q)"
  by (simp add: holds_def split: prod.splits sum.splits)

lemma holds_onError:
  "holds (onError m h k) s Q \<longleftrightarrow>
     holds m s (\<lambda>r t. case r of Some e \<Rightarrow> holds (h e) t Q | None \<Rightarrow> holds k t Q)"
  by (simp add: holds_def split: prod.splits option.splits)

lemma holds_mono: "holds m s Q \<Longrightarrow> (\<And>x t. Q x t \<Longrightarrow> Q' x t) \<Longrightarrow> holds m s Q'"
  by (simp add: holds_def)

lemma holds_if: "holds (if b then m else n) s Q \<longleftrightarrow> (if b then holds m s Q else holds n s Q)"
  by simp

lemma holds_invoke [simp]: "holds (invoke f c) s Q \<longleftrightarrow> Q (f (calls s) c) (s\<lparr>calls := calls s @ [c]\<rparr>)"
  by (simp add: holds_def)

lemma holds_ask [simp]: "holds (ask f) s Q \<longleftrightarrow> Q (f (calls s)) s"
  by (simp add: holds_def)

lemma holds_getCur [simp]: "holds getCur s Q \<longleftrightarrow> Q (cur s) s"
  by (simp add: holds_def)

lemma holds_modCur [simp]: "holds (modCur f) s Q \<longleftrightarrow> Q () (s\<lparr>cur := f (cur s)\<rparr>)"
  by (simp add: holds_def)

lemmas holds_rules = holds_bind holds_onResult holds_onError holds_if

end
