(* ===== verification/ApiTypes.thy ===== *)
theory ApiTypes
  imports Prelude
begin

text \<open>
  The API types of \<open>api/v1beta1\<close>: \<open>EvrocCluster\<close>, \<open>EvrocMachine\<close>, what they share, and the
  accessor methods declared with them.  A Go pointer field is an \<open>option\<close> (\<open>None\<close> is nil), a
  slice a list, a Go \<open>int\<close> or \<open>int32\<close> an \<open>int\<close> (the one place where a width matters is
  \<open>DiskService_Create\<close>).  Times are nanoseconds.
\<close>

section \<open>Kubernetes metadata and conditions\<close>

record OwnerReference =
  or_APIVersion :: string
  or_Kind :: string
  or_Name :: string
  or_UID :: string

record ObjectMeta =
  om_Name :: string
  om_Namespace :: string
  om_UID :: string
  om_ResourceVersion :: string
  om_Labels :: gomap
  om_Annotations :: gomap
  om_Finalizers :: "string list"
  om_OwnerReferences :: "OwnerReference list"
  om_DeletionTimestamp :: "int option"
  om_CreationTimestamp :: int

datatype ConditionStatus = ConditionTrue | ConditionFalse | ConditionUnknown

datatype ConditionSeverity = SeverityNone | SeverityInfo | SeverityWarning | SeverityError

record Condition =
  c_Type :: string
  c_Status :: ConditionStatus
  c_Severity :: ConditionSeverity
  c_LastTransitionTime :: int
  c_Reason :: string
  c_Message :: string

section \<open>Types shared by clusters and machines\<close>

record SecurityGroupRule =
  r_Name :: string
  r_Direction :: string
  r_Protocol :: string
  r_Port :: "int option"
  r_EndPort :: "int option"
  r_RemoteCIDR :: string
  r_RemoteSecurityGroup :: string

record InlineSecurityGroup =
  isg_Name :: string
  isg_Rules :: "SecurityGroupRule list"

record PublicIPConfig =
  pip_Enabled :: bool
  pip_ExistingID :: "string option"

record ManagedPublicIP =
  mip_ID :: string
  mip_UID :: string
  mip_Address :: string
  mip_Managed :: bool

record ManagedSecurityGroup =
  msg_ID :: string
  msg_UID :: string
  msg_Managed :: bool
  msg_Role :: string

section \<open>EvrocCluster\<close>

record SecretReference =
  sref_Name :: string

record EndpointsConfig =
  ep_APIBaseURL :: string
  ep_IssuerURL :: string
  ep_ClientID :: string

record NetworkSpec =
  net_VPCRef :: "string option"
  net_SubnetRefs :: gomap
  net_StackType :: "string option"

record LoadBalancerConfig =
  lbc_ExistingPublicIPID :: "string option"
  lbc_AdditionalPorts :: "int list"

record ControlPlaneConfig =
  cpc_LoadBalancer :: "LoadBalancerConfig option"

record SecurityGroupsConfig =
  sgc_InlineSecurityGroups :: "InlineSecurityGroup list"
  sgc_ExistingIDs :: "string list"

record ClusterSecurityGroupsConfig =
  csg_Common :: "SecurityGroupsConfig option"
  csg_ControlPlane :: "SecurityGroupsConfig option"
  csg_Worker :: "SecurityGroupsConfig option"

record APIEndpoint =
  ae_Host :: string
  ae_Port :: int

record EvrocClusterSpec =
  cs_Project :: string
  cs_Region :: string
  cs_CredentialsRef :: "SecretReference option"
  cs_ControlPlaneEndpoint :: APIEndpoint
  cs_ControlPlaneEndpointPolicy :: string
  cs_FailureDomains :: "string list"
  cs_Network :: NetworkSpec
  cs_AdditionalLabels :: gomap
  cs_ControlPlaneConfig :: "ControlPlaneConfig option"
  cs_SecurityGroups :: "ClusterSecurityGroupsConfig option"
  cs_Endpoints :: "EndpointsConfig option"

record InfrastructureClusterInitialization =
  ci_Provisioned :: "bool option"
  ci_InfrastructureProvisioned :: "bool option"

record FailureDomain =
  fd_Name :: string
  fd_ControlPlane :: "bool option"

record NetworkStatus =
  ns_VPCID :: string
  ns_SubnetIDs :: gomap
  ns_StackType :: string

record ManagedLoadBalancer =
  mlb_ID :: string
  mlb_UID :: string
  mlb_Address :: string
  mlb_Backends :: "string list"

record ClusterResources =
  cr_LoadBalancer :: "ManagedLoadBalancer option"
  cr_SecurityGroups :: "ManagedSecurityGroup list"

record EvrocClusterStatus =
  cst_Ready :: bool
  cst_Initialization :: InfrastructureClusterInitialization
  cst_FailureDomains :: "FailureDomain list"
  cst_Conditions :: "Condition list"
  cst_Network :: NetworkStatus
  cst_Resources :: "ClusterResources option"

record EvrocCluster =
  cl_Meta :: ObjectMeta
  cl_Spec :: EvrocClusterSpec
  cl_Status :: EvrocClusterStatus

definition TokenPathSuffix :: string where
  "TokenPathSuffix = ''/protocol/openid-connect/token''"

definition GetAPIBaseURL :: "EndpointsConfig option \<Rightarrow> string" where
  "GetAPIBaseURL e = (case e of None \<Rightarrow> '''' | Some e \<Rightarrow> ep_APIBaseURL e)"

definition GetIssuerURL :: "EndpointsConfig option \<Rightarrow> string" where
  "GetIssuerURL e = (case e of None \<Rightarrow> '''' | Some e \<Rightarrow> ep_IssuerURL e)"

definition GetAuthTokenURL :: "EndpointsConfig option \<Rightarrow> string" where
  "GetAuthTokenURL e =
     (let issuer = GetIssuerURL e in
      if issuer = '''' then '''' else trimSuffix issuer ''/'' @ TokenPathSuffix)"

definition GetClientID :: "EndpointsConfig option \<Rightarrow> string" where
  "GetClientID e = (case e of None \<Rightarrow> '''' | Some e \<Rightarrow> ep_ClientID e)"

definition EndpointManaged :: string where
  "EndpointManaged = ''Managed''"

definition EndpointExternal :: string where
  "EndpointExternal = ''External''"

definition ShouldManageControlPlaneEndpoint :: "EvrocCluster option \<Rightarrow> bool" where
  "ShouldManageControlPlaneEndpoint c =
     (case c of None \<Rightarrow> True
      | Some c \<Rightarrow> cs_ControlPlaneEndpointPolicy (cl_Spec c) \<noteq> EndpointExternal)"

definition GetLoadBalancer :: "ControlPlaneConfig option \<Rightarrow> LoadBalancerConfig option" where
  "GetLoadBalancer c = (case c of None \<Rightarrow> None | Some c \<Rightarrow> cpc_LoadBalancer c)"

definition Cluster_GetConditions :: "EvrocCluster \<Rightarrow> Condition list" where
  "Cluster_GetConditions c = cst_Conditions (cl_Status c)"

definition Cluster_SetConditions :: "EvrocCluster \<Rightarrow> Condition list \<Rightarrow> EvrocCluster" where
  "Cluster_SetConditions c cs = c\<lparr>cl_Status := (cl_Status c)\<lparr>cst_Conditions := cs\<rparr>\<rparr>"

section \<open>EvrocMachine\<close>

record MachineSecurityGroupsConfig =
  msgc_InheritFromCluster :: bool
  msgc_InlineSecurityGroups :: "InlineSecurityGroup list"
  msgc_ExistingIDs :: "string list"

record MachineNetworkingConfig =
  mnc_PublicIP :: "PublicIPConfig option"
  mnc_SecurityGroups :: "MachineSecurityGroupsConfig option"

record PlacementConfig =
  pc_ExistingGroupID :: "string option"

record AdditionalDiskSpec =
  ad_Name :: string
  ad_SizeGB :: int
  ad_Image :: "string option"

record EvrocMachineSpec =
  ms_Project :: string
  ms_Region :: string
  ms_ComputeProfile :: string
  ms_Image :: string
  ms_SSHKey :: string
  ms_UserData :: string
  ms_RootDiskSize :: int
  ms_ProviderID :: "string option"
  ms_AdditionalLabels :: gomap
  ms_NetworkingConfig :: "MachineNetworkingConfig option"
  ms_PlacementConfig :: "PlacementConfig option"
  ms_AdditionalDisks :: "AdditionalDiskSpec list"

record ManagedPlacementGroup =
  mpg_ID :: string
  mpg_UID :: string
  mpg_Strategy :: string
  mpg_Managed :: bool

record ManagedDisk =
  mdk_ID :: string
  mdk_UID :: string
  mdk_SizeGB :: int
  mdk_Managed :: bool

record MachineResources =
  mr_BootDisk :: "ManagedDisk option"
  mr_PublicIP :: "ManagedPublicIP option"
  mr_SecurityGroups :: "ManagedSecurityGroup list"
  mr_PlacementGroup :: "ManagedPlacementGroup option"
  mr_AdditionalDisks :: "ManagedDisk list"

datatype NodeAddressType = NodeInternalIP | NodeExternalIP | NodeHostName

record NodeAddress =
  na_Type :: NodeAddressType
  na_Address :: string

record EvrocMachineStatus =
  mst_Ready :: bool
  mst_Provisioned :: "bool option"
  mst_MachineID :: string
  mst_Addresses :: "NodeAddress list"
  mst_AvailabilityZone :: string
  mst_Conditions :: "Condition list"
  mst_Resources :: "MachineResources option"

record EvrocMachine =
  m_Meta :: ObjectMeta
  m_Spec :: EvrocMachineSpec
  m_Status :: EvrocMachineStatus

definition Machine_GetConditions :: "EvrocMachine \<Rightarrow> Condition list" where
  "Machine_GetConditions m = mst_Conditions (m_Status m)"

definition Machine_SetConditions :: "EvrocMachine \<Rightarrow> Condition list \<Rightarrow> EvrocMachine" where
  "Machine_SetConditions m cs = m\<lparr>m_Status := (m_Status m)\<lparr>mst_Conditions := cs\<rparr>\<rparr>"

text \<open>
  The zero values of Go (\<open>&EvrocMachine{}\<close> and \<open>&EvrocCluster{}\<close>), which \<open>Get\<close> fills in, and a
  few more that the code creates.
\<close>

definition zeroMeta :: ObjectMeta where
  "zeroMeta = \<lparr>om_Name = '''', om_Namespace = '''', om_UID = '''', om_ResourceVersion = '''',
     om_Labels = [], om_Annotations = [], om_Finalizers = [], om_OwnerReferences = [],
     om_DeletionTimestamp = None, om_CreationTimestamp = 0\<rparr>"

definition zeroMachine :: EvrocMachine where
  "zeroMachine = \<lparr>m_Meta = zeroMeta,
     m_Spec = \<lparr>ms_Project = '''', ms_Region = '''', ms_ComputeProfile = '''', ms_Image = '''',
       ms_SSHKey = '''', ms_UserData = '''', ms_RootDiskSize = 0, ms_ProviderID = None,
       ms_AdditionalLabels = [], ms_NetworkingConfig = None, ms_PlacementConfig = None,
       ms_AdditionalDisks = []\<rparr>,
     m_Status = \<lparr>mst_Ready = False, mst_Provisioned = None, mst_MachineID = '''',
       mst_Addresses = [], mst_AvailabilityZone = '''', mst_Conditions = [], mst_Resources = None\<rparr>\<rparr>"

definition zeroCluster :: EvrocCluster where
  "zeroCluster = \<lparr>cl_Meta = zeroMeta,
     cl_Spec = \<lparr>cs_Project = '''', cs_Region = '''', cs_CredentialsRef = None,
       cs_ControlPlaneEndpoint = \<lparr>ae_Host = '''', ae_Port = 0\<rparr>, cs_ControlPlaneEndpointPolicy = '''',
       cs_FailureDomains = [], cs_Network = \<lparr>net_VPCRef = None, net_SubnetRefs = [], net_StackType = None\<rparr>,
       cs_AdditionalLabels = [], cs_ControlPlaneConfig = None, cs_SecurityGroups = None,
       cs_Endpoints = None\<rparr>,
     cl_Status = \<lparr>cst_Ready = False,
       cst_Initialization = \<lparr>ci_Provisioned = None, ci_InfrastructureProvisioned = None\<rparr>,
       cst_FailureDomains = [], cst_Conditions = [],
       cst_Network = \<lparr>ns_VPCID = '''', ns_SubnetIDs = [], ns_StackType = ''''\<rparr>,
       cst_Resources = None\<rparr>\<rparr>"

definition zeroMachineResources :: MachineResources where
  "zeroMachineResources = \<lparr>mr_BootDisk = None, mr_PublicIP = None, mr_SecurityGroups = [],
     mr_PlacementGroup = None, mr_AdditionalDisks = []\<rparr>"

definition zeroClusterResources :: ClusterResources where
  "zeroClusterResources = \<lparr>cr_LoadBalancer = None, cr_SecurityGroups = []\<rparr>"

section \<open>The client.Object interface\<close>

text \<open>
  The helpers take a \<open>client.Object\<close>: any object with Kubernetes metadata.  Here that is a
  pair of functions that read and replace the metadata; the locale states what the helpers
  rely on, and both API objects provide it.
\<close>

record 'o ObjectOps =
  oo_Meta :: "'o \<Rightarrow> ObjectMeta"
  oo_SetMeta :: "ObjectMeta \<Rightarrow> 'o \<Rightarrow> 'o"

locale client_object =
  fixes ops :: "'o ObjectOps"
  assumes meta_setMeta: "oo_Meta ops (oo_SetMeta ops x o') = x"
    and setMeta_meta: "oo_SetMeta ops (oo_Meta ops o') o' = o'"
    and setMeta_setMeta: "oo_SetMeta ops x (oo_SetMeta ops y o') = oo_SetMeta ops x o'"
begin

lemmas object_laws = meta_setMeta setMeta_meta setMeta_setMeta

end

definition machineOps :: "EvrocMachine ObjectOps" where
  "machineOps = \<lparr>oo_Meta = m_Meta, oo_SetMeta = (\<lambda>x m. m\<lparr>m_Meta := x\<rparr>)\<rparr>"

definition clusterOps :: "EvrocCluster ObjectOps" where
  "clusterOps = \<lparr>oo_Meta = cl_Meta, oo_SetMeta = (\<lambda>x c. c\<lparr>cl_Meta := x\<rparr>)\<rparr>"

interpretation machineObject: client_object machineOps
  by unfold_locales (simp_all add: machineOps_def)

interpretation clusterObject: client_object clusterOps
  by unfold_locales (simp_all add: clusterOps_def)

section \<open>Conditions and reasons\<close>

text \<open>The constants of \<open>conditions.go\<close>.\<close>

definition ReadyCondition :: string where
  "ReadyCondition = ''Ready''" \<comment> \<open>\<open>ClusterReadyCondition\<close> and \<open>MachineReadyCondition\<close>\<close>

definition PausedCondition :: string where
  "PausedCondition = ''Paused''"

definition LoadBalancerReadyCondition :: string where
  "LoadBalancerReadyCondition = ''LoadBalancerReady''"

definition ClusterReadyReason :: string where
  "ClusterReadyReason = ''ClusterReady''"

definition ClusterReconciliationFailedReason :: string where
  "ClusterReconciliationFailedReason = ''ReconciliationFailed''"

definition CredentialsNotFoundReason :: string where
  "CredentialsNotFoundReason = ''CredentialsNotFound''"

definition PausedReason :: string where
  "PausedReason = ''Paused''"

definition LoadBalancerProvisioningReason :: string where
  "LoadBalancerProvisioningReason = ''Provisioning''"

definition LoadBalancerReadyReason :: string where
  "LoadBalancerReadyReason = ''Ready''"

definition QuotaExceededReason :: string where
  "QuotaExceededReason = ''QuotaExceeded''"

definition InsufficientPermissionsReason :: string where
  "InsufficientPermissionsReason = ''InsufficientPermissions''"

definition InvalidConfigurationReason :: string where
  "InvalidConfigurationReason = ''InvalidConfiguration''"

definition MachineOperationFailedReason :: string where
  "MachineOperationFailedReason = ''MachineOperationFailed''"

definition MachineReadyReason :: string where
  "MachineReadyReason = ''MachineReady''"

definition MachineNotReadyReason :: string where
  "MachineNotReadyReason = ''MachineNotReady''"

lemmas reason_defs =
  ReadyCondition_def PausedCondition_def LoadBalancerReadyCondition_def ClusterReadyReason_def
  ClusterReconciliationFailedReason_def CredentialsNotFoundReason_def PausedReason_def
  LoadBalancerProvisioningReason_def LoadBalancerReadyReason_def QuotaExceededReason_def
  InsufficientPermissionsReason_def InvalidConfigurationReason_def
  MachineOperationFailedReason_def MachineReadyReason_def MachineNotReadyReason_def

end
