(* ===== verification/World.thy ===== *)
theory World
  imports ApiTypes
begin

text \<open>
  The outside of the provider: the objects of the evroc SDK and of the Kubernetes API that
  the code reads or writes, the calls it makes, and the environment that answers them.
  None of this code is under \<open>src/\<close>, so the environment is a parameter (\<open>Env\<close>) of every
  definition that uses it: each field answers one type of reply from the history of calls.
\<close>

section \<open>SDK objects\<close>

record SdkMeta =
  md_Id :: string
  md_Uid :: string

record DiskCondition =
  dc_Type :: string
  dc_Status :: string
  dc_Reason :: string
  dc_Message :: string

text \<open>
  \<open>d_State\<close>, \<open>vm_State\<close> and \<open>lb_State\<close> stand for the rest of the status, which only the SDK's
  readiness predicates read.
\<close>

record Disk =
  d_Meta :: SdkMeta
  d_Conditions :: "DiskCondition list option"
  d_State :: string

record PublicIP =
  ip_Meta :: SdkMeta
  ip_Address :: "string option"

record SgRule =
  sr_Name :: "string option"
  sr_Direction :: string
  sr_Protocol :: "string option"
  sr_Port :: "int option"
  sr_EndPort :: "int option"
  sr_RemoteAddress :: "string option"
  sr_RemoteSecurityGroupRef :: "string option"

record SecurityGroup =
  sg_Meta :: SdkMeta
  sg_Rules :: "SgRule list option"

record PlacementGroup =
  pg_Meta :: SdkMeta

record VmNetworkingStatus =
  vn_PrivateIPv4Address :: "string option"
  vn_PublicIPv4Address :: "string option"
  vn_Ipv6Address :: "string option"
  vn_SecurityGroupActiveMembershipRefs :: "string list option"

record VirtualMachine =
  vm_Meta :: SdkMeta
  vm_PlacementGroupRef :: "string option"
  vm_PublicIPRef :: "string option"
  vm_Networking :: "VmNetworkingStatus option"
  vm_State :: string

record SdkLoadBalancer =
  lb_Meta :: SdkMeta
  lb_PublicIPRef :: string
  lb_State :: string

record BackendPool =
  bp_Meta :: SdkMeta
  bp_BackendRefs :: "string list option"

record BackendService =
  bs_Meta :: SdkMeta

record L4Route =
  l4_Meta :: SdkMeta

section \<open>SDK requests\<close>

datatype DiskImage = NoImage | StockImage string | CustomImage string

record DiskRequest =
  dr_Name :: string
  dr_SizeGB :: int
  dr_Zone :: string
  dr_Image :: DiskImage
  dr_Labels :: gomap

record VmDiskItem =
  vdi_DiskRef :: string
  vdi_BootFrom :: "bool option"

record VmPlacement =
  vp_Zone :: "string option"
  vp_PlacementGroupRef :: "string option"

record VmNetworking =
  vnw_StackType :: "string option"
  vnw_PublicIPRef :: "string option"
  vnw_SecurityGroupMemberRefs :: "string list option"
  vnw_SubnetRef :: string

record VirtualMachineRequest =
  vr_Name :: string
  vr_ComputeProfileRef :: string
  vr_Running :: bool
  vr_Labels :: gomap
  vr_Disks :: "VmDiskItem list"
  vr_Placement :: VmPlacement
  vr_CloudInitUserData :: "string option"
  vr_Networking :: VmNetworking

datatype SgRuleRequest =
    AllowIngressFromSecurityGroup string string int int string
  | AllowIngressRule string string int int string
  | AllowEgressRule string string int int string

record SecurityGroupRequest =
  sgq_Name :: string
  sgq_VPCRef :: string
  sgq_Rules :: "SgRuleRequest list"
  sgq_Labels :: gomap

record Listener =
  ln_Name :: string
  ln_Port :: int
  ln_RouteRefs :: "string list"

record BackendNetwork =
  bn_VpcRef :: string
  bn_Subnets :: "(string \<times> string) list" \<comment> \<open>subnet reference and zone\<close>

record LbRequest =
  lbq_Name :: string
  lbq_PublicIPRef :: string
  lbq_Listeners :: "Listener list"
  lbq_Labels :: gomap
  lbq_BackendNetwork :: "BackendNetwork option"

datatype SdkKind =
    DiskK | PublicIPK | SecurityGroupK | PlacementGroupK | VirtualMachineK | LoadBalancerK
  | L4RouteK | BackendServiceK | BackendPoolK | HotswapDiskAttachmentK

text \<open>A create request: its kind, name and labels, and what else it asks for.\<close>

datatype SdkRequest =
    CreateDisk DiskRequest
  | CreatePublicIP string gomap
  | CreateSecurityGroup SecurityGroupRequest
  | CreatePlacementGroup string string string gomap
  | CreateVM VirtualMachineRequest
  | CreateBackendPool string gomap
  | CreateBackendService string int string bool gomap \<comment> \<open>name, port, pool, IPv6 to backends\<close>
  | CreateL4Route string string gomap
  | CreateLB LbRequest

datatype VmPatch =
    PatchSecurityGroups "string list"
  | PatchPublicIP "string option"
  | PatchDisks "VmDiskItem list"
  | PatchPlacement VmPlacement

section \<open>Kubernetes objects of others\<close>

record Key =
  k_Namespace :: string
  k_Name :: string

record CapiCluster =
  cc_Namespace :: string
  cc_RefKind :: string
  cc_RefName :: string
  cc_Paused :: "bool option"

record CapiMachine =
  cm_Namespace :: string
  cm_RefKind :: string
  cm_RefName :: string

text \<open>What \<open>unstructured.NestedString\<close> finds at a path.\<close>

datatype NestedString = NestedAbsent | NestedFound string | NestedBadType goerr

record OwnerMachine =
  ow_FailureDomain :: NestedString
  ow_DataSecretName :: NestedString

record Secret =
  sec_Key :: Key
  sec_UID :: string
  sec_ResourceVersion :: string
  sec_Labels :: gomap
  sec_OwnerReferences :: "OwnerReference list"
  sec_Type :: string
  sec_Data :: gomap

record Taint =
  tn_Key :: string
  tn_Value :: string
  tn_Effect :: string

record Node =
  nd_Name :: string
  nd_Labels :: gomap
  nd_ProviderID :: string
  nd_Taints :: "Taint list"

section \<open>Configuration of the SDK client\<close>

record ClusterContext =
  cx_Project :: string
  cx_Region :: string
  cx_APIBaseURL :: string
  cx_AuthTokenURL :: string
  cx_ClientID :: string

record CloudConfig =
  cfg_ServiceAccountID :: string
  cfg_ServiceAccountSecret :: string
  cfg_TokenURL :: string
  cfg_ClientID :: string
  cfg_BaseURL :: string
  cfg_Project :: string
  cfg_Region :: string
  cfg_Organization :: string

record CatalogScope =
  cat_Secret :: Key
  cat_UID :: string
  cat_Version :: string
  cat_Cluster :: ClusterContext

section \<open>Calls\<close>

datatype Call =
    SdkNewClient CloudConfig
  | SdkUseCatalog CatalogScope
  | SdkGet SdkKind string
  | SdkList SdkKind string               \<comment> \<open>kind and label selector\<close>
  | SdkCreate SdkRequest
  | SdkDelete SdkKind string
  | SdkPatchVM string VmPatch
  | SdkPatchSG string SecurityGroup
  | SdkWaitForReady SdkKind string int    \<comment> \<open>timeout in seconds\<close>
  | SdkAddBackendRef string string
  | SdkRemoveBackendRef string string
  | SdkValidateImage string
  | SdkValidateProfile string
  | KGetMachine Key
  | KUpdateMachine EvrocMachine
  | KStatusMachine EvrocMachine
  | KPatchMachine EvrocMachine EvrocMachine
  | KListMachines string string           \<comment> \<open>namespace and cluster-name label\<close>
  | KGetCluster Key
  | KUpdateCluster EvrocCluster
  | KStatusCluster EvrocCluster
  | KPatchCluster EvrocCluster EvrocCluster
  | KListClusters string
  | KGetCapiCluster Key
  | KGetOwnerMachine string Key           \<comment> \<open>API version and key\<close>
  | KGetSecret Key
  | KCreateSecret Secret
  | KUpdateSecret Secret
  | KEvent string string                  \<comment> \<open>warning event: reason and message\<close>
  | WNewClient
  | WGetNode string
  | WPatchNode Node Node

text \<open>References by name, as the SDK client builds them for its project and region.\<close>

datatype RefKind =
    VPCRefK | SubnetRefK | SecurityGroupRefK | PublicIPRefK | DiskRefK | VMRefK
  | CustomDiskImageRefK

section \<open>The environment\<close>

type_synonym 'a reply = "Call list \<Rightarrow> Call \<Rightarrow> goerr + 'a"

record Env =
  e_now :: "Call list \<Rightarrow> int"
  e_uuid :: "Call list \<Rightarrow> string"
  e_err :: "Call list \<Rightarrow> Call \<Rightarrow> goerr option"
  e_disk :: "Disk reply"
  e_ip :: "PublicIP reply"
  e_sg :: "SecurityGroup reply"
  e_pg :: "PlacementGroup reply"
  e_vm :: "VirtualMachine reply"
  e_lb :: "SdkLoadBalancer reply"
  e_pool :: "BackendPool reply"
  e_svc :: "BackendService reply"
  e_route :: "L4Route reply"
  e_items :: "SdkMeta list reply" \<comment> \<open>a nil list is the empty one\<close>
  e_machine :: "EvrocMachine reply"
  e_machines :: "EvrocMachine list reply"
  e_cluster :: "EvrocCluster reply"
  e_clusters :: "EvrocCluster list reply"
  e_capiCluster :: "CapiCluster reply"
  e_owner :: "OwnerMachine reply"
  e_secret :: "Secret reply"
  e_node :: "Node reply"
  s_ref :: "RefKind \<Rightarrow> string \<Rightarrow> string"
  s_defaultVPCRef :: string
  s_ipRef :: "PublicIP \<Rightarrow> string"
  s_poolRef :: "BackendPool \<Rightarrow> string"
  s_svcRef :: "BackendService \<Rightarrow> string"
  s_routeRef :: "L4Route \<Rightarrow> string"
  s_nameFromRef :: "string \<Rightarrow> string"
  s_vmReady :: "VirtualMachine \<Rightarrow> bool"
  s_diskReady :: "Disk \<Rightarrow> bool"
  s_lbReady :: "SdkLoadBalancer \<Rightarrow> bool"
  s_publicIPAddress :: "PublicIP \<Rightarrow> string"
  s_setDefaults :: "CloudConfig \<Rightarrow> CloudConfig"
  s_restConfigInsecure :: "string \<Rightarrow> goerr + bool" \<comment> \<open>parsed kubeconfig: its insecure flag\<close>
  s_parseGroupVersion :: "string \<Rightarrow> string option" \<comment> \<open>the group, when the version parses\<close>
  s_endpointIsZero :: "APIEndpoint \<Rightarrow> bool"
  s_newPatchHelper :: "EvrocCluster \<Rightarrow> goerr option" \<comment> \<open>error of \<open>capipatch.NewHelper\<close>\<close>
  s_mimeBoundary :: string
  s_defaultImage :: string
  e_hasRecorder :: bool

type_synonym 'o cst = "('o, Call) st"

type_synonym ('o, 'a) go = "('o cst, 'a) state"

text \<open>The state at the start of a reconcile: a zero object and no call made.\<close>

definition startOf :: "'o \<Rightarrow> 'o cst" where
  "startOf x = \<lparr>cur = x, calls = []\<rparr>"

lemma startOf_simps [simp]: "cur (startOf x) = x" "calls (startOf x) = []"
  by (simp_all add: startOf_def)

section \<open>Classes of calls\<close>

fun isCloudCall :: "Call \<Rightarrow> bool" where
  "isCloudCall (SdkNewClient _) = True"
| "isCloudCall (SdkUseCatalog _) = True"
| "isCloudCall (SdkGet _ _) = True"
| "isCloudCall (SdkList _ _) = True"
| "isCloudCall (SdkCreate _) = True"
| "isCloudCall (SdkDelete _ _) = True"
| "isCloudCall (SdkPatchVM _ _) = True"
| "isCloudCall (SdkPatchSG _ _) = True"
| "isCloudCall (SdkWaitForReady _ _ _) = True"
| "isCloudCall (SdkAddBackendRef _ _) = True"
| "isCloudCall (SdkRemoveBackendRef _ _) = True"
| "isCloudCall (SdkValidateImage _) = True"
| "isCloudCall (SdkValidateProfile _) = True"
| "isCloudCall _ = False"

text \<open>Calls that create, change or delete something in the cloud.\<close>

fun isCloudWrite :: "Call \<Rightarrow> bool" where
  "isCloudWrite (SdkCreate _) = True"
| "isCloudWrite (SdkDelete _ _) = True"
| "isCloudWrite (SdkPatchVM _ _) = True"
| "isCloudWrite (SdkPatchSG _ _) = True"
| "isCloudWrite (SdkAddBackendRef _ _) = True"
| "isCloudWrite (SdkRemoveBackendRef _ _) = True"
| "isCloudWrite _ = False"

fun isCreate :: "Call \<Rightarrow> bool" where
  "isCreate (SdkCreate _) = True"
| "isCreate _ = False"

fun isDelete :: "Call \<Rightarrow> bool" where
  "isDelete (SdkDelete _ _) = True"
| "isDelete _ = False"

fun requestLabels :: "SdkRequest \<Rightarrow> gomap" where
  "requestLabels (CreateDisk r) = dr_Labels r"
| "requestLabels (CreatePublicIP _ l) = l"
| "requestLabels (CreateSecurityGroup r) = sgq_Labels r"
| "requestLabels (CreatePlacementGroup _ _ _ l) = l"
| "requestLabels (CreateVM r) = vr_Labels r"
| "requestLabels (CreateBackendPool _ l) = l"
| "requestLabels (CreateBackendService _ _ _ _ l) = l"
| "requestLabels (CreateL4Route _ _ l) = l"
| "requestLabels (CreateLB r) = lbq_Labels r"

fun requestKind :: "SdkRequest \<Rightarrow> SdkKind" where
  "requestKind (CreateDisk _) = DiskK"
| "requestKind (CreatePublicIP _ _) = PublicIPK"
| "requestKind (CreateSecurityGroup _) = SecurityGroupK"
| "requestKind (CreatePlacementGroup _ _ _ _) = PlacementGroupK"
| "requestKind (CreateVM _) = VirtualMachineK"
| "requestKind (CreateBackendPool _ _) = BackendPoolK"
| "requestKind (CreateBackendService _ _ _ _ _) = BackendServiceK"
| "requestKind (CreateL4Route _ _ _) = L4RouteK"
| "requestKind (CreateLB _) = LoadBalancerK"

section \<open>Primitive operations\<close>

text \<open>
  \<open>client.Client\<close> decodes the server's answer into the object it was given: a successful
  \<open>Get\<close>, \<open>Update\<close> or \<open>Patch\<close> replaces the object the handler works on, a failed one leaves
  it alone.
\<close>

definition storeReply :: "('o, goerr + 'o) go \<Rightarrow> ('o, goerr option) go" where
  "storeReply m = onResult m (\<lambda>e. ret (Some e)) (\<lambda>x. do { modCur (\<lambda>_. x); ret None })"

definition k8sGetMachine :: "Env \<Rightarrow> Key \<Rightarrow> (EvrocMachine, goerr option) go" where
  "k8sGetMachine E k = storeReply (invoke (e_machine E) (KGetMachine k))"

definition k8sUpdateMachine :: "Env \<Rightarrow> (EvrocMachine, goerr option) go" where
  "k8sUpdateMachine E = do { m \<leftarrow> getCur; storeReply (invoke (e_machine E) (KUpdateMachine m)) }"

definition k8sStatusMachine :: "Env \<Rightarrow> (EvrocMachine, goerr option) go" where
  "k8sStatusMachine E = do { m \<leftarrow> getCur; storeReply (invoke (e_machine E) (KStatusMachine m)) }"

definition k8sGetCluster :: "Env \<Rightarrow> Key \<Rightarrow> (EvrocCluster, goerr option) go" where
  "k8sGetCluster E k = storeReply (invoke (e_cluster E) (KGetCluster k))"

definition k8sUpdateCluster :: "Env \<Rightarrow> (EvrocCluster, goerr option) go" where
  "k8sUpdateCluster E = do { c \<leftarrow> getCur; storeReply (invoke (e_cluster E) (KUpdateCluster c)) }"

definition k8sStatusCluster :: "Env \<Rightarrow> (EvrocCluster, goerr option) go" where
  "k8sStatusCluster E = do { c \<leftarrow> getCur; storeReply (invoke (e_cluster E) (KStatusCluster c)) }"

lemma run_storeReply [simp]:
  "run_state (storeReply m) s = (case run_state m s of (r, t) \<Rightarrow>
     (case r of Inl e \<Rightarrow> (Some e, t) | Inr x \<Rightarrow> (None, t\<lparr>cur := x\<rparr>)))"
  by (simp add: storeReply_def split: prod.splits sum.splits)

lemma emits_storeReply: "emits P m \<Longrightarrow> emits P (storeReply m)"
  unfolding storeReply_def by (intro emits_rules) auto

lemmas k8s_defs =
  k8sGetMachine_def k8sUpdateMachine_def k8sStatusMachine_def
  k8sGetCluster_def k8sUpdateCluster_def k8sStatusCluster_def

text \<open>Taking apart a handler for a statement about the calls it makes.\<close>

lemmas go_rules = emits_rules emits_storeReply

section \<open>Results of a reconcile\<close>

text \<open>\<open>(ctrl.Result, error)\<close>: the requeue delay in seconds (0 is none) and the error.\<close>

type_synonym outcome = "nat \<times> goerr option"

definition finished :: outcome where
  "finished = (0, None)"

definition requeueAfter :: "nat \<Rightarrow> outcome" where
  "requeueAfter n = (n, None)"

definition failWith :: "goerr \<Rightarrow> outcome" where
  "failWith e = (0, Some e)"

definition requeueImmediately :: nat where
  "requeueImmediately = 1"

definition requeueShort :: nat where
  "requeueShort = 10"

definition requeueMedium :: nat where
  "requeueMedium = 15"

definition requeueLong :: nat where
  "requeueLong = 30"

lemmas outcome_defs =
  finished_def requeueAfter_def failWith_def requeueImmediately_def requeueShort_def
  requeueMedium_def requeueLong_def

text \<open>\<open>client.IgnoreNotFound\<close>\<close>

definition ignoreNotFound :: "goerr \<Rightarrow> goerr option" where
  "ignoreNotFound e = (if errIs e K8sNotFoundM then None else Some e)"

end
