(* ===== verification/Conditions.thy ===== *)
theory Conditions
  imports World
begin

text \<open>
  Status conditions: \<open>setMachineCondition\<close> and \<open>setClusterCondition\<close>, which run the same
  algorithm over two types, and the classification of cloud errors in
  \<open>helpers/clouderror.go\<close> that sets them.
\<close>

section \<open>Setting a condition\<close>

text \<open>
  The loop over the conditions: the first of the new condition's type is replaced in place,
  and keeps its transition time when the status is the same; without one, the new condition
  is appended.
\<close>

fun setConditionList :: "Condition \<Rightarrow> Condition list \<Rightarrow> Condition list" where
  "setConditionList new [] = [new]"
| "setConditionList new (c # cs) =
     (if c_Type c = c_Type new
      then (if c_Status c = c_Status new
            then new\<lparr>c_LastTransitionTime := c_LastTransitionTime c\<rparr> else new) # cs
      else c # setConditionList new cs)"

definition conditionOf :: "string \<Rightarrow> Condition list \<Rightarrow> Condition option" where
  "conditionOf t cs = find (\<lambda>c. c_Type c = t) cs"

definition setMachineCondition ::
    "Env \<Rightarrow> string \<Rightarrow> ConditionStatus \<Rightarrow> ConditionSeverity \<Rightarrow> string \<Rightarrow> string \<Rightarrow> (EvrocMachine, unit) go" where
  "setMachineCondition E t status severity reason message = do {
     now \<leftarrow> ask (e_now E);
     modCur (\<lambda>m. Machine_SetConditions m (setConditionList
       \<lparr>c_Type = t, c_Status = status, c_Severity = severity, c_LastTransitionTime = now,
        c_Reason = reason, c_Message = message\<rparr> (Machine_GetConditions m)))
   }"

definition setClusterCondition ::
    "Env \<Rightarrow> string \<Rightarrow> ConditionStatus \<Rightarrow> ConditionSeverity \<Rightarrow> string \<Rightarrow> string \<Rightarrow> (EvrocCluster, unit) go" where
  "setClusterCondition E t status severity reason message = do {
     now \<leftarrow> ask (e_now E);
     modCur (\<lambda>c. Cluster_SetConditions c (setConditionList
       \<lparr>c_Type = t, c_Status = status, c_Severity = severity, c_LastTransitionTime = now,
        c_Reason = reason, c_Message = message\<rparr> (Cluster_GetConditions c)))
   }"

lemma setConditionList_types:
  "map c_Type (setConditionList new cs) =
     (if c_Type new \<in> c_Type ` set cs then map c_Type cs else map c_Type cs @ [c_Type new])"
  by (induction cs) auto

lemma conditionOf_setConditionList_other:
  "t \<noteq> c_Type new \<Longrightarrow> conditionOf t (setConditionList new cs) = conditionOf t cs"
  by (induction cs) (auto simp: conditionOf_def)

lemma conditionOf_setConditionList:
  "conditionOf (c_Type new) (setConditionList new cs) =
     Some (case conditionOf (c_Type new) cs of
       None \<Rightarrow> new
     | Some old \<Rightarrow> if c_Status old = c_Status new
                   then new\<lparr>c_LastTransitionTime := c_LastTransitionTime old\<rparr> else new)"
  by (induction cs) (auto simp: conditionOf_def)

lemma setConditionList_idem:
  "setConditionList new (setConditionList new cs) = setConditionList new cs"
  by (induction cs) auto

text \<open>
  An object that holds conditions.  The contract is the pair of methods \<open>GetConditions\<close> and
  \<open>SetConditions\<close> that both API types declare.
\<close>

locale condition_holder =
  fixes getConds :: "'o \<Rightarrow> Condition list"
    and setConds :: "'o \<Rightarrow> Condition list \<Rightarrow> 'o"
  assumes get_set: "getConds (setConds x cs) = cs"
    and set_set: "setConds (setConds x cs) ds = setConds x ds"
begin

lemma condition_after_set:
  "conditionOf (c_Type new) (getConds (setConds x (setConditionList new (getConds x)))) =
     Some (case conditionOf (c_Type new) (getConds x) of
       None \<Rightarrow> new
     | Some old \<Rightarrow> if c_Status old = c_Status new
                   then new\<lparr>c_LastTransitionTime := c_LastTransitionTime old\<rparr> else new)"
  by (simp add: get_set conditionOf_setConditionList)

lemma other_condition_after_set:
  "t \<noteq> c_Type new \<Longrightarrow>
     conditionOf t (getConds (setConds x (setConditionList new (getConds x)))) =
     conditionOf t (getConds x)"
  by (simp add: get_set conditionOf_setConditionList_other)

lemma distinct_after_set:
  "distinct (map c_Type (getConds x)) \<Longrightarrow>
     distinct (map c_Type (getConds (setConds x (setConditionList new (getConds x)))))"
  by (auto simp: get_set setConditionList_types)

end

interpretation machineConds: condition_holder Machine_GetConditions Machine_SetConditions
  by unfold_locales (simp_all add: Machine_GetConditions_def Machine_SetConditions_def)

interpretation clusterConds: condition_holder Cluster_GetConditions Cluster_SetConditions
  by unfold_locales (simp_all add: Cluster_GetConditions_def Cluster_SetConditions_def)

lemma emits_setMachineCondition [emits_ops]: "emits P (setMachineCondition E t st sv r msg)"
  unfolding setMachineCondition_def by (intro go_rules)

lemma emits_setClusterCondition [emits_ops]: "emits P (setClusterCondition E t st sv r msg)"
  unfolding setClusterCondition_def by (intro go_rules)

lemma frames_setMachineCondition:
  assumes "\<And>m cs. v (Machine_SetConditions m cs) = v m"
  shows "frames v (setMachineCondition E t st sv r msg)"
  unfolding setMachineCondition_def by (intro frames_rules) (rule assms)

lemma frames_setClusterCondition:
  assumes "\<And>c cs. v (Cluster_SetConditions c cs) = v c"
  shows "frames v (setClusterCondition E t st sv r msg)"
  unfolding setClusterCondition_def by (intro frames_rules) (rule assms)

section \<open>Classifying cloud errors\<close>

datatype retryPolicy = RetryAfterDelay | RetryWithBackoff | TerminalNoRetry

record cloudErrorClassification =
  cec_Reason :: string
  cec_Message :: string
  cec_Policy :: retryPolicy

definition transientRequeue :: nat where
  "transientRequeue = 30"

definition classifyCloudError :: "goerr \<Rightarrow> string \<Rightarrow> string \<Rightarrow> cloudErrorClassification" where
  "classifyCloudError err defaultReason defaultMessage =
     (if errIs err QuotaM then
        \<lparr>cec_Reason = QuotaExceededReason, cec_Message = ''Quota exceeded: '' @ errMsg err,
         cec_Policy = RetryWithBackoff\<rparr>
      else if errIs err ForbiddenM then
        \<lparr>cec_Reason = InsufficientPermissionsReason, cec_Message = ''Access denied: '' @ errMsg err,
         cec_Policy = RetryWithBackoff\<rparr>
      else if errIs err BadRequestM then
        \<lparr>cec_Reason = InvalidConfigurationReason, cec_Message = ''Invalid configuration: '' @ errMsg err,
         cec_Policy = TerminalNoRetry\<rparr>
      else
        \<lparr>cec_Reason = defaultReason, cec_Message = defaultMessage, cec_Policy = RetryAfterDelay\<rparr>)"

text \<open>\<open>reconcile.TerminalError\<close>\<close>

definition terminalError :: "goerr \<Rightarrow> goerr" where
  "terminalError e = GoErr (''terminal error: '' @ errMsg e) (TerminalM # errMarks e)"

definition HandleCloudError ::
    "Env \<Rightarrow> goerr option \<Rightarrow> string \<Rightarrow> string \<Rightarrow> (string \<Rightarrow> string \<Rightarrow> ('o, unit) go) \<Rightarrow> ('o, outcome) go" where
  "HandleCloudError E err defaultReason defaultMessage setCondition =
     (case err of
        None \<Rightarrow> ret finished
      | Some err \<Rightarrow>
          let c = classifyCloudError err defaultReason defaultMessage in
          do {
            setCondition (cec_Reason c) (cec_Message c);
            (if e_hasRecorder E then invoke (\<lambda>_ _. ()) (KEvent (cec_Reason c) (cec_Message c))
             else ret ());
            ret (case cec_Policy c of
                TerminalNoRetry \<Rightarrow> failWith (terminalError err)
              | RetryWithBackoff \<Rightarrow> failWith err
              | RetryAfterDelay \<Rightarrow> requeueAfter transientRequeue)
          })"

definition IsNotFoundError :: "goerr \<Rightarrow> bool" where
  "IsNotFoundError err = errIs err NotFoundM"

definition isConflictError :: "goerr \<Rightarrow> bool" where
  "isConflictError err = errIs err ConflictM"

lemma IsNotFoundError_wrapErr [simp]: "IsNotFoundError (wrapErr c e) = IsNotFoundError e"
  by (simp add: IsNotFoundError_def)

text \<open>\<open>handleMachineError\<close> also persists the status; a failure to do so is only logged.\<close>

definition handleMachineError :: "Env \<Rightarrow> goerr \<Rightarrow> (EvrocMachine, outcome) go" where
  "handleMachineError E err = do {
     modCur (\<lambda>m. m\<lparr>m_Status := (m_Status m)\<lparr>mst_Ready := False\<rparr>\<rparr>);
     result \<leftarrow> HandleCloudError E (Some err) MachineOperationFailedReason
       (''Failed to get/create machine: '' @ errMsg err)
       (\<lambda>reason message. setMachineCondition E ReadyCondition ConditionFalse SeverityError reason message);
     statusErr \<leftarrow> k8sStatusMachine E;
     ret result
   }"

definition handleClusterError :: "Env \<Rightarrow> goerr \<Rightarrow> (EvrocCluster, outcome) go" where
  "handleClusterError E err = do {
     modCur (\<lambda>c. c\<lparr>cl_Status := (cl_Status c)\<lparr>cst_Ready := False\<rparr>\<rparr>);
     HandleCloudError E (Some err) ClusterReconciliationFailedReason
       (''Failed to reconcile cluster: '' @ errMsg err)
       (\<lambda>reason message. setClusterCondition E ReadyCondition ConditionFalse SeverityError reason message)
   }"

text \<open>The result of the error handler, without its effects.\<close>

definition errorOutcome :: "goerr \<Rightarrow> outcome" where
  "errorOutcome err =
     (if errIs err QuotaM \<or> errIs err ForbiddenM then failWith err
      else if errIs err BadRequestM then failWith (terminalError err)
      else requeueAfter transientRequeue)"

lemma resultOf_HandleCloudError:
  "resultOf (HandleCloudError E (Some err) dr dm f) s = errorOutcome err"
  by (auto simp: HandleCloudError_def classifyCloudError_def errorOutcome_def Let_def resultOf_rules)

lemma resultOf_handleMachineError:
  "resultOf (handleMachineError E err) s = errorOutcome err"
  by (simp add: handleMachineError_def resultOf_rules resultOf_HandleCloudError)

lemma resultOf_handleClusterError:
  "resultOf (handleClusterError E err) s = errorOutcome err"
  by (simp add: handleClusterError_def resultOf_rules resultOf_HandleCloudError)

lemma emits_HandleCloudError:
  assumes "\<And>r msg. emits P (f r msg)" and "\<And>r msg. P (KEvent r msg)"
  shows "emits P (HandleCloudError E err dr dm f)"
  unfolding HandleCloudError_def Let_def by (intro go_rules assms)

lemma emits_handleMachineError:
  assumes "\<And>r msg. P (KEvent r msg)" and "\<And>m. P (KStatusMachine m)"
  shows "emits P (handleMachineError E err)"
  unfolding handleMachineError_def k8s_defs
  by (intro go_rules emits_HandleCloudError emits_ops assms)

lemma emits_handleClusterError:
  assumes "\<And>r msg. P (KEvent r msg)"
  shows "emits P (handleClusterError E err)"
  unfolding handleClusterError_def
  by (intro go_rules emits_HandleCloudError emits_ops assms)

end
