(* ===== verification/Labels.thy ===== *)
theory Labels
  imports World
begin

text \<open>
  Labels of cloud resources: \<open>internal/cloud/labels.go\<close>, \<open>helpers/labels.go\<close>, the label
  functions of the two controllers, and the selectors by which teardown finds resources.
\<close>

section \<open>Label keys\<close>

definition LabelClusterName :: string where
  "LabelClusterName = ''capi_cluster-name''"

definition LabelClusterID :: string where
  "LabelClusterID = ''capi_cluster-id''"

definition LabelManagedBy :: string where
  "LabelManagedBy = ''capi_managed-by''"

definition LabelMachineID :: string where
  "LabelMachineID = ''capi_machine-id''"

definition LabelMachineName :: string where
  "LabelMachineName = ''capi_machine-name''"

definition ManagedByValue :: string where
  "ManagedByValue = ''cluster-api-provider-evroc''"

lemmas label_defs =
  LabelClusterName_def LabelClusterID_def LabelManagedBy_def LabelMachineID_def
  LabelMachineName_def ManagedByValue_def

text \<open>Labels and annotations of Cluster API that the code reads.\<close>

definition ClusterNameLabel :: string where
  "ClusterNameLabel = ''cluster.x-k8s.io/cluster-name''"

definition MachineControlPlaneLabel :: string where
  "MachineControlPlaneLabel = ''cluster.x-k8s.io/control-plane''"

definition DeploymentNameLabel :: string where
  "DeploymentNameLabel = ''cluster.x-k8s.io/deployment-name''"

definition machineOwnershipIDAnnotation :: string where
  "machineOwnershipIDAnnotation = ''evrocmachine.infrastructure.cluster.x-k8s.io/ownership-id''"

definition clusterOwnershipIDAnnotation :: string where
  "clusterOwnershipIDAnnotation = ''evroccluster.infrastructure.cluster.x-k8s.io/ownership-id''"

section \<open>Merging labels\<close>

definition ResourceLabels :: "string \<Rightarrow> string \<Rightarrow> gomap list \<Rightarrow> gomap" where
  "ResourceLabels clusterName clusterID additionalLabels =
     (let labels = fold mergeInto additionalLabels [] in
      mput LabelManagedBy ManagedByValue
        (mput LabelClusterID clusterID
          (mput LabelClusterName clusterName labels)))"

definition MergeLabels :: "EvrocCluster option \<Rightarrow> EvrocMachine option \<Rightarrow> string \<Rightarrow> gomap" where
  "MergeLabels cluster machine role =
     (let labels = [];
          labels = (case cluster of None \<Rightarrow> labels
                    | Some c \<Rightarrow> mergeInto (cs_AdditionalLabels (cl_Spec c)) labels);
          labels = (case machine of None \<Rightarrow> labels
                    | Some m \<Rightarrow> mergeInto (ms_AdditionalLabels (m_Spec m)) labels);
          labels = (case cluster of None \<Rightarrow> labels
                    | Some c \<Rightarrow> mput ''capi_cluster-name'' (om_Name (cl_Meta c)) labels);
          labels = (if role \<noteq> '''' then mput ''capi_role'' role labels else labels)
      in mput ''capi_provider'' ''evroc'' labels)"

definition machineOwnershipID :: "EvrocMachine option \<Rightarrow> string" where
  "machineOwnershipID machine =
     (case machine of None \<Rightarrow> ''''
      | Some m \<Rightarrow> mget (om_Annotations (m_Meta m)) machineOwnershipIDAnnotation)"

definition clusterOwnershipID :: "EvrocCluster option \<Rightarrow> string" where
  "clusterOwnershipID cluster =
     (case cluster of None \<Rightarrow> ''''
      | Some c \<Rightarrow> mget (om_Annotations (cl_Meta c)) clusterOwnershipIDAnnotation)"

definition machineResourceLabels :: "EvrocMachine \<Rightarrow> string \<Rightarrow> gomap \<Rightarrow> gomap" where
  "machineResourceLabels machine clusterID clusterLabels =
     (let clusterName = mget (om_Labels (m_Meta machine)) ClusterNameLabel;
          clusterName = (if clusterName = '''' then ''unknown'' else clusterName);
          clusterID = (if clusterID = '''' then ''unknown'' else clusterID);
          labels = ResourceLabels clusterName clusterID
                     [clusterLabels, ms_AdditionalLabels (m_Spec machine)]
      in mput LabelMachineName (om_Name (m_Meta machine))
           (mput LabelMachineID (machineOwnershipID (Some machine)) labels))"

definition clusterResourceLabels :: "EvrocCluster \<Rightarrow> gomap" where
  "clusterResourceLabels cluster =
     ResourceLabels (om_Name (cl_Meta cluster)) (clusterOwnershipID (Some cluster))
       [cs_AdditionalLabels (cl_Spec cluster)]"

definition isControlPlane :: "EvrocMachine \<Rightarrow> bool" where
  "isControlPlane m = mhas (om_Labels (m_Meta m)) MachineControlPlaneLabel"

text \<open>Labels of the virtual machine itself.\<close>

definition buildLabels :: "EvrocMachine \<Rightarrow> EvrocCluster option \<Rightarrow> gomap" where
  "buildLabels machine evrocCluster =
     (case evrocCluster of
        None \<Rightarrow> MergeLabels None (Some machine) ''''
      | Some c \<Rightarrow>
          let role = (if isControlPlane machine then ''control-plane''
                      else let r = mget (om_Labels (m_Meta machine)) DeploymentNameLabel
                           in if r = '''' then ''worker'' else r)
          in MergeLabels (Some c) (Some machine) role)"

section \<open>Selectors\<close>

definition ownerSelector :: "string \<Rightarrow> string \<Rightarrow> string" where
  "ownerSelector ownerLabel ownerID =
     LabelManagedBy @ ''='' @ ManagedByValue @ '','' @ ownerLabel @ ''='' @ ownerID"

definition driverSelector :: "string \<Rightarrow> string" where
  "driverSelector clusterID = ''managed-by='' @ clusterID"

text \<open>
  What the API does with an equality selector: the requirements are separated by commas, and
  a resource is listed when each \<open>key=value\<close> is among its labels.
\<close>

definition requirementMet :: "gomap \<Rightarrow> string \<Rightarrow> bool" where
  "requirementMet labels r =
     (map_of labels (takeWhile (\<lambda>c. c \<noteq> CHR ''='') r) =
        Some (drop 1 (dropWhile (\<lambda>c. c \<noteq> CHR ''='') r)))"

definition selectorMatches :: "string \<Rightarrow> gomap \<Rightarrow> bool" where
  "selectorMatches s labels = list_all (requirementMet labels) (splitOn (CHR '','') s)"

lemma requirementMet_eq:
  "CHR ''='' \<notin> set k \<Longrightarrow> requirementMet labels (k @ CHR ''='' # v) \<longleftrightarrow> map_of labels k = Some v"
proof -
  assume k: "CHR ''='' \<notin> set k"
  have "takeWhile (\<lambda>c. c \<noteq> CHR ''='') (k @ CHR ''='' # v) = k"
    using k by (subst takeWhile_append2) auto
  moreover have "dropWhile (\<lambda>c. c \<noteq> CHR ''='') (k @ CHR ''='' # v) = CHR ''='' # v"
    using k by (subst dropWhile_append2) auto
  ultimately show ?thesis by (simp add: requirementMet_def)
qed

lemma selectorMatches_owner:
  assumes "CHR '','' \<notin> set l" "CHR ''='' \<notin> set l" "CHR '','' \<notin> set v"
  shows "selectorMatches (ownerSelector l v) labels \<longleftrightarrow>
    map_of labels LabelManagedBy = Some ManagedByValue \<and> map_of labels l = Some v"
proof -
  let ?p = "LabelManagedBy @ CHR ''='' # ManagedByValue"
  have "splitOn (CHR '','') (?p @ CHR '','' # (l @ CHR ''='' # v)) = [?p, l @ CHR ''='' # v]"
    using assms by (subst splitOn_append) (auto simp: label_defs splitOn_absent)
  moreover have "ownerSelector l v = ?p @ CHR '','' # (l @ CHR ''='' # v)"
    by (simp add: ownerSelector_def)
  moreover have "CHR ''='' \<notin> set LabelManagedBy"
    by (simp add: label_defs)
  ultimately show ?thesis
    using assms by (simp add: selectorMatches_def requirementMet_eq)
qed

lemma map_of_ResourceLabels:
  "map_of (ResourceLabels n i extra) k =
     (if k = LabelManagedBy then Some ManagedByValue
      else if k = LabelClusterID then Some i
      else if k = LabelClusterName then Some n
      else map_of (fold mergeInto extra []) k)"
  by (simp add: ResourceLabels_def Let_def)

lemma label_keys_distinct [simp]:
  "LabelManagedBy \<noteq> LabelClusterID" "LabelClusterID \<noteq> LabelManagedBy"
  "LabelManagedBy \<noteq> LabelMachineID" "LabelMachineID \<noteq> LabelManagedBy"
  "LabelManagedBy \<noteq> LabelMachineName" "LabelMachineName \<noteq> LabelManagedBy"
  "LabelClusterID \<noteq> LabelMachineID" "LabelMachineID \<noteq> LabelClusterID"
  "LabelClusterID \<noteq> LabelMachineName" "LabelMachineName \<noteq> LabelClusterID"
  "LabelMachineID \<noteq> LabelMachineName" "LabelMachineName \<noteq> LabelMachineID"
  "LabelClusterName \<noteq> LabelMachineID" "LabelClusterName \<noteq> LabelMachineName"
  by (simp_all add: label_defs)

lemma map_of_machineResourceLabels:
  "map_of (machineResourceLabels m cid cl) LabelMachineID = Some (machineOwnershipID (Some m))"
  "map_of (machineResourceLabels m cid cl) LabelMachineName = Some (om_Name (m_Meta m))"
  "map_of (machineResourceLabels m cid cl) LabelManagedBy = Some ManagedByValue"
  "map_of (machineResourceLabels m cid cl) LabelClusterID = Some (if cid = '''' then ''unknown'' else cid)"
  by (simp_all add: machineResourceLabels_def Let_def map_of_ResourceLabels)

lemma map_of_clusterResourceLabels:
  "map_of (clusterResourceLabels c) LabelManagedBy = Some ManagedByValue"
  "map_of (clusterResourceLabels c) LabelClusterID = Some (clusterOwnershipID (Some c))"
  "map_of (clusterResourceLabels c) LabelClusterName = Some (om_Name (cl_Meta c))"
  by (simp_all add: clusterResourceLabels_def map_of_ResourceLabels) (simp add: label_defs)

lemma selects_machineResourceLabels:
  assumes "CHR '','' \<notin> set (machineOwnershipID (Some m))"
  shows "selectorMatches (ownerSelector LabelMachineID (machineOwnershipID (Some m)))
           (machineResourceLabels m cid cl)"
  using assms by (subst selectorMatches_owner) (simp_all add: map_of_machineResourceLabels, simp_all add: label_defs)

lemma selects_clusterResourceLabels:
  assumes "CHR '','' \<notin> set (clusterOwnershipID (Some c))"
  shows "selectorMatches (ownerSelector LabelClusterID (clusterOwnershipID (Some c)))
           (clusterResourceLabels c)"
  using assms by (subst selectorMatches_owner) (simp_all add: map_of_clusterResourceLabels, simp_all add: label_defs)

end
