(* ===== verification/CloudServices.thy ===== *)
theory CloudServices
  imports Conditions Labels "HOL-Library.Word"
begin

text \<open>
  The services of \<open>internal/cloud\<close> for disks, public IPs, security groups, placement groups and
  virtual machines: \<open>client.go\<close>, \<open>virtualmachine.go\<close>, \<open>placementgroup.go\<close>, with
  \<open>internal/diskimage\<close> and \<open>helpers/securitygroups.go\<close>.  The SDK client behind them is the
  environment.
\<close>

section \<open>References and images\<close>

definition VPCRef :: "Env \<Rightarrow> string \<Rightarrow> string" where
  "VPCRef E vpc = (if hasPrefix vpc ''/networking/projects/'' then vpc else s_ref E VPCRefK vpc)"

definition SubnetRef :: "Env \<Rightarrow> string \<Rightarrow> string" where
  "SubnetRef E subnet =
     (if hasPrefix subnet ''/networking/projects/'' then subnet else s_ref E SubnetRefK subnet)"

definition StockName :: "string \<Rightarrow> string" where
  "StockName imageRef = trimPrefix imageRef ''/compute/global/diskImages/evroc/''"

text \<open>Go's conversion \<open>int32(n)\<close>: the low 32 bits, read as two's complement.\<close>

definition toInt32 :: "int \<Rightarrow> int" where
  "toInt32 n = sint (word_of_int n :: 32 word)"

lemma toInt32_id: "- (2 ^ 31) \<le> n \<Longrightarrow> n < 2 ^ 31 \<Longrightarrow> toInt32 n = n"
  by (simp add: toInt32_def sint_sbintrunc' signed_take_bit_int_eq_self)

section \<open>Disks\<close>

definition DiskService_Create ::
    "Env \<Rightarrow> string \<Rightarrow> int \<Rightarrow> string \<Rightarrow> string \<Rightarrow> gomap \<Rightarrow> ('o, goerr + Disk) go" where
  "DiskService_Create E name sizeGB imageRef zone labels =
     onResult
       (case cutPrefix imageRef ''custom:'' of
          Some n \<Rightarrow> ret (Inr (CustomImage (s_ref E CustomDiskImageRefK n)))
        | None \<Rightarrow>
            if hasPrefix imageRef ''/compute/projects/'' then ret (Inr (CustomImage imageRef))
            else if imageRef \<noteq> '''' then
              onError (invoke (e_err E) (SdkValidateImage imageRef))
                (\<lambda>err. ret (Inl (wrapErr ''validate stock disk image'' err)))
                (ret (Inr (StockImage (StockName imageRef))))
            else ret (Inr NoImage))
       (\<lambda>err. ret (Inl err))
       (\<lambda>img. onResult
          (invoke (e_disk E) (SdkCreate (CreateDisk
             \<lparr>dr_Name = name, dr_SizeGB = toInt32 sizeGB, dr_Zone = zone, dr_Image = img,
              dr_Labels = labels\<rparr>)))
          (\<lambda>err. ret (Inl
             (if errIs err ConflictM then
                wrapErr (''disk '' @ quoted name @ '' already exists in zone '' @ quoted zone) err
              else if errIs err ForbiddenM then
                wrapErr (''disk create rejected in zone '' @ quoted zone) err
              else if errIs err BadRequestM then
                wrapErr (''invalid disk configuration (name='' @ quoted name @ '', size='' @
                  showInt sizeGB @ ''GB, image='' @ quoted imageRef @ '', zone='' @ quoted zone @ '')'') err
              else wrapErr (''failed to create disk '' @ quoted name @ '' in zone '' @ quoted zone) err)))
          (\<lambda>created. ret (Inr created)))"

definition DiskService_Get :: "Env \<Rightarrow> string \<Rightarrow> ('o, goerr + Disk) go" where
  "DiskService_Get E name = onResult (invoke (e_disk E) (SdkGet DiskK name))
     (\<lambda>err. ret (Inl (wrapErr (''failed to get disk '' @ name) err))) (\<lambda>d. ret (Inr d))"

definition DiskService_Delete :: "Env \<Rightarrow> string \<Rightarrow> ('o, goerr option) go" where
  "DiskService_Delete E name = onError (invoke (e_err E) (SdkDelete DiskK name))
     (\<lambda>err. ret (Some (wrapErr (''failed to delete disk '' @ name) err))) (ret None)"

definition DiskService_ListByOwner :: "Env \<Rightarrow> string \<Rightarrow> ('o, goerr + string list) go" where
  "DiskService_ListByOwner E machineID =
     onResult (invoke (e_items E) (SdkList DiskK (ownerSelector LabelMachineID machineID)))
       (\<lambda>err. ret (Inl (wrapErr ''failed to list disks by owner'' err)))
       (\<lambda>items. ret (Inr (map md_Id items)))"

definition DiskService_Exists :: "Env \<Rightarrow> string \<Rightarrow> ('o, goerr + bool) go" where
  "DiskService_Exists E name = onResult (DiskService_Get E name)
     (\<lambda>err. if IsNotFoundError err then ret (Inr False)
            else ret (Inl (wrapErr ''failed to check disk existence'' err)))
     (\<lambda>_. ret (Inr True))"

section \<open>Public IPs\<close>

definition PublicIPService_Create :: "Env \<Rightarrow> string \<Rightarrow> gomap \<Rightarrow> ('o, goerr + PublicIP) go" where
  "PublicIPService_Create E name labels =
     onResult (invoke (e_ip E) (SdkCreate (CreatePublicIP name labels)))
       (\<lambda>err. ret (Inl (wrapErr ''failed to create public IP'' err))) (\<lambda>ip. ret (Inr ip))"

definition PublicIPService_Get :: "Env \<Rightarrow> string \<Rightarrow> ('o, goerr + PublicIP) go" where
  "PublicIPService_Get E name = onResult (invoke (e_ip E) (SdkGet PublicIPK name))
     (\<lambda>err. ret (Inl (wrapErr (''failed to get public IP '' @ name) err))) (\<lambda>ip. ret (Inr ip))"

definition PublicIPService_Delete :: "Env \<Rightarrow> string \<Rightarrow> ('o, goerr option) go" where
  "PublicIPService_Delete E name = onError (invoke (e_err E) (SdkDelete PublicIPK name))
     (\<lambda>err. ret (Some (wrapErr (''failed to delete public IP '' @ name) err))) (ret None)"

definition PublicIPService_ListByOwner :: "Env \<Rightarrow> string \<Rightarrow> ('o, goerr + string list) go" where
  "PublicIPService_ListByOwner E machineID =
     onResult (invoke (e_items E) (SdkList PublicIPK (ownerSelector LabelMachineID machineID)))
       (\<lambda>err. ret (Inl (wrapErr ''failed to list public IPs by owner'' err)))
       (\<lambda>items. ret (Inr (map md_Id items)))"

definition PublicIPService_Exists :: "Env \<Rightarrow> string \<Rightarrow> ('o, goerr + bool) go" where
  "PublicIPService_Exists E name = onResult (PublicIPService_Get E name)
     (\<lambda>err. if IsNotFoundError err then ret (Inr False)
            else ret (Inl (wrapErr ''failed to check public IP existence'' err)))
     (\<lambda>_. ret (Inr True))"

section \<open>Security groups\<close>

text \<open>Unset fields of an API rule stay unset in the SDK rule.\<close>

definition convertRule :: "SecurityGroupRule \<Rightarrow> SgRule" where
  "convertRule rule =
     \<lparr>sr_Name = Some (r_Name rule),
      sr_Direction = r_Direction rule,
      sr_Protocol = (if r_Protocol rule \<noteq> '''' then Some (r_Protocol rule) else None),
      sr_Port = r_Port rule,
      sr_EndPort = r_EndPort rule,
      sr_RemoteAddress = (if r_RemoteCIDR rule \<noteq> '''' then Some (r_RemoteCIDR rule) else None),
      sr_RemoteSecurityGroupRef =
        (if r_RemoteSecurityGroup rule \<noteq> '''' then Some (r_RemoteSecurityGroup rule) else None)\<rparr>"

definition ConvertSecurityGroupRulesToSDK :: "SecurityGroupRule list \<Rightarrow> SgRule list" where
  "ConvertSecurityGroupRulesToSDK rules = map convertRule rules"

text \<open>The builder calls \<open>SecurityGroupService.Create\<close> makes for one rule.\<close>

definition builderRule :: "SgRule \<Rightarrow> SgRuleRequest list" where
  "builderRule rule =
     (let ruleName = (case sr_Name rule of None \<Rightarrow> '''' | Some n \<Rightarrow> n);
          protocol = (case sr_Protocol rule of None \<Rightarrow> ''all'' | Some p \<Rightarrow> p);
          port = (case sr_Port rule of None \<Rightarrow> 0 | Some p \<Rightarrow> p);
          endPort = (case sr_EndPort rule of None \<Rightarrow> 0 | Some p \<Rightarrow> p);
          remote = (case sr_RemoteAddress rule of None \<Rightarrow> '''' | Some a \<Rightarrow> a)
      in if sr_Direction rule = ''Ingress'' then
           (case sr_RemoteSecurityGroupRef rule of
              Some ref \<Rightarrow> [AllowIngressFromSecurityGroup ruleName protocol port endPort ref]
            | None \<Rightarrow> [AllowIngressRule ruleName protocol port endPort remote])
         else if sr_Direction rule = ''Egress'' then
           [AllowEgressRule ruleName protocol port endPort remote]
         else [])"

definition SecurityGroupService_Create ::
    "Env \<Rightarrow> string \<Rightarrow> SgRule list \<Rightarrow> gomap \<Rightarrow> string \<Rightarrow> ('o, goerr + SecurityGroup) go" where
  "SecurityGroupService_Create E name rules labels vpcName =
     (let ref = (if vpcName \<noteq> '''' then VPCRef E vpcName else s_defaultVPCRef E) in
      onResult (invoke (e_sg E) (SdkCreate (CreateSecurityGroup
          \<lparr>sgq_Name = name, sgq_VPCRef = ref, sgq_Rules = concat (map builderRule rules),
           sgq_Labels = labels\<rparr>)))
        (\<lambda>err. ret (Inl (wrapErr ''failed to create security group'' err))) (\<lambda>g. ret (Inr g)))"

definition SecurityGroupService_Get :: "Env \<Rightarrow> string \<Rightarrow> ('o, goerr + SecurityGroup) go" where
  "SecurityGroupService_Get E name = onResult (invoke (e_sg E) (SdkGet SecurityGroupK name))
     (\<lambda>err. ret (Inl (wrapErr (''failed to get security group '' @ name) err))) (\<lambda>g. ret (Inr g))"

definition SecurityGroupService_Delete :: "Env \<Rightarrow> string \<Rightarrow> ('o, goerr option) go" where
  "SecurityGroupService_Delete E name = onError (invoke (e_err E) (SdkDelete SecurityGroupK name))
     (\<lambda>err. ret (Some (wrapErr (''failed to delete security group '' @ name) err))) (ret None)"

definition SecurityGroupService_listNamesBySelector ::
    "Env \<Rightarrow> string \<Rightarrow> ('o, goerr + string list) go" where
  "SecurityGroupService_listNamesBySelector E selector =
     onResult (invoke (e_items E) (SdkList SecurityGroupK selector))
       (\<lambda>err. ret (Inl (wrapErr ''failed to list security groups by owner'' err)))
       (\<lambda>items. ret (Inr (map md_Id items)))"

definition SecurityGroupService_ListByOwner :: "Env \<Rightarrow> string \<Rightarrow> ('o, goerr + string list) go" where
  "SecurityGroupService_ListByOwner E clusterID =
     SecurityGroupService_listNamesBySelector E (ownerSelector LabelClusterID clusterID)"

definition SecurityGroupService_ListByMachineOwner ::
    "Env \<Rightarrow> string \<Rightarrow> ('o, goerr + string list) go" where
  "SecurityGroupService_ListByMachineOwner E machineID =
     SecurityGroupService_listNamesBySelector E (ownerSelector LabelMachineID machineID)"

definition SecurityGroupService_Update ::
    "Env \<Rightarrow> string \<Rightarrow> SecurityGroup \<Rightarrow> ('o, goerr + SecurityGroup) go" where
  "SecurityGroupService_Update E name grp =
     onResult (invoke (e_sg E) (SdkPatchSG name grp))
       (\<lambda>err. ret (Inl (wrapErr (''failed to update security group '' @ name) err))) (\<lambda>g. ret (Inr g))"

definition SecurityGroupService_Exists :: "Env \<Rightarrow> string \<Rightarrow> ('o, goerr + bool) go" where
  "SecurityGroupService_Exists E name = onResult (SecurityGroupService_Get E name)
     (\<lambda>err. if IsNotFoundError err then ret (Inr False)
            else ret (Inl (wrapErr ''failed to check security group existence'' err)))
     (\<lambda>_. ret (Inr True))"

section \<open>Placement groups\<close>

definition PlacementGroupService_Create ::
    "Env \<Rightarrow> string \<Rightarrow> string \<Rightarrow> string \<Rightarrow> gomap \<Rightarrow> ('o, goerr + PlacementGroup) go" where
  "PlacementGroupService_Create E name strategy zone labels =
     onResult (invoke (e_pg E) (SdkCreate (CreatePlacementGroup name strategy zone labels)))
       (\<lambda>err. ret (Inl (wrapErr ''failed to create placement group'' err))) (\<lambda>g. ret (Inr g))"

definition PlacementGroupService_Get :: "Env \<Rightarrow> string \<Rightarrow> ('o, goerr + PlacementGroup) go" where
  "PlacementGroupService_Get E name = onResult (invoke (e_pg E) (SdkGet PlacementGroupK name))
     (\<lambda>err. ret (Inl (wrapErr ''failed to get placement group'' err))) (\<lambda>g. ret (Inr g))"

definition PlacementGroupService_Delete :: "Env \<Rightarrow> string \<Rightarrow> ('o, goerr option) go" where
  "PlacementGroupService_Delete E name = onError (invoke (e_err E) (SdkDelete PlacementGroupK name))
     (\<lambda>err. ret (Some (wrapErr ''failed to delete placement group'' err))) (ret None)"

definition PlacementGroupService_Exists :: "Env \<Rightarrow> string \<Rightarrow> ('o, goerr + bool) go" where
  "PlacementGroupService_Exists E name = onResult (PlacementGroupService_Get E name)
     (\<lambda>err. if IsNotFoundError err then ret (Inr False)
            else ret (Inl (wrapErr ''failed to check placement group existence'' err)))
     (\<lambda>_. ret (Inr True))"

section \<open>Virtual machines\<close>

definition VirtualMachineService_Create ::
    "Env \<Rightarrow> VirtualMachineRequest \<Rightarrow> ('o, goerr + VirtualMachine) go" where
  "VirtualMachineService_Create E request =
     onError (invoke (e_err E) (SdkValidateProfile (vr_ComputeProfileRef request)))
       (\<lambda>err. ret (Inl (wrapErr ''validate compute profile'' err)))
       (onResult (invoke (e_vm E) (SdkCreate (CreateVM request)))
          (\<lambda>err. ret (Inl (wrapErr ''failed to create virtual machine'' err)))
          (\<lambda>created. ret (Inr created)))"

definition VirtualMachineService_Get :: "Env \<Rightarrow> string \<Rightarrow> ('o, goerr + VirtualMachine) go" where
  "VirtualMachineService_Get E name = onResult (invoke (e_vm E) (SdkGet VirtualMachineK name))
     (\<lambda>err. ret (Inl (wrapErr ''failed to get virtual machine'' err))) (\<lambda>vm. ret (Inr vm))"

definition VirtualMachineService_Delete :: "Env \<Rightarrow> string \<Rightarrow> ('o, goerr option) go" where
  "VirtualMachineService_Delete E name = onError (invoke (e_err E) (SdkDelete VirtualMachineK name))
     (\<lambda>err. ret (Some (wrapErr ''failed to delete virtual machine'' err))) (ret None)"

definition VirtualMachineService_Exists :: "Env \<Rightarrow> string \<Rightarrow> ('o, goerr + bool) go" where
  "VirtualMachineService_Exists E name = onResult (VirtualMachineService_Get E name)
     (\<lambda>err. if IsNotFoundError err then ret (Inr False)
            else ret (Inl (wrapErr ''failed to check VM existence'' err)))
     (\<lambda>_. ret (Inr True))"

definition securityGroupsEqual :: "string list \<Rightarrow> string list \<Rightarrow> bool" where
  "securityGroupsEqual a b =
     (if length a \<noteq> length b then False
      else list_all (\<lambda>sg. sg \<in> set a) b)"

text \<open>The name in a reference: its part after the last slash.\<close>

definition nameOfRef :: "string \<Rightarrow> string" where
  "nameOfRef ref = last (splitOn (CHR ''/'') ref)"

definition currentSecurityGroups :: "VirtualMachine \<Rightarrow> string list" where
  "currentSecurityGroups vm =
     (case vm_Networking vm of None \<Rightarrow> []
      | Some n \<Rightarrow> (case vn_SecurityGroupActiveMembershipRefs n of None \<Rightarrow> []
                   | Some refs \<Rightarrow> map nameOfRef refs))"

definition VirtualMachineService_UpdateSecurityGroups ::
    "Env \<Rightarrow> string \<Rightarrow> string list \<Rightarrow> ('o, goerr option) go" where
  "VirtualMachineService_UpdateSecurityGroups E vmName desiredSecurityGroupNames =
     onResult (VirtualMachineService_Get E vmName)
       (\<lambda>err. ret (Some (wrapErr ''failed to get VM for security group update'' err)))
       (\<lambda>vm. if securityGroupsEqual (currentSecurityGroups vm) desiredSecurityGroupNames then ret None
             else onResult
               (invoke (e_vm E) (SdkPatchVM vmName
                  (PatchSecurityGroups (map (s_ref E SecurityGroupRefK) desiredSecurityGroupNames))))
               (\<lambda>err. ret (Some (wrapErr ''failed to update VM security groups'' err)))
               (\<lambda>_. ret None))"

definition VirtualMachineService_UpdatePublicIP ::
    "Env \<Rightarrow> string \<Rightarrow> string \<Rightarrow> ('o, goerr option) go" where
  "VirtualMachineService_UpdatePublicIP E vmName publicIPName =
     onResult (VirtualMachineService_Get E vmName)
       (\<lambda>err. ret (Some (wrapErr ''failed to get VM for public IP update'' err)))
       (\<lambda>vm.
          let currentPublicIPName =
            (case vm_PublicIPRef vm of None \<Rightarrow> '''' | Some ref \<Rightarrow> nameOfRef ref) in
          if currentPublicIPName = publicIPName then ret None
          else onResult
            (invoke (e_vm E) (SdkPatchVM vmName (PatchPublicIP
               (if publicIPName \<noteq> '''' then Some (s_ref E PublicIPRefK publicIPName) else None))))
            (\<lambda>err. ret (Some (wrapErr ''failed to update VM public IP'' err)))
            (\<lambda>_. ret None))"

text \<open>The first disk of the list boots.\<close>

definition diskItems :: "Env \<Rightarrow> string list \<Rightarrow> VmDiskItem list" where
  "diskItems E diskNames =
     map (\<lambda>(i, name). \<lparr>vdi_DiskRef = s_ref E DiskRefK name,
                       vdi_BootFrom = (if i = 0 then Some True else None)\<rparr>)
         (enumerate (0::nat) diskNames)"

definition VirtualMachineService_UpdateDisks :: "Env \<Rightarrow> string \<Rightarrow> string list \<Rightarrow> ('o, goerr option) go" where
  "VirtualMachineService_UpdateDisks E vmName diskNames =
     onResult (invoke (e_vm E) (SdkPatchVM vmName (PatchDisks (diskItems E diskNames))))
       (\<lambda>err. ret (Some (wrapErr ''failed to update VM disks'' err))) (\<lambda>_. ret None)"

definition VirtualMachineService_UpdatePlacement :: "Env \<Rightarrow> string \<Rightarrow> VmPlacement \<Rightarrow> ('o, goerr option) go" where
  "VirtualMachineService_UpdatePlacement E vmName placement =
     onResult (invoke (e_vm E) (SdkPatchVM vmName (PatchPlacement placement)))
       (\<lambda>err. ret (Some (wrapErr ''failed to update VM placement'' err))) (\<lambda>_. ret None)"

section \<open>What the services share\<close>

text \<open>
  Every resource kind has the same three operations over the SDK: a \<open>Get\<close> that wraps the error
  of the SDK, an \<open>Exists\<close> that turns the not-found error into \<open>False\<close> and keeps every other
  error, and a \<open>Delete\<close> that wraps the error.  The locale states that contract; each kind
  provides it.
\<close>

locale cloud_resource =
  fixes kind :: SdkKind
    and reply :: "Call list \<Rightarrow> Call \<Rightarrow> goerr + 'r"
    and getR :: "string \<Rightarrow> ('o, goerr + 'r) go"
    and existsR :: "string \<Rightarrow> ('o, goerr + bool) go"
    and deleteR :: "string \<Rightarrow> ('o, goerr option) go"
    and deleteErr :: "Call list \<Rightarrow> Call \<Rightarrow> goerr option"
  assumes get_law: "\<exists>c. getR n = onResult (invoke reply (SdkGet kind n))
      (\<lambda>e. ret (Inl (wrapErr c e))) (\<lambda>r. ret (Inr r))"
    and exists_law: "\<exists>c. existsR n = onResult (getR n)
      (\<lambda>e. if IsNotFoundError e then ret (Inr False) else ret (Inl (wrapErr c e)))
      (\<lambda>_. ret (Inr True))"
    and delete_law: "\<exists>c. deleteR n = onError (invoke deleteErr (SdkDelete kind n))
      (\<lambda>e. ret (Some (wrapErr c e))) (ret None)"
begin

lemma emits_get: "P (SdkGet kind n) \<Longrightarrow> emits P (getR n)"
  by (rule exE [OF get_law [of n]]) (auto intro!: go_rules)

lemma emits_exists: "P (SdkGet kind n) \<Longrightarrow> emits P (existsR n)"
  by (rule exE [OF exists_law [of n]]) (auto intro!: go_rules emits_get)

lemma emits_delete: "P (SdkDelete kind n) \<Longrightarrow> emits P (deleteR n)"
  by (rule exE [OF delete_law [of n]]) (auto intro!: go_rules)

lemma frames_get: "frames v (getR n)"
  by (rule exE [OF get_law [of n]]) (auto intro!: frames_rules)

lemma frames_exists: "frames v (existsR n)"
  by (rule exE [OF exists_law [of n]]) (auto intro!: frames_rules frames_get)

lemma frames_delete: "frames v (deleteR n)"
  by (rule exE [OF delete_law [of n]]) (auto intro!: frames_rules)

lemma run_get:
  obtains c where "run_state (getR n) s =
    ((case reply (calls s) (SdkGet kind n) of Inl e \<Rightarrow> Inl (wrapErr c e) | Inr r \<Rightarrow> Inr r),
     s\<lparr>calls := calls s @ [SdkGet kind n]\<rparr>)"
proof -
  obtain c where "getR n = onResult (invoke reply (SdkGet kind n))
      (\<lambda>e. ret (Inl (wrapErr c e))) (\<lambda>r. ret (Inr r))"
    using get_law by blast
  then show ?thesis
    by (intro that [of c]) (simp split: sum.split)
qed

lemma get_notFound:
  "holds (getR n) s (\<lambda>r t. t = s\<lparr>calls := calls s @ [SdkGet kind n]\<rparr> \<and>
     (case reply (calls s) (SdkGet kind n) of
        Inl e \<Rightarrow> \<exists>e'. r = Inl e' \<and> errMarks e' = errMarks e
      | Inr x \<Rightarrow> r = Inr x))"
  by (rule run_get [of n s]) (auto simp: holds_def wrapErr_def split: sum.split)

lemma run_exists:
  obtains c where "run_state (existsR n) s =
    ((case reply (calls s) (SdkGet kind n) of
        Inl e \<Rightarrow> if IsNotFoundError e then Inr False else Inl (wrapErr c e)
      | Inr r \<Rightarrow> Inr True),
     s\<lparr>calls := calls s @ [SdkGet kind n]\<rparr>)"
proof -
  obtain c where c: "existsR n = onResult (getR n)
      (\<lambda>e. if IsNotFoundError e then ret (Inr False) else ret (Inl (wrapErr c e)))
      (\<lambda>_. ret (Inr True))"
    using exists_law by blast
  obtain d where d: "run_state (getR n) s =
      ((case reply (calls s) (SdkGet kind n) of Inl e \<Rightarrow> Inl (wrapErr d e) | Inr r \<Rightarrow> Inr r),
       s\<lparr>calls := calls s @ [SdkGet kind n]\<rparr>)"
    by (rule run_get)
  have w: "\<exists>x. \<forall>e. wrapErr c (wrapErr d e) = wrapErr x e"
    by (rule exI [of _ "c @ '': '' @ d"]) (simp add: wrapErr_def)
  then obtain x where "\<And>e. wrapErr c (wrapErr d e) = wrapErr x e"
    by blast
  then show ?thesis
    by (intro that [of x], cases "reply (calls s) (SdkGet kind n)") (simp_all add: c d)
qed

text \<open>\<open>Exists\<close> answers \<open>False\<close> only when the SDK said the resource is not there.\<close>

lemma exists_result:
  "resultOf (existsR n) s = Inr b \<longleftrightarrow>
     (case reply (calls s) (SdkGet kind n) of
        Inl e \<Rightarrow> errIs e NotFoundM \<and> \<not> b | Inr _ \<Rightarrow> b)"
  by (rule run_exists [of n s]) (auto simp: resultOf_def IsNotFoundError_def split: sum.split)

lemma run_delete:
  obtains c where "run_state (deleteR n) s =
    (map_option (wrapErr c) (deleteErr (calls s) (SdkDelete kind n)),
     s\<lparr>calls := calls s @ [SdkDelete kind n]\<rparr>)"
proof -
  obtain c where "deleteR n = onError (invoke deleteErr (SdkDelete kind n))
      (\<lambda>e. ret (Some (wrapErr c e))) (ret None)"
    using delete_law by blast
  then show ?thesis
    by (intro that [of c]) (simp split: option.split)
qed

lemmas resource_emits = emits_get emits_exists emits_delete

lemmas resource_frames = frames_get frames_exists frames_delete

end

interpretation diskR: cloud_resource DiskK "e_disk E" "DiskService_Get E" "DiskService_Exists E" "DiskService_Delete E"
    "e_err E"
  for E :: Env
  by unfold_locales (unfold DiskService_Get_def DiskService_Exists_def DiskService_Delete_def, blast+)

interpretation publicIPR: cloud_resource PublicIPK "e_ip E" "PublicIPService_Get E" "PublicIPService_Exists E" "PublicIPService_Delete E"
    "e_err E"
  for E :: Env
  by unfold_locales (unfold PublicIPService_Get_def PublicIPService_Exists_def PublicIPService_Delete_def, blast+)

interpretation securityGroupR: cloud_resource SecurityGroupK "e_sg E" "SecurityGroupService_Get E" "SecurityGroupService_Exists E" "SecurityGroupService_Delete E"
    "e_err E"
  for E :: Env
  by unfold_locales (unfold SecurityGroupService_Get_def SecurityGroupService_Exists_def SecurityGroupService_Delete_def, blast+)

interpretation placementGroupR: cloud_resource PlacementGroupK "e_pg E" "PlacementGroupService_Get E" "PlacementGroupService_Exists E" "PlacementGroupService_Delete E"
    "e_err E"
  for E :: Env
  by unfold_locales (unfold PlacementGroupService_Get_def PlacementGroupService_Exists_def PlacementGroupService_Delete_def, blast+)

interpretation virtualMachineR: cloud_resource VirtualMachineK "e_vm E" "VirtualMachineService_Get E" "VirtualMachineService_Exists E" "VirtualMachineService_Delete E"
    "e_err E"
  for E :: Env
  by unfold_locales (unfold VirtualMachineService_Get_def VirtualMachineService_Exists_def VirtualMachineService_Delete_def, blast+)

lemmas resource_emits_ops [emits_ops] =
  diskR.resource_emits publicIPR.resource_emits securityGroupR.resource_emits
  placementGroupR.resource_emits virtualMachineR.resource_emits

lemmas resource_frames_ops [frames_ops] =
  diskR.resource_frames publicIPR.resource_frames securityGroupR.resource_frames
  placementGroupR.resource_frames virtualMachineR.resource_frames

section \<open>The calls of the remaining operations\<close>

lemma emits_DiskService_Create [emits_ops]:
  assumes "P (SdkValidateImage i)" and "\<And>r. dr_Name r = n \<Longrightarrow> dr_Labels r = l \<Longrightarrow> dr_Zone r = z \<Longrightarrow> dr_SizeGB r = toInt32 sz \<Longrightarrow>
      P (SdkCreate (CreateDisk r))"
  shows "emits P (DiskService_Create E n sz i z l)"
  unfolding DiskService_Create_def Let_def
  by (intro go_rules emits_ops assms) simp_all

lemma emits_DiskService_ListByOwner [emits_ops]:
  assumes "P (SdkList DiskK (ownerSelector LabelMachineID i))"
  shows "emits P (DiskService_ListByOwner E i)"
  unfolding DiskService_ListByOwner_def Let_def
  by (intro go_rules emits_ops assms)

lemma emits_PublicIPService_Create [emits_ops]:
  assumes "P (SdkCreate (CreatePublicIP n l))"
  shows "emits P (PublicIPService_Create E n l)"
  unfolding PublicIPService_Create_def Let_def
  by (intro go_rules emits_ops assms)

lemma emits_PublicIPService_ListByOwner [emits_ops]:
  assumes "P (SdkList PublicIPK (ownerSelector LabelMachineID i))"
  shows "emits P (PublicIPService_ListByOwner E i)"
  unfolding PublicIPService_ListByOwner_def Let_def
  by (intro go_rules emits_ops assms)

lemma emits_SecurityGroupService_Create [emits_ops]:
  assumes "\<And>r. sgq_Name r = n \<Longrightarrow> sgq_Labels r = l \<Longrightarrow> P (SdkCreate (CreateSecurityGroup r))"
  shows "emits P (SecurityGroupService_Create E n rs l w)"
  unfolding SecurityGroupService_Create_def Let_def
  by (intro go_rules emits_ops assms) simp_all

lemma emits_SecurityGroupService_listNamesBySelector [emits_ops]:
  assumes "P (SdkList SecurityGroupK sel)"
  shows "emits P (SecurityGroupService_listNamesBySelector E sel)"
  unfolding SecurityGroupService_listNamesBySelector_def Let_def
  by (intro go_rules emits_ops assms)

lemma emits_SecurityGroupService_ListByOwner [emits_ops]:
  assumes "P (SdkList SecurityGroupK (ownerSelector LabelClusterID i))"
  shows "emits P (SecurityGroupService_ListByOwner E i)"
  unfolding SecurityGroupService_ListByOwner_def
  by (intro go_rules emits_ops assms)

lemma emits_SecurityGroupService_ListByMachineOwner [emits_ops]:
  assumes "P (SdkList SecurityGroupK (ownerSelector LabelMachineID i))"
  shows "emits P (SecurityGroupService_ListByMachineOwner E i)"
  unfolding SecurityGroupService_ListByMachineOwner_def
  by (intro go_rules emits_ops assms)

lemma emits_SecurityGroupService_Update [emits_ops]:
  assumes "P (SdkPatchSG n g)"
  shows "emits P (SecurityGroupService_Update E n g)"
  unfolding SecurityGroupService_Update_def Let_def
  by (intro go_rules emits_ops assms)

lemma emits_PlacementGroupService_Create [emits_ops]:
  assumes "P (SdkCreate (CreatePlacementGroup n st z l))"
  shows "emits P (PlacementGroupService_Create E n st z l)"
  unfolding PlacementGroupService_Create_def Let_def
  by (intro go_rules emits_ops assms)

lemma emits_VirtualMachineService_Create [emits_ops]:
  assumes "P (SdkValidateProfile (vr_ComputeProfileRef r))" and "P (SdkCreate (CreateVM r))"
  shows "emits P (VirtualMachineService_Create E r)"
  unfolding VirtualMachineService_Create_def Let_def
  by (intro go_rules emits_ops assms)

lemma emits_VirtualMachineService_UpdateSecurityGroups [emits_ops]:
  assumes "P (SdkGet VirtualMachineK n)" and "\<And>rs. P (SdkPatchVM n (PatchSecurityGroups rs))"
  shows "emits P (VirtualMachineService_UpdateSecurityGroups E n gs)"
  unfolding VirtualMachineService_UpdateSecurityGroups_def Let_def
  by (intro go_rules emits_ops assms)

lemma emits_VirtualMachineService_UpdatePublicIP [emits_ops]:
  assumes "P (SdkGet VirtualMachineK n)" and "\<And>r. P (SdkPatchVM n (PatchPublicIP r))"
  shows "emits P (VirtualMachineService_UpdatePublicIP E n ip)"
  unfolding VirtualMachineService_UpdatePublicIP_def Let_def
  by (intro go_rules emits_ops assms)

lemma emits_VirtualMachineService_UpdateDisks [emits_ops]:
  assumes "P (SdkPatchVM n (PatchDisks (diskItems E ds)))"
  shows "emits P (VirtualMachineService_UpdateDisks E n ds)"
  unfolding VirtualMachineService_UpdateDisks_def Let_def
  by (intro go_rules emits_ops assms)

lemma emits_VirtualMachineService_UpdatePlacement [emits_ops]:
  assumes "P (SdkPatchVM n (PatchPlacement p))"
  shows "emits P (VirtualMachineService_UpdatePlacement E n p)"
  unfolding VirtualMachineService_UpdatePlacement_def Let_def
  by (intro go_rules emits_ops assms)

text \<open>No service touches the object the handler works on.\<close>

lemma frames_DiskService_Create [frames_ops]:
  "frames v (DiskService_Create E n sz i z l)"
  unfolding DiskService_Create_def Let_def by (intro frames_rules frames_ops)

lemma frames_DiskService_ListByOwner [frames_ops]:
  "frames v (DiskService_ListByOwner E i)"
  unfolding DiskService_ListByOwner_def Let_def by (intro frames_rules frames_ops)

lemma frames_PublicIPService_Create [frames_ops]:
  "frames v (PublicIPService_Create E n l)"
  unfolding PublicIPService_Create_def Let_def by (intro frames_rules frames_ops)

lemma frames_PublicIPService_ListByOwner [frames_ops]:
  "frames v (PublicIPService_ListByOwner E i)"
  unfolding PublicIPService_ListByOwner_def Let_def by (intro frames_rules frames_ops)

lemma frames_SecurityGroupService_Create [frames_ops]:
  "frames v (SecurityGroupService_Create E n rs l w)"
  unfolding SecurityGroupService_Create_def Let_def by (intro frames_rules frames_ops)

lemma frames_SecurityGroupService_listNamesBySelector [frames_ops]:
  "frames v (SecurityGroupService_listNamesBySelector E sel)"
  unfolding SecurityGroupService_listNamesBySelector_def Let_def by (intro frames_rules frames_ops)

lemma frames_SecurityGroupService_ListByOwner [frames_ops]:
  "frames v (SecurityGroupService_ListByOwner E i)"
  unfolding SecurityGroupService_ListByOwner_def by (intro frames_rules frames_ops)

lemma frames_SecurityGroupService_ListByMachineOwner [frames_ops]:
  "frames v (SecurityGroupService_ListByMachineOwner E i)"
  unfolding SecurityGroupService_ListByMachineOwner_def by (intro frames_rules frames_ops)

lemma frames_SecurityGroupService_Update [frames_ops]:
  "frames v (SecurityGroupService_Update E n g)"
  unfolding SecurityGroupService_Update_def Let_def by (intro frames_rules frames_ops)

lemma frames_PlacementGroupService_Create [frames_ops]:
  "frames v (PlacementGroupService_Create E n st z l)"
  unfolding PlacementGroupService_Create_def Let_def by (intro frames_rules frames_ops)

lemma frames_VirtualMachineService_Create [frames_ops]:
  "frames v (VirtualMachineService_Create E r)"
  unfolding VirtualMachineService_Create_def Let_def by (intro frames_rules frames_ops)

lemma frames_VirtualMachineService_UpdateSecurityGroups [frames_ops]:
  "frames v (VirtualMachineService_UpdateSecurityGroups E n gs)"
  unfolding VirtualMachineService_UpdateSecurityGroups_def Let_def by (intro frames_rules frames_ops)

lemma frames_VirtualMachineService_UpdatePublicIP [frames_ops]:
  "frames v (VirtualMachineService_UpdatePublicIP E n ip)"
  unfolding VirtualMachineService_UpdatePublicIP_def Let_def by (intro frames_rules frames_ops)

lemma frames_VirtualMachineService_UpdateDisks [frames_ops]:
  "frames v (VirtualMachineService_UpdateDisks E n ds)"
  unfolding VirtualMachineService_UpdateDisks_def Let_def by (intro frames_rules frames_ops)

lemma frames_VirtualMachineService_UpdatePlacement [frames_ops]:
  "frames v (VirtualMachineService_UpdatePlacement E n p)"
  unfolding VirtualMachineService_UpdatePlacement_def Let_def by (intro frames_rules frames_ops)

end
