(* ===== verification/Admission.thy ===== *)
theory Admission
  imports CloudServices
begin

text \<open>
  What the two admission webhooks of \<open>api/v1beta1\<close> share: field errors, the patterns they match,
  and the checks of security group rules and additional labels.  Errors and field paths are
  made by the API machinery; the model records the calls that make them.
\<close>

section \<open>Errors\<close>

datatype fieldPath =
    NewPath "string list"
  | Child fieldPath string
  | AtIndex fieldPath nat
  | AtKey fieldPath string

datatype badValue = BadString string | BadInt int | BadEndpoint APIEndpoint | BadSpec EvrocClusterSpec

datatype fieldError =
    FieldRequired fieldPath string
  | FieldInvalid fieldPath badValue string
  | FieldForbidden fieldPath string
  | FieldDuplicate fieldPath string
  | FieldTooLong fieldPath string int
  | FieldNotSupported fieldPath string "string list"

text \<open>
  The object a webhook is called with, and its answer: warnings, and an error that rejects the
  object, either for its type or the aggregate of a list that is not empty.
\<close>

datatype runtimeObject = ClusterObject EvrocCluster | MachineObject EvrocMachine | OtherObject string

datatype rejection = WrongType string | Aggregate "fieldError list"

type_synonym verdict = "string list \<times> rejection option"

definition goType :: "runtimeObject \<Rightarrow> string" where
  "goType obj = (case obj of ClusterObject _ \<Rightarrow> ''*v1beta1.EvrocCluster''
     | MachineObject _ \<Rightarrow> ''*v1beta1.EvrocMachine'' | OtherObject t \<Rightarrow> t)"

definition rejectErrs :: "string list \<Rightarrow> fieldError list \<Rightarrow> verdict" where
  "rejectErrs warnings errs = (warnings, if length errs > 0 then Some (Aggregate errs) else None)"

abbreviation errIf :: "bool \<Rightarrow> fieldError \<Rightarrow> fieldError list" where
  "errIf b e \<equiv> (if b then [e] else [])"

section \<open>Patterns\<close>

text \<open>The regular expressions, as functions on the bytes of the string.\<close>

definition lowerAZ :: "char \<Rightarrow> bool" where
  "lowerAZ c \<longleftrightarrow> c \<in> set ''abcdefghijklmnopqrstuvwxyz''"

definition alphaNum :: "char \<Rightarrow> bool" where
  "alphaNum c \<longleftrightarrow> lowerAZ c \<or> c \<in> set ''ABCDEFGHIJKLMNOPQRSTUVWXYZ0123456789''"

definition regionPattern :: "string \<Rightarrow> bool" where
  "regionPattern s \<longleftrightarrow> length s = 6 \<and> list_all lowerAZ (take 2 s) \<and> s ! 2 = CHR ''-'' \<and>
     list_all lowerAZ (drop 3 s)"

definition gpuComputeProfilePattern :: "string \<Rightarrow> bool" where
  "gpuComputeProfilePattern s \<longleftrightarrow> hasPrefix s ''gn-l40s.'' \<or> hasPrefix s ''gn-b200.''"

definition zonePattern :: "string \<Rightarrow> bool" where
  "zonePattern s \<longleftrightarrow> s \<in> {''a'', ''b'', ''c''}"

definition customDiskImageNamePattern :: "string \<Rightarrow> bool" where
  "customDiskImageNamePattern s \<longleftrightarrow>
     (case s of [] \<Rightarrow> False | c # cs \<Rightarrow> alphaNum c \<and> list_all (\<lambda>c. alphaNum c \<or> c \<in> set ''._-'') cs)"

text \<open>The match of a custom image reference: project, region and name.\<close>

definition customDiskImageRefPattern :: "string \<Rightarrow> (string \<times> string \<times> string) option" where
  "customDiskImageRefPattern s =
     (case splitOn (CHR ''/'') s of
        [e, a, b, project, c, region, d, name] \<Rightarrow>
          if e = '''' \<and> a = ''compute'' \<and> b = ''projects'' \<and> c = ''regions'' \<and> d = ''customDiskImages'' \<and>
             project \<noteq> '''' \<and> region \<noteq> '''' \<and> name \<noteq> ''''
          then Some (project, region, name) else None
      | _ \<Rightarrow> None)"

section \<open>Rules and labels\<close>

definition evrocMaxResourceNameLen :: int where
  "evrocMaxResourceNameLen = 63"

abbreviation slen :: "string \<Rightarrow> int" where
  "slen s \<equiv> int (length s)"

definition validateSecurityGroupRule :: "SecurityGroupRule \<Rightarrow> fieldPath \<Rightarrow> fieldError list" where
  "validateSecurityGroupRule rule path =
     errIf (r_RemoteCIDR rule \<noteq> '''' \<and> r_RemoteSecurityGroup rule \<noteq> '''')
       (FieldForbidden path ''remoteCIDR and remoteSecurityGroup are mutually exclusive'') @
     (case r_Port rule of None \<Rightarrow> []
      | Some p \<Rightarrow> errIf (p < 0 \<or> p > 65535)
          (FieldInvalid (Child path ''port'') (BadInt p) ''port must be between 0 and 65535'')) @
     (case r_EndPort rule of None \<Rightarrow> []
      | Some e \<Rightarrow> errIf (e < 0 \<or> e > 65535)
          (FieldInvalid (Child path ''endPort'') (BadInt e) ''endPort must be between 0 and 65535'')) @
     (case (r_Port rule, r_EndPort rule) of
        (Some p, Some e) \<Rightarrow> errIf (e < p) (FieldInvalid (Child path ''endPort'') (BadInt e)
          ''endPort must be greater than or equal to port'')
      | _ \<Rightarrow> [])"

text \<open>The Go map is read in any order; here it is the order of the association list.\<close>

definition validateAdditionalLabels :: "gomap \<Rightarrow> fieldPath \<Rightarrow> fieldError list" where
  "validateAdditionalLabels labels fldPath =
     concat (map (\<lambda>(k, v).
       let keyPath = AtKey fldPath k in
       errIf (length k = 0) (FieldRequired keyPath ''label key must not be empty'') @
       errIf (slen k > 253) (FieldTooLong keyPath k 253) @
       errIf (containsStr k ''/'') (FieldInvalid keyPath (BadString k)
         ''evroc does not allow '/' in label keys; use '_' as separator instead'') @
       errIf (slen v > 63) (FieldTooLong keyPath v 63)) labels)"

text \<open>
  A loop over named elements with the set of names seen so far: the body gets the index and
  whether the name was seen.
\<close>

fun eachNamed :: "('a \<Rightarrow> string) \<Rightarrow> (nat \<Rightarrow> bool \<Rightarrow> 'a \<Rightarrow> fieldError list) \<Rightarrow> nat \<Rightarrow> string list \<Rightarrow>
    'a list \<Rightarrow> fieldError list" where
  "eachNamed nm body i seen [] = []"
| "eachNamed nm body i seen (x # xs) =
     body i (nm x \<in> set seen) x @ eachNamed nm body (Suc i) (nm x # seen) xs"

fun eachIndexed :: "(nat \<Rightarrow> 'a \<Rightarrow> fieldError list) \<Rightarrow> nat \<Rightarrow> 'a list \<Rightarrow> fieldError list" where
  "eachIndexed body i [] = []"
| "eachIndexed body i (x # xs) = body i x @ eachIndexed body (Suc i) xs"

definition rulesErrs :: "fieldPath \<Rightarrow> SecurityGroupRule list \<Rightarrow> fieldError list" where
  "rulesErrs sgPath = eachIndexed (\<lambda>j rule. validateSecurityGroupRule rule (AtIndex (Child sgPath ''rules'') j)) 0"

section \<open>What no error means\<close>

text \<open>
  A check decides a predicate: it reports nothing exactly for what satisfies it, wherever in the
  object it runs.
\<close>

locale field_check =
  fixes check :: "'p \<Rightarrow> 'a \<Rightarrow> fieldError list" and ok :: "'a \<Rightarrow> bool"
  assumes check_iff: "check path x = [] \<longleftrightarrow> ok x"
begin

lemma indexed_iff: "eachIndexed (\<lambda>j. check (f j)) i xs = [] \<longleftrightarrow> list_all ok xs"
  by (induction xs arbitrary: i) (simp_all add: check_iff)

text \<open>A loop that reports names seen before, and otherwise checks each element.\<close>

lemma named_iff:
  assumes "\<And>j seen x. body j seen x = [] \<longleftrightarrow> \<not> seen \<and> check (f j) x = []"
  shows "eachNamed nm body i seen xs = [] \<longleftrightarrow>
    distinct (map nm xs) \<and> set (map nm xs) \<inter> set seen = {} \<and> list_all ok xs"
  using assms by (induction xs arbitrary: i seen) (auto simp: check_iff)

end

definition ruleOk :: "SecurityGroupRule \<Rightarrow> bool" where
  "ruleOk r \<longleftrightarrow> (r_RemoteCIDR r = '''' \<or> r_RemoteSecurityGroup r = '''') \<and>
     (\<forall>p. r_Port r = Some p \<longrightarrow> 0 \<le> p \<and> p \<le> 65535) \<and>
     (\<forall>e. r_EndPort r = Some e \<longrightarrow> 0 \<le> e \<and> e \<le> 65535) \<and>
     (\<forall>p e. r_Port r = Some p \<and> r_EndPort r = Some e \<longrightarrow> p \<le> e)"

interpretation ruleCheck: field_check "\<lambda>path r. validateSecurityGroupRule r path" ruleOk
  by unfold_locales
     (auto simp: validateSecurityGroupRule_def ruleOk_def split: option.splits if_splits)

definition labelOk :: "string \<times> string \<Rightarrow> bool" where
  "labelOk l \<longleftrightarrow> (case l of (k, v) \<Rightarrow>
     k \<noteq> '''' \<and> length k \<le> 253 \<and> CHR ''/'' \<notin> set k \<and> length v \<le> 63)"

lemma containsStr_char: "containsStr s [c] \<longleftrightarrow> c \<in> set s"
  by (induction s) (auto simp: hasPrefix_def)

interpretation labelsCheck: field_check "\<lambda>path ls. validateAdditionalLabels ls path" "list_all labelOk"
  by unfold_locales
     (auto simp: validateAdditionalLabels_def labelOk_def containsStr_char Let_def list_all_iff
       split: if_splits)

lemma rulesErrs_iff: "rulesErrs path rules = [] \<longleftrightarrow> list_all ruleOk rules"
  unfolding rulesErrs_def by (rule ruleCheck.indexed_iff)

interpretation rulesCheck: field_check rulesErrs "list_all ruleOk"
  by unfold_locales (rule rulesErrs_iff)

text \<open>A loop that only looks for duplicates.\<close>

interpretation anyCheck: field_check "\<lambda>_ _. []" "\<lambda>_. True"
  by unfold_locales simp

lemma duplicates_iff:
  "eachNamed id (\<lambda>i seen n. errIf seen (e i n)) 0 seen names = [] \<longleftrightarrow>
     distinct names \<and> set names \<inter> set seen = {}"
  using anyCheck.named_iff [where body = "\<lambda>i seen n. errIf seen (e i n)" and nm = id] by (simp add: list_all_iff)

lemma regionPattern_nonempty: "regionPattern s \<Longrightarrow> s \<noteq> ''''"
  by (auto simp: regionPattern_def)

lemma concat_errIf: "concat (map (\<lambda>x. errIf (P x) (e x)) xs) = [] \<longleftrightarrow> (\<forall>x \<in> set xs. \<not> P x)"
  by (induction xs) simp_all

text \<open>The guard on the number of labels makes no difference.\<close>

lemma labels_iff:
  "(if length ls > 0 then validateAdditionalLabels ls path else []) = [] \<longleftrightarrow> list_all labelOk ls"
  by (cases ls) (simp_all add: labelsCheck.check_iff)

text \<open>The reference pattern reads back what it is printed from.\<close>

definition customImageRef :: "string \<Rightarrow> string \<Rightarrow> string \<Rightarrow> string" where
  "customImageRef project region name =
     ''/compute/projects/'' @ project @ ''/regions/'' @ region @ ''/customDiskImages/'' @ name"

definition segment :: "string \<Rightarrow> bool" where
  "segment s \<longleftrightarrow> s \<noteq> '''' \<and> CHR ''/'' \<notin> set s"

lemma joined_splitOn: "joinStr [d] (splitOn d s) = s"
proof (induction s)
  case (Cons c s)
  obtain p ps where "splitOn d s = p # ps"
    by (cases "splitOn d s") simp_all
  then show ?case
    using Cons by (cases ps) auto
qed simp

lemma splitOn_parts: "p \<in> set (splitOn d s) \<Longrightarrow> d \<notin> set p"
proof (induction s arbitrary: p)
  case (Cons c s)
  obtain q qs where "splitOn d s = q # qs"
    by (cases "splitOn d s") simp_all
  then show ?case
    using Cons by (auto split: if_splits)
qed simp

lemma customDiskImageRefPattern_iff:
  "customDiskImageRefPattern s = Some (p, r, n) \<longleftrightarrow>
     segment p \<and> segment r \<and> segment n \<and> s = customImageRef p r n"
proof
  assume match: "customDiskImageRefPattern s = Some (p, r, n)"
  then have parts: "splitOn (CHR ''/'') s =
      ['''', ''compute'', ''projects'', p, ''regions'', r, ''customDiskImages'', n]"
      and "p \<noteq> ''''" "r \<noteq> ''''" "n \<noteq> ''''"
    by (auto simp: customDiskImageRefPattern_def split: list.splits if_splits)
  moreover have "CHR ''/'' \<notin> set p" "CHR ''/'' \<notin> set r" "CHR ''/'' \<notin> set n"
    by (rule splitOn_parts [of _ _ s], simp add: parts)+
  moreover have "s = customImageRef p r n"
    using joined_splitOn [of "CHR ''/''" s] unfolding parts by (simp add: customImageRef_def)
  ultimately show "segment p \<and> segment r \<and> segment n \<and> s = customImageRef p r n"
    by (simp add: segment_def)
next
  assume "segment p \<and> segment r \<and> segment n \<and> s = customImageRef p r n"
  then show "customDiskImageRefPattern s = Some (p, r, n)"
    by (simp add: customImageRef_def segment_def customDiskImageRefPattern_def splitOn_append splitOn_absent)
qed

end
