(* ===== verification/UserData.thy ===== *)
theory UserData
  imports Prelude
begin

text \<open>
  The cloud-init user data of a virtual machine: merging the bootstrap data with the
  machine's own (\<open>mergeUserData\<close>, \<open>buildMultipartUserData\<close>, \<open>cloudInitContentType\<close>) and
  injecting the SSH key (\<open>injectSSHKeyIntoCloudInit\<close>).  The MIME boundary, random in Go, is
  an argument.  The error returns of \<open>CreatePart\<close>, \<open>Write\<close> and \<open>Close\<close> are not modelled: they
  write to a \<open>bytes.Buffer\<close>, which never fails.
\<close>

section \<open>Merging\<close>

definition cloudInitContentType :: "string \<Rightarrow> string" where
  "cloudInitContentType content =
     (if hasPrefix content ''#cloud-config'' then ''text/cloud-config''
      else if hasPrefix content ''#!'' then ''text/x-shellscript''
      else ''text/plain'')"

definition crlf :: string where
  "crlf = [CHR 0x0D, CHR 0x0A]"

text \<open>
  \<open>multipart.Writer\<close>: a part starts with its boundary line (after a line break, except the
  first) and its headers in the order of their keys, in canonical spelling.
\<close>

definition partHeader :: "string \<Rightarrow> string" where
  "partHeader content =
     ''Content-Transfer-Encoding: 7bit'' @ crlf @
     ''Content-Type: '' @ cloudInitContentType content @ crlf @
     ''Mime-Version: 1.0'' @ crlf @ crlf"

fun multipartParts :: "string \<Rightarrow> bool \<Rightarrow> string list \<Rightarrow> string" where
  "multipartParts boundary first [] = ''''"
| "multipartParts boundary first (part # parts) =
     (let content = trimSpace part in
      if content = '''' then multipartParts boundary first parts
      else (if first then '''' else crlf) @ ''--'' @ boundary @ crlf @ partHeader content @
           content @ newline @ multipartParts boundary False parts)"

definition closingBoundary :: "string \<Rightarrow> string" where
  "closingBoundary boundary = crlf @ ''--'' @ boundary @ ''--'' @ crlf"

definition buildMultipartUserData :: "string \<Rightarrow> string list \<Rightarrow> string" where
  "buildMultipartUserData boundary parts =
     ''MIME-Version: 1.0'' @ newline @
     ''Content-Type: multipart/mixed; boundary='' @ quoted boundary @ newline @ newline @
     multipartParts boundary True parts @ closingBoundary boundary"

definition mergeUserData :: "string \<Rightarrow> string \<Rightarrow> string \<Rightarrow> string" where
  "mergeUserData boundary bootstrapData machineData =
     (let bootstrapUserData = trimSpace bootstrapData;
          machineUserData = trimSpace machineData
      in if bootstrapUserData = '''' then machineUserData
         else if machineUserData = '''' then bootstrapUserData
         else if hasPrefix bootstrapUserData ''#cloud-config'' \<and>
                 hasPrefix machineUserData ''#cloud-config'' then
           (let machineBody = trimLeftNewlines (trimPrefix machineUserData ''#cloud-config'')
            in if machineBody = '''' then bootstrapUserData
               else bootstrapUserData @ newline @ newline @ ''# merged machine userData'' @
                    newline @ machineBody)
         else buildMultipartUserData boundary [bootstrapUserData, machineUserData])"

section \<open>The SSH key\<close>

definition sshKeysSection :: "string \<Rightarrow> string" where
  "sshKeysSection sshKey = ''ssh_authorized_keys:'' @ newline @ ''- '' @ quoted sshKey @ newline"

definition usersSection :: "string \<Rightarrow> string" where
  "usersSection sshKey =
     ''users:'' @ newline @
     ''  - name: evroc-user'' @ newline @
     ''    sudo: ALL=(ALL) NOPASSWD:ALL'' @ newline @
     ''    shell: /bin/bash'' @ newline @
     ''    ssh_authorized_keys:'' @ newline @
     ''      - '' @ quoted sshKey @ newline"

definition sshConfigFor :: "string \<Rightarrow> string \<Rightarrow> string" where
  "sshConfigFor userData sshKey =
     (if containsStr userData ''ssh_authorized_keys:'' then '''' else sshKeysSection sshKey) @
     (if containsStr userData ''users:'' then '''' else usersSection sshKey)"

definition injectSSHKeyIntoCloudInit :: "string \<Rightarrow> string \<Rightarrow> goerr + string" where
  "injectSSHKeyIntoCloudInit userData sshKey =
     (if sshKey = '''' then Inr userData
      else let sshConfig = sshConfigFor userData sshKey in
        if userData = '''' then Inr (''#cloud-config'' @ newline @ sshConfig)
        else if containsStr userData ''#cloud-config'' then
          (if sshConfig = '''' then Inr userData else Inr (userData @ newline @ sshConfig))
        else Inl (newErr (''unsupported cloud-init format: expected #cloud-config, '' @
                          ''cannot inject SSH key'')))"

section \<open>Lemmas\<close>

lemma containsStr_self: "containsStr s s"
  by (rule containsStr_hasPrefix) (simp add: hasPrefix_def)

lemma hasPrefix_trans: "hasPrefix s p \<Longrightarrow> hasPrefix p q \<Longrightarrow> hasPrefix s q"
  by (auto elim!: hasPrefixE)

lemma containsStr_iff: "containsStr s p \<longleftrightarrow> (\<exists>x y. s = x @ p @ y)"
proof
  show "containsStr s p \<Longrightarrow> \<exists>x y. s = x @ p @ y"
  proof (induction s)
    case (Cons c cs)
    show ?case
    proof (cases "hasPrefix (c # cs) p")
      case True
      then show ?thesis by (metis append_Nil hasPrefixE)
    next
      case False
      then obtain x y where "cs = x @ p @ y"
        using Cons by auto
      then show ?thesis by (metis append_Cons)
    qed
  qed simp
  show "\<exists>x y. s = x @ p @ y \<Longrightarrow> containsStr s p"
    by (auto intro: containsStr_append2 containsStr_append1 containsStr_self)
qed

lemma containsStr_trans: "containsStr s p \<Longrightarrow> containsStr p q \<Longrightarrow> containsStr s q"
  by (metis append.assoc containsStr_iff)

lemma containsStr_middle: "containsStr (p @ s @ q) s"
  by (intro containsStr_append2 containsStr_append1 containsStr_self)

lemma dropWhile_trimmed:
  "dropWhile P (rev (dropWhile P (rev (dropWhile P s)))) = rev (dropWhile P (rev (dropWhile P s)))"
proof (cases "rev (dropWhile P (rev (dropWhile P s)))")
  case Nil
  then show ?thesis by (simp only: dropWhile.simps)
next
  case (Cons x xs)
  obtain ys where "dropWhile P s = rev (dropWhile P (rev (dropWhile P s))) @ ys"
    by (metis rev_append rev_rev_ident takeWhile_dropWhile_id)
  then have "dropWhile P s = x # xs @ ys"
    using Cons by simp
  then have "\<not> P x"
    by (metis dropWhile_eq_Cons_conv)
  with Cons show ?thesis by simp
qed

lemma trimSpace_idem [simp]: "trimSpace (trimSpace s) = trimSpace s"
  by (simp add: trimSpace_def dropWhile_trimmed)

lemma multipartParts_contains:
  "p \<in> set parts \<Longrightarrow> containsStr (multipartParts b first parts) (trimSpace p)"
proof (induction parts arbitrary: first)
  case (Cons q parts)
  show ?case
  proof (cases "p = q")
    case True
    have "\<exists>x y. multipartParts b first (q # parts) = x @ trimSpace q @ y" if "trimSpace q \<noteq> ''''"
      using that by (intro exI [of _ "(if first then '''' else crlf) @ ''--'' @ b @ crlf @
          partHeader (trimSpace q)"]
        exI [of _ "newline @ multipartParts b False parts"]) (simp add: Let_def)
    then show ?thesis
      using True containsStr_middle by (cases "trimSpace q = ''''") (simp, metis)
  next
    case False
    then have "containsStr (multipartParts b f parts) (trimSpace p)" for f
      using Cons by simp
    then show ?thesis
      by (auto simp: Let_def intro!: containsStr_append2)
  qed
qed simp

lemma buildMultipartUserData_contains:
  "p \<in> set parts \<Longrightarrow> containsStr (buildMultipartUserData b parts) (trimSpace p)"
  unfolding buildMultipartUserData_def
  by (intro containsStr_append2 containsStr_append1 multipartParts_contains)

lemma mergeUserData_keeps_bootstrap:
  "containsStr (mergeUserData b bootstrap machine) (trimSpace bootstrap)"
proof -
  let ?B = "trimSpace bootstrap" and ?M = "trimSpace machine"
  have "containsStr (buildMultipartUserData b [?B, ?M]) (trimSpace ?B)"
    by (rule buildMultipartUserData_contains) simp
  then show ?thesis
    by (auto simp: mergeUserData_def Let_def containsStr_self intro: containsStr_append1)
qed

lemma mergeUserData_keeps_machine:
  assumes "\<not> (hasPrefix (trimSpace bootstrap) ''#cloud-config'' \<and>
              hasPrefix (trimSpace machine) ''#cloud-config'')"
  shows "containsStr (mergeUserData b bootstrap machine) (trimSpace machine)"
proof -
  let ?B = "trimSpace bootstrap" and ?M = "trimSpace machine"
  have "containsStr (buildMultipartUserData b [?B, ?M]) (trimSpace ?M)"
    by (rule buildMultipartUserData_contains) simp
  then show ?thesis
    using assms by (auto simp: mergeUserData_def Let_def containsStr_self)
qed

lemma sshKeysSection_contains: "containsStr (sshKeysSection k) ''ssh_authorized_keys:''"
  unfolding sshKeysSection_def by (rule containsStr_append1, rule containsStr_self)

lemma usersSection_contains: "containsStr (usersSection k) ''users:''"
  unfolding usersSection_def by (rule containsStr_append1, rule containsStr_self)

lemma sshConfigFor_complete:
  "containsStr (u @ p @ sshConfigFor u k) ''ssh_authorized_keys:''"
  "containsStr (u @ p @ sshConfigFor u k) ''users:''"
  unfolding sshConfigFor_def
  by (auto simp del: containsStr.simps append_assoc
      intro: containsStr_append1 containsStr_append2 sshKeysSection_contains usersSection_contains)

text \<open>After an injection both sections are there.\<close>

lemma injectSSHKey_sections:
  assumes "injectSSHKeyIntoCloudInit u k = Inr r" and "k \<noteq> ''''"
  shows "containsStr r ''ssh_authorized_keys:'' \<and> containsStr r ''users:'' \<and>
         containsStr r ''#cloud-config''"
proof (cases "u = ''''")
  case True
  have "r = ''#cloud-config'' @ newline @ sshConfigFor '''' k"
    using assms True by (simp add: injectSSHKeyIntoCloudInit_def)
  then show ?thesis
    using sshConfigFor_complete [of "[]" "[]" k]
    by (auto simp del: containsStr.simps append_Cons
        intro: containsStr_append2 containsStr_append1 containsStr_self)
next
  case False
  then have "containsStr u ''#cloud-config''"
    and "r = (if sshConfigFor u k = '''' then u else u @ newline @ sshConfigFor u k)"
    using assms by (auto simp: injectSSHKeyIntoCloudInit_def Let_def split: if_splits)
  then show ?thesis
    using sshConfigFor_complete [of u newline k] sshConfigFor_complete [of u "[]" k]
    by (auto simp del: containsStr.simps intro: containsStr_append1 split: if_splits)
qed

lemma injectSSHKey_again:
  assumes "injectSSHKeyIntoCloudInit u k = Inr r" and "k \<noteq> ''''"
  shows "injectSSHKeyIntoCloudInit r k' = Inr r"
  using injectSSHKey_sections [OF assms]
  by (auto simp: injectSSHKeyIntoCloudInit_def sshConfigFor_def Let_def simp del: containsStr.simps(2))

lemma injectSSHKey_error_iff:
  "(\<exists>e. injectSSHKeyIntoCloudInit u k = Inl e) \<longleftrightarrow>
     k \<noteq> '''' \<and> u \<noteq> '''' \<and> \<not> containsStr u ''#cloud-config''"
  by (auto simp: injectSSHKeyIntoCloudInit_def Let_def)

text \<open>
  A cloud-config part makes a multipart document pass the test for \<open>#cloud-config\<close>; the key
  then goes after the closing boundary, where MIME readers look no further.
\<close>

lemma injectSSHKey_after_boundary:
  assumes "k \<noteq> ''''" and "p \<in> set parts" and "hasPrefix (trimSpace p) ''#cloud-config''"
    and "sshConfigFor (buildMultipartUserData b parts) k \<noteq> ''''"
  shows "\<exists>body. injectSSHKeyIntoCloudInit (buildMultipartUserData b parts) k =
    Inr (body @ closingBoundary b @ newline @ sshConfigFor (buildMultipartUserData b parts) k)"
proof -
  let ?D = "buildMultipartUserData b parts"
  have "containsStr ?D (trimSpace p)"
    using assms(2) by (rule buildMultipartUserData_contains)
  then have head: "containsStr ?D ''#cloud-config''"
    using containsStr_hasPrefix [OF assms(3)] by (rule containsStr_trans)
  then have "?D \<noteq> ''''"
    by auto
  moreover obtain body where "?D = body @ closingBoundary b"
    by (simp add: buildMultipartUserData_def)
  ultimately show ?thesis
    using head assms(1,4)
    by (intro exI [of _ body]) (simp only: injectSSHKeyIntoCloudInit_def Let_def if_True if_False append.assoc)
qed

lemma injectSSHKey_keeps:
  "injectSSHKeyIntoCloudInit u k = Inr r \<Longrightarrow> hasPrefix r u"
  by (auto simp: injectSSHKeyIntoCloudInit_def Let_def hasPrefix_def split: if_splits)

end
