(* ===== verification/MachineBuild.thy ===== *)
theory MachineBuild
  imports CloudServices UserData
begin

text \<open>
  The functions of the two controllers that compute without calling the outside: names, zones,
  references, the request for a virtual machine, addresses and disk failures.
\<close>

section \<open>Names\<close>

definition managedPublicIPName :: "string \<Rightarrow> string" where
  "managedPublicIPName machineName = machineName @ ''-public-ip''"

definition additionalDiskName :: "string \<Rightarrow> string \<Rightarrow> string" where
  "additionalDiskName machineName diskName = machineName @ ''-'' @ diskName"

definition bootDiskName :: "string \<Rightarrow> string" where
  "bootDiskName machineName = machineName @ ''-boot-disk''"

definition inlineSGName :: "string \<Rightarrow> InlineSecurityGroup \<Rightarrow> string" where
  "inlineSGName prefix inlineSG = prefix @ ''-'' @ isg_Name inlineSG"

section \<open>The resource prefix of a cluster\<close>

definition clusterResourcePrefixAnnotation :: string where
  "clusterResourcePrefixAnnotation =
     ''evroccluster.infrastructure.cluster.x-k8s.io/resource-prefix''"

definition setClusterResourcePrefixAnnotation :: "string \<Rightarrow> EvrocCluster \<Rightarrow> EvrocCluster" where
  "setClusterResourcePrefixAnnotation prefix c =
     c\<lparr>cl_Meta := (cl_Meta c)\<lparr>om_Annotations :=
        mput clusterResourcePrefixAnnotation prefix (om_Annotations (cl_Meta c))\<rparr>\<rparr>"

text \<open>The managed load balancer's name, when it has the suffix the prefix is recovered from.\<close>

definition recoveredPrefix :: "EvrocCluster \<Rightarrow> string option" where
  "recoveredPrefix c =
     (case cst_Resources (cl_Status c) of None \<Rightarrow> None
      | Some r \<Rightarrow> (case cr_LoadBalancer r of None \<Rightarrow> None
          | Some lb \<Rightarrow> if hasSuffix (mlb_ID lb) ''-cp-lb''
                      then Some (trimSuffix (mlb_ID lb) ''-cp-lb'') else None))"

text \<open>The prefix and the cluster with its annotation, as the function changes it.\<close>

definition clusterResourcePrefix :: "EvrocCluster \<Rightarrow> goerr + string \<times> EvrocCluster" where
  "clusterResourcePrefix c =
     (let prefix = mget (om_Annotations (cl_Meta c)) clusterResourcePrefixAnnotation in
      if prefix \<noteq> '''' then Inr (prefix, c)
      else case recoveredPrefix c of
          Some prefix \<Rightarrow> Inr (prefix, setClusterResourcePrefixAnnotation prefix c)
        | None \<Rightarrow>
            if om_UID (cl_Meta c) = '''' then
              Inl (newErr (''cluster '' @ om_Namespace (cl_Meta c) @ ''/'' @ om_Name (cl_Meta c) @
                '' has empty UID, cannot generate unique resource prefix''))
            else
              let prefix = om_Name (cl_Meta c) @ ''-'' @ take 8 (om_UID (cl_Meta c))
              in Inr (prefix, setClusterResourcePrefixAnnotation prefix c))"

definition resolveLoadBalancerName :: "EvrocCluster \<Rightarrow> goerr + string \<times> EvrocCluster" where
  "resolveLoadBalancerName c =
     (case clusterResourcePrefix c of
        Inl err \<Rightarrow> Inl err
      | Inr (prefix, c') \<Rightarrow> Inr (prefix @ ''-cp-lb'', c'))"

definition resolveVPCName :: "EvrocCluster \<Rightarrow> string" where
  "resolveVPCName c =
     (case net_VPCRef (cs_Network (cl_Spec c)) of Some v \<Rightarrow> v | None \<Rightarrow> '''')"

definition resolveSubnetName :: "EvrocCluster \<Rightarrow> string \<Rightarrow> string" where
  "resolveSubnetName c zone =
     (case map_of (net_SubnetRefs (cs_Network (cl_Spec c))) zone of
        Some n \<Rightarrow> n
      | None \<Rightarrow> ''default-'' @ cs_Region (cl_Spec c) @ ''-'' @ zone)"

definition resolveStackType :: "EvrocCluster \<Rightarrow> string" where
  "resolveStackType c =
     (case net_StackType (cs_Network (cl_Spec c)) of Some t \<Rightarrow> t | None \<Rightarrow> ''dual-stack'')"

definition clusterSecurityGroupNamesForRole :: "EvrocCluster option \<Rightarrow> bool \<Rightarrow> string list" where
  "clusterSecurityGroupNamesForRole cluster isCP =
     (case cluster of None \<Rightarrow> []
      | Some c \<Rightarrow> (case cst_Resources (cl_Status c) of None \<Rightarrow> []
          | Some r \<Rightarrow>
              let roleFilter = (if isCP then ''controlPlane'' else ''worker'')
              in map msg_ID (filter (\<lambda>sg. msg_Role sg = ''common'' \<or> msg_Role sg = roleFilter)
                   (cr_SecurityGroups r))))"

section \<open>Label information\<close>

record clusterLabelInfo =
  ci_ID :: string
  ci_AdditionalLabels :: gomap
  ci_VPCName :: string

definition clusterLabelInfoFrom :: "EvrocCluster option \<Rightarrow> clusterLabelInfo" where
  "clusterLabelInfoFrom evrocCluster =
     (case evrocCluster of
        None \<Rightarrow> \<lparr>ci_ID = '''', ci_AdditionalLabels = [], ci_VPCName = ''''\<rparr>
      | Some c \<Rightarrow> \<lparr>ci_ID = clusterOwnershipID (Some c),
                   ci_AdditionalLabels = cs_AdditionalLabels (cl_Spec c),
                   ci_VPCName = (case net_VPCRef (cs_Network (cl_Spec c)) of
                                   Some v \<Rightarrow> v | None \<Rightarrow> '''')\<rparr>)"

definition externalCloudProviderAnnotation :: string where
  "externalCloudProviderAnnotation = ''infrastructure.cluster.x-k8s.io/external-cloud-provider''"

definition usesExternalCloudProvider :: "EvrocCluster option \<Rightarrow> bool" where
  "usesExternalCloudProvider evrocCluster =
     (case evrocCluster of None \<Rightarrow> False
      | Some c \<Rightarrow> toLowerStr (trimSpace
          (mget (om_Annotations (cl_Meta c)) externalCloudProviderAnnotation)) = ''true'')"

section \<open>Zones\<close>

type_synonym zoneCounts = "string \<Rightarrow> nat"

definition countZones :: "string \<Rightarrow> EvrocMachine list \<Rightarrow> zoneCounts" where
  "countZones self machines =
     fold (\<lambda>m counts.
       if om_Name (m_Meta m) = self then counts
       else let z = mst_AvailabilityZone (m_Status m)
            in if z \<noteq> '''' then counts(z := counts z + 1) else counts)
       machines (\<lambda>_. 0)"

definition leastUsedZone :: "string list \<Rightarrow> zoneCounts \<Rightarrow> string" where
  "leastUsedZone failureDomains counts =
     (case failureDomains of [] \<Rightarrow> ''''
      | fd0 # fds \<Rightarrow>
          fst (fold (\<lambda>fd (best, bestCount).
                 if counts fd < bestCount then (fd, counts fd) else (best, bestCount))
               fds (fd0, counts fd0)))"

section \<open>The owner Machine\<close>

fun getOwnerMachineRef :: "Env \<Rightarrow> OwnerReference list \<Rightarrow> string \<times> string" where
  "getOwnerMachineRef E [] = ('''', '''')"
| "getOwnerMachineRef E (ref # refs) =
     (case s_parseGroupVersion E (or_APIVersion ref) of
        None \<Rightarrow> getOwnerMachineRef E refs
      | Some g \<Rightarrow> if or_Kind ref = ''Machine'' \<and> g = ''cluster.x-k8s.io''
                  then (or_Name ref, or_APIVersion ref)
                  else getOwnerMachineRef E refs)"

section \<open>Images and disks\<close>

definition isCustomDiskImage :: "string \<Rightarrow> bool" where
  "isCustomDiskImage img \<longleftrightarrow> hasPrefix img ''custom:'' \<or> hasPrefix img ''/compute/projects/''"

definition hasCustomImage :: "EvrocMachine \<Rightarrow> bool" where
  "hasCustomImage m \<longleftrightarrow>
     isCustomDiskImage (ms_Image (m_Spec m)) \<or>
     list_ex (\<lambda>d. case ad_Image d of None \<Rightarrow> False | Some i \<Rightarrow> isCustomDiskImage i)
       (ms_AdditionalDisks (m_Spec m))"

definition terminalMarkers :: "string list" where
  "terminalMarkers = [''failed'', ''failure'', ''error'', ''invalid'', ''unavailable'', ''denied'',
     ''exceeded'', ''toosmall'']"

definition isTerminalDiskReason :: "string \<Rightarrow> bool" where
  "isTerminalDiskReason reason \<longleftrightarrow>
     list_ex (\<lambda>marker. containsStr (toLowerStr reason) marker) terminalMarkers"

fun diskErrorIn :: "DiskCondition list \<Rightarrow> string \<times> string" where
  "diskErrorIn [] = ('''', '''')"
| "diskErrorIn (c # cs) =
     (if dc_Type c \<noteq> ''Ready'' \<or> dc_Status c \<noteq> ''False'' \<or> dc_Reason c = '''' then diskErrorIn cs
      else if \<not> isTerminalDiskReason (dc_Reason c) then diskErrorIn cs
      else (dc_Reason c, dc_Message c))"

definition getDiskErrorCondition :: "Disk \<Rightarrow> string \<times> string" where
  "getDiskErrorCondition disk =
     (case d_Conditions disk of None \<Rightarrow> ('''', '''') | Some cs \<Rightarrow> diskErrorIn cs)"

section \<open>The virtual machine request\<close>

definition buildDisks :: "EvrocMachine \<Rightarrow> VmDiskItem list" where
  "buildDisks m =
     (if ms_RootDiskSize (m_Spec m) > 0
      then [\<lparr>vdi_DiskRef = bootDiskName (om_Name (m_Meta m)), vdi_BootFrom = Some True\<rparr>] else []) @
     map (\<lambda>disk. \<lparr>vdi_DiskRef = additionalDiskName (om_Name (m_Meta m)) (ad_Name disk),
                  vdi_BootFrom = None\<rparr>) (ms_AdditionalDisks (m_Spec m))"

definition buildPlacement :: "EvrocMachine \<Rightarrow> VmPlacement" where
  "buildPlacement m =
     \<lparr>vp_Zone = (if mst_AvailabilityZone (m_Status m) \<noteq> ''''
                 then Some (mst_AvailabilityZone (m_Status m)) else None),
      vp_PlacementGroupRef =
        (case ms_PlacementConfig (m_Spec m) of None \<Rightarrow> None | Some p \<Rightarrow> pc_ExistingGroupID p)\<rparr>"

definition buildOSSettings :: "EvrocMachine \<Rightarrow> string \<Rightarrow> goerr + string option" where
  "buildOSSettings m userData =
     (if userData = '''' \<and> ms_SSHKey (m_Spec m) = '''' then Inr None
      else case injectSSHKeyIntoCloudInit userData (ms_SSHKey (m_Spec m)) of
          Inl err \<Rightarrow> Inl (wrapErr ''failed to inject SSH key into cloud-init'' err)
        | Inr u \<Rightarrow> Inr (Some u))"

definition resolvePublicIPRef :: "EvrocMachine \<Rightarrow> EvrocCluster option \<Rightarrow> string" where
  "resolvePublicIPRef m evrocCluster =
     (case ms_NetworkingConfig (m_Spec m) of None \<Rightarrow> ''''
      | Some n \<Rightarrow> (case mnc_PublicIP n of None \<Rightarrow> ''''
          | Some p \<Rightarrow> (case pip_ExistingID p of
                Some i \<Rightarrow> i
              | None \<Rightarrow> if pip_Enabled p then managedPublicIPName (om_Name (m_Meta m)) else '''')))"

definition machineSGConfig :: "EvrocMachine \<Rightarrow> MachineSecurityGroupsConfig option" where
  "machineSGConfig m =
     (case ms_NetworkingConfig (m_Spec m) of None \<Rightarrow> None | Some n \<Rightarrow> mnc_SecurityGroups n)"

text \<open>
  The names of the security groups a machine asks for: the same loop in \<open>buildNetworking\<close> and
  \<open>reconcileVMSecurityGroups\<close>.
\<close>

definition desiredSecurityGroups :: "EvrocMachine \<Rightarrow> EvrocCluster option \<Rightarrow> string list" where
  "desiredSecurityGroups m evrocCluster =
     (case machineSGConfig m of None \<Rightarrow> []
      | Some sgConfig \<Rightarrow>
          (if msgc_InheritFromCluster sgConfig
           then clusterSecurityGroupNamesForRole evrocCluster (isControlPlane m) else []) @
          map (inlineSGName (om_Name (m_Meta m))) (msgc_InlineSecurityGroups sgConfig) @
          msgc_ExistingIDs sgConfig)"

definition buildNetworking :: "EvrocMachine \<Rightarrow> EvrocCluster option \<Rightarrow> VmNetworking" where
  "buildNetworking m evrocCluster =
     (let publicIPRef = resolvePublicIPRef m evrocCluster;
          sgRefs = desiredSecurityGroups m evrocCluster
      in \<lparr>vnw_StackType =
            (case evrocCluster of None \<Rightarrow> None | Some c \<Rightarrow> net_StackType (cs_Network (cl_Spec c))),
          vnw_PublicIPRef = (if publicIPRef \<noteq> '''' then Some publicIPRef else None),
          vnw_SecurityGroupMemberRefs = (if length sgRefs > 0 then Some sgRefs else None),
          vnw_SubnetRef = ''''\<rparr>)"

text \<open>
  The fields the code hands to the SDK's builder and sets afterwards; \<open>vr_ComputeProfileRef\<close> is
  what \<open>WithVMInstanceType\<close> was given.
\<close>

definition buildVMRequest ::
    "Env \<Rightarrow> EvrocMachine \<Rightarrow> string \<Rightarrow> EvrocCluster option \<Rightarrow> goerr + VirtualMachineRequest" where
  "buildVMRequest E m userData evrocCluster =
     (case buildOSSettings m userData of
        Inl err \<Rightarrow> Inl err
      | Inr osSettings \<Rightarrow>
          let networking = buildNetworking m evrocCluster;
              networking =
                (case evrocCluster of None \<Rightarrow> networking
                 | Some c \<Rightarrow> networking\<lparr>vnw_SubnetRef :=
                     SubnetRef E (resolveSubnetName c (mst_AvailabilityZone (m_Status m)))\<rparr>)
          in Inr \<lparr>vr_Name = om_Name (m_Meta m),
                  vr_ComputeProfileRef = ms_ComputeProfile (m_Spec m),
                  vr_Running = True,
                  vr_Labels = buildLabels m evrocCluster,
                  vr_Disks = buildDisks m,
                  vr_Placement = buildPlacement m,
                  vr_CloudInitUserData = osSettings,
                  vr_Networking = networking\<rparr>)"

section \<open>Addresses\<close>

definition addressOf :: "NodeAddressType \<Rightarrow> string option \<Rightarrow> NodeAddress list" where
  "addressOf t a = (case a of None \<Rightarrow> []
     | Some a \<Rightarrow> if a \<noteq> '''' then [\<lparr>na_Type = t, na_Address = a\<rparr>] else [])"

definition extractMachineAddresses :: "VirtualMachine \<Rightarrow> NodeAddress list" where
  "extractMachineAddresses vm =
     (case vm_Networking vm of None \<Rightarrow> []
      | Some n \<Rightarrow> addressOf NodeInternalIP (vn_PrivateIPv4Address n) @
                  addressOf NodeExternalIP (vn_PublicIPv4Address n) @
                  addressOf NodeInternalIP (vn_Ipv6Address n)) @
     (if md_Id (vm_Meta vm) \<noteq> ''''
      then [\<lparr>na_Type = NodeHostName, na_Address = md_Id (vm_Meta vm)\<rparr>] else [])"

section \<open>Lemmas: zones\<close>

lemma fold_least:
  assumes "c0 = counts b0"
  shows "case fold (\<lambda>fd (best, bestCount).
             if counts fd < bestCount then (fd, counts fd) else (best, bestCount)) fds (b0, c0) of
           (b, c) \<Rightarrow> c = counts b \<and> (b = b0 \<or> b \<in> set fds) \<and> c \<le> (c0::nat) \<and>
             (\<forall>fd\<in>set fds. c \<le> counts fd)"
  using assms
proof (induction fds arbitrary: b0 c0)
  case (Cons fd fds)
  show ?case
  proof (cases "counts fd < c0")
    case True
    then show ?thesis
      using Cons.IH [of "counts fd" fd] by (auto split: prod.splits)
  next
    case False
    then show ?thesis
      using Cons.IH [of c0 b0] Cons.prems by (auto split: prod.splits)
  qed
qed simp

lemma leastUsedZone_in: "fds \<noteq> [] \<Longrightarrow> leastUsedZone fds counts \<in> set fds"
  using fold_least [OF refl, of counts "hd fds" "tl fds"]
  by (cases fds) (auto simp: leastUsedZone_def split: prod.splits)

lemma leastUsedZone_least: "fd \<in> set fds \<Longrightarrow> counts (leastUsedZone fds counts) \<le> counts fd"
  using fold_least [OF refl, of counts "hd fds" "tl fds"]
  by (cases fds) (auto simp: leastUsedZone_def split: prod.splits)

text \<open>Ties go to the zone that comes first.\<close>

lemma fold_least_first:
  assumes "\<forall>fd\<in>set fds. (c0::nat) \<le> counts fd"
  shows "fold (\<lambda>fd (best, bestCount).
      if counts fd < bestCount then (fd, counts fd) else (best, bestCount)) fds (b0, c0) = (b0, c0)"
  using assms by (induction fds) (auto simp: not_less)

lemma fold_least_skip:
  assumes "\<forall>fd\<in>set xs. c < counts fd" "c < c0" "c = counts b"
  shows "fold (\<lambda>fd (best, bestCount).
      if counts fd < bestCount then (fd, counts fd) else (best, bestCount)) (xs @ [b]) (b0, c0) =
      (b, c::nat)"
  using assms by (induction xs arbitrary: b0 c0) auto

lemma leastUsedZone_first:
  assumes "\<forall>fd\<in>set xs. counts b < counts fd" and "\<forall>fd\<in>set ys. counts b \<le> counts fd"
  shows "leastUsedZone (xs @ b # ys) counts = b"
proof (cases xs)
  case Nil
  then show ?thesis
    using fold_least_first [OF assms(2), of b] by (simp add: leastUsedZone_def)
next
  case (Cons x xs')
  have "fold (\<lambda>fd (best, bestCount).
      if counts fd < bestCount then (fd, counts fd) else (best, bestCount)) (xs' @ [b]) (x, counts x) =
      (b, counts b)"
    using assms(1) Cons by (intro fold_least_skip) auto
  then show ?thesis
    using fold_least_first [OF assms(2), of b] Cons by (simp add: leastUsedZone_def)
qed

lemma countZones_aux:
  "fold (\<lambda>m counts.
       if om_Name (m_Meta m) = self then counts
       else let z = mst_AvailabilityZone (m_Status m)
            in if z \<noteq> '''' then counts(z := counts z + 1) else counts)
     machines c0 z = c0 z + (if z = '''' then 0 else
       length (filter (\<lambda>m. om_Name (m_Meta m) \<noteq> self \<and> mst_AvailabilityZone (m_Status m) = z) machines))"
  by (induction machines arbitrary: c0) (simp_all add: Let_def)

lemma countZones_eq:
  "z \<noteq> '''' \<Longrightarrow> countZones self machines z =
     length (filter (\<lambda>m. om_Name (m_Meta m) \<noteq> self \<and> mst_AvailabilityZone (m_Status m) = z) machines)"
  by (simp add: countZones_def countZones_aux)

section \<open>Lemmas: the resource prefix\<close>

lemma mget_setPrefix:
  "mget (om_Annotations (cl_Meta (setClusterResourcePrefixAnnotation p c)))
     clusterResourcePrefixAnnotation = p"
  by (simp add: setClusterResourcePrefixAnnotation_def)

lemma clusterResourcePrefix_cases:
  "clusterResourcePrefix c = Inr (p, c') \<Longrightarrow>
     c' = c \<and> p = mget (om_Annotations (cl_Meta c)) clusterResourcePrefixAnnotation \<and> p \<noteq> '''' \<or>
     c' = setClusterResourcePrefixAnnotation p c"
  by (auto simp: clusterResourcePrefix_def Let_def split: if_splits option.splits)

lemma clusterResourcePrefix_stable:
  assumes "clusterResourcePrefix c = Inr (p, c')" and "p \<noteq> ''''"
    and "mget (om_Annotations (cl_Meta d)) clusterResourcePrefixAnnotation =
         mget (om_Annotations (cl_Meta c')) clusterResourcePrefixAnnotation"
  shows "clusterResourcePrefix d = Inr (p, d)"
  using clusterResourcePrefix_cases [OF assms(1)] assms(2,3)
  by (auto simp: mget_setPrefix clusterResourcePrefix_def Let_def)

lemma clusterResourcePrefix_status:
  assumes "clusterResourcePrefix c = Inr (p, c')"
  shows "cl_Spec c' = cl_Spec c" and "cl_Status c' = cl_Status c"
  using clusterResourcePrefix_cases [OF assms]
  by (auto simp: setClusterResourcePrefixAnnotation_def)

text \<open>
  What a move does: the object comes back with another UID and without status.  The prefix is
  the one it had.
\<close>

lemma clusterResourcePrefix_fresh:
  assumes "mget (om_Annotations (cl_Meta c)) clusterResourcePrefixAnnotation = ''''"
    and "recoveredPrefix c = None" and "om_UID (cl_Meta c) \<noteq> ''''"
  shows "clusterResourcePrefix c =
    (let p = om_Name (cl_Meta c) @ ''-'' @ take 8 (om_UID (cl_Meta c))
     in Inr (p, setClusterResourcePrefixAnnotation p c))"
  using assms by (simp add: clusterResourcePrefix_def Let_def)

section \<open>Lemmas: references and groups\<close>

lemma nameOfRef_append: "CHR ''/'' \<notin> set n \<Longrightarrow> nameOfRef (p @ ''/'' @ n) = n"
  by (simp add: nameOfRef_def last_splitOn_append)

lemma nameOfRef_plain: "CHR ''/'' \<notin> set n \<Longrightarrow> nameOfRef n = n"
  by (simp add: nameOfRef_def splitOn_absent)

lemma securityGroupsEqual_refl: "securityGroupsEqual a a"
  by (simp add: securityGroupsEqual_def list_all_iff)

text \<open>When the desired names are distinct, equality is equality as sets of the same size.\<close>

lemma securityGroupsEqual_set:
  assumes "distinct b"
  shows "securityGroupsEqual a b \<longleftrightarrow> distinct a \<and> set a = set b"
proof
  assume eq: "securityGroupsEqual a b"
  then have len: "length a = length b" and sub: "set b \<subseteq> set a"
    by (auto simp: securityGroupsEqual_def list_all_iff split: if_splits)
  have "card (set a) \<le> length a" and "card (set b) = length b"
    using assms by (auto simp: card_length distinct_card)
  moreover have "card (set b) \<le> card (set a)"
    using sub by (auto intro: card_mono)
  ultimately have "card (set a) = length a" and "card (set b) = card (set a)"
    using len by auto
  then show "distinct a \<and> set a = set b"
    using sub card_subset_eq [of "set a" "set b"] card_distinct by auto
next
  assume "distinct a \<and> set a = set b"
  then show "securityGroupsEqual a b"
    using assms by (auto simp: securityGroupsEqual_def list_all_iff distinct_card [symmetric])
qed

section \<open>Lemmas: the request\<close>

lemma buildVMRequest_fields:
  assumes "buildVMRequest E m u c = Inr r"
  shows "vr_Name r = om_Name (m_Meta m)"
    and "vr_Labels r = buildLabels m c"
    and "vr_Disks r = buildDisks m"
    and "vp_Zone (vr_Placement r) =
      (if mst_AvailabilityZone (m_Status m) \<noteq> '''' then Some (mst_AvailabilityZone (m_Status m)) else None)"
    and "vr_ComputeProfileRef r = ms_ComputeProfile (m_Spec m)"
  using assms by (auto simp: buildVMRequest_def buildPlacement_def Let_def split: sum.splits)

lemma diskErrorIn_terminal:
  "fst (diskErrorIn cs) \<noteq> '''' \<Longrightarrow>
     \<exists>c\<in>set cs. dc_Type c = ''Ready'' \<and> dc_Status c = ''False'' \<and> isTerminalDiskReason (dc_Reason c) \<and>
       diskErrorIn cs = (dc_Reason c, dc_Message c)"
  by (induction cs) auto

end
