(* ===== verification/MachineWebhook.thy ===== *)
theory MachineWebhook
  imports Admission MachineBuild
begin

text \<open>
  \<open>evrocmachine_webhook.go\<close>: defaulting and validation of machines at admission, and the
  declarative description of the machines it accepts.
\<close>

section \<open>Defaults\<close>

definition defaultSGs :: "MachineSecurityGroupsConfig \<Rightarrow> MachineSecurityGroupsConfig" where
  "defaultSGs g =
     (if \<not> msgc_InheritFromCluster g \<and> length (msgc_InlineSecurityGroups g) = 0 \<and>
         length (msgc_ExistingIDs g) = 0
      then g\<lparr>msgc_InheritFromCluster := True\<rparr> else g)"

definition defaultNetworking :: "MachineNetworkingConfig option \<Rightarrow> MachineNetworkingConfig" where
  "defaultNetworking c =
     (let net = (case c of None \<Rightarrow> \<lparr>mnc_PublicIP = None, mnc_SecurityGroups = None\<rparr> | Some n \<Rightarrow> n);
          sgs = (case mnc_SecurityGroups net of
                   None \<Rightarrow> \<lparr>msgc_InheritFromCluster = False, msgc_InlineSecurityGroups = [], msgc_ExistingIDs = []\<rparr>
                 | Some g \<Rightarrow> g)
      in net\<lparr>mnc_SecurityGroups := Some (defaultSGs sgs)\<rparr>)"

text \<open>The default image is a constant of the SDK.\<close>

definition defaultMachine :: "Env \<Rightarrow> EvrocMachine \<Rightarrow> EvrocMachine" where
  "defaultMachine E m =
     m\<lparr>m_Spec := (m_Spec m)
       \<lparr>ms_Region := (if ms_Region (m_Spec m) = '''' then ''se-sto'' else ms_Region (m_Spec m)),
        ms_Image := (if ms_Image (m_Spec m) = '''' then s_defaultImage E else ms_Image (m_Spec m)),
        ms_NetworkingConfig := Some (defaultNetworking (ms_NetworkingConfig (m_Spec m)))\<rparr>\<rparr>"

definition MachineDefaulter_Default :: "Env \<Rightarrow> runtimeObject \<Rightarrow> string + runtimeObject" where
  "MachineDefaulter_Default E obj =
     (case obj of MachineObject m \<Rightarrow> Inr (MachineObject (defaultMachine E m))
      | _ \<Rightarrow> Inl (''expected an EvrocMachine but got a '' @ goType obj))"

section \<open>Validation\<close>

text \<open>Syntax and scope of an image, in the project and region of the machine.\<close>

definition validateImage :: "EvrocMachineSpec \<Rightarrow> fieldPath \<Rightarrow> string \<Rightarrow> fieldError list" where
  "validateImage spec fldPath img =
     (case cutPrefix img ''custom:'' of
        Some name \<Rightarrow> errIf (\<not> customDiskImageNamePattern name) (FieldInvalid fldPath (BadString img)
          (''custom image must be custom:<name>; name must start with an alphanumeric character and '' @
           ''contain only letters, digits, dots, underscores or hyphens''))
      | None \<Rightarrow>
          let stockName = StockName img in
          if \<not> hasPrefix stockName ''/'' then
            errIf (stockName = '''') (FieldRequired fldPath ''stock image name must not be empty'')
          else
            (case customDiskImageRefPattern img of
               None \<Rightarrow> [FieldInvalid fldPath (BadString img)
                 (''custom disk image ref must have the form '' @
                  ''/compute/projects/<project>/regions/<region>/customDiskImages/<name>'')]
             | Some (project, region, _) \<Rightarrow>
                 errIf (ms_Project spec \<noteq> '''' \<and> project \<noteq> ms_Project spec) (FieldInvalid fldPath (BadString img)
                   (''custom disk image must be in the machine's project '' @ quoted (ms_Project spec))) @
                 errIf (ms_Region spec \<noteq> '''' \<and> region \<noteq> ms_Region spec) (FieldInvalid fldPath (BadString img)
                   (''custom disk image must be in the machine's region '' @ quoted (ms_Region spec)))))"

text \<open>A name that the controller appends to the machine's.\<close>

definition derivedErrs :: "EvrocMachine \<Rightarrow> fieldPath \<Rightarrow> string \<Rightarrow> fieldError list" where
  "derivedErrs m path name =
     errIf (length (om_Name (m_Meta m)) > 0 \<and> slen (om_Name (m_Meta m)) + 1 + slen name > evrocMaxResourceNameLen)
       (FieldTooLong path name (evrocMaxResourceNameLen - slen (om_Name (m_Meta m)) - 1))"

definition diskErrs :: "EvrocMachine \<Rightarrow> nat \<Rightarrow> bool \<Rightarrow> AdditionalDiskSpec \<Rightarrow> fieldError list" where
  "diskErrs m i seen disk =
     (let diskPath = AtIndex (NewPath [''spec'', ''additionalDisks'']) i in
      (case ad_Image disk of None \<Rightarrow> []
       | Some img \<Rightarrow> if img \<noteq> '''' then validateImage (m_Spec m) (Child diskPath ''image'') img else []) @
      errIf seen (FieldDuplicate (Child diskPath ''name'') (ad_Name disk)) @
      derivedErrs m (Child diskPath ''name'') (ad_Name disk))"

definition machineSGPath :: "string \<Rightarrow> nat \<Rightarrow> fieldPath" where
  "machineSGPath f i = AtIndex (NewPath [''spec'', ''networkingConfig'', ''securityGroups'', f]) i"

definition machineInlineErrs :: "EvrocMachine \<Rightarrow> nat \<Rightarrow> bool \<Rightarrow> InlineSecurityGroup \<Rightarrow> fieldError list" where
  "machineInlineErrs m i seen sg =
     (let sgPath = machineSGPath ''inlineSecurityGroups'' i in
      errIf seen (FieldDuplicate (Child sgPath ''name'') (isg_Name sg)) @
      derivedErrs m (Child sgPath ''name'') (isg_Name sg) @ rulesErrs sgPath (isg_Rules sg))"

definition machineSGErrs :: "EvrocMachine \<Rightarrow> MachineSecurityGroupsConfig \<Rightarrow> fieldError list" where
  "machineSGErrs m g =
     eachNamed isg_Name (machineInlineErrs m) 0 [] (msgc_InlineSecurityGroups g) @
     eachNamed id (\<lambda>i seen name. errIf seen (FieldDuplicate (machineSGPath ''existingIDs'' i) name)) 0
       (rev (map isg_Name (msgc_InlineSecurityGroups g))) (msgc_ExistingIDs g)"

definition requiredErrs :: "EvrocMachineSpec \<Rightarrow> fieldError list" where
  "requiredErrs spec =
     errIf (ms_Project spec = '''') (FieldRequired (NewPath [''spec'', ''project'']) ''project must be specified'') @
     errIf (ms_Region spec = '''') (FieldRequired (NewPath [''spec'', ''region'']) ''region must be specified'') @
     errIf (ms_ComputeProfile spec = '''')
       (FieldRequired (NewPath [''spec'', ''computeProfile'']) ''compute profile must be specified'') @
     errIf (ms_Image spec = '''') (FieldRequired (NewPath [''spec'', ''image'']) ''image must be specified'')"

definition rootDiskErrs :: "int \<Rightarrow> fieldError list" where
  "rootDiskErrs gb =
     errIf (gb < 10) (FieldInvalid (NewPath [''spec'', ''rootDiskSize'']) (BadInt gb)
       ''rootDiskSize must be at least 10 GB'') @
     errIf (gb > 10000) (FieldInvalid (NewPath [''spec'', ''rootDiskSize'']) (BadInt gb)
       ''rootDiskSize must not exceed 10000 GB (10 TB)'')"

definition machineNameErrs :: "string \<Rightarrow> fieldError list" where
  "machineNameErrs name =
     (let machineResourceOverhead = 10 in
      errIf (slen name + machineResourceOverhead > evrocMaxResourceNameLen)
        (FieldTooLong (NewPath [''metadata'', ''name'']) name (evrocMaxResourceNameLen - machineResourceOverhead)))"

definition publicIPErrs :: "EvrocMachineSpec \<Rightarrow> fieldError list" where
  "publicIPErrs spec =
     (case ms_NetworkingConfig spec of None \<Rightarrow> []
      | Some net \<Rightarrow> (case mnc_PublicIP net of None \<Rightarrow> []
        | Some ip \<Rightarrow> errIf (pip_Enabled ip \<and> pip_ExistingID ip \<noteq> None)
            (FieldForbidden (NewPath [''spec'', ''networkingConfig'', ''publicIP''])
              ''cannot specify both enabled (auto-create) and existingID (external)'')))"

definition machineErrs :: "EvrocMachine \<Rightarrow> fieldError list" where
  "machineErrs m =
     (let spec = m_Spec m in
      requiredErrs spec @
      (if ms_Image spec \<noteq> '''' then validateImage spec (NewPath [''spec'', ''image'']) (ms_Image spec) else []) @
      errIf (ms_Region spec \<noteq> '''' \<and> \<not> regionPattern (ms_Region spec))
        (FieldInvalid (NewPath [''spec'', ''region'']) (BadString (ms_Region spec))
          ''region must be in format xx-xxx (e.g., se-sto)'') @
      rootDiskErrs (ms_RootDiskSize spec) @
      machineNameErrs (om_Name (m_Meta m)) @
      (if length (ms_AdditionalLabels spec) > 0
       then validateAdditionalLabels (ms_AdditionalLabels spec) (NewPath [''spec'', ''additionalLabels''])
       else []) @
      publicIPErrs spec @
      (if length (ms_AdditionalDisks spec) > 0
       then eachNamed ad_Name (diskErrs m) 0 [] (ms_AdditionalDisks spec) else []) @
      (case ms_NetworkingConfig spec of None \<Rightarrow> []
       | Some net \<Rightarrow> (case mnc_SecurityGroups net of None \<Rightarrow> [] | Some g \<Rightarrow> machineSGErrs m g)))"

definition profileWarnings :: "EvrocMachineSpec \<Rightarrow> string list" where
  "profileWarnings spec =
     (if gpuComputeProfilePattern (ms_ComputeProfile spec)
      then [''GPU-enabled compute profiles may have limited availability and higher costs''] else []) @
     (if ms_RootDiskSize spec < 50 \<and> ms_RootDiskSize spec \<ge> 10
      then [''rootDiskSize less than 50 GB is not recommended for production workloads''] else [])"

definition controlPlaneWarnings :: "EvrocMachine \<Rightarrow> string list" where
  "controlPlaneWarnings m =
     (if mhas (om_Labels (m_Meta m)) ''cluster.x-k8s.io/control-plane'' \<and>
         \<not> (case machineSGConfig m of None \<Rightarrow> False | Some g \<Rightarrow> msgc_InheritFromCluster g)
      then [''Control plane machine does not have networkingConfig.securityGroups.inheritFromCluster: true. '' @
            ''The cluster's controlPlane security groups and public IP (if enabled) will NOT be applied '' @
            ''to this VM. Add networkingConfig.securityGroups.inheritFromCluster: true to your '' @
            ''EvrocMachineTemplate.''] else [])"

definition validateEvrocMachine :: "EvrocMachine \<Rightarrow> string list \<times> fieldError list" where
  "validateEvrocMachine m = (profileWarnings (m_Spec m) @ controlPlaneWarnings m, machineErrs m)"

section \<open>The webhook\<close>

definition MachineValidator_ValidateCreate :: "runtimeObject \<Rightarrow> verdict" where
  "MachineValidator_ValidateCreate obj =
     (case obj of
        MachineObject m \<Rightarrow> (case validateEvrocMachine m of (warnings, errs) \<Rightarrow> rejectErrs warnings errs)
      | _ \<Rightarrow> ([], Some (WrongType (''expected an EvrocMachine but got a '' @ goType obj))))"

definition machineImmutableErrs :: "EvrocMachineSpec \<Rightarrow> EvrocMachineSpec \<Rightarrow> fieldError list" where
  "machineImmutableErrs old new =
     errIf (ms_Project new \<noteq> ms_Project old)
       (FieldForbidden (NewPath [''spec'', ''project'']) ''project is immutable'') @
     errIf (ms_Region new \<noteq> ms_Region old)
       (FieldForbidden (NewPath [''spec'', ''region'']) ''region is immutable'') @
     errIf (ms_ComputeProfile new \<noteq> ms_ComputeProfile old)
       (FieldForbidden (NewPath [''spec'', ''computeProfile''])
         ''compute profile is immutable; create a new machine with the desired profile'') @
     errIf (ms_Image new \<noteq> ms_Image old)
       (FieldForbidden (NewPath [''spec'', ''image''])
         ''image is immutable; create a new machine with the desired image'') @
     errIf (ms_RootDiskSize new \<noteq> ms_RootDiskSize old)
       (FieldForbidden (NewPath [''spec'', ''rootDiskSize''])
         ''root disk size is immutable; create a new machine with the desired size'')"

definition MachineValidator_ValidateUpdate :: "runtimeObject \<Rightarrow> runtimeObject \<Rightarrow> verdict" where
  "MachineValidator_ValidateUpdate oldObj newObj =
     (case newObj of
        MachineObject r \<Rightarrow>
          (case oldObj of
             MachineObject old \<Rightarrow>
               (case validateEvrocMachine r of (warnings, validationErrs) \<Rightarrow>
                  rejectErrs warnings (machineImmutableErrs (m_Spec old) (m_Spec r) @ validationErrs))
           | _ \<Rightarrow> ([], Some (WrongType (''expected an EvrocMachine but got a '' @ goType oldObj))))
      | _ \<Rightarrow> ([], Some (WrongType (''expected an EvrocMachine but got a '' @ goType newObj))))"

definition MachineValidator_ValidateDelete :: "runtimeObject \<Rightarrow> verdict" where
  "MachineValidator_ValidateDelete obj = ([], None)"

section \<open>What is accepted\<close>

definition validImage :: "EvrocMachineSpec \<Rightarrow> string \<Rightarrow> bool" where
  "validImage spec img \<longleftrightarrow>
     (if hasPrefix img ''custom:'' then customDiskImageNamePattern (drop (length ''custom:'') img)
      else if hasPrefix (StockName img) ''/'' then
        (\<exists>p r n. segment p \<and> segment r \<and> segment n \<and> img = customImageRef p r n \<and>
           (ms_Project spec = '''' \<or> p = ms_Project spec) \<and> (ms_Region spec = '''' \<or> r = ms_Region spec))
      else StockName img \<noteq> '''')"

lemma validateImage_iff: "validateImage spec path img = [] \<longleftrightarrow> validImage spec img"
proof (cases "hasPrefix img ''custom:'' \<or> \<not> hasPrefix (StockName img) ''/''")
  case True
  then show ?thesis
    by (auto simp: validateImage_def validImage_def cutPrefix_def Let_def)
next
  case False
  have refs: "(\<exists>p r n. segment p \<and> segment r \<and> segment n \<and> img = customImageRef p r n \<and> Q p r) \<longleftrightarrow>
      (case customDiskImageRefPattern img of None \<Rightarrow> False | Some (p, r, n) \<Rightarrow> Q p r)" for Q
  proof -
    have "(\<exists>p r n. segment p \<and> segment r \<and> segment n \<and> img = customImageRef p r n \<and> Q p r) \<longleftrightarrow>
        (\<exists>p r n. customDiskImageRefPattern img = Some (p, r, n) \<and> Q p r)"
      by (simp add: customDiskImageRefPattern_iff)
    then show ?thesis
      by (auto split: option.split)
  qed
  show ?thesis
    using False unfolding validateImage_def validImage_def refs
    by (auto simp: cutPrefix_def Let_def split: option.split)
qed

interpretation imageCheck: field_check "validateImage spec" "validImage spec" for spec
  by unfold_locales (rule validateImage_iff)

text \<open>The name the controller derives from the machine's and \<open>n\<close> fits.\<close>

definition derivedFits :: "EvrocMachine \<Rightarrow> string \<Rightarrow> bool" where
  "derivedFits m n \<longleftrightarrow> om_Name (m_Meta m) = '''' \<or> length (om_Name (m_Meta m)) + 1 + length n \<le> 63"

lemma derivedErrs_iff: "derivedErrs m path n = [] \<longleftrightarrow> derivedFits m n"
  by (auto simp: derivedErrs_def derivedFits_def evrocMaxResourceNameLen_def)

definition diskOk :: "EvrocMachine \<Rightarrow> AdditionalDiskSpec \<Rightarrow> bool" where
  "diskOk m d \<longleftrightarrow> (\<forall>img. ad_Image d = Some img \<and> img \<noteq> '''' \<longrightarrow> validImage (m_Spec m) img) \<and>
     derivedFits m (ad_Name d)"

definition inlineOk :: "EvrocMachine \<Rightarrow> InlineSecurityGroup \<Rightarrow> bool" where
  "inlineOk m g \<longleftrightarrow> derivedFits m (isg_Name g) \<and> list_all ruleOk (isg_Rules g)"

interpretation diskCheck: field_check "\<lambda>i. diskErrs m i False" "diskOk m" for m
  by unfold_locales
     (auto simp: diskErrs_def diskOk_def derivedErrs_iff validateImage_iff Let_def split: option.splits)

interpretation inlineCheck: field_check "\<lambda>i. machineInlineErrs m i False" "inlineOk m" for m
  by unfold_locales (auto simp: machineInlineErrs_def inlineOk_def derivedErrs_iff rulesErrs_iff Let_def)

lemma disks_iff:
  "eachNamed ad_Name (diskErrs m) 0 [] disks = [] \<longleftrightarrow> distinct (map ad_Name disks) \<and> list_all (diskOk m) disks"
proof -
  have "diskErrs m j seen d = [] \<longleftrightarrow> \<not> seen \<and> diskErrs m (id j) False d = []" for j seen d
    by (auto simp: diskErrs_def Let_def)
  from diskCheck.named_iff [OF this] show ?thesis
    by simp
qed

lemma inline_iff:
  "eachNamed isg_Name (machineInlineErrs m) 0 [] gs = [] \<longleftrightarrow>
     distinct (map isg_Name gs) \<and> list_all (inlineOk m) gs"
proof -
  have "machineInlineErrs m j seen g = [] \<longleftrightarrow> \<not> seen \<and> machineInlineErrs m (id j) False g = []" for j seen g
    by (auto simp: machineInlineErrs_def Let_def)
  from inlineCheck.named_iff [OF this] show ?thesis
    by simp
qed

text \<open>The machines that the webhook accepts.\<close>

definition validMachine :: "EvrocMachine \<Rightarrow> bool" where
  "validMachine m \<longleftrightarrow>
     (let spec = m_Spec m in
      ms_Project spec \<noteq> '''' \<and> regionPattern (ms_Region spec) \<and> ms_ComputeProfile spec \<noteq> '''' \<and>
      ms_Image spec \<noteq> '''' \<and> validImage spec (ms_Image spec) \<and>
      10 \<le> ms_RootDiskSize spec \<and> ms_RootDiskSize spec \<le> 10000 \<and> length (om_Name (m_Meta m)) \<le> 53 \<and>
      list_all labelOk (ms_AdditionalLabels spec) \<and>
      (\<forall>net ip. ms_NetworkingConfig spec = Some net \<and> mnc_PublicIP net = Some ip \<longrightarrow>
         \<not> pip_Enabled ip \<or> pip_ExistingID ip = None) \<and>
      distinct (map ad_Name (ms_AdditionalDisks spec)) \<and> list_all (diskOk m) (ms_AdditionalDisks spec) \<and>
      (\<forall>g. machineSGConfig m = Some g \<longrightarrow>
         distinct (map isg_Name (msgc_InlineSecurityGroups g) @ msgc_ExistingIDs g) \<and>
         list_all (inlineOk m) (msgc_InlineSecurityGroups g)))"

lemma machineSGErrs_iff:
  "machineSGErrs m g = [] \<longleftrightarrow>
     distinct (map isg_Name (msgc_InlineSecurityGroups g) @ msgc_ExistingIDs g) \<and>
     list_all (inlineOk m) (msgc_InlineSecurityGroups g)"
  by (auto simp: machineSGErrs_def inline_iff duplicates_iff)

lemma machineErrs_iff: "machineErrs m = [] \<longleftrightarrow> validMachine m"
proof -
  have sgs: "(case ms_NetworkingConfig (m_Spec m) of None \<Rightarrow> []
       | Some net \<Rightarrow> (case mnc_SecurityGroups net of None \<Rightarrow> [] | Some g \<Rightarrow> machineSGErrs m g)) = [] \<longleftrightarrow>
      (\<forall>g. machineSGConfig m = Some g \<longrightarrow> machineSGErrs m g = [])"
    by (simp add: machineSGConfig_def split: option.split)
  have ip: "publicIPErrs spec = [] \<longleftrightarrow> (\<forall>net ip. ms_NetworkingConfig spec = Some net \<and>
      mnc_PublicIP net = Some ip \<longrightarrow> \<not> pip_Enabled ip \<or> pip_ExistingID ip = None)" for spec
    by (auto simp: publicIPErrs_def split: option.splits)
  have disks: "(if length ds > 0 then eachNamed ad_Name (diskErrs m) 0 [] ds else []) = [] \<longleftrightarrow>
      distinct (map ad_Name ds) \<and> list_all (diskOk m) ds" for ds
    using disks_iff [of m ds] by (cases ds) (simp_all del: eachNamed.simps)
  show ?thesis
    unfolding machineErrs_def validMachine_def Let_def append_is_Nil_conv sgs ip labels_iff disks machineSGErrs_iff
    by (auto simp: requiredErrs_def rootDiskErrs_def machineNameErrs_def evrocMaxResourceNameLen_def
        validateImage_iff dest: regionPattern_nonempty)
qed

end
