(* ===== verification/Provenance.thy ===== *)
theory Provenance
  imports World "HOL-Library.Sublist"
begin

text \<open>
  Why a handler makes a call: a judgement \<open>J h c\<close> says that the call \<open>c\<close> is justified by the
  history \<open>h\<close> before it, for example that a delete is of a resource a list call answered.
  \<open>justifies J h m\<close> says that \<open>m\<close>, started in a history that extends \<open>h\<close>, adds justified calls
  only.
\<close>

section \<open>Definitions\<close>

definition justRel :: "('c list \<Rightarrow> 'c \<Rightarrow> bool) \<Rightarrow> 'c list \<Rightarrow> ('o, 'c) st \<Rightarrow> ('o, 'c) st \<Rightarrow> bool" where
  "justRel J h s t \<longleftrightarrow> prefix h (calls s) \<longrightarrow>
     (\<exists>xs. calls t = calls s @ xs \<and> (\<forall>ys c zs. xs = ys @ c # zs \<longrightarrow> J (calls s @ ys) c))"

abbreviation justifies ::
    "('c list \<Rightarrow> 'c \<Rightarrow> bool) \<Rightarrow> 'c list \<Rightarrow> (('o, 'c) st, 'a) state \<Rightarrow> bool" where
  "justifies J h \<equiv> state_io_rel (justRel J h)"

text \<open>A call \<open>c\<close> was made in the history \<open>h\<close>, and its answer \<open>f h' c\<close> has a property.\<close>

definition answeredIn :: "'c list \<Rightarrow> 'c \<Rightarrow> ('c list \<Rightarrow> bool) \<Rightarrow> bool" where
  "answeredIn h c Q \<longleftrightarrow> (\<exists>ys zs. h = ys @ c # zs \<and> Q ys)"

section \<open>Rules\<close>

lemma justRel_refl: "justRel J h s s"
  by (simp add: justRel_def)

lemma justRel_trans:
  assumes "justRel J h s t" and "justRel J h t u"
  shows "justRel J h s u"
  unfolding justRel_def
proof
  assume h: "prefix h (calls s)"
  then obtain xs where xs: "calls t = calls s @ xs"
      "\<And>ys c zs. xs = ys @ c # zs \<Longrightarrow> J (calls s @ ys) c"
    using assms(1) unfolding justRel_def by blast
  have "prefix h (calls t)"
    using h xs(1) by simp
  then obtain us where us: "calls u = calls t @ us"
      "\<And>ys c zs. us = ys @ c # zs \<Longrightarrow> J (calls t @ ys) c"
    using assms(2) unfolding justRel_def by blast
  have "J (calls s @ ys) c" if split: "xs @ us = ys @ c # zs" for ys c zs
  proof -
    consider (left) ws where "xs = ys @ c # ws" | (right) ws where "ys = xs @ ws" "us = ws @ c # zs"
      using split by (auto simp: append_eq_append_conv2 Cons_eq_append_conv append_eq_Cons_conv)
    then show ?thesis
      using xs us by cases auto
  qed
  then show "\<exists>xs. calls u = calls s @ xs \<and> (\<forall>ys c zs. xs = ys @ c # zs \<longrightarrow> J (calls s @ ys) c)"
    using xs(1) us(1) by (intro exI [of _ "xs @ us"]) auto
qed

interpretation just: object_relation "justRel J h" for J h
  by unfold_locales (rule justRel_refl, erule (1) justRel_trans)

lemma justifies_invoke: "(\<And>h'. prefix h h' \<Longrightarrow> J h' c) \<Longrightarrow> justifies J h (invoke f c)"
  by (auto simp: state_io_rel_def justRel_def Cons_eq_append_conv)

lemma justifies_ask: "justifies J h (ask f)"
  by (auto simp: state_io_rel_def justRel_def)

lemma justifies_getCur: "justifies J h getCur"
  by (auto simp: state_io_rel_def justRel_def)

lemma justifies_modCur: "justifies J h (modCur f)"
  by (auto simp: state_io_rel_def justRel_def)

lemma justifies_mono: "justifies J h m \<Longrightarrow> prefix h h' \<Longrightarrow> justifies J h' m"
  by (auto simp: state_io_rel_def justRel_def intro: prefix_order.trans)

lemma justifies_weaken: "justifies J h m \<Longrightarrow> (\<And>h c. J h c \<Longrightarrow> K h c) \<Longrightarrow> justifies K h m"
  unfolding state_io_rel_def justRel_def by meson

lemma justifies_conj:
  assumes "justifies J h m" and "justifies K h m"
  shows "justifies (\<lambda>h c. J h c \<and> K h c) h m"
  unfolding state_io_rel_def justRel_def
proof (intro allI impI)
  fix s :: "('a, 'b) st"
  assume h: "prefix h (calls s)"
  obtain xs where xs: "calls (snd (run_state m s)) = calls s @ xs"
      "\<forall>ys c zs. xs = ys @ c # zs \<longrightarrow> J (calls s @ ys) c"
    using assms(1) h by (auto simp: state_io_rel_def justRel_def)
  moreover have "\<forall>ys c zs. xs = ys @ c # zs \<longrightarrow> K (calls s @ ys) c"
    using assms(2) h xs(1) by (fastforce simp: state_io_rel_def justRel_def)
  ultimately show "\<exists>xs. calls (snd (run_state m s)) = calls s @ xs \<and>
      (\<forall>ys c zs. xs = ys @ c # zs \<longrightarrow> J (calls s @ ys) c \<and> K (calls s @ ys) c)"
    by blast
qed

lemma justRel_extends: "justRel J h s t \<Longrightarrow> prefix h (calls s) \<Longrightarrow> prefix h (calls t)"
  by (auto simp: justRel_def)

lemma justifies_extends:
  assumes "justifies J h m" and "prefix h (calls s)" and "run_state m s = (x, t)"
  shows "prefix h (calls t)"
proof -
  have "justRel J h s (snd (run_state m s))"
    using assms(1) by (simp add: state_io_rel_def)
  then show ?thesis
    using assms(2,3) by (simp add: justRel_extends)
qed

text \<open>A step whose continuation depends on what it answered and on the history it leaves.\<close>

lemma justifies_bind_after:
  assumes m: "justifies J h m"
    and f: "\<And>s x t. prefix h (calls s) \<Longrightarrow> run_state m s = (x, t) \<Longrightarrow> justifies J (calls t) (f x)"
  shows "justifies J h (State_Monad.bind m f)"
  unfolding state_io_rel_def
proof (intro allI)
  fix s
  obtain x t where run: "run_state m s = (x, t)"
    by fastforce
  show "justRel J h s (snd (run_state (State_Monad.bind m f) s))"
  proof (cases "prefix h (calls s)")
    case True
    have "justRel J h s t"
      using m run by (metis snd_conv state_io_rel_def)
    moreover have "justRel J (calls t) t (snd (run_state (f x) t))"
      using f [OF True run] by (simp add: state_io_rel_def)
    ultimately have "justRel J h s t" "justRel J h t (snd (run_state (f x) t))"
      by (auto simp: justRel_def)
    then show ?thesis
      using run by (simp add: justRel_trans [of J h s t])
  qed (simp add: justRel_def)
qed

lemma justifies_onResult_after:
  assumes "justifies J h m"
    and "\<And>s e t. prefix h (calls s) \<Longrightarrow> run_state m s = (Inl e, t) \<Longrightarrow> justifies J (calls t) (g e)"
    and "\<And>s x t. prefix h (calls s) \<Longrightarrow> run_state m s = (Inr x, t) \<Longrightarrow> justifies J (calls t) (k x)"
  shows "justifies J h (onResult m g k)"
  unfolding onResult_def
  by (rule justifies_bind_after [OF assms(1)]) (auto split: sum.split intro: assms)

lemma justifies_onError_after:
  assumes "justifies J h m"
    and "\<And>s e t. prefix h (calls s) \<Longrightarrow> run_state m s = (Some e, t) \<Longrightarrow> justifies J (calls t) (g e)"
    and "\<And>s t. prefix h (calls s) \<Longrightarrow> run_state m s = (None, t) \<Longrightarrow> justifies J (calls t) k"
  shows "justifies J h (onError m g k)"
  unfolding onError_def
  by (rule justifies_bind_after [OF assms(1)]) (auto split: option.split intro: assms)

lemmas just_rules =
  just.keeps_rules justifies_ask justifies_getCur justifies_modCur

lemma emits_justifies:
  fixes m :: "(('a, 'b) st, 'c) state"
  assumes "emits P m" and "\<And>h' c. prefix h h' \<Longrightarrow> P c \<Longrightarrow> J h' c"
  shows "justifies J h m"
  unfolding state_io_rel_def justRel_def
proof (intro allI impI)
  fix s :: "('a, 'b) st"
  assume h: "prefix h (calls s)"
  obtain xs where xs: "calls (snd (run_state m s)) = calls s @ xs" "\<forall>c\<in>set xs. P c"
    using emits_calls [OF assms(1)] by blast
  show "\<exists>xs. calls (snd (run_state m s)) = calls s @ xs \<and>
      (\<forall>ys c zs. xs = ys @ c # zs \<longrightarrow> J (calls s @ ys) c)"
    using xs h by (intro exI [of _ xs]) (auto intro!: assms(2))
qed

lemma justifies_emitted:
  assumes "justifies J [] m" and "emitted m s = ys @ c # zs"
  shows "J (calls s @ ys) c"
proof -
  obtain xs where xs: "calls (snd (run_state m s)) = calls s @ xs"
      "\<forall>ys c zs. xs = ys @ c # zs \<longrightarrow> J (calls s @ ys) c"
    using assms(1) unfolding state_io_rel_def justRel_def by fastforce
  then have "emitted m s = xs"
    by (simp add: emitted_def)
  then show ?thesis
    using xs(2) assms(2) by blast
qed

text \<open>A run extends the history, and keeps what its computation frames.\<close>

lemma emits_any: "emits P m \<Longrightarrow> prefix (calls s) (calls (snd (run_state m s)))"
  using emits_calls [of P m s] by auto

lemma run_frames: "frames v m \<Longrightarrow> run_state m s = (x, t) \<Longrightarrow> v (cur t) = v (cur s)"
  by (metis frameRel_def snd_conv state_io_rel_def)

lemma run_emits: "emits P m \<Longrightarrow> run_state m s = (x, t) \<Longrightarrow> prefix (calls s) (calls t)"
  using emits_any [of P m s] by simp

section \<open>Invariants of the object\<close>

text \<open>
  A computation maintains \<open>I\<close> when it starts and ends with an object for which \<open>I\<close> holds, and
  then makes only calls for which \<open>P\<close> holds.
\<close>

definition invRel :: "('o \<Rightarrow> bool) \<Rightarrow> ('c \<Rightarrow> bool) \<Rightarrow> ('o, 'c) st \<Rightarrow> ('o, 'c) st \<Rightarrow> bool" where
  "invRel I P s t \<longleftrightarrow> I (cur s) \<longrightarrow> I (cur t) \<and> emitRel P s t"

lemma invRel_refl: "invRel I P s s"
  by (simp add: invRel_def emitRel_refl)

lemma invRel_trans: "invRel I P s t \<Longrightarrow> invRel I P t u \<Longrightarrow> invRel I P s u"
  using emitRel_trans by (auto simp: invRel_def)

interpretation inv: object_relation "invRel I P" for I P
  by unfold_locales (rule invRel_refl, erule (1) invRel_trans)

abbreviation maintains ::
    "('o \<Rightarrow> bool) \<Rightarrow> ('c \<Rightarrow> bool) \<Rightarrow> (('o, 'c) st, 'a) state \<Rightarrow> bool" where
  "maintains I P \<equiv> state_io_rel (invRel I P)"

lemma maintains_invoke: "P c \<Longrightarrow> maintains I P (invoke f c)"
  by (auto simp: state_io_rel_def invRel_def emitRel_def)

lemma maintains_ask: "maintains I P (ask f)"
  by (auto simp: state_io_rel_def invRel_def emitRel_def)

lemma maintains_getCur: "maintains I P getCur"
  by (auto simp: state_io_rel_def invRel_def emitRel_def)

lemma maintains_modCur: "(\<And>x. I x \<Longrightarrow> I (f x)) \<Longrightarrow> maintains I P (modCur f)"
  by (auto simp: state_io_rel_def invRel_def emitRel_def)

lemma maintains_bind_getCur:
  assumes "\<And>x. I x \<Longrightarrow> maintains I P (f x)"
  shows "maintains I P (State_Monad.bind getCur f)"
  using assms by (auto simp: state_io_rel_def invRel_def)

text \<open>After a known change of the object the rest may start from any object the change gives.\<close>

lemma maintains_bind_modCur:
  assumes "maintains I P k" and "\<And>x. I x \<Longrightarrow> I (f x)"
  shows "maintains I P (do { modCur f; k })"
  by (rule inv.keeps_bind [OF maintains_modCur]) (use assms in auto)

lemma maintains_emits:
  assumes "emits P m" and "frames (\<lambda>x. x) m"
  shows "maintains I P m"
  using assms by (auto simp: state_io_rel_def invRel_def frameRel_def)

lemma maintains_storeReply:
  assumes "P c" and "\<And>h x. f h c = Inr x \<Longrightarrow> I x"
  shows "maintains I P (storeReply (invoke f c))"
  using assms by (auto simp: state_io_rel_def invRel_def emitRel_def split: sum.splits)

lemma maintains_emitted:
  assumes "maintains I P m" and "I (cur s)" and "c \<in> set (emitted m s)"
  shows "P c"
  using assms by (auto simp: state_io_rel_def invRel_def emitRel_def emitted_def)

lemma maintains_mono: "maintains I P m \<Longrightarrow> (\<And>c. P c \<Longrightarrow> Q c) \<Longrightarrow> maintains I Q m"
  unfolding state_io_rel_def invRel_def emitRel_def by blast

lemmas maintains_rules =
  maintains_bind_getCur inv.keeps_rules maintains_ask maintains_getCur

text \<open>
  From a known object \<open>x\<close>: only then does an assignment that depends on \<open>x\<close> keep the invariant.
\<close>

abbreviation maintainsFrom ::
    "'o \<Rightarrow> ('o \<Rightarrow> bool) \<Rightarrow> ('c \<Rightarrow> bool) \<Rightarrow> (('o, 'c) st, 'a) state \<Rightarrow> bool" where
  "maintainsFrom x I P \<equiv> state_io_rel (fromRel x (invRel I P))"

lemma maintains_read:
  assumes "\<And>x. I x \<Longrightarrow> maintainsFrom x I P (f x)"
  shows "maintains I P (State_Monad.bind getCur f)"
  using assms by (auto simp: state_io_rel_def invRel_def fromRel_def)

lemma maintainsFrom_modCur:
  fixes k :: "(('a, 'b) st, 'c) state"
  assumes "I (g x)" and "maintains I P k"
  shows "maintainsFrom x I P (do { modCur g; k })"
  unfolding state_io_rel_def fromRel_def
proof (intro allI impI)
  fix s :: "('a, 'b) st"
  assume "cur s = x"
  moreover have "invRel I P (s\<lparr>cur := g (cur s)\<rparr>) (snd (run_state k (s\<lparr>cur := g (cur s)\<rparr>)))"
    using assms(2) by (simp add: state_io_rel_def)
  ultimately show "invRel I P s (snd (run_state (do { modCur g; k }) s))"
    using assms(1) by (simp add: invRel_def emitRel_def)
qed

lemma maintainsFrom_ask:
  assumes "\<And>h. maintainsFrom x I P (k (f h))"
  shows "maintainsFrom x I P (State_Monad.bind (ask f) k)"
  using assms by (simp add: state_io_rel_def fromRel_def)

section \<open>Answers in a history\<close>

lemma answeredIn_prefix: "answeredIn h c Q \<Longrightarrow> prefix h h' \<Longrightarrow> answeredIn h' c Q"
  unfolding answeredIn_def prefix_def by fastforce

lemma answeredIn_snoc: "Q h \<Longrightarrow> answeredIn (h @ [c]) c Q"
  unfolding answeredIn_def by blast

end
