(* ===== verification/LoadBalancers.thy ===== *)
theory LoadBalancers
  imports CloudServices Provenance
begin

text \<open>
  \<open>internal/cloud/loadbalancer.go\<close>: the load balancer of the control plane and the resources
  behind it (public IP, backend pool, backend services, routes), kept as one thing.  A map of
  subnets is ranged over in the order of its association list.
\<close>

section \<open>Types\<close>

datatype LoadBalancerStatus = LoadBalancerStatusCreating | LoadBalancerStatusActive

record LoadBalancerBackendNetwork =
  lbn_VPCName :: string
  lbn_SubnetNames :: gomap

record LoadBalancerCreateRequest =
  lcr_Name :: string
  lcr_Port :: int
  lcr_BackendPort :: int
  lcr_AdditionalPorts :: "int list"
  lcr_ExistingPublicIPID :: string
  lcr_Labels :: gomap
  lcr_BackendNetwork :: "LoadBalancerBackendNetwork option"
  lcr_StackType :: string

record LoadBalancer =
  lbr_Name :: string
  lbr_ID :: string
  lbr_Address :: string
  lbr_Status :: LoadBalancerStatus
  lbr_Backends :: "string list"

definition IsActive :: "LoadBalancer \<Rightarrow> bool" where
  "IsActive lb \<longleftrightarrow> lbr_Status lb = LoadBalancerStatusActive"

definition ipName :: "string \<Rightarrow> string" where
  "ipName lbName = lbName @ ''-ip''"

definition poolName :: "string \<Rightarrow> string" where
  "poolName lbName = lbName @ ''-pool''"

definition svcName :: "string \<Rightarrow> string" where
  "svcName lbName = lbName @ ''-svc''"

definition routeName :: "string \<Rightarrow> string" where
  "routeName lbName = lbName @ ''-route''"

section \<open>Reading\<close>

definition backendNames :: "Env \<Rightarrow> BackendPool \<Rightarrow> string list" where
  "backendNames E pool =
     (case bp_BackendRefs pool of None \<Rightarrow> [] | Some refs \<Rightarrow> map (s_nameFromRef E) refs)"

definition buildLoadBalancer :: "Env \<Rightarrow> string \<Rightarrow> ('o, goerr + LoadBalancer) go" where
  "buildLoadBalancer E name =
     onResult (invoke (e_lb E) (SdkGet LoadBalancerK name)) (\<lambda>err. ret (Inl err)) (\<lambda>sdkLB. do {
       address \<leftarrow>
         (let ip = s_nameFromRef E (lb_PublicIPRef sdkLB) in
          if ip \<noteq> '''' then
            onResult (invoke (e_ip E) (SdkGet PublicIPK ip)) (\<lambda>_. ret '''')
              (\<lambda>i. ret (s_publicIPAddress E i))
          else ret '''');
       backends \<leftarrow>
         onResult (invoke (e_pool E) (SdkGet BackendPoolK (poolName name))) (\<lambda>_. ret [])
           (\<lambda>pool. ret (backendNames E pool));
       ret (Inr \<lparr>lbr_Name = md_Id (lb_Meta sdkLB), lbr_ID = md_Uid (lb_Meta sdkLB),
                 lbr_Address = address,
                 lbr_Status = (if s_lbReady E sdkLB then LoadBalancerStatusActive
                               else LoadBalancerStatusCreating),
                 lbr_Backends = backends\<rparr>) })"

definition LoadBalancerService_Get :: "Env \<Rightarrow> string \<Rightarrow> ('o, goerr + LoadBalancer) go" where
  "LoadBalancerService_Get E name = buildLoadBalancer E name"

section \<open>Creating\<close>

text \<open>
  Every step of \<open>Create\<close> treats a conflict as "somebody created it": it reads the existing
  resource and goes on.
\<close>

definition createOrGet ::
    "('o, goerr + 'a) go \<Rightarrow> ('o, goerr + 'a) go \<Rightarrow> string \<Rightarrow> string \<Rightarrow> ('o, goerr + 'a) go" where
  "createOrGet create get createMsg getMsg =
     onResult create
       (\<lambda>err. if \<not> isConflictError err then ret (Inl (wrapErr createMsg err))
              else onResult get (\<lambda>err. ret (Inl (wrapErr getMsg err))) (\<lambda>r. ret (Inr r)))
       (\<lambda>r. ret (Inr r))"

text \<open>Step 1: the public IP, an existing one or a new one, once it is ready.\<close>

definition lbPublicIP :: "Env \<Rightarrow> LoadBalancerCreateRequest \<Rightarrow> ('o, goerr + PublicIP) go" where
  "lbPublicIP E request =
     (let name = (if lcr_ExistingPublicIPID request = '''' then ipName (lcr_Name request)
                  else lcr_ExistingPublicIPID request);
          wait = onResult (invoke (e_ip E) (SdkWaitForReady PublicIPK name 180))
            (\<lambda>err. ret (Inl (wrapErr ''public IP for LB never became ready'' err)))
            (\<lambda>ip. ret (Inr ip))
      in if lcr_ExistingPublicIPID request = '''' then
           onResult (invoke (e_ip E) (SdkCreate (CreatePublicIP name (lcr_Labels request))))
             (\<lambda>err. if \<not> isConflictError err
                    then ret (Inl (wrapErr ''failed to create public IP for LB'' err)) else wait)
             (\<lambda>_. wait)
         else wait)"

text \<open>Step 2: the backend pool, empty.\<close>

definition lbPool :: "Env \<Rightarrow> LoadBalancerCreateRequest \<Rightarrow> ('o, goerr + BackendPool) go" where
  "lbPool E request =
     createOrGet
       (invoke (e_pool E) (SdkCreate (CreateBackendPool (poolName (lcr_Name request)) (lcr_Labels request))))
       (invoke (e_pool E) (SdkGet BackendPoolK (poolName (lcr_Name request))))
       ''failed to create backend pool'' ''failed to get existing backend pool''"

text \<open>Step 3: the backend service of the API server, over IPv6 when the stack is IPv6 only.\<close>

definition lbService ::
    "Env \<Rightarrow> LoadBalancerCreateRequest \<Rightarrow> BackendPool \<Rightarrow> ('o, goerr + BackendService) go" where
  "lbService E request pool =
     createOrGet
       (invoke (e_svc E) (SdkCreate (CreateBackendService (svcName (lcr_Name request))
          (lcr_BackendPort request) (s_poolRef E pool) (lcr_StackType request = ''ipv6-only'')
          (lcr_Labels request))))
       (invoke (e_svc E) (SdkGet BackendServiceK (svcName (lcr_Name request))))
       ''failed to create backend service'' ''failed to get existing backend service''"

text \<open>Step 4: the route to it.\<close>

definition lbRoute ::
    "Env \<Rightarrow> LoadBalancerCreateRequest \<Rightarrow> BackendService \<Rightarrow> ('o, goerr + L4Route) go" where
  "lbRoute E request svc =
     createOrGet
       (invoke (e_route E) (SdkCreate (CreateL4Route (routeName (lcr_Name request)) (s_svcRef E svc)
          (lcr_Labels request))))
       (invoke (e_route E) (SdkGet L4RouteK (routeName (lcr_Name request))))
       ''failed to create L4 route'' ''failed to get existing L4 route''"

text \<open>Step 5: a service, a route and a listener for one additional port.\<close>

definition lbExtraPort ::
    "Env \<Rightarrow> LoadBalancerCreateRequest \<Rightarrow> BackendPool \<Rightarrow> int \<Rightarrow> ('o, goerr + Listener) go" where
  "lbExtraPort E request pool port =
     (let portSuffix = ''-'' @ showInt port;
          svc = svcName (lcr_Name request) @ portSuffix;
          route = routeName (lcr_Name request) @ portSuffix
      in onResult
           (createOrGet
              (invoke (e_svc E) (SdkCreate (CreateBackendService svc port (s_poolRef E pool) False
                 (lcr_Labels request))))
              (invoke (e_svc E) (SdkGet BackendServiceK svc))
              (''failed to create backend service for port '' @ showInt port)
              (''failed to get existing backend service for port '' @ showInt port))
           (\<lambda>err. ret (Inl err))
           (\<lambda>extraSvc. onResult
              (createOrGet
                 (invoke (e_route E) (SdkCreate (CreateL4Route route (s_svcRef E extraSvc)
                    (lcr_Labels request))))
                 (invoke (e_route E) (SdkGet L4RouteK route))
                 (''failed to create L4 route for port '' @ showInt port)
                 (''failed to get existing L4 route for port '' @ showInt port))
              (\<lambda>err. ret (Inl err))
              (\<lambda>extraRoute. ret (Inr \<lparr>ln_Name = ''port-'' @ showInt port, ln_Port = port,
                 ln_RouteRefs = [s_routeRef E extraRoute]\<rparr>))))"

definition apiServerListener :: "int \<Rightarrow> string \<Rightarrow> Listener" where
  "apiServerListener port routeRef =
     \<lparr>ln_Name = ''kube-apiserver'', ln_Port = port, ln_RouteRefs = [routeRef]\<rparr>"

definition lbBackendNetwork :: "Env \<Rightarrow> LoadBalancerBackendNetwork \<Rightarrow> BackendNetwork" where
  "lbBackendNetwork E n =
     \<lparr>bn_VpcRef = VPCRef E (lbn_VPCName n),
      bn_Subnets = map (\<lambda>(zone, subnetName). (SubnetRef E subnetName, zone)) (lbn_SubnetNames n)\<rparr>"

text \<open>Step 6: the load balancer itself, read back at the end.\<close>

definition lbSubmit ::
    "Env \<Rightarrow> LoadBalancerCreateRequest \<Rightarrow> PublicIP \<Rightarrow> L4Route \<Rightarrow> Listener list
      \<Rightarrow> ('o, goerr + LoadBalancer) go" where
  "lbSubmit E request readyIP route additionalListeners =
     (let lbReq = \<lparr>lbq_Name = lcr_Name request,
                   lbq_PublicIPRef = s_ipRef E readyIP,
                   lbq_Listeners = apiServerListener (lcr_Port request) (s_routeRef E route) #
                     additionalListeners,
                   lbq_Labels = lcr_Labels request,
                   lbq_BackendNetwork = map_option (lbBackendNetwork E) (lcr_BackendNetwork request)\<rparr>
      in onResult (invoke (e_lb E) (SdkCreate (CreateLB lbReq)))
           (\<lambda>err. if \<not> isConflictError err
                  then ret (Inl (wrapErr ''failed to create load balancer'' err))
                  else buildLoadBalancer E (lcr_Name request))
           (\<lambda>_. buildLoadBalancer E (lcr_Name request)))"

definition LoadBalancerService_Create ::
    "Env \<Rightarrow> LoadBalancerCreateRequest option \<Rightarrow> ('o, goerr + LoadBalancer) go" where
  "LoadBalancerService_Create E req =
     (case req of None \<Rightarrow> ret (Inl (newErr ''load balancer create request is nil''))
      | Some request \<Rightarrow>
          onResult (lbPublicIP E request) (\<lambda>err. ret (Inl err)) (\<lambda>readyIP.
          onResult (lbPool E request) (\<lambda>err. ret (Inl err)) (\<lambda>pool.
          onResult (lbService E request pool) (\<lambda>err. ret (Inl err)) (\<lambda>svc.
          onResult (lbRoute E request svc) (\<lambda>err. ret (Inl err)) (\<lambda>route.
          onResult (mapEach (lbExtraPort E request pool) (lcr_AdditionalPorts request))
            (\<lambda>err. ret (Inl err)) (\<lambda>additionalListeners.
          lbSubmit E request readyIP route additionalListeners))))))"

section \<open>Deleting\<close>

definition lbResourceKinds :: "(string \<times> SdkKind) list" where
  "lbResourceKinds = [(''l4Route'', L4RouteK), (''backendService'', BackendServiceK),
     (''backendPool'', BackendPoolK)]"

definition lbListByOwner :: "Env \<Rightarrow> SdkKind \<Rightarrow> string \<Rightarrow> ('o, goerr + string list) go" where
  "lbListByOwner E kind clusterID =
     onResult (invoke (e_items E) (SdkList kind (ownerSelector LabelClusterID clusterID)))
       (\<lambda>err. ret (Inl err)) (\<lambda>items. ret (Inr (map md_Id items)))"

text \<open>The \<open>del\<close> closure: a delete whose error is collected, unless it says not found.\<close>

definition lbDel :: "Env \<Rightarrow> string \<Rightarrow> SdkKind \<Rightarrow> string \<Rightarrow> ('o, goerr option) go" where
  "lbDel E kindName kind name =
     onError (invoke (e_err E) (SdkDelete kind name))
       (\<lambda>err. ret (if IsNotFoundError err then None
                   else Some (wrapErr (kindName @ '' '' @ quoted name) err)))
       (ret None)"

definition lbDelKind :: "Env \<Rightarrow> string \<Rightarrow> string \<times> SdkKind \<Rightarrow> ('o, goerr list) go" where
  "lbDelKind E clusterID k =
     onResult (lbListByOwner E (snd k) clusterID)
       (\<lambda>err. ret [wrapErr (''list '' @ fst k) err])
       (\<lambda>names. collectErrs (lbDel E (fst k) (snd k)) names)"

primrec concatErrs :: "('a \<Rightarrow> ('o, goerr list) go) \<Rightarrow> 'a list \<Rightarrow> ('o, goerr list) go" where
  "concatErrs f [] = ret []"
| "concatErrs f (x # xs) = do { es \<leftarrow> f x; fs \<leftarrow> concatErrs f xs; ret (es @ fs) }"

text \<open>The error of \<open>Delete\<close> is formatted with \<open>%v\<close>: its sentinels are gone.\<close>

definition LoadBalancerService_Delete :: "Env \<Rightarrow> string \<Rightarrow> string \<Rightarrow> bool \<Rightarrow> ('o, goerr option) go" where
  "LoadBalancerService_Delete E name clusterID deletePublicIP = do {
     lbErrs \<leftarrow> collectErrs (lbDel E ''loadBalancer'' LoadBalancerK) [name];
     subErrs \<leftarrow> concatErrs (lbDelKind E clusterID) lbResourceKinds;
     ipErrs \<leftarrow> (if deletePublicIP then collectErrs (lbDel E ''publicIP'' PublicIPK) [ipName name]
               else ret []);
     (let errs = lbErrs @ subErrs @ ipErrs in
      ret (if length errs > 0
           then Some (newErr (''delete LB resources: ['' @ joinStr '' '' (map errMsg errs) @ '']''))
           else None)) }"

text \<open>
  One check of \<open>exists\<close>: the name it reports, and a lookup of which only the error counts.
\<close>

type_synonym probe = "string \<times> (Call list \<Rightarrow> Call \<Rightarrow> goerr option) \<times> Call"

definition probe :: "'a reply \<Rightarrow> SdkKind \<Rightarrow> string \<Rightarrow> probe" where
  "probe reply kind name =
     (name, \<lambda>h c. (case reply h c of Inl err \<Rightarrow> Some err | Inr _ \<Rightarrow> None), SdkGet kind name)"

fun anyPresent :: "probe list \<Rightarrow> ('o, goerr + bool) go" where
  "anyPresent [] = ret (Inr False)"
| "anyPresent ((name, fn, c) # checks) =
     onError (invoke fn c)
       (\<lambda>err. if \<not> IsNotFoundError err then ret (Inl (wrapErr (''checking '' @ name) err))
              else anyPresent checks)
       (ret (Inr True))"

definition lbChecks :: "Env \<Rightarrow> string \<Rightarrow> bool \<Rightarrow> probe list" where
  "lbChecks E name checkPublicIP =
     [probe (e_lb E) LoadBalancerK name, probe (e_route E) L4RouteK (routeName name),
      probe (e_svc E) BackendServiceK (svcName name), probe (e_pool E) BackendPoolK (poolName name)] @
     (if checkPublicIP then [probe (e_ip E) PublicIPK (ipName name)] else [])"

definition lbExists :: "Env \<Rightarrow> string \<Rightarrow> bool \<Rightarrow> ('o, goerr + bool) go" where
  "lbExists E name checkPublicIP = anyPresent (lbChecks E name checkPublicIP)"

definition LoadBalancerService_Exists :: "Env \<Rightarrow> string \<Rightarrow> ('o, goerr + bool) go" where
  "LoadBalancerService_Exists E name = lbExists E name True"

fun noneOwned :: "Env \<Rightarrow> string \<Rightarrow> (string \<times> SdkKind) list \<Rightarrow> ('o, goerr + bool) go" where
  "noneOwned E clusterID [] = ret (Inr True)"
| "noneOwned E clusterID (k # ks) =
     onResult (lbListByOwner E (snd k) clusterID)
       (\<lambda>err. ret (Inl (wrapErr (''list '' @ fst k) err)))
       (\<lambda>names. if length names > 0 then ret (Inr False) else noneOwned E clusterID ks)"

definition LoadBalancerService_DeletionComplete ::
    "Env \<Rightarrow> string \<Rightarrow> string \<Rightarrow> bool \<Rightarrow> ('o, goerr + bool) go" where
  "LoadBalancerService_DeletionComplete E name clusterID checkPublicIP =
     onResult (lbExists E name checkPublicIP) (\<lambda>err. ret (Inl err))
       (\<lambda>ex. if ex then ret (Inr False) else noneOwned E clusterID lbResourceKinds)"

section \<open>Backends\<close>

definition LoadBalancerService_AddBackend :: "Env \<Rightarrow> string \<Rightarrow> string \<Rightarrow> ('o, goerr option) go" where
  "LoadBalancerService_AddBackend E lbName backend =
     invoke (e_err E) (SdkAddBackendRef (poolName lbName) (s_ref E VMRefK backend))"

definition LoadBalancerService_RemoveBackend :: "Env \<Rightarrow> string \<Rightarrow> string \<Rightarrow> ('o, goerr option) go" where
  "LoadBalancerService_RemoveBackend E lbName backendName =
     invoke (e_err E) (SdkRemoveBackendRef (poolName lbName) (s_ref E VMRefK backendName))"

definition LoadBalancerService_ListBackends :: "Env \<Rightarrow> string \<Rightarrow> ('o, goerr + string list) go" where
  "LoadBalancerService_ListBackends E lbName =
     onResult (invoke (e_pool E) (SdkGet BackendPoolK (poolName lbName)))
       (\<lambda>err. ret (Inl err)) (\<lambda>pool. ret (Inr (backendNames E pool)))"

section \<open>What the operations call\<close>

lemma emits_buildLoadBalancer [emits_ops]:
  assumes "\<And>k n. P (SdkGet k n)"
  shows "emits P (buildLoadBalancer E name)"
  unfolding buildLoadBalancer_def Let_def by (intro go_rules assms)

lemma emits_LoadBalancerService_Get [emits_ops]:
  assumes "\<And>k n. P (SdkGet k n)"
  shows "emits P (LoadBalancerService_Get E name)"
  unfolding LoadBalancerService_Get_def by (intro emits_ops assms)

lemma emits_createOrGet:
  assumes "emits P c" and "emits P g"
  shows "emits P (createOrGet c g m1 m2)"
  unfolding createOrGet_def by (intro go_rules assms)

text \<open>Every resource a create call makes carries the labels of the request.\<close>

lemma emits_LoadBalancerService_Create:
  assumes get: "\<And>k n. P (SdkGet k n)" and wait: "\<And>n t. P (SdkWaitForReady PublicIPK n t)"
    and create: "\<And>r request. req = Some request \<Longrightarrow> requestLabels r = lcr_Labels request \<Longrightarrow>
      (requestKind r = PublicIPK \<longrightarrow> lcr_ExistingPublicIPID request = '''') \<Longrightarrow> P (SdkCreate r)"
  shows "emits P (LoadBalancerService_Create E req)"
proof (cases req)
  case None
  then show ?thesis by (simp add: LoadBalancerService_Create_def) (intro go_rules)
next
  case (Some request)
  have c: "P (SdkCreate r)" if "requestLabels r = lcr_Labels request" "requestKind r \<noteq> PublicIPK" for r
    using create [OF Some] that by simp
  have ip: "P (SdkCreate (CreatePublicIP n (lcr_Labels request)))"
    if "lcr_ExistingPublicIPID request = ''''" for n
    using create [OF Some, of "CreatePublicIP n (lcr_Labels request)"] that by simp
  have "emits P (lbPublicIP E request)"
    unfolding lbPublicIP_def Let_def by (intro go_rules wait ip)
  moreover have "emits P (lbPool E request)"
    unfolding lbPool_def by (intro emits_createOrGet go_rules get c) simp_all
  moreover have "emits P (lbService E request pool)" for pool
    unfolding lbService_def by (intro emits_createOrGet go_rules get c) simp_all
  moreover have "emits P (lbRoute E request svc)" for svc
    unfolding lbRoute_def by (intro emits_createOrGet go_rules get c) simp_all
  moreover have "emits P (lbExtraPort E request pool port)" for pool port
    unfolding lbExtraPort_def Let_def by (intro emits_createOrGet go_rules get c) simp_all
  moreover have "emits P (lbSubmit E request ip route ls)" for ip route ls
    unfolding lbSubmit_def Let_def by (intro go_rules emits_ops get c) simp_all
  ultimately show ?thesis
    unfolding LoadBalancerService_Create_def Some option.case by (intro go_rules) simp_all
qed

lemma emits_lbDel:
  assumes "P (SdkDelete k n)"
  shows "emits P (lbDel E kn k n)"
  unfolding lbDel_def by (intro go_rules assms)

lemma emits_concatErrs:
  assumes "\<And>x. x \<in> set xs \<Longrightarrow> emits P (f x)"
  shows "emits P (concatErrs f xs)"
  using assms by (induction xs) (auto intro!: go_rules)

lemma emits_lbDelKind:
  assumes "\<And>sel. P (SdkList (snd k) sel)" and "\<And>n. P (SdkDelete (snd k) n)"
  shows "emits P (lbDelKind E i k)"
  unfolding lbDelKind_def lbListByOwner_def by (intro go_rules emits_lbDel assms)

lemma emits_LoadBalancerService_Delete:
  assumes "P (SdkDelete LoadBalancerK n)"
    and "\<And>k sel. k \<in> snd ` set lbResourceKinds \<Longrightarrow> P (SdkList k sel)"
    and "\<And>k m. k \<in> snd ` set lbResourceKinds \<Longrightarrow> P (SdkDelete k m)"
    and "ip \<Longrightarrow> P (SdkDelete PublicIPK (ipName n))"
  shows "emits P (LoadBalancerService_Delete E n i ip)"
  unfolding LoadBalancerService_Delete_def Let_def
  by (intro go_rules emits_concatErrs emits_lbDelKind emits_lbDel)
     (auto intro: assms emits_lbDel)

lemma emits_anyPresent:
  assumes "\<And>c. c \<in> set checks \<Longrightarrow> P (snd (snd c))"
  shows "emits P (anyPresent checks)"
  using assms by (induction checks rule: anyPresent.induct) (auto intro!: go_rules, blast)

lemma emits_lbExists [emits_ops]:
  assumes "\<And>k n. P (SdkGet k n)"
  shows "emits P (lbExists E n b)"
  unfolding lbExists_def
  by (rule emits_anyPresent) (auto simp: lbChecks_def probe_def assms split: if_splits)

lemma emits_noneOwned:
  assumes "\<And>k sel. P (SdkList k sel)"
  shows "emits P (noneOwned E i ks)"
  using assms by (induction ks) (auto simp: lbListByOwner_def intro!: go_rules)

lemma emits_LoadBalancerService_DeletionComplete [emits_ops]:
  assumes "\<And>k n. P (SdkGet k n)" and "\<And>k sel. P (SdkList k sel)"
  shows "emits P (LoadBalancerService_DeletionComplete E n i b)"
  unfolding LoadBalancerService_DeletionComplete_def
  by (intro go_rules emits_ops emits_noneOwned assms)

lemma emits_AddBackend [emits_ops]:
  "P (SdkAddBackendRef (poolName n) (s_ref E VMRefK b)) \<Longrightarrow> emits P (LoadBalancerService_AddBackend E n b)"
  unfolding LoadBalancerService_AddBackend_def by (intro go_rules)

lemma emits_RemoveBackend [emits_ops]:
  "P (SdkRemoveBackendRef (poolName n) (s_ref E VMRefK b)) \<Longrightarrow>
     emits P (LoadBalancerService_RemoveBackend E n b)"
  unfolding LoadBalancerService_RemoveBackend_def by (intro go_rules)

section \<open>Deletion is complete only when nothing is left\<close>

text \<open>
  The lookups run in order, each in the history the earlier ones leave; all of them have to
  say not found.
\<close>

lemma anyPresent_False:
  "resultOf (anyPresent checks) s = Inr False \<longleftrightarrow>
     (\<forall>i<length checks. \<exists>err. errIs err NotFoundM \<and>
        fst (snd (checks ! i)) (calls s @ take i (map (snd \<circ> snd) checks)) (snd (snd (checks ! i))) = Some err)"
proof (induction checks arbitrary: s rule: anyPresent.induct)
  case (2 name fn c checks)
  show ?case
  proof (cases "fn (calls s) c")
    case None
    then show ?thesis by (auto simp: resultOf_onError resultOf_def intro!: exI [of _ 0])
  next
    case (Some err)
    then show ?thesis
      using 2 [of err "s\<lparr>calls := calls s @ [c]\<rparr>"]
      by (simp add: resultOf_def IsNotFoundError_def All_less_Suc2 split: prod.splits)
  qed
qed (simp add: resultOf_def)

lemma anyPresent_calls:
  "resultOf (anyPresent checks) s = Inr False \<Longrightarrow>
     stateAfter (anyPresent checks) s = s\<lparr>calls := calls s @ map (snd \<circ> snd) checks\<rparr>"
  by (induction checks arbitrary: s rule: anyPresent.induct)
     (auto simp: resultOf_def stateAfter_def IsNotFoundError_def split: option.splits if_splits)

definition ownedLists :: "string \<Rightarrow> Call list" where
  "ownedLists clusterID =
     map (\<lambda>k. SdkList (snd k) (ownerSelector LabelClusterID clusterID)) lbResourceKinds"

lemma noneOwned_True:
  "resultOf (noneOwned E clusterID ks) s = Inr True \<longleftrightarrow>
     (\<forall>i<length ks. e_items E
        (calls s @ take i (map (\<lambda>k. SdkList (snd k) (ownerSelector LabelClusterID clusterID)) ks))
        (SdkList (snd (ks ! i)) (ownerSelector LabelClusterID clusterID)) = Inr [])"
proof (induction ks arbitrary: s)
  case (Cons k ks)
  let ?c = "SdkList (snd k) (ownerSelector LabelClusterID clusterID)"
  show ?case
    using Cons.IH [of "s\<lparr>calls := calls s @ [?c]\<rparr>"]
    by (cases "e_items E (calls s) ?c")
       (auto simp: lbListByOwner_def resultOf_def All_less_Suc2 split: prod.splits)
qed (simp add: resultOf_def)

lemma DeletionComplete_True:
  "resultOf (LoadBalancerService_DeletionComplete E name clusterID checkPublicIP) s = Inr True \<longleftrightarrow>
     resultOf (lbExists E name checkPublicIP) s = Inr False \<and>
     resultOf (noneOwned E clusterID lbResourceKinds) (stateAfter (lbExists E name checkPublicIP) s) = Inr True"
  by (auto simp: LoadBalancerService_DeletionComplete_def resultOf_rules split: sum.splits)

lemma lbExists_False:
  assumes "resultOf (lbExists E name checkPublicIP) s = Inr False"
  shows "\<exists>err. errIs err NotFoundM \<and> e_lb E (calls s) (SdkGet LoadBalancerK name) = Inl err"
    and "\<exists>h err. errIs err NotFoundM \<and> e_route E h (SdkGet L4RouteK (routeName name)) = Inl err"
    and "\<exists>h err. errIs err NotFoundM \<and> e_svc E h (SdkGet BackendServiceK (svcName name)) = Inl err"
    and "\<exists>h err. errIs err NotFoundM \<and> e_pool E h (SdkGet BackendPoolK (poolName name)) = Inl err"
    and "checkPublicIP \<Longrightarrow>
      \<exists>h err. errIs err NotFoundM \<and> e_ip E h (SdkGet PublicIPK (ipName name)) = Inl err"
proof -
  let ?cs = "lbChecks E name checkPublicIP"
  have all: "\<forall>i<length ?cs. \<exists>err. errIs err NotFoundM \<and>
      fst (snd (?cs ! i)) (calls s @ take i (map (snd \<circ> snd) ?cs)) (snd (snd (?cs ! i))) = Some err"
    using assms by (simp only: lbExists_def anyPresent_False)
  show "\<exists>err. errIs err NotFoundM \<and> e_lb E (calls s) (SdkGet LoadBalancerK name) = Inl err"
    using all [THEN spec, of 0] by (auto simp: lbChecks_def probe_def split: sum.splits)
  show "\<exists>h err. errIs err NotFoundM \<and> e_route E h (SdkGet L4RouteK (routeName name)) = Inl err"
    using all [THEN spec, of 1] by (auto simp: lbChecks_def probe_def split: sum.splits)
  show "\<exists>h err. errIs err NotFoundM \<and> e_svc E h (SdkGet BackendServiceK (svcName name)) = Inl err"
    using all [THEN spec, of 2] by (auto simp: lbChecks_def probe_def split: sum.splits)
  show "\<exists>h err. errIs err NotFoundM \<and> e_pool E h (SdkGet BackendPoolK (poolName name)) = Inl err"
    using all [THEN spec, of 3] by (auto simp: lbChecks_def probe_def split: sum.splits)
  show "\<exists>h err. errIs err NotFoundM \<and> e_ip E h (SdkGet PublicIPK (ipName name)) = Inl err"
    if "checkPublicIP"
    using all [THEN spec, of 4] that by (auto simp: lbChecks_def probe_def split: sum.splits)
qed

end
