(* ===== verification/ObjectHelpers.thy ===== *)
theory ObjectHelpers
  imports Labels
begin

text \<open>
  The helpers both controllers run on their object: \<open>helpers/finalizer.go\<close>,
  \<open>helpers/pause.go\<close> and \<open>ensureOwnershipID\<close>.  They take any \<open>client.Object\<close> (an \<open>ObjectOps\<close>
  with the laws of \<open>client_object\<close>) and the client's \<open>Update\<close> as arguments.
\<close>

section \<open>Definitions\<close>

definition PausedAnnotation :: string where
  "PausedAnnotation = ''cluster.x-k8s.io/paused''"

definition modMeta :: "'o ObjectOps \<Rightarrow> (ObjectMeta \<Rightarrow> ObjectMeta) \<Rightarrow> ('o, unit) go" where
  "modMeta ops f = modCur (\<lambda>x. oo_SetMeta ops (f (oo_Meta ops x)) x)"

definition hasFinalizer :: "ObjectMeta \<Rightarrow> string \<Rightarrow> bool" where
  "hasFinalizer meta f \<longleftrightarrow> f \<in> set (om_Finalizers meta)"

text \<open>\<open>controllerutil.AddFinalizer\<close> and \<open>RemoveFinalizer\<close>\<close>

definition withFinalizer :: "string \<Rightarrow> ObjectMeta \<Rightarrow> ObjectMeta" where
  "withFinalizer f meta = meta\<lparr>om_Finalizers := om_Finalizers meta @ [f]\<rparr>"

definition withoutFinalizer :: "string \<Rightarrow> ObjectMeta \<Rightarrow> ObjectMeta" where
  "withoutFinalizer f meta = meta\<lparr>om_Finalizers := removeAll f (om_Finalizers meta)\<rparr>"

definition EnsureFinalizer ::
    "'o ObjectOps \<Rightarrow> ('o, goerr option) go \<Rightarrow> string \<Rightarrow> ('o, goerr + bool) go" where
  "EnsureFinalizer ops update finalizer = do {
     obj \<leftarrow> getCur;
     (if \<not> hasFinalizer (oo_Meta ops obj) finalizer then do {
        modMeta ops (withFinalizer finalizer);
        onError update (\<lambda>err. ret (Inl err)) (ret (Inr True)) }
      else ret (Inr False)) }"

definition RemoveFinalizer ::
    "'o ObjectOps \<Rightarrow> ('o, goerr option) go \<Rightarrow> string \<Rightarrow> ('o, goerr option) go" where
  "RemoveFinalizer ops update finalizer = do {
     obj \<leftarrow> getCur;
     (if hasFinalizer (oo_Meta ops obj) finalizer then do {
        modMeta ops (withoutFinalizer finalizer);
        onError update (\<lambda>err. ret (Some err)) (ret None) }
      else ret None) }"

definition HandleDeletion ::
    "'o ObjectOps \<Rightarrow> ('o, goerr option) go \<Rightarrow> string \<Rightarrow> ('o, goerr option) go
      \<Rightarrow> ('o, bool \<times> goerr option) go" where
  "HandleDeletion ops update finalizer cleanup = do {
     obj \<leftarrow> getCur;
     (if om_DeletionTimestamp (oo_Meta ops obj) = None then ret (False, None)
      else if \<not> hasFinalizer (oo_Meta ops obj) finalizer then ret (True, None)
      else onError cleanup (\<lambda>err. ret (True, Some err))
        (onError (RemoveFinalizer ops update finalizer) (\<lambda>err. ret (True, Some err))
          (ret (True, None)))) }"

definition HasPausedAnnotation :: "ObjectMeta \<Rightarrow> bool" where
  "HasPausedAnnotation meta = mhas (om_Annotations meta) PausedAnnotation"

text \<open>Any error of the lookup counts as not paused, the not-found one and every other.\<close>

definition IsPaused :: "'o ObjectOps \<Rightarrow> Env \<Rightarrow> ('o, bool) go" where
  "IsPaused ops E = do {
     obj \<leftarrow> getCur;
     (let meta = oo_Meta ops obj in
      if HasPausedAnnotation meta then ret True
      else case map_of (om_Labels meta) ClusterNameLabel of
          None \<Rightarrow> ret False
        | Some clusterName \<Rightarrow>
            if clusterName = '''' then ret False
            else onResult
              (invoke (e_capiCluster E)
                (KGetCapiCluster \<lparr>k_Namespace = om_Namespace meta, k_Name = clusterName\<rparr>))
              (\<lambda>_. ret False)
              (\<lambda>cluster. ret (cc_Paused cluster = Some True))) }"

definition ensureOwnershipID :: "'o ObjectOps \<Rightarrow> Env \<Rightarrow> string \<Rightarrow> ('o, goerr + bool) go" where
  "ensureOwnershipID ops E annotation = do {
     obj \<leftarrow> getCur;
     (if mget (om_Annotations (oo_Meta ops obj)) annotation \<noteq> '''' then ret (Inr False)
      else do {
        newID \<leftarrow> ask (e_uuid E);
        modMeta ops (\<lambda>meta. meta\<lparr>om_Annotations := mput annotation newID (om_Annotations meta)\<rparr>);
        ret (Inr True) }) }"

section \<open>Finalizers\<close>

lemma hasFinalizer_with [simp]: "hasFinalizer (withFinalizer f meta) g \<longleftrightarrow> g = f \<or> hasFinalizer meta g"
  by (auto simp: hasFinalizer_def withFinalizer_def)

lemma hasFinalizer_without [simp]:
  "hasFinalizer (withoutFinalizer f meta) g \<longleftrightarrow> g \<noteq> f \<and> hasFinalizer meta g"
  by (auto simp: hasFinalizer_def withoutFinalizer_def)

lemma emits_modMeta: "emits P (modMeta ops f)"
  unfolding modMeta_def by (intro go_rules)

lemma emits_EnsureFinalizer:
  assumes "emits P update"
  shows "emits P (EnsureFinalizer ops update f)"
  unfolding EnsureFinalizer_def by (intro go_rules emits_modMeta assms)

lemma emits_RemoveFinalizer:
  assumes "emits P update"
  shows "emits P (RemoveFinalizer ops update f)"
  unfolding RemoveFinalizer_def by (intro go_rules emits_modMeta assms)

lemma emits_HandleDeletion:
  assumes "emits P update" and "emits P cleanup"
  shows "emits P (HandleDeletion ops update f cleanup)"
  unfolding HandleDeletion_def by (intro go_rules emits_RemoveFinalizer assms)

lemma emits_IsPaused [emits_ops]:
  assumes "\<And>k. P (KGetCapiCluster k)"
  shows "emits P (IsPaused ops E)"
  unfolding IsPaused_def Let_def by (intro go_rules assms)

lemma emits_ensureOwnershipID [emits_ops]: "emits P (ensureOwnershipID ops E a)"
  unfolding ensureOwnershipID_def by (intro go_rules emits_modMeta)

lemma frames_IsPaused [frames_ops]: "frames v (IsPaused ops E)"
  unfolding IsPaused_def Let_def by (intro frames_rules)

text \<open>The deletion guard: an object that is not being deleted is left alone.\<close>

lemma HandleDeletion_live:
  "om_DeletionTimestamp (oo_Meta ops (cur s)) = None \<Longrightarrow>
     run_state (HandleDeletion ops update f cleanup) s = ((False, None), s)"
  by (simp add: HandleDeletion_def)

lemma HandleDeletion_released:
  "om_DeletionTimestamp (oo_Meta ops (cur s)) \<noteq> None \<Longrightarrow> \<not> hasFinalizer (oo_Meta ops (cur s)) f \<Longrightarrow>
     run_state (HandleDeletion ops update f cleanup) s = ((True, None), s)"
  by (auto simp: HandleDeletion_def)

lemma HandleDeletion_cleanup_failed:
  "om_DeletionTimestamp (oo_Meta ops (cur s)) \<noteq> None \<Longrightarrow> hasFinalizer (oo_Meta ops (cur s)) f \<Longrightarrow>
     run_state cleanup s = (Some e, t) \<Longrightarrow>
     run_state (HandleDeletion ops update f cleanup) s = ((True, Some e), t)"
  by (auto simp: HandleDeletion_def)

lemma HandleDeletion_cleaned:
  "om_DeletionTimestamp (oo_Meta ops (cur s)) \<noteq> None \<Longrightarrow> hasFinalizer (oo_Meta ops (cur s)) f \<Longrightarrow>
     run_state cleanup s = (None, t) \<Longrightarrow>
     run_state (HandleDeletion ops update f cleanup) s =
       (case run_state (RemoveFinalizer ops update f) t of (r, u) \<Rightarrow> ((True, r), u))"
  by (auto simp: HandleDeletion_def split: prod.split option.split)

lemma HandleDeletion_result:
  assumes "om_DeletionTimestamp (oo_Meta ops (cur s)) \<noteq> None"
  obtains r t where "run_state (HandleDeletion ops update f cleanup) s = ((True, r), t)"
proof (cases "hasFinalizer (oo_Meta ops (cur s)) f")
  case False
  then show ?thesis using that HandleDeletion_released assms by blast
next
  case True
  obtain e t where run: "run_state cleanup s = (e, t)"
    by fastforce
  show ?thesis
  proof (cases e)
    case None
    obtain r u where "run_state (RemoveFinalizer ops update f) t = (r, u)"
      by fastforce
    then show ?thesis
      using that HandleDeletion_cleaned [OF assms True, of cleanup t update] run None by simp
  next
    case (Some err)
    then show ?thesis
      using that HandleDeletion_cleanup_failed [OF assms True, of cleanup err t update] run by simp
  qed
qed

context client_object
begin

lemma meta_after_modMeta:
  "oo_Meta ops (finalCur (modMeta ops f) s) = f (oo_Meta ops (cur s))"
  by (simp add: finalCur_def modMeta_def object_laws)

lemma ensureOwnershipID_present:
  assumes "mget (om_Annotations (oo_Meta ops (cur s))) a \<noteq> ''''"
  shows "run_state (ensureOwnershipID ops E a) s = (Inr False, s)"
  using assms by (simp add: ensureOwnershipID_def)

lemma ensureOwnershipID_absent:
  assumes "mget (om_Annotations (oo_Meta ops (cur s))) a = ''''"
  shows "resultOf (ensureOwnershipID ops E a) s = Inr True"
    and "mget (om_Annotations (oo_Meta ops (finalCur (ensureOwnershipID ops E a) s))) a
           = e_uuid E (calls s)"
  using assms by (simp_all add: ensureOwnershipID_def resultOf_def finalCur_def modMeta_def object_laws)

text \<open>The ownership ID survives every further call.\<close>

lemma ensureOwnershipID_stable:
  assumes "mget (om_Annotations (oo_Meta ops (cur s))) a \<noteq> ''''"
  shows "mget (om_Annotations (oo_Meta ops (finalCur (ensureOwnershipID ops E a) s))) a
           = mget (om_Annotations (oo_Meta ops (cur s))) a"
  using ensureOwnershipID_present [OF assms, of E] by (simp add: finalCur_def)

lemma frames_ensureOwnershipID:
  "frames (\<lambda>x. om_Finalizers (oo_Meta ops x)) (ensureOwnershipID ops E a)"
  unfolding ensureOwnershipID_def modMeta_def by (intro frames_rules) (simp_all add: object_laws)

lemma frames_ensureOwnershipID_deletion:
  "frames (\<lambda>x. om_DeletionTimestamp (oo_Meta ops x)) (ensureOwnershipID ops E a)"
  unfolding ensureOwnershipID_def modMeta_def by (intro frames_rules) (simp_all add: object_laws)

end

end
