(* ===== verification/MachineSteps.thy ===== *)
theory MachineSteps
  imports MachineBuild LoadBalancers ObjectHelpers
begin

text \<open>
  The steps of the machine controller: disks, placement group, public IP and security groups
  before the virtual machine exists, and what is kept in line afterwards.  A step that
  returns "pending" makes the reconcile stop and come back.
\<close>

section \<open>Shared shapes\<close>

definition machineKey :: "EvrocMachine \<Rightarrow> Key" where
  "machineKey m = \<lparr>k_Namespace = om_Namespace (m_Meta m), k_Name = om_Name (m_Meta m)\<rparr>"

text \<open>
  \<open>if err := Delete(...); err != nil { if !IsNotFoundError(err) { return fmt.Errorf(...) } }\<close>
\<close>

definition deleteTolerant :: "string \<Rightarrow> ('o, goerr option) go \<Rightarrow> ('o, goerr option) go" where
  "deleteTolerant msg del =
     onError del (\<lambda>err. if \<not> IsNotFoundError err then ret (Some (wrapErr msg err)) else ret None)
       (ret None)"

definition ensureResources :: "(EvrocMachine, unit) go" where
  "ensureResources = modCur (\<lambda>m. m\<lparr>m_Status := (m_Status m)\<lparr>mst_Resources :=
     (case mst_Resources (m_Status m) of None \<Rightarrow> Some zeroMachineResources | Some r \<Rightarrow> Some r)\<rparr>\<rparr>)"

definition setResources :: "(MachineResources \<Rightarrow> MachineResources) \<Rightarrow> (EvrocMachine, unit) go" where
  "setResources f = modCur (\<lambda>m. m\<lparr>m_Status := (m_Status m)\<lparr>mst_Resources :=
     map_option f (mst_Resources (m_Status m))\<rparr>\<rparr>)"

definition persistResourcesStatus :: "Env \<Rightarrow> (EvrocMachine, goerr option) go" where
  "persistResourcesStatus E = do {
     m \<leftarrow> getCur;
     (if mst_Resources (m_Status m) = None then ret None
      else onError (k8sStatusMachine E) (\<lambda>err. ret (Some err))
        (do { m \<leftarrow> getCur; k8sGetMachine E (machineKey m) })) }"

section \<open>Zone\<close>

definition pickZoneForMachine ::
    "Env \<Rightarrow> EvrocMachine \<Rightarrow> EvrocCluster option \<Rightarrow> (EvrocMachine, goerr + string) go" where
  "pickZoneForMachine E machine evrocCluster =
     (case evrocCluster of
        None \<Rightarrow> ret (Inr '''')
      | Some c \<Rightarrow>
          if length (cs_FailureDomains (cl_Spec c)) = 0 then ret (Inr '''')
          else
            let clusterName = mget (om_Labels (m_Meta machine)) ClusterNameLabel in
            if clusterName = '''' then ret (Inr '''')
            else onResult
              (invoke (e_machines E) (KListMachines (om_Namespace (m_Meta machine)) clusterName))
              (\<lambda>err. ret (Inl (wrapErr ''listing cluster machines for zone distribution'' err)))
              (\<lambda>items. ret (Inr (leastUsedZone (cs_FailureDomains (cl_Spec c))
                 (countZones (om_Name (m_Meta machine)) items)))))"

text \<open>\<open>unstructured.NestedString\<close>: the value, \<open>''''\<close> when absent, or an error.\<close>

definition nestedString :: "NestedString \<Rightarrow> goerr + string \<times> bool" where
  "nestedString v = (case v of NestedAbsent \<Rightarrow> Inr ('''', False) | NestedFound s \<Rightarrow> Inr (s, True)
     | NestedBadType err \<Rightarrow> Inl err)"

definition pickAndUpdateZoneForMachine ::
    "Env \<Rightarrow> OwnerMachine \<Rightarrow> EvrocCluster option \<Rightarrow> (EvrocMachine, goerr option) go" where
  "pickAndUpdateZoneForMachine E ownerMachine evrocCluster = do {
     machine \<leftarrow> getCur;
     (case nestedString (ow_FailureDomain ownerMachine) of
        Inl err \<Rightarrow> ret (Some (wrapErr ''reading spec.failureDomain from owner Machine'' err))
      | Inr (zone, _) \<Rightarrow>
          onResult (if zone = '''' then pickZoneForMachine E machine evrocCluster else ret (Inr zone))
            (\<lambda>err. ret (Some err))
            (\<lambda>zone.
               if zone = '''' then ret (Some (newErr (''availabilityZone is empty: configure '' @
                 ''failureDomains on the EvrocCluster so the controller can assign one automatically'')))
               else do {
                 modCur (\<lambda>m. m\<lparr>m_Status := (m_Status m)\<lparr>mst_AvailabilityZone := zone\<rparr>\<rparr>);
                 onError (k8sStatusMachine E)
                   (\<lambda>err. ret (Some (wrapErr ''persisting availability zone'' err))) (ret None) })) }"

section \<open>Before the virtual machine exists\<close>

text \<open>One data disk: what it becomes in the status, and whether it is still pending.\<close>

definition reconcileOneDisk ::
    "Env \<Rightarrow> EvrocMachine \<Rightarrow> clusterLabelInfo \<Rightarrow> AdditionalDiskSpec
      \<Rightarrow> (EvrocMachine, goerr + ManagedDisk \<times> bool) go" where
  "reconcileOneDisk E machine clusterInfo diskSpec =
     (let name = additionalDiskName (om_Name (m_Meta machine)) (ad_Name diskSpec) in
      onResult (DiskService_Get E name)
        (\<lambda>getErr.
           if IsNotFoundError getErr then
             onResult (DiskService_Create E name (ad_SizeGB diskSpec)
                 (case ad_Image diskSpec of None \<Rightarrow> '''' | Some i \<Rightarrow> i)
                 (mst_AvailabilityZone (m_Status machine))
                 (machineResourceLabels machine (ci_ID clusterInfo) (ci_AdditionalLabels clusterInfo)))
               (\<lambda>createErr. ret (Inl (wrapErr (''failed to create additional disk '' @ name) createErr)))
               (\<lambda>_. ret (Inr (\<lparr>mdk_ID = name, mdk_UID = '''', mdk_SizeGB = ad_SizeGB diskSpec,
                  mdk_Managed = True\<rparr>, True)))
           else ret (Inl (wrapErr (''failed to get additional disk '' @ name) getErr)))
        (\<lambda>disk.
           let managed = \<lparr>mdk_ID = md_Id (d_Meta disk), mdk_UID = md_Uid (d_Meta disk),
                 mdk_SizeGB = ad_SizeGB diskSpec, mdk_Managed = True\<rparr>
           in if \<not> s_diskReady E disk then
                (case getDiskErrorCondition disk of (reason, message) \<Rightarrow>
                   if reason \<noteq> '''' then ret (Inl (newErr (''additional disk '' @ quoted name @
                     '' failed: '' @ reason @ '': '' @ message)))
                   else ret (Inr (managed, True)))
              else ret (Inr (managed, False))))"

definition trackedDisks :: "EvrocMachine \<Rightarrow> ManagedDisk list" where
  "trackedDisks m = (case mst_Resources (m_Status m) of None \<Rightarrow> [] | Some r \<Rightarrow> mr_AdditionalDisks r)"

text \<open>Deleting the tracked managed disks that are not desired any more.\<close>

definition deleteStaleDisks :: "Env \<Rightarrow> ManagedDisk list \<Rightarrow> (string \<Rightarrow> bool) \<Rightarrow> (EvrocMachine, goerr option) go" where
  "deleteStaleDisks E tracked desired =
     forEach (\<lambda>d. if mdk_Managed d \<and> \<not> desired (mdk_ID d)
        then deleteTolerant (''failed to delete stale additional disk '' @ mdk_ID d)
               (DiskService_Delete E (mdk_ID d))
        else ret None) tracked"

definition reconcileAdditionalDisks ::
    "Env \<Rightarrow> EvrocMachine \<Rightarrow> clusterLabelInfo \<Rightarrow> (EvrocMachine, goerr + bool \<times> ManagedDisk list) go" where
  "reconcileAdditionalDisks E machine clusterInfo =
     (let specs = ms_AdditionalDisks (m_Spec machine) in
      if length specs = 0 then
        onError (deleteStaleDisks E (trackedDisks machine) (\<lambda>_. False))
          (\<lambda>err. ret (Inl err)) (ret (Inr (False, [])))
      else
        onResult (mapEach (reconcileOneDisk E machine clusterInfo) specs)
          (\<lambda>err. ret (Inl err))
          (\<lambda>results.
             if list_ex snd results then ret (Inr (True, map fst results))
             else onError
               (deleteStaleDisks E (trackedDisks machine)
                  (\<lambda>i. i \<in> set (map (\<lambda>d. additionalDiskName (om_Name (m_Meta machine)) (ad_Name d)) specs)))
               (\<lambda>err. ret (Inl err)) (ret (Inr (False, map fst results)))))"

definition reconcilePlacementGroup ::
    "Env \<Rightarrow> EvrocMachine \<Rightarrow> (EvrocMachine, goerr + bool \<times> ManagedPlacementGroup option) go" where
  "reconcilePlacementGroup E machine =
     (case ms_PlacementConfig (m_Spec machine) of
        None \<Rightarrow> ret (Inr (False, None))
      | Some p \<Rightarrow> (case pc_ExistingGroupID p of
            None \<Rightarrow> ret (Inr (False, None))
          | Some name \<Rightarrow>
              onResult (PlacementGroupService_Get E name)
                (\<lambda>getErr. ret (Inl (wrapErr (''failed to get existing placement group '' @ name) getErr)))
                (\<lambda>_. ret (Inr (False, Some \<lparr>mpg_ID = name, mpg_UID = '''', mpg_Strategy = '''',
                   mpg_Managed = False\<rparr>)))))"

definition publicIPTimeout :: int where
  "publicIPTimeout = 300 * 1000000000"

text \<open>The warning for an address that is not allocated after five minutes.\<close>

definition publicIPTimeoutMessage :: "string \<Rightarrow> string" where
  "publicIPTimeoutMessage name = ''Public IP '' @ name @ '' has not been allocated after 5m0s '' @
     [CHR 0xE2, CHR 0x80, CHR 0x94] @ '' possible quota exhaustion or cloud failure''"

definition warnPublicIPTimeout :: "Env \<Rightarrow> EvrocMachine \<Rightarrow> string \<Rightarrow> (EvrocMachine, unit) go" where
  "warnPublicIPTimeout E machine name = do {
     now \<leftarrow> ask (e_now E);
     (if now - om_CreationTimestamp (m_Meta machine) > publicIPTimeout then do {
        setMachineCondition E ''PublicIPReady'' ConditionFalse SeverityWarning
          ''PublicIPAllocationTimeout'' (publicIPTimeoutMessage name);
        (if e_hasRecorder E then invoke (\<lambda>_ _. ())
           (KEvent ''PublicIPAllocationTimeout'' (publicIPTimeoutMessage name)) else ret ()) }
      else ret ()) }"

definition reconcilePublicIPCreation ::
    "Env \<Rightarrow> EvrocMachine \<Rightarrow> clusterLabelInfo \<Rightarrow> (EvrocMachine, goerr + bool \<times> ManagedPublicIP option) go" where
  "reconcilePublicIPCreation E machine clusterInfo =
     (case (case ms_NetworkingConfig (m_Spec machine) of None \<Rightarrow> None | Some n \<Rightarrow> mnc_PublicIP n) of
        None \<Rightarrow> ret (Inr (False, None))
      | Some config \<Rightarrow> (case pip_ExistingID config of
          Some existingID \<Rightarrow>
            onResult (PublicIPService_Get E existingID)
              (\<lambda>getErr. ret (Inl (wrapErr (''failed to get existing public IP '' @ existingID) getErr)))
              (\<lambda>ip. ret (Inr (False, Some \<lparr>mip_ID = existingID, mip_UID = md_Uid (ip_Meta ip),
                 mip_Address = (case ip_Address ip of None \<Rightarrow> '''' | Some a \<Rightarrow> a), mip_Managed = False\<rparr>)))
        | None \<Rightarrow>
            if \<not> pip_Enabled config then ret (Inr (False, None))
            else
              let name = managedPublicIPName (om_Name (m_Meta machine));
                  managed = (\<lambda>uid address. Some \<lparr>mip_ID = name, mip_UID = uid, mip_Address = address,
                               mip_Managed = True\<rparr>)
              in onResult (PublicIPService_Exists E name)
                (\<lambda>existsErr. ret (Inl (wrapErr ''failed to check public IP existence'' existsErr)))
                (\<lambda>ex. if \<not> ex then
                     onResult (PublicIPService_Create E name
                         (machineResourceLabels machine (ci_ID clusterInfo) (ci_AdditionalLabels clusterInfo)))
                       (\<lambda>createErr. ret (Inl (wrapErr (''failed to create managed public IP '' @ name) createErr)))
                       (\<lambda>_. ret (Inr (True, managed '''' '''')))
                   else
                     onResult (PublicIPService_Get E name)
                       (\<lambda>getErr. ret (Inl (wrapErr (''failed to get managed public IP '' @ name) getErr)))
                       (\<lambda>ip. let address = (case ip_Address ip of None \<Rightarrow> '''' | Some a \<Rightarrow> a) in
                          if address = '''' then do {
                            warnPublicIPTimeout E machine name;
                            ret (Inr (True, managed (md_Uid (ip_Meta ip)) '''')) }
                          else ret (Inr (False, managed (md_Uid (ip_Meta ip)) address))))))"

section \<open>Security groups\<close>

definition ensureMachineSG ::
    "Env \<Rightarrow> EvrocMachine \<Rightarrow> clusterLabelInfo \<Rightarrow> InlineSecurityGroup \<Rightarrow> (EvrocMachine, goerr option) go" where
  "ensureMachineSG E machine clusterInfo inlineSG =
     (let sgName = inlineSGName (om_Name (m_Meta machine)) inlineSG;
          sdkRules = ConvertSecurityGroupRulesToSDK (isg_Rules inlineSG)
      in onResult (SecurityGroupService_Exists E sgName)
           (\<lambda>err. ret (Some (wrapErr (''failed to check security group '' @ sgName) err)))
           (\<lambda>ex. if \<not> ex then
                onResult (SecurityGroupService_Create E sgName sdkRules
                    (machineResourceLabels machine (ci_ID clusterInfo) (ci_AdditionalLabels clusterInfo))
                    (ci_VPCName clusterInfo))
                  (\<lambda>err. ret (Some (wrapErr (''failed to create security group '' @ sgName) err)))
                  (\<lambda>_. ret None)
              else
                onResult (SecurityGroupService_Get E sgName)
                  (\<lambda>err. ret (Some (wrapErr (''failed to get security group '' @ sgName) err)))
                  (\<lambda>existingSG.
                     onResult (SecurityGroupService_Update E sgName (existingSG\<lparr>sg_Rules := Some sdkRules\<rparr>))
                       (\<lambda>err. ret (Some (wrapErr (''failed to update security group '' @ sgName) err)))
                       (\<lambda>_. ret None))))"

definition reconcileMachineSecurityGroups ::
    "Env \<Rightarrow> EvrocMachine \<Rightarrow> clusterLabelInfo \<Rightarrow> (EvrocMachine, goerr option) go" where
  "reconcileMachineSecurityGroups E machine clusterInfo =
     (case machineSGConfig machine of
        None \<Rightarrow> ret None
      | Some sgConfig \<Rightarrow> forEach (ensureMachineSG E machine clusterInfo) (msgc_InlineSecurityGroups sgConfig))"

definition trackedSGs :: "EvrocMachine \<Rightarrow> ManagedSecurityGroup list" where
  "trackedSGs m = (case mst_Resources (m_Status m) of None \<Rightarrow> [] | Some r \<Rightarrow> mr_SecurityGroups r)"

definition reconcileVMSecurityGroups ::
    "Env \<Rightarrow> EvrocMachine \<Rightarrow> EvrocCluster option \<Rightarrow> (EvrocMachine, goerr option) go" where
  "reconcileVMSecurityGroups E machine evrocCluster =
     (if mst_MachineID (m_Status machine) = '''' then ret None
      else
        let desiredSGNames = desiredSecurityGroups machine evrocCluster;
            vmName = om_Name (m_Meta machine)
        in onError (VirtualMachineService_UpdateSecurityGroups E vmName desiredSGNames)
             (\<lambda>err. ret (Some (wrapErr (''failed to update security groups on VM '' @ vmName) err)))
             (forEach (\<lambda>tracked.
                if msg_Managed tracked \<and> msg_ID tracked \<notin> set desiredSGNames
                then deleteTolerant (''failed to delete stale security group '' @ msg_ID tracked)
                       (SecurityGroupService_Delete E (msg_ID tracked))
                else ret None) (trackedSGs machine)))"

section \<open>While the virtual machine exists\<close>

definition reconcileLBBackend ::
    "Env \<Rightarrow> EvrocMachine \<Rightarrow> EvrocCluster option \<Rightarrow> (EvrocMachine, goerr option) go" where
  "reconcileLBBackend E machine evrocCluster =
     (if \<not> isControlPlane machine then ret None
      else case evrocCluster of
          None \<Rightarrow> ret (Some (newErr ''EvrocCluster not yet available, will retry''))
        | Some c \<Rightarrow>
            if \<not> ShouldManageControlPlaneEndpoint (Some c) then ret None
            else case resolveLoadBalancerName c of
                Inl err \<Rightarrow> ret (Some (wrapErr ''failed to resolve LB name'' err))
              | Inr (lbID, _) \<Rightarrow>
                  onError (LoadBalancerService_AddBackend E lbID (om_Name (m_Meta machine)))
                    (\<lambda>err. ret (Some (wrapErr (''failed to register machine '' @
                       om_Name (m_Meta machine) @ '' as LB backend'') err)))
                    (ret None))"

definition reconcilePublicIPAttachment ::
    "Env \<Rightarrow> EvrocMachine \<Rightarrow> EvrocCluster option \<Rightarrow> (EvrocMachine, goerr option) go" where
  "reconcilePublicIPAttachment E machine evrocCluster =
     (if mst_MachineID (m_Status machine) = '''' then ret None
      else
        let desiredPublicIPName = resolvePublicIPRef machine evrocCluster;
            vmName = om_Name (m_Meta machine)
        in if desiredPublicIPName = '''' then ret None
           else onError (VirtualMachineService_UpdatePublicIP E vmName desiredPublicIPName)
             (\<lambda>err. ret (Some (wrapErr (''failed to update public IP on VM '' @ vmName) err)))
             (ret None))"

definition desiredDiskNames :: "EvrocMachine \<Rightarrow> string list" where
  "desiredDiskNames machine =
     (if ms_RootDiskSize (m_Spec machine) > 0 then [bootDiskName (om_Name (m_Meta machine))] else []) @
     map (\<lambda>d. additionalDiskName (om_Name (m_Meta machine)) (ad_Name d)) (ms_AdditionalDisks (m_Spec machine))"

definition reconcileVMDisks :: "Env \<Rightarrow> EvrocMachine \<Rightarrow> (EvrocMachine, goerr option) go" where
  "reconcileVMDisks E machine =
     (if mst_MachineID (m_Status machine) = '''' then ret None
      else
        let vmName = om_Name (m_Meta machine) in
        onError (VirtualMachineService_UpdateDisks E vmName (desiredDiskNames machine))
          (\<lambda>err. ret (Some (wrapErr (''failed to update disks on VM '' @ vmName) err)))
          (ret None))"

definition reconcileVMPlacement :: "Env \<Rightarrow> EvrocMachine \<Rightarrow> VirtualMachine \<Rightarrow> (EvrocMachine, goerr option) go" where
  "reconcileVMPlacement E machine evrocVM =
     (if mst_MachineID (m_Status machine) = '''' then ret None
      else
        let desired = vp_PlacementGroupRef (buildPlacement machine);
            vmName = om_Name (m_Meta machine)
        in if desired = None then ret None
           else if vm_PlacementGroupRef evrocVM = desired then ret None
           else onError (VirtualMachineService_UpdatePlacement E vmName
                  \<lparr>vp_Zone = None, vp_PlacementGroupRef = desired\<rparr>)
             (\<lambda>err. ret (Some (wrapErr (''failed to update placement on VM '' @ vmName) err)))
             (ret None))"

section \<open>The node of the machine\<close>

text \<open>\<open>None\<close> in the result is the nil client: the kubeconfig is not there yet.\<close>

definition getWorkloadClusterClient :: "Env \<Rightarrow> EvrocMachine \<Rightarrow> (EvrocMachine, goerr + unit option) go" where
  "getWorkloadClusterClient E machine =
     (let clusterName = mget (om_Labels (m_Meta machine)) ClusterNameLabel in
      if clusterName = '''' then ret (Inr None)
      else onResult (invoke (e_secret E) (KGetSecret
             \<lparr>k_Namespace = om_Namespace (m_Meta machine), k_Name = clusterName @ ''-kubeconfig''\<rparr>))
        (\<lambda>err. if errIs err K8sNotFoundM then ret (Inr None)
               else ret (Inl (wrapErr ''getting kubeconfig secret'' err)))
        (\<lambda>secret.
           case s_restConfigInsecure E (mget (sec_Data secret) ''value'') of
             Inl err \<Rightarrow> ret (Inl (wrapErr ''parsing workload kubeconfig'' err))
           | Inr insecure \<Rightarrow>
               if insecure then
                 ret (Inl (newErr ''workload kubeconfig must not use insecure-skip-tls-verify''))
               else onError (invoke (e_err E) WNewClient)
                 (\<lambda>err. ret (Inl (wrapErr ''creating workload cluster client'' err)))
                 (ret (Inr (Some ())))))"

definition patchNodeProviderID :: "Env \<Rightarrow> (EvrocMachine, goerr + bool) go" where
  "patchNodeProviderID E = do {
     machine \<leftarrow> getCur;
     (case ms_ProviderID (m_Spec machine) of
        None \<Rightarrow> ret (Inr False)
      | Some providerID \<Rightarrow>
          onResult (invoke (e_node E) (WGetNode (om_Name (m_Meta machine))))
            (\<lambda>err. if errIs err K8sNotFoundM then ret (Inr False)
                   else ret (Inl (wrapErr ''getting workload cluster node'' err)))
            (\<lambda>node. if nd_ProviderID node = providerID then ret (Inr True)
               else onResult (invoke (e_node E) (WPatchNode node (node\<lparr>nd_ProviderID := providerID\<rparr>)))
                 (\<lambda>err. ret (Inl (wrapErr ''patching node providerID'' err)))
                 (\<lambda>_. ret (Inr True)))) }"

definition setProviderID :: "string \<Rightarrow> EvrocMachine \<Rightarrow> EvrocMachine" where
  "setProviderID p m = m\<lparr>m_Spec := (m_Spec m)\<lparr>ms_ProviderID := Some p\<rparr>\<rparr>"

definition ensureMachineProviderID ::
    "Env \<Rightarrow> VirtualMachine \<Rightarrow> EvrocCluster option \<Rightarrow> (EvrocMachine, goerr option) go" where
  "ensureMachineProviderID E evrocVM evrocCluster = do {
     machine \<leftarrow> getCur;
     (if ms_ProviderID (m_Spec machine) \<noteq> None \<or> usesExternalCloudProvider evrocCluster then ret None
      else do {
        modCur (setProviderID (''evroc://'' @ md_Uid (vm_Meta evrocVM)));
        onError (k8sUpdateMachine E) (\<lambda>err. ret (Some (wrapErr ''updating spec'' err)))
          (do { m \<leftarrow> getCur; k8sGetMachine E (machineKey m) }) }) }"

text \<open>A failed patch leaves the ID set in memory, where nothing reads it again.\<close>

definition adoptNodeProviderID :: "Env \<Rightarrow> (EvrocMachine, goerr + bool) go" where
  "adoptNodeProviderID E = do {
     machine \<leftarrow> getCur;
     (if ms_ProviderID (m_Spec machine) \<noteq> None then ret (Inr True)
      else onResult (invoke (e_node E) (WGetNode (om_Name (m_Meta machine))))
        (\<lambda>err. if errIs err K8sNotFoundM then ret (Inr False)
               else ret (Inl (wrapErr ''getting workload cluster node'' err)))
        (\<lambda>node. if nd_ProviderID node = '''' then ret (Inr False)
           else do {
             modCur (setProviderID (nd_ProviderID node));
             patched \<leftarrow> getCur;
             onError (storeReply (invoke (e_machine E) (KPatchMachine machine patched)))
               (\<lambda>err. ret (Inl (wrapErr ''adopting node providerID'' err)))
               (ret (Inr True)) })) }"

definition instanceTypeLabel :: string where
  "instanceTypeLabel = ''node.kubernetes.io/instance-type''"

definition uninitializedTaint :: string where
  "uninitializedTaint = ''node.cloudprovider.kubernetes.io/uninitialized''"

definition initializedNode :: "string \<Rightarrow> Node \<Rightarrow> Node" where
  "initializedNode computeProfile node =
     node\<lparr>nd_Labels := (if mget (nd_Labels node) instanceTypeLabel \<noteq> computeProfile
             then mput instanceTypeLabel computeProfile (nd_Labels node) else nd_Labels node),
         nd_Taints := filter (\<lambda>t. tn_Key t \<noteq> uninitializedTaint) (nd_Taints node)\<rparr>"

definition needsUpdate :: "string \<Rightarrow> Node \<Rightarrow> bool" where
  "needsUpdate computeProfile node \<longleftrightarrow>
     mget (nd_Labels node) instanceTypeLabel \<noteq> computeProfile \<or>
     list_ex (\<lambda>t. tn_Key t = uninitializedTaint) (nd_Taints node)"

definition reconcileNodeLabelsAndTaints :: "Env \<Rightarrow> EvrocMachine \<Rightarrow> (EvrocMachine, goerr option) go" where
  "reconcileNodeLabelsAndTaints E machine =
     onResult (invoke (e_node E) (WGetNode (om_Name (m_Meta machine))))
       (\<lambda>err. if errIs err K8sNotFoundM then ret None
              else ret (Some (wrapErr ''getting workload cluster node'' err)))
       (\<lambda>node. if needsUpdate (ms_ComputeProfile (m_Spec machine)) node then
            onResult (invoke (e_node E) (WPatchNode node
                (initializedNode (ms_ComputeProfile (m_Spec machine)) node)))
              (\<lambda>err. ret (Some (wrapErr ''patching node labels and taints'' err))) (\<lambda>_. ret None)
          else ret None)"

definition reconcileNodeInitialization ::
    "Env \<Rightarrow> EvrocMachine \<Rightarrow> EvrocCluster option \<Rightarrow> (EvrocMachine, goerr option) go" where
  "reconcileNodeInitialization E machine evrocCluster =
     (if usesExternalCloudProvider evrocCluster then ret None
      else reconcileNodeLabelsAndTaints E machine)"

end
