(* ===== verification/Workload.thy ===== *)
theory Workload
  imports CloudServices Provenance
begin

text \<open>
  \<open>internal/cloud/workload.go\<close>: removing what the cloud controller manager and the CSI driver
  of the workload cluster left in the cloud, found by the label \<open>managed-by=<cluster ID>\<close>.
\<close>

section \<open>Definitions\<close>

definition deleteOwned :: "Env \<Rightarrow> string \<Rightarrow> string \<times> SdkKind \<Rightarrow> ('o, goerr + bool) go" where
  "deleteOwned E clusterID k =
     onResult (invoke (e_items E) (SdkList (snd k) (driverSelector clusterID)))
       (\<lambda>err. ret (Inl (wrapErr (''failed to list '' @ fst k @ ''s'') err)))
       (\<lambda>listed.
          let ids = map md_Id listed in
          onError
            (forEach (\<lambda>i. onError (invoke (e_err E) (SdkDelete (snd k) i))
               (\<lambda>err. if \<not> IsNotFoundError err \<and> \<not> errIs err ConflictM
                      then ret (Some (wrapErr (''failed to delete '' @ fst k @ '' '' @ i) err))
                      else ret None)
               (ret None)) ids)
            (\<lambda>err. ret (Inl err))
            (ret (Inr (length ids > 0))))"

definition driverKinds :: "(string \<times> SdkKind) list" where
  "driverKinds = [(''loadBalancer'', LoadBalancerK), (''l4Route'', L4RouteK),
     (''backendService'', BackendServiceK), (''backendPool'', BackendPoolK), (''publicIP'', PublicIPK)]"

fun deleteKinds :: "Env \<Rightarrow> string \<Rightarrow> bool \<Rightarrow> (string \<times> SdkKind) list \<Rightarrow> ('o, goerr + bool) go" where
  "deleteKinds E clusterID pending [] = ret (Inr pending)"
| "deleteKinds E clusterID pending (k # ks) =
     onResult (deleteOwned E clusterID k) (\<lambda>err. ret (Inl err))
       (\<lambda>found. deleteKinds E clusterID (pending \<or> found) ks)"

text \<open>Disks depend on their attachments being gone, and go only when asked for.\<close>

definition cleanupDisks :: "Env \<Rightarrow> string \<Rightarrow> bool \<Rightarrow> bool \<Rightarrow> ('o, goerr + bool) go" where
  "cleanupDisks E clusterID deleteDisks pending =
     onResult (deleteOwned E clusterID (''disk attachment'', HotswapDiskAttachmentK))
       (\<lambda>err. ret (Inl err))
       (\<lambda>attached.
          if attached \<or> \<not> deleteDisks then ret (Inr (pending \<or> attached))
          else onResult (deleteOwned E clusterID (''disk'', DiskK)) (\<lambda>err. ret (Inl err))
            (\<lambda>found. ret (Inr (pending \<or> found))))"

definition Cleanup :: "Env \<Rightarrow> string \<Rightarrow> bool \<Rightarrow> ('o, goerr + bool) go" where
  "Cleanup E clusterID deleteDisks =
     onResult (invoke (e_items E) (SdkList VirtualMachineK (ownerSelector LabelClusterID clusterID)))
       (\<lambda>err. ret (Inl (wrapErr ''failed to list cluster VMs'' err)))
       (\<lambda>vms. if length vms > 0 then ret (Inr True)
         else onResult (deleteKinds E clusterID False driverKinds) (\<lambda>err. ret (Inl err))
           (cleanupDisks E clusterID deleteDisks))"

section \<open>What is called\<close>

lemma emits_deleteOwned:
  assumes "P (SdkList (snd k) (driverSelector i))" and "\<And>n. P (SdkDelete (snd k) n)"
  shows "emits P (deleteOwned E i k)"
  unfolding deleteOwned_def Let_def by (intro go_rules assms)

lemma emits_deleteKinds:
  assumes "\<And>k. k \<in> snd ` set ks \<Longrightarrow> P (SdkList k (driverSelector i))"
    and "\<And>k n. k \<in> snd ` set ks \<Longrightarrow> P (SdkDelete k n)"
  shows "emits P (deleteKinds E i p ks)"
  using assms by (induction ks arbitrary: p) (auto intro!: go_rules emits_deleteOwned)

lemma frames_deleteOwned: "frames v (deleteOwned E i k)"
  unfolding deleteOwned_def Let_def by (intro frames_rules)

lemma frames_deleteKinds: "frames v (deleteKinds E i p ks)"
  by (induction ks arbitrary: p) (auto intro!: frames_rules frames_deleteOwned)

lemma frames_Cleanup [frames_ops]: "frames v (Cleanup E i dd)"
  unfolding Cleanup_def cleanupDisks_def
  by (intro frames_rules frames_deleteOwned frames_deleteKinds)

lemma emits_Cleanup [emits_ops]:
  assumes "\<And>k sel. P (SdkList k sel)" and "\<And>k n. P (SdkDelete k n)"
  shows "emits P (Cleanup E i dd)"
  unfolding Cleanup_def cleanupDisks_def
  by (intro go_rules emits_deleteOwned emits_deleteKinds assms)

section \<open>Only owned resources, and disks only without attachments\<close>

text \<open>A delete is of something the driver selector lists.\<close>

definition listedByDriver :: "Env \<Rightarrow> string \<Rightarrow> Call list \<Rightarrow> SdkKind \<Rightarrow> string \<Rightarrow> bool" where
  "listedByDriver E clusterID h k n \<longleftrightarrow>
     answeredIn h (SdkList k (driverSelector clusterID))
       (\<lambda>h'. \<exists>items. e_items E h' (SdkList k (driverSelector clusterID)) = Inr items \<and>
          n \<in> md_Id ` set items)"

text \<open>A lookup found no resource of the kind.\<close>

definition noneListed :: "Env \<Rightarrow> string \<Rightarrow> Call list \<Rightarrow> SdkKind \<Rightarrow> bool" where
  "noneListed E sel h k \<longleftrightarrow> answeredIn h (SdkList k sel) (\<lambda>h'. e_items E h' (SdkList k sel) = Inr [])"

text \<open>
  The judgement: a delete is of a listed resource, after no machine of the cluster was listed;
  a disk goes only when the caller asked for it and no attachment was listed.
\<close>

fun cleanupJudge :: "Env \<Rightarrow> string \<Rightarrow> bool \<Rightarrow> Call list \<Rightarrow> Call \<Rightarrow> bool" where
  "cleanupJudge E i dd h (SdkDelete k n) \<longleftrightarrow>
     listedByDriver E i h k n \<and> noneListed E (ownerSelector LabelClusterID i) h VirtualMachineK \<and>
     (k = DiskK \<longrightarrow> dd \<and> noneListed E (driverSelector i) h HotswapDiskAttachmentK)"
| "cleanupJudge E i dd h (SdkList k sel) \<longleftrightarrow>
     sel = driverSelector i \<or> k = VirtualMachineK \<and> sel = ownerSelector LabelClusterID i"
| "cleanupJudge E i dd h c \<longleftrightarrow> False"

lemma justifies_deleteOwned:
  assumes vm: "noneListed E (ownerSelector LabelClusterID i) h VirtualMachineK"
    and disk: "snd k = DiskK \<Longrightarrow> dd \<and> noneListed E (driverSelector i) h HotswapDiskAttachmentK"
  shows "justifies (cleanupJudge E i dd) h (deleteOwned E i k)"
  unfolding deleteOwned_def Let_def
proof (rule justifies_onResult_after)
  show "justifies (cleanupJudge E i dd) h (invoke (e_items E) (SdkList (snd k) (driverSelector i)))"
    by (rule justifies_invoke) simp
next
  fix s :: "('o, Call) st" and items t
  assume h: "prefix h (calls s)"
    and run: "run_state (invoke (e_items E) (SdkList (snd k) (driverSelector i))) s = (Inr items, t)"
  have t: "calls t = calls s @ [SdkList (snd k) (driverSelector i)]"
    and items: "e_items E (calls s) (SdkList (snd k) (driverSelector i)) = Inr items"
    using run by auto
  have ht: "prefix h (calls t)"
    using h t by simp
  have del: "cleanupJudge E i dd h' (SdkDelete (snd k) n)"
    if "prefix (calls t) h'" "n \<in> set (map md_Id items)" for h' n
  proof -
    have "listedByDriver E i (calls t) (snd k) n"
      unfolding listedByDriver_def t using items that(2) by (auto intro!: answeredIn_snoc)
    then show ?thesis
      using that(1) prefix_order.trans [OF ht that(1)] vm disk
      by (auto simp: listedByDriver_def noneListed_def intro: answeredIn_prefix)
  qed
  show "justifies (cleanupJudge E i dd) (calls t)
     (onError (forEach (\<lambda>n. onError (invoke (e_err E) (SdkDelete (snd k) n))
        (\<lambda>err. if \<not> IsNotFoundError err \<and> \<not> errIs err ConflictM
               then ret (Some (wrapErr (''failed to delete '' @ fst k @ '' '' @ n) err))
               else ret None) (ret None)) (map md_Id items))
      (\<lambda>err. ret (Inl err)) (ret (Inr (0 < length (map md_Id items)))))"
    by (intro just_rules justifies_invoke del)
qed (intro just_rules)

lemma justifies_deleteKinds:
  assumes "noneListed E (ownerSelector LabelClusterID i) h VirtualMachineK" and "DiskK \<notin> snd ` set ks"
  shows "justifies (cleanupJudge E i dd) h (deleteKinds E i p ks)"
  using assms(2)
  by (induction ks arbitrary: p) (auto intro!: just_rules justifies_deleteOwned assms(1))

lemma deleteOwned_none:
  assumes "run_state (deleteOwned E i k) s = (Inr False, t)"
  shows "noneListed E (driverSelector i) (calls t) (snd k)"
proof -
  let ?c = "SdkList (snd k) (driverSelector i)"
  obtain items where items: "e_items E (calls s) ?c = Inr items"
    using assms by (cases "e_items E (calls s) ?c") (auto simp: deleteOwned_def)
  then have "items = []"
    using assms by (auto simp: deleteOwned_def Let_def split: prod.splits option.splits)
  with items assms have "calls t = calls s @ [?c]"
    by (auto simp: deleteOwned_def)
  then show ?thesis
    using items \<open>items = []\<close> by (simp add: noneListed_def answeredIn_snoc)
qed

lemma justifies_cleanupDisks:
  assumes vm: "noneListed E (ownerSelector LabelClusterID i) h VirtualMachineK"
  shows "justifies (cleanupJudge E i dd) h (cleanupDisks E i dd p)"
  unfolding cleanupDisks_def
proof (rule justifies_onResult_after)
  let ?m = "deleteOwned E i (''disk attachment'', HotswapDiskAttachmentK)"
  show att: "justifies (cleanupJudge E i dd) h ?m"
    by (rule justifies_deleteOwned [OF vm]) simp
  fix s :: "('o, Call) st" and attached u
  assume s: "prefix h (calls s)" and run: "run_state ?m s = (Inr attached, u)"
  have "prefix h (calls u)"
    by (rule justifies_extends [OF att s run])
  then have "noneListed E (ownerSelector LabelClusterID i) (calls u) VirtualMachineK"
    unfolding noneListed_def by (rule answeredIn_prefix [OF vm [unfolded noneListed_def]])
  moreover have "\<not> attached \<Longrightarrow> noneListed E (driverSelector i) (calls u) HotswapDiskAttachmentK"
    using deleteOwned_none [of E i _ s u] run by fastforce
  ultimately show "justifies (cleanupJudge E i dd) (calls u)
      (if attached \<or> \<not> dd then ret (Inr (p \<or> attached))
       else onResult (deleteOwned E i (''disk'', DiskK)) (\<lambda>err. ret (Inl err))
         (\<lambda>found. ret (Inr (p \<or> found))))"
    by (intro just_rules justifies_deleteOwned) auto
qed (intro just_rules)

lemma justifies_Cleanup: "justifies (cleanupJudge E i dd) h (Cleanup E i dd)"
  unfolding Cleanup_def
proof (rule justifies_onResult_after)
  let ?c = "SdkList VirtualMachineK (ownerSelector LabelClusterID i)"
  show "justifies (cleanupJudge E i dd) h (invoke (e_items E) ?c)"
    by (rule justifies_invoke) simp
  fix s :: "('o, Call) st" and vms t
  assume "run_state (invoke (e_items E) ?c) s = (Inr vms, t)"
  then have "vms = [] \<Longrightarrow> noneListed E (ownerSelector LabelClusterID i) (calls t) VirtualMachineK"
    by (auto simp: noneListed_def intro!: answeredIn_snoc)
  then show "justifies (cleanupJudge E i dd) (calls t) (if length vms > 0 then ret (Inr True)
     else onResult (deleteKinds E i False driverKinds) (\<lambda>err. ret (Inl err)) (cleanupDisks E i dd))"
    by (intro just_rules justifies_deleteKinds justifies_cleanupDisks) (auto simp: driverKinds_def)
qed (intro just_rules)

end
