(* ===== verification/Credentials.thy ===== *)
theory Credentials
  imports World
begin

text \<open>
  \<open>internal/cloud/credentials.go\<close> and what both controllers make of it: a cloud client for the
  cluster from the secret its \<open>credentialsRef\<close> names, or, when that secret is gone, from the
  copy the cluster owns.  Every later call goes to that client, which the model does not carry
  around.
\<close>

section \<open>A client from a secret\<close>

definition configFromServiceAccountKeys :: "Env \<Rightarrow> gomap \<Rightarrow> ClusterContext \<Rightarrow> goerr + CloudConfig" where
  "configFromServiceAccountKeys E data clusterCtx =
     (let saID = mget data ''serviceAccountID'';
          saSecret = mget data ''serviceAccountSecret'';
          organization = mget data ''organization''
      in if saID = '''' \<or> saSecret = '''' then
           Inl (newErr ''missing required keys: serviceAccountID and serviceAccountSecret'')
         else Inr (s_setDefaults E
           \<lparr>cfg_ServiceAccountID = saID, cfg_ServiceAccountSecret = saSecret,
            cfg_TokenURL = cx_AuthTokenURL clusterCtx, cfg_ClientID = cx_ClientID clusterCtx,
            cfg_BaseURL = cx_APIBaseURL clusterCtx, cfg_Project = cx_Project clusterCtx,
            cfg_Region = cx_Region clusterCtx, cfg_Organization = organization\<rparr>))"

definition NewClientFromConfig :: "Env \<Rightarrow> CloudConfig \<Rightarrow> ('o, goerr option) go" where
  "NewClientFromConfig E cfg =
     onError (invoke (e_err E) (SdkNewClient cfg))
       (\<lambda>err. ret (Some (wrapErr ''failed to create evroc SDK client'' err))) (ret None)"

text \<open>
  The catalog cache is looked up under the secret's key, UID and version and the cluster's
  context; the type assertion on the entry cannot fail, since only caches are stored.
\<close>

definition ClientForCluster ::
    "Env \<Rightarrow> string \<Rightarrow> string \<Rightarrow> ClusterContext \<Rightarrow> ('o, goerr option) go" where
  "ClientForCluster E secretName secretNamespace clusterCtx =
     (if secretName = '''' then ret (Some (newErr ''cluster has no credentialsRef''))
      else
        let key = \<lparr>k_Namespace = secretNamespace, k_Name = secretName\<rparr>;
            secretPath = secretNamespace @ ''/'' @ secretName
        in onResult (invoke (e_secret E) (KGetSecret key))
          (\<lambda>err. ret (Some (wrapErr (''failed to get credentials secret '' @ secretPath) err)))
          (\<lambda>secret.
             case configFromServiceAccountKeys E (sec_Data secret) clusterCtx of
               Inl err \<Rightarrow>
                 if mhas (sec_Data secret) ''config.yaml'' then
                   ret (Some (newErr (''credentials secret '' @ secretPath @
                     '' uses the removed config.yaml format; recreate it with the '' @
                     ''serviceAccountID and serviceAccountSecret keys (see README step 7)'')))
                 else ret (Some (wrapErr (''credentials secret '' @ secretPath) err))
             | Inr cfg \<Rightarrow>
                 onError (NewClientFromConfig E cfg) (\<lambda>err. ret (Some err))
                   (do {
                      invoke (\<lambda>_ _. ()) (SdkUseCatalog
                        \<lparr>cat_Secret = key, cat_UID = sec_UID secret,
                         cat_Version = sec_ResourceVersion secret, cat_Cluster = clusterCtx\<rparr>);
                      ret None })))"

section \<open>The client of a cluster\<close>

definition credentialSecretCopyKey :: "EvrocCluster \<Rightarrow> Key" where
  "credentialSecretCopyKey c =
     \<lparr>k_Namespace = om_Namespace (cl_Meta c), k_Name = om_Name (cl_Meta c) @ ''-evroc-credentials''\<rparr>"

definition clusterContextOf :: "EvrocCluster \<Rightarrow> ClusterContext" where
  "clusterContextOf c =
     \<lparr>cx_Project = cs_Project (cl_Spec c), cx_Region = cs_Region (cl_Spec c),
      cx_APIBaseURL = GetAPIBaseURL (cs_Endpoints (cl_Spec c)),
      cx_AuthTokenURL = GetAuthTokenURL (cs_Endpoints (cl_Spec c)),
      cx_ClientID = GetClientID (cs_Endpoints (cl_Spec c))\<rparr>"

definition Cluster_resolveCloudClient :: "Env \<Rightarrow> EvrocCluster \<Rightarrow> ('o, goerr option) go" where
  "Cluster_resolveCloudClient E c =
     (let secretName = (case cs_CredentialsRef (cl_Spec c) of None \<Rightarrow> '''' | Some r \<Rightarrow> sref_Name r);
          ctx = clusterContextOf c;
          copyKey = credentialSecretCopyKey c
      in onError (ClientForCluster E secretName (om_Namespace (cl_Meta c)) ctx)
           (\<lambda>err. if \<not> errIs err K8sNotFoundM then ret (Some err)
              else onError (ClientForCluster E (k_Name copyKey) (k_Namespace copyKey) ctx)
                (\<lambda>copyErr. if errIs copyErr K8sNotFoundM then ret (Some err) else ret (Some copyErr))
                (ret None))
           (ret None))"

definition Machine_resolveCloudClient ::
    "Env \<Rightarrow> EvrocMachine \<Rightarrow> EvrocCluster option \<Rightarrow> ('o, goerr option) go" where
  "Machine_resolveCloudClient E machine evrocCluster =
     (case evrocCluster of
        None \<Rightarrow> ret (Some (newErr (''no EvrocCluster found for machine '' @
                  om_Namespace (m_Meta machine) @ ''/'' @ om_Name (m_Meta machine))))
      | Some c \<Rightarrow>
          let secretName = (case cs_CredentialsRef (cl_Spec c) of None \<Rightarrow> '''' | Some r \<Rightarrow> sref_Name r);
              ctx = clusterContextOf c;
              copyKey = credentialSecretCopyKey c
          in onError (ClientForCluster E secretName (om_Namespace (cl_Meta c)) ctx)
               (\<lambda>err. if \<not> errIs err K8sNotFoundM then ret (Some err)
                  else onError (ClientForCluster E (k_Name copyKey) (k_Namespace copyKey) ctx)
                    (\<lambda>copyErr. if errIs copyErr K8sNotFoundM then ret (Some err)
                               else ret (Some copyErr))
                    (ret None))
               (ret None))"

section \<open>The owned copy of the secret\<close>

text \<open>\<open>reflect.DeepEqual\<close> on the data of two secrets.\<close>

definition sameData :: "gomap \<Rightarrow> gomap \<Rightarrow> bool" where
  "sameData a b \<longleftrightarrow> list_all (\<lambda>k. map_of a k = map_of b k) (map fst a @ map fst b)"

definition desiredCopy :: "EvrocCluster \<Rightarrow> Secret \<Rightarrow> Secret" where
  "desiredCopy c src =
     \<lparr>sec_Key = credentialSecretCopyKey c, sec_UID = '''', sec_ResourceVersion = '''',
      sec_Labels = [(''cluster.x-k8s.io/cluster-name'', om_Name (cl_Meta c))],
      sec_OwnerReferences =
        [\<lparr>or_APIVersion = ''infrastructure.cluster.x-k8s.io/v1beta1'', or_Kind = ''EvrocCluster'',
          or_Name = om_Name (cl_Meta c), or_UID = om_UID (cl_Meta c)\<rparr>],
      sec_Type = sec_Type src,
      sec_Data = sec_Data src\<rparr>"

definition syncCopy :: "Env \<Rightarrow> EvrocCluster \<Rightarrow> Secret \<Rightarrow> ('o, goerr option) go" where
  "syncCopy E c src =
     (let desired = desiredCopy c src in
      onResult (invoke (e_secret E) (KGetSecret (credentialSecretCopyKey c)))
        (\<lambda>err. if errIs err K8sNotFoundM then
             onResult (invoke (e_secret E) (KCreateSecret desired))
               (\<lambda>err. ret (Some (wrapErr ''failed to create credential secret copy'' err)))
               (\<lambda>_. ret None)
           else ret (Some (wrapErr ''failed to get credential secret copy'' err)))
        (\<lambda>existing.
           if \<not> sameData (sec_Data existing) (sec_Data desired) then
             onResult (invoke (e_secret E) (KUpdateSecret (existing\<lparr>sec_Data := sec_Data desired\<rparr>)))
               (\<lambda>err. ret (Some (wrapErr ''failed to update credential secret copy'' err)))
               (\<lambda>_. ret None)
           else ret None))"

definition ensureCredentialSecretCopy :: "Env \<Rightarrow> EvrocCluster \<Rightarrow> ('o, goerr option) go" where
  "ensureCredentialSecretCopy E c =
     (case cs_CredentialsRef (cl_Spec c) of
        None \<Rightarrow> ret None
      | Some r \<Rightarrow>
          let ns = om_Namespace (cl_Meta c);
              failed = (\<lambda>err. ret (Some (wrapErr (''failed to get credential secret '' @ ns @ ''/'' @
                          sref_Name r) err)))
          in onResult (invoke (e_secret E) (KGetSecret \<lparr>k_Namespace = ns, k_Name = sref_Name r\<rparr>))
               (\<lambda>err. if errIs err K8sNotFoundM then
                    onResult (invoke (e_secret E) (KGetSecret (credentialSecretCopyKey c)))
                      (\<lambda>_. failed err) (\<lambda>_. ret None)
                  else failed err)
               (\<lambda>src. syncCopy E c src))"

section \<open>Lemmas\<close>

lemma sameData_iff: "sameData a b \<longleftrightarrow> map_of a = map_of b"
proof
  assume s: "sameData a b"
  show "map_of a = map_of b"
  proof
    fix k
    show "map_of a k = map_of b k"
    proof (cases "k \<in> fst ` set a \<or> k \<in> fst ` set b")
      case True
      then show ?thesis using s by (auto simp: sameData_def list_all_iff)
    next
      case False
      then have "map_of a k = None" and "map_of b k = None"
        by (simp_all add: map_of_eq_None_iff)
      then show ?thesis by simp
    qed
  qed
qed (simp add: sameData_def list_all_iff)

lemma emits_ClientForCluster [emits_ops]:
  assumes "\<And>k. P (KGetSecret k)" and "\<And>c. P (SdkNewClient c)" and "\<And>c. P (SdkUseCatalog c)"
  shows "emits P (ClientForCluster E n ns ctx)"
  unfolding ClientForCluster_def NewClientFromConfig_def Let_def by (intro go_rules assms)

lemma emits_Cluster_resolveCloudClient [emits_ops]:
  assumes "\<And>k. P (KGetSecret k)" and "\<And>c. P (SdkNewClient c)" and "\<And>c. P (SdkUseCatalog c)"
  shows "emits P (Cluster_resolveCloudClient E c)"
  unfolding Cluster_resolveCloudClient_def Let_def by (intro go_rules emits_ops assms)

lemma Machine_resolveCloudClient_Some:
  "Machine_resolveCloudClient E m (Some c) = Cluster_resolveCloudClient E c"
  by (simp add: Machine_resolveCloudClient_def Cluster_resolveCloudClient_def Let_def)

lemma emits_Machine_resolveCloudClient [emits_ops]:
  assumes "\<And>k. P (KGetSecret k)" and "\<And>c. P (SdkNewClient c)" and "\<And>c. P (SdkUseCatalog c)"
  shows "emits P (Machine_resolveCloudClient E m c)"
  unfolding Machine_resolveCloudClient_def Let_def by (intro go_rules emits_ops assms)

lemma emits_ensureCredentialSecretCopy [emits_ops]:
  assumes "\<And>k. P (KGetSecret k)" and "\<And>s. P (KCreateSecret s)" and "\<And>s. P (KUpdateSecret s)"
  shows "emits P (ensureCredentialSecretCopy E c)"
  unfolding ensureCredentialSecretCopy_def syncCopy_def Let_def by (intro go_rules assms)

lemma frames_ClientForCluster [frames_ops]: "frames v (ClientForCluster E n ns ctx)"
  unfolding ClientForCluster_def NewClientFromConfig_def Let_def by (intro frames_rules)

lemma frames_Cluster_resolveCloudClient [frames_ops]: "frames v (Cluster_resolveCloudClient E c)"
  unfolding Cluster_resolveCloudClient_def Let_def by (intro frames_rules frames_ops)

lemma frames_Machine_resolveCloudClient [frames_ops]: "frames v (Machine_resolveCloudClient E m c)"
  unfolding Machine_resolveCloudClient_def Let_def by (intro frames_rules frames_ops)

lemma frames_ensureCredentialSecretCopy [frames_ops]: "frames v (ensureCredentialSecretCopy E c)"
  unfolding ensureCredentialSecretCopy_def syncCopy_def Let_def by (intro frames_rules)

text \<open>No client is built from a secret that lacks the keys.\<close>

lemma configFromServiceAccountKeys_error:
  "(\<exists>e. configFromServiceAccountKeys E d ctx = Inl e) \<longleftrightarrow>
     mget d ''serviceAccountID'' = '''' \<or> mget d ''serviceAccountSecret'' = ''''"
  by (simp add: configFromServiceAccountKeys_def Let_def)

text \<open>The user's secret is read, never written: writes go to the copy's key.\<close>

lemma emits_syncCopy_key:
  assumes "\<And>k. P (KGetSecret k)"
    and "\<And>s. sec_Key s = credentialSecretCopyKey c \<Longrightarrow> P (KCreateSecret s)"
    and "\<And>s. P (KUpdateSecret s)"
  shows "emits P (syncCopy E c src)"
  unfolding syncCopy_def Let_def by (intro go_rules assms) (simp add: desiredCopy_def)

end
