(* ===== verification/ClusterSteps.thy ===== *)
theory ClusterSteps
  imports MachineSteps Workload Credentials
begin

text \<open>
  The steps of the cluster controller (\<open>evroccluster_controller.go\<close>): the load balancer of the
  control plane endpoint, failure domains and network status, and the security groups.  Unlike
  the machine controller, nothing here writes to the API server: the object is changed in
  memory and patched once at the end of the reconcile.
\<close>

section \<open>The load balancer\<close>

definition subnetMap :: "EvrocCluster \<Rightarrow> gomap" where
  "subnetMap c = fold (\<lambda>zone m. mput zone (resolveSubnetName c zone) m) (cs_FailureDomains (cl_Spec c)) []"

definition buildLoadBalancerCreateRequest :: "EvrocCluster \<Rightarrow> string \<Rightarrow> LoadBalancerCreateRequest" where
  "buildLoadBalancerCreateRequest cluster resourceName =
     (let lbCfg = GetLoadBalancer (cs_ControlPlaneConfig (cl_Spec cluster)) in
      \<lparr>lcr_Name = resourceName, lcr_Port = 6443, lcr_BackendPort = 6443,
       lcr_AdditionalPorts = (case lbCfg of None \<Rightarrow> [] | Some cfg \<Rightarrow> lbc_AdditionalPorts cfg),
       lcr_ExistingPublicIPID =
         (case lbCfg of None \<Rightarrow> ''''
          | Some cfg \<Rightarrow> (case lbc_ExistingPublicIPID cfg of None \<Rightarrow> '''' | Some i \<Rightarrow> i)),
       lcr_Labels = clusterResourceLabels cluster,
       lcr_BackendNetwork =
         (if resolveVPCName cluster \<noteq> ''''
          then Some \<lparr>lbn_VPCName = resolveVPCName cluster, lbn_SubnetNames = subnetMap cluster\<rparr> else None),
       lcr_StackType = resolveStackType cluster\<rparr>)"

definition setClusterResources :: "(ClusterResources \<Rightarrow> ClusterResources) \<Rightarrow> EvrocCluster \<Rightarrow> EvrocCluster" where
  "setClusterResources f c =
     c\<lparr>cl_Status := (cl_Status c)\<lparr>cst_Resources := Some (f
        (case cst_Resources (cl_Status c) of None \<Rightarrow> zeroClusterResources | Some r \<Rightarrow> r))\<rparr>\<rparr>"

definition setEndpoint :: "Env \<Rightarrow> string \<Rightarrow> EvrocCluster \<Rightarrow> EvrocCluster" where
  "setEndpoint E address c =
     (if s_endpointIsZero E (cs_ControlPlaneEndpoint (cl_Spec c))
      then c\<lparr>cl_Spec := (cl_Spec c)\<lparr>cs_ControlPlaneEndpoint := \<lparr>ae_Host = address, ae_Port = 6443\<rparr>\<rparr>\<rparr>
      else c)"

definition managedLB :: "LoadBalancer \<Rightarrow> ManagedLoadBalancer" where
  "managedLB lb = \<lparr>mlb_ID = lbr_Name lb, mlb_UID = lbr_ID lb, mlb_Address = lbr_Address lb,
     mlb_Backends = lbr_Backends lb\<rparr>"

text \<open>The result is the requeue delay in seconds, 0 for none.\<close>

definition useLoadBalancer :: "Env \<Rightarrow> LoadBalancer \<Rightarrow> (EvrocCluster, goerr + nat) go" where
  "useLoadBalancer E lb =
     (if lbr_Address lb = '''' then ret (Inr 5)
      else do {
        modCur (setEndpoint E (lbr_Address lb));
        modCur (setClusterResources (\<lambda>r. r\<lparr>cr_LoadBalancer := Some (managedLB lb)\<rparr>));
        setClusterCondition E LoadBalancerReadyCondition ConditionTrue SeverityNone
          LoadBalancerReadyReason ''Load balancer is active'';
        ret (Inr 0) })"

text \<open>The load balancer as the cloud has it, created when it is not there.\<close>

definition getOrCreateLB :: "Env \<Rightarrow> EvrocCluster \<Rightarrow> string \<Rightarrow> ('o, goerr + LoadBalancer) go" where
  "getOrCreateLB E cluster resourceName =
     onResult (LoadBalancerService_Get E resourceName)
       (\<lambda>err. if \<not> IsNotFoundError err then
            ret (Inl (wrapErr ''failed to check for existing load balancer'' err))
          else onResult
            (LoadBalancerService_Create E (Some (buildLoadBalancerCreateRequest cluster resourceName)))
            (\<lambda>err. ret (Inl (wrapErr ''failed to create load balancer'' err)))
            (\<lambda>lb. ret (Inr lb)))
       (\<lambda>lb. ret (Inr lb))"

definition reconcileAutoCreatedLoadBalancer :: "Env \<Rightarrow> string \<Rightarrow> (EvrocCluster, goerr + nat) go" where
  "reconcileAutoCreatedLoadBalancer E resourceName = do {
     cluster \<leftarrow> getCur;
     onResult (getOrCreateLB E cluster resourceName) (\<lambda>err. ret (Inl err))
       (\<lambda>lb. if lbr_Address lb = '''' \<or> \<not> IsActive lb then do {
            setClusterCondition E LoadBalancerReadyCondition ConditionFalse SeverityInfo
              LoadBalancerProvisioningReason ''Load balancer is being provisioned'';
            ret (Inr 10) }
          else useLoadBalancer E lb) }"

section \<open>Failure domains and network status\<close>

definition reconcileFailureDomains :: "EvrocCluster \<Rightarrow> EvrocCluster" where
  "reconcileFailureDomains c =
     c\<lparr>cl_Status := (cl_Status c)\<lparr>cst_FailureDomains :=
        map (\<lambda>zone. \<lparr>fd_Name = zone, fd_ControlPlane = Some True\<rparr>) (cs_FailureDomains (cl_Spec c))\<rparr>\<rparr>"

definition storeNetworkStatus :: "EvrocCluster \<Rightarrow> EvrocCluster" where
  "storeNetworkStatus c =
     c\<lparr>cl_Status := (cl_Status c)\<lparr>cst_Network :=
        \<lparr>ns_VPCID = resolveVPCName c, ns_SubnetIDs = subnetMap c, ns_StackType = resolveStackType c\<rparr>\<rparr>\<rparr>"

section \<open>Security groups\<close>

definition ensureClusterSG ::
    "Env \<Rightarrow> EvrocCluster \<Rightarrow> string \<Rightarrow> string \<Rightarrow> InlineSecurityGroup \<Rightarrow> ('o, goerr + ManagedSecurityGroup) go" where
  "ensureClusterSG E cluster pfx role inlineSG =
     (let sgName = inlineSGName pfx inlineSG;
          sdkRules = ConvertSecurityGroupRulesToSDK (isg_Rules inlineSG);
          managed = \<lparr>msg_ID = sgName, msg_UID = '''', msg_Managed = True, msg_Role = role\<rparr>
      in onResult (SecurityGroupService_Exists E sgName)
           (\<lambda>err. ret (Inl (wrapErr ''failed to check security group existence'' err)))
           (\<lambda>ex. if \<not> ex then
                onResult (SecurityGroupService_Create E sgName sdkRules (clusterResourceLabels cluster)
                    (resolveVPCName cluster))
                  (\<lambda>err. ret (Inl (wrapErr (''failed to create security group '' @ sgName) err)))
                  (\<lambda>_. ret (Inr managed))
              else
                onResult (SecurityGroupService_Get E sgName)
                  (\<lambda>err. ret (Inl (wrapErr (''failed to get security group '' @ sgName) err)))
                  (\<lambda>existingSG.
                     onResult (SecurityGroupService_Update E sgName (existingSG\<lparr>sg_Rules := Some sdkRules\<rparr>))
                       (\<lambda>err. ret (Inl (wrapErr (''failed to update security group '' @ sgName) err)))
                       (\<lambda>_. ret (Inr managed)))))"

definition checkExistingSG :: "Env \<Rightarrow> string \<Rightarrow> string \<Rightarrow> ('o, goerr + ManagedSecurityGroup) go" where
  "checkExistingSG E role existingID =
     onResult (SecurityGroupService_Exists E existingID)
       (\<lambda>err. ret (Inl (wrapErr (''failed to check existing security group '' @ existingID) err)))
       (\<lambda>ex. if \<not> ex then ret (Inl (newErr (''existing security group '' @ existingID @ '' not found'')))
          else ret (Inr \<lparr>msg_ID = existingID, msg_UID = '''', msg_Managed = False, msg_Role = role\<rparr>))"

definition reconcileSecurityGroupSection ::
    "Env \<Rightarrow> EvrocCluster \<Rightarrow> string \<Rightarrow> string \<Rightarrow> SecurityGroupsConfig \<Rightarrow> ('o, goerr + ManagedSecurityGroup list) go" where
  "reconcileSecurityGroupSection E cluster pfx role sgConfig =
     onResult (mapEach (ensureClusterSG E cluster pfx role) (sgc_InlineSecurityGroups sgConfig))
       (\<lambda>err. ret (Inl err))
       (\<lambda>managed. onResult (mapEach (checkExistingSG E role) (sgc_ExistingIDs sgConfig))
          (\<lambda>err. ret (Inl err)) (\<lambda>existing. ret (Inr (managed @ existing))))"

definition trackedClusterSGs :: "EvrocCluster \<Rightarrow> ManagedSecurityGroup list" where
  "trackedClusterSGs c = (case cst_Resources (cl_Status c) of None \<Rightarrow> [] | Some r \<Rightarrow> cr_SecurityGroups r)"

definition deleteStaleSecurityGroups ::
    "Env \<Rightarrow> EvrocCluster \<Rightarrow> ManagedSecurityGroup list \<Rightarrow> ('o, goerr option) go" where
  "deleteStaleSecurityGroups E cluster desired =
     forEach (\<lambda>old.
        if \<not> msg_Managed old then ret None
        else if msg_ID old \<in> set (map msg_ID desired) then ret None
        else deleteTolerant (''failed to delete stale security group '' @ msg_ID old)
               (SecurityGroupService_Delete E (msg_ID old)))
       (trackedClusterSGs cluster)"

definition inheritsFromCluster :: "EvrocMachine \<Rightarrow> bool" where
  "inheritsFromCluster m \<longleftrightarrow>
     (case machineSGConfig m of None \<Rightarrow> False | Some c \<Rightarrow> msgc_InheritFromCluster c)"

definition sgSyncAnnotation :: string where
  "sgSyncAnnotation = ''infrastructure.cluster.x-k8s.io/sg-sync''"

text \<open>One machine of the list; a failed update is logged and the loop goes on.\<close>

definition touchMachine :: "Env \<Rightarrow> string \<Rightarrow> EvrocMachine \<Rightarrow> ('o, goerr option) go" where
  "touchMachine E resourceVersion machine =
     (if \<not> inheritsFromCluster machine \<or> mst_MachineID (m_Status machine) = '''' then ret None
      else onResult
        (invoke (e_machine E) (KUpdateMachine (machine\<lparr>m_Meta := (m_Meta machine)\<lparr>om_Annotations :=
           mput sgSyncAnnotation resourceVersion (om_Annotations (m_Meta machine))\<rparr>\<rparr>)))
        (\<lambda>_. ret None) (\<lambda>_. ret None))"

definition capiClusterName :: "EvrocCluster \<Rightarrow> string" where
  "capiClusterName c =
     (case map_of (om_Labels (cl_Meta c)) ClusterNameLabel of
        None \<Rightarrow> om_Name (cl_Meta c)
      | Some name \<Rightarrow> if name \<noteq> '''' then name else om_Name (cl_Meta c))"

definition reconcileClusterSecurityGroupsOnVMs :: "Env \<Rightarrow> EvrocCluster \<Rightarrow> ('o, goerr option) go" where
  "reconcileClusterSecurityGroupsOnVMs E cluster =
     onResult (invoke (e_machines E)
         (KListMachines (om_Namespace (cl_Meta cluster)) (capiClusterName cluster)))
       (\<lambda>err. ret (Some (wrapErr ''failed to list machines'' err)))
       (forEach (touchMachine E (om_ResourceVersion (cl_Meta cluster))))"

definition sgSections :: "ClusterSecurityGroupsConfig \<Rightarrow> (string \<times> SecurityGroupsConfig) list" where
  "sgSections cfg =
     concat (map (\<lambda>(role, config). case config of None \<Rightarrow> [] | Some c \<Rightarrow> [(role, c)])
       [(''common'', csg_Common cfg), (''controlPlane'', csg_ControlPlane cfg), (''worker'', csg_Worker cfg)])"

definition needsPrefix :: "ClusterSecurityGroupsConfig \<Rightarrow> bool" where
  "needsPrefix cfg \<longleftrightarrow> list_ex (\<lambda>(role, c). length (sgc_InlineSecurityGroups c) > 0) (sgSections cfg)"

text \<open>The prefix of the security groups' names, kept on the object; \<open>''''\<close> when none is inline.\<close>

definition securityGroupPrefix :: "ClusterSecurityGroupsConfig \<Rightarrow> (EvrocCluster, goerr + string) go" where
  "securityGroupPrefix sgCfg =
     (if needsPrefix sgCfg then do {
        cluster \<leftarrow> getCur;
        (case clusterResourcePrefix cluster of
           Inl err \<Rightarrow> ret (Inl err)
         | Inr (p, c') \<Rightarrow> do { modCur (\<lambda>_. c'); ret (Inr p) }) }
      else ret (Inr ''''))"

definition reconcileWantedSGs ::
    "Env \<Rightarrow> ClusterSecurityGroupsConfig \<Rightarrow> string \<Rightarrow> (EvrocCluster, goerr option) go" where
  "reconcileWantedSGs E sgCfg pfx = do {
     cluster \<leftarrow> getCur;
     onResult (mapEach (\<lambda>(role, config). reconcileSecurityGroupSection E cluster pfx role config)
                (sgSections sgCfg))
       (\<lambda>err. ret (Some err))
       (\<lambda>sgs. onError (deleteStaleSecurityGroups E cluster (concat sgs)) (\<lambda>err. ret (Some err))
          (do {
             modCur (setClusterResources (\<lambda>r. r\<lparr>cr_SecurityGroups := concat sgs\<rparr>));
             onError (reconcileClusterSecurityGroupsOnVMs E cluster)
               (\<lambda>err. ret (Some (wrapErr ''failed to propagate cluster SGs to VMs'' err)))
               (ret None) })) }"

text \<open>Without a configuration, what was managed before goes.\<close>

definition removeAllSGs :: "Env \<Rightarrow> (EvrocCluster, goerr option) go" where
  "removeAllSGs E = do {
     cluster \<leftarrow> getCur;
     onError (deleteStaleSecurityGroups E cluster []) (\<lambda>err. ret (Some err))
       (if length (trackedClusterSGs cluster) > 0 then do {
          modCur (setClusterResources (\<lambda>r. r\<lparr>cr_SecurityGroups := []\<rparr>));
          onError (reconcileClusterSecurityGroupsOnVMs E cluster)
            (\<lambda>err. ret (Some (wrapErr ''failed to propagate empty SG list to VMs'' err)))
            (ret None) }
        else ret None) }"

definition reconcileSecurityGroups :: "Env \<Rightarrow> (EvrocCluster, goerr option) go" where
  "reconcileSecurityGroups E = do {
     cluster \<leftarrow> getCur;
     (case cs_SecurityGroups (cl_Spec cluster) of
        None \<Rightarrow> removeAllSGs E
      | Some sgCfg \<Rightarrow> onResult (securityGroupPrefix sgCfg) (\<lambda>err. ret (Some err)) (reconcileWantedSGs E sgCfg)) }"

end
