(* ===== verification/MachineDelete.thy ===== *)
theory MachineDelete
  imports MachineSteps
begin

text \<open>
  Deleting a machine from the cloud: \<open>resolveEvrocCluster\<close> and \<open>deleteMachineFromCloud\<close>.  The
  virtual machine goes first, over as many reconciles as it takes; then everything that
  carries the machine's ownership label.
\<close>

section \<open>Definitions\<close>

text \<open>The owning cluster, or \<open>None\<close> when it is not there (yet, or any more).\<close>

definition resolveEvrocCluster :: "Env \<Rightarrow> EvrocMachine \<Rightarrow> (EvrocMachine, goerr + EvrocCluster option) go" where
  "resolveEvrocCluster E machine =
     (let clusterName = mget (om_Labels (m_Meta machine)) ClusterNameLabel;
          ns = om_Namespace (m_Meta machine)
      in if clusterName = '''' then ret (Inr None)
         else onResult (invoke (e_capiCluster E)
                (KGetCapiCluster \<lparr>k_Namespace = ns, k_Name = clusterName\<rparr>))
           (\<lambda>err. if ignoreNotFound err = None then ret (Inr None)
              else ret (Inl (wrapErr (''failed to get CAPI Cluster '' @ quoted clusterName) err)))
           (\<lambda>capiCluster.
              let infraName = cc_RefName capiCluster in
              if infraName = '''' then ret (Inr None)
              else onResult (invoke (e_cluster E) (KGetCluster \<lparr>k_Namespace = ns, k_Name = infraName\<rparr>))
                (\<lambda>err. if ignoreNotFound err = None then ret (Inr None)
                   else ret (Inl (wrapErr (''failed to get EvrocCluster '' @ quoted infraName) err)))
                (\<lambda>evrocCluster. ret (Inr (Some evrocCluster)))))"

definition errMachineDeletionPending :: goerr where
  "errMachineDeletionPending = GoErr ''machine deletion pending'' [MachineDeletionPendingM]"

text \<open>Taking a control plane machine out of the load balancer; the errors to report at the end.\<close>

definition deregisterFromLB :: "Env \<Rightarrow> EvrocMachine \<Rightarrow> (EvrocMachine, goerr + goerr list) go" where
  "deregisterFromLB E machine =
     (if \<not> isControlPlane machine then ret (Inr [])
      else onResult (resolveEvrocCluster E machine)
        (\<lambda>resolveErr. ret (Inl (wrapErr ''failed to resolve EvrocCluster for LB deregistration'' resolveErr)))
        (\<lambda>evrocCluster. case evrocCluster of
             None \<Rightarrow> ret (Inr [])
           | Some c \<Rightarrow>
               if \<not> ShouldManageControlPlaneEndpoint (Some c) then ret (Inr [])
               else case resolveLoadBalancerName c of
                   Inl _ \<Rightarrow> ret (Inr [])
                 | Inr (lbName, _) \<Rightarrow>
                     if lbName = '''' then ret (Inr [])
                     else onError
                       (deleteTolerant (''failed to deregister machine '' @ om_Name (m_Meta machine) @
                          '' from LB '' @ lbName)
                         (LoadBalancerService_RemoveBackend E lbName (om_Name (m_Meta machine))))
                       (\<lambda>err. ret (Inr [err])) (ret (Inr []))))"

text \<open>Listing the resources of one kind and deleting each; errors are collected.\<close>

definition deleteListed ::
    "string \<Rightarrow> string \<Rightarrow> ('o, goerr + string list) go \<Rightarrow> (string \<Rightarrow> ('o, goerr option) go)
      \<Rightarrow> ('o, goerr list) go" where
  "deleteListed listMsg deleteMsg listOp del =
     onResult listOp (\<lambda>listErr. ret [wrapErr listMsg listErr])
       (\<lambda>names. collectErrs (\<lambda>name. deleteTolerant (deleteMsg @ '' '' @ name) (del name)) names)"

definition deleteOwnedResources :: "Env \<Rightarrow> string \<Rightarrow> (EvrocMachine, goerr list) go" where
  "deleteOwnedResources E ownerID = do {
     sgErrs \<leftarrow> deleteListed ''failed to list machine security groups''
       ''failed to delete managed security group''
       (SecurityGroupService_ListByMachineOwner E ownerID) (SecurityGroupService_Delete E);
     ipErrs \<leftarrow> deleteListed ''failed to list machine public IPs''
       ''failed to delete managed public IP''
       (PublicIPService_ListByOwner E ownerID) (PublicIPService_Delete E);
     diskErrs \<leftarrow> deleteListed ''failed to list machine disks'' ''failed to delete disk''
       (DiskService_ListByOwner E ownerID) (DiskService_Delete E);
     ret (sgErrs @ ipErrs @ diskErrs) }"

text \<open>The virtual machine first; what it used, once it is gone.\<close>

definition deleteVMThenOwned :: "Env \<Rightarrow> EvrocMachine \<Rightarrow> goerr list \<Rightarrow> (EvrocMachine, goerr option) go" where
  "deleteVMThenOwned E machine errs =
     (let name = om_Name (m_Meta machine) in
      onResult (VirtualMachineService_Exists E name)
        (\<lambda>err. ret (Some (wrapErr ''failed to check whether machine exists'' err)))
        (\<lambda>vmExists.
           if vmExists then
             onError (deleteTolerant ''failed to delete machine'' (VirtualMachineService_Delete E name))
               (\<lambda>err. ret (Some err)) (ret (Some errMachineDeletionPending))
           else do {
             subErrs \<leftarrow> deleteOwnedResources E (machineOwnershipID (Some machine));
             ret (joinErrs (errs @ subErrs)) }))"

definition deleteMachineFromCloud :: "Env \<Rightarrow> EvrocMachine \<Rightarrow> (EvrocMachine, goerr option) go" where
  "deleteMachineFromCloud E machine =
     (let ownerID = machineOwnershipID (Some machine);
          name = om_Name (m_Meta machine)
      in if ownerID = '''' then ret (Some (newErr (''machine '' @ om_Namespace (m_Meta machine) @ ''/'' @
              name @ '' has no ownership ID'')))
         else onResult (deregisterFromLB E machine) (\<lambda>err. ret (Some err))
           (deleteVMThenOwned E machine))"

section \<open>What is called\<close>

lemma emits_deleteTolerant: "emits P m \<Longrightarrow> emits P (deleteTolerant msg m)"
  unfolding deleteTolerant_def by (intro go_rules) auto

lemma frames_deleteTolerant: "frames v m \<Longrightarrow> frames v (deleteTolerant msg m)"
  unfolding deleteTolerant_def by (intro frames_rules) auto

lemma emits_resolveEvrocCluster [emits_ops]:
  assumes "\<And>k. P (KGetCapiCluster k)" and "\<And>k. P (KGetCluster k)"
  shows "emits P (resolveEvrocCluster E m)"
  unfolding resolveEvrocCluster_def Let_def by (intro go_rules assms)

lemma frames_resolveEvrocCluster [frames_ops]: "frames v (resolveEvrocCluster E m)"
  unfolding resolveEvrocCluster_def Let_def by (intro frames_rules)

lemma emits_deregisterFromLB [emits_ops]:
  assumes "\<And>k. P (KGetCapiCluster k)" and "\<And>k. P (KGetCluster k)" and "\<And>a b. P (SdkRemoveBackendRef a b)"
  shows "emits P (deregisterFromLB E m)"
  unfolding deregisterFromLB_def by (intro go_rules emits_deleteTolerant emits_ops assms)

lemma frames_RemoveBackend [frames_ops]: "frames v (LoadBalancerService_RemoveBackend E a b)"
  unfolding LoadBalancerService_RemoveBackend_def by (intro frames_rules)

lemma frames_deleteListed:
  assumes "frames v l" and "\<And>n. frames v (d n)"
  shows "frames v (deleteListed a b l d)"
  unfolding deleteListed_def by (intro frames_rules frames_deleteTolerant assms)

lemma frames_deleteMachineFromCloud: "frames v (deleteMachineFromCloud E m)"
  unfolding deleteMachineFromCloud_def deregisterFromLB_def deleteVMThenOwned_def
    deleteOwnedResources_def Let_def
  by (intro frames_rules frames_ops frames_deleteTolerant frames_deleteListed)

section \<open>What justifies a delete\<close>

text \<open>The resource is in the answer to the list call for its owner.\<close>

definition listedByOwner :: "Env \<Rightarrow> string \<Rightarrow> Call list \<Rightarrow> SdkKind \<Rightarrow> string \<Rightarrow> bool" where
  "listedByOwner E ownerID h k n \<longleftrightarrow>
     answeredIn h (SdkList k (ownerSelector LabelMachineID ownerID))
       (\<lambda>h'. \<exists>items. e_items E h' (SdkList k (ownerSelector LabelMachineID ownerID)) = Inr items \<and>
          n \<in> md_Id ` set items)"

definition vmFound :: "Env \<Rightarrow> string \<Rightarrow> Call list \<Rightarrow> bool" where
  "vmFound E name h \<longleftrightarrow> answeredIn h (SdkGet VirtualMachineK name)
     (\<lambda>h'. \<exists>vm. e_vm E h' (SdkGet VirtualMachineK name) = Inr vm)"

definition vmGone :: "Env \<Rightarrow> string \<Rightarrow> Call list \<Rightarrow> bool" where
  "vmGone E name h \<longleftrightarrow> answeredIn h (SdkGet VirtualMachineK name)
     (\<lambda>h'. \<exists>err. e_vm E h' (SdkGet VirtualMachineK name) = Inl err \<and> errIs err NotFoundM)"

fun deleteJudge :: "Env \<Rightarrow> string \<Rightarrow> string \<Rightarrow> Call list \<Rightarrow> Call \<Rightarrow> bool" where
  "deleteJudge E ownerID name h (SdkDelete k n) \<longleftrightarrow>
     (if k = VirtualMachineK then n = name \<and> vmFound E name h
      else k \<in> {SecurityGroupK, PublicIPK, DiskK} \<and> listedByOwner E ownerID h k n \<and> vmGone E name h)"
| "deleteJudge E ownerID name h c \<longleftrightarrow> \<not> isCloudWrite c \<or> (\<exists>a b. c = SdkRemoveBackendRef a b)"

lemma deleteJudge_other: "\<not> isCloudWrite c \<Longrightarrow> deleteJudge E i name h c"
  by (cases c) auto

lemma vmGone_prefix: "vmGone E n h \<Longrightarrow> prefix h h' \<Longrightarrow> vmGone E n h'"
  unfolding vmGone_def by (rule answeredIn_prefix)

lemma listedByOwner_prefix: "listedByOwner E i h k n \<Longrightarrow> prefix h h' \<Longrightarrow> listedByOwner E i h' k n"
  unfolding listedByOwner_def by (rule answeredIn_prefix)

lemma justifies_deleteTolerant: "justifies J h m \<Longrightarrow> justifies J h (deleteTolerant msg m)"
  unfolding deleteTolerant_def by (intro just_rules) auto

text \<open>
  The three kinds of owned resources share the operations a teardown uses.  The locale states
  what it relies on: a list call for the owner, and a delete that is one call.
\<close>

locale owned_kind =
  fixes kind :: SdkKind
    and listOp :: "Env \<Rightarrow> string \<Rightarrow> (EvrocMachine, goerr + string list) go"
    and delOp :: "Env \<Rightarrow> string \<Rightarrow> (EvrocMachine, goerr option) go"
  assumes kind_owned: "kind \<in> {SecurityGroupK, PublicIPK, DiskK}"
    and run_list: "run_state (listOp E i) s =
      (case e_items E (calls s) (SdkList kind (ownerSelector LabelMachineID i)) of
         Inl e \<Rightarrow> (fst (run_state (listOp E i) s))
       | Inr items \<Rightarrow> Inr (map md_Id items),
       s\<lparr>calls := calls s @ [SdkList kind (ownerSelector LabelMachineID i)]\<rparr>)"
    and list_error: "e_items E (calls s) (SdkList kind (ownerSelector LabelMachineID i)) = Inl e \<Longrightarrow>
      \<exists>e'. fst (run_state (listOp E i) s) = Inl e'"
    and emits_list: "P (SdkList kind (ownerSelector LabelMachineID i)) \<Longrightarrow> emits P (listOp E i)"
    and run_del: "\<exists>c. run_state (delOp E n) s =
      (map_option (wrapErr c) (e_err E (calls s) (SdkDelete kind n)),
       s\<lparr>calls := calls s @ [SdkDelete kind n]\<rparr>)"
    and emits_del: "P (SdkDelete kind n) \<Longrightarrow> emits P (delOp E n)"
begin

lemma list_Inr:
  assumes "run_state (listOp E i) s = (Inr names, t)"
  obtains items where "e_items E (calls s) (SdkList kind (ownerSelector LabelMachineID i)) = Inr items"
    "names = map md_Id items" "t = s\<lparr>calls := calls s @ [SdkList kind (ownerSelector LabelMachineID i)]\<rparr>"
proof (cases "e_items E (calls s) (SdkList kind (ownerSelector LabelMachineID i))")
  case (Inl e)
  then show ?thesis using list_error [OF Inl] assms by auto
next
  case (Inr items)
  then show ?thesis using assms run_list [of E i s] by (intro that [of items]) auto
qed

lemma emits_deleteListed:
  assumes "P (SdkList kind (ownerSelector LabelMachineID i))" and "\<And>n. P (SdkDelete kind n)"
  shows "emits P (deleteListed a b (listOp E i) (delOp E))"
  unfolding deleteListed_def by (intro go_rules emits_deleteTolerant emits_list emits_del assms)

text \<open>After the machine is gone, deletes are of listed resources.\<close>

lemma justifies_deleteListed:
  assumes gone: "vmGone E name h"
  shows "justifies (deleteJudge E i name) h (deleteListed a b (listOp E i) (delOp E))"
  unfolding deleteListed_def
proof (rule justifies_onResult_after)
  show "justifies (deleteJudge E i name) h (listOp E i)"
    by (rule emits_justifies [OF emits_list [of "\<lambda>c. \<not> isCloudWrite c"]]) (simp_all add: deleteJudge_other)
  fix s :: "EvrocMachine cst" and names t
  assume h: "prefix h (calls s)" and run: "run_state (listOp E i) s = (Inr names, t)"
  obtain items where items: "e_items E (calls s) (SdkList kind (ownerSelector LabelMachineID i)) = Inr items"
      "names = map md_Id items"
      "t = s\<lparr>calls := calls s @ [SdkList kind (ownerSelector LabelMachineID i)]\<rparr>"
    by (rule list_Inr [OF run])
  have "vmGone E name (calls t)"
    by (rule vmGone_prefix [OF gone]) (use h items(3) in simp)
  moreover have "listedByOwner E i (calls t) kind n" if "n \<in> set names" for n
    using items that by (auto simp: listedByOwner_def intro!: answeredIn_snoc)
  ultimately have dj: "deleteJudge E i name h' (SdkDelete kind n)" if "prefix (calls t) h'" "n \<in> set names" for h' n
    using that kind_owned by (auto intro: vmGone_prefix listedByOwner_prefix)
  have "justifies (deleteJudge E i name) (calls t) (deleteTolerant m (delOp E n))" if n: "n \<in> set names" for n m
    by (rule justifies_deleteTolerant, rule emits_justifies [OF emits_del [of "(=) (SdkDelete kind n)", OF refl]])
       (use dj [OF _ n] in blast)
  then show "justifies (deleteJudge E i name) (calls t)
      (collectErrs (\<lambda>n. deleteTolerant (b @ '' '' @ n) (delOp E n)) names)"
    by (intro just.keeps_collectErrs)
qed (intro just_rules)

text \<open>
  Without an error, the owner's resources were listed, and the delete of each was accepted or
  answered by not found.
\<close>

definition allDeleted :: "Env \<Rightarrow> string \<Rightarrow> Call list \<Rightarrow> bool" where
  "allDeleted E i h \<longleftrightarrow> (\<exists>h1 items h2.
     h = h1 @ SdkList kind (ownerSelector LabelMachineID i) # h2 \<and>
     e_items E h1 (SdkList kind (ownerSelector LabelMachineID i)) = Inr items \<and>
     (\<forall>n \<in> md_Id ` set items. answeredIn h (SdkDelete kind n)
        (\<lambda>h'. \<forall>err. e_err E h' (SdkDelete kind n) = Some err \<longrightarrow> errIs err NotFoundM)))"

lemma allDeleted_prefix:
  assumes "allDeleted E i h" and "prefix h h'"
  shows "allDeleted E i h'"
proof -
  obtain h1 items h2 where h: "h = h1 @ SdkList kind (ownerSelector LabelMachineID i) # h2"
      "e_items E h1 (SdkList kind (ownerSelector LabelMachineID i)) = Inr items"
      "\<forall>n \<in> md_Id ` set items. answeredIn h (SdkDelete kind n)
        (\<lambda>h'. \<forall>err. e_err E h' (SdkDelete kind n) = Some err \<longrightarrow> errIs err NotFoundM)"
    using assms(1) unfolding allDeleted_def by blast
  obtain zs where "h' = h1 @ SdkList kind (ownerSelector LabelMachineID i) # (h2 @ zs)"
    using assms(2) h(1) by (auto simp: prefix_def)
  then show ?thesis
    using h(2,3) answeredIn_prefix [OF _ assms(2)] unfolding allDeleted_def by blast
qed

lemma collect_none:
  assumes "run_state (collectErrs (\<lambda>n. deleteTolerant (b @ '' '' @ n) (delOp E n)) names) s = ([], t)"
  shows "prefix (calls s) (calls t) \<and> (\<forall>n\<in>set names. answeredIn (calls t) (SdkDelete kind n)
      (\<lambda>h'. \<forall>err. e_err E h' (SdkDelete kind n) = Some err \<longrightarrow> errIs err NotFoundM))"
  using assms
proof (induction names arbitrary: s)
  case (Cons n names)
  obtain c where del: "run_state (delOp E n) s =
      (map_option (wrapErr c) (e_err E (calls s) (SdkDelete kind n)), s\<lparr>calls := calls s @ [SdkDelete kind n]\<rparr>)"
    using run_del by blast
  let ?s = "s\<lparr>calls := calls s @ [SdkDelete kind n]\<rparr>"
  have rest: "run_state (collectErrs (\<lambda>n. deleteTolerant (b @ '' '' @ n) (delOp E n)) names) ?s = ([], t)"
    and ok: "\<forall>err. e_err E (calls s) (SdkDelete kind n) = Some err \<longrightarrow> errIs err NotFoundM"
    using Cons.prems del
    by (auto simp: deleteTolerant_def IsNotFoundError_def split: prod.splits option.splits if_splits)
  have "prefix (calls ?s) (calls t)"
    using Cons.IH [OF rest] by simp
  moreover have "answeredIn (calls ?s) (SdkDelete kind n)
      (\<lambda>h'. \<forall>err. e_err E h' (SdkDelete kind n) = Some err \<longrightarrow> errIs err NotFoundM)"
    using ok by (simp add: answeredIn_snoc)
  ultimately show ?case
    using Cons.IH [OF rest] by (auto intro: answeredIn_prefix append_prefixD)
qed simp

lemma deleteListed_none:
  assumes "run_state (deleteListed a b (listOp E i) (delOp E)) s = ([], t)"
  shows "prefix (calls s) (calls t) \<and> allDeleted E i (calls t)"
proof -
  obtain r u where run: "run_state (listOp E i) s = (r, u)"
    by fastforce
  then obtain names where names: "r = Inr names"
    using assms by (cases r) (auto simp: deleteListed_def)
  obtain items where items: "e_items E (calls s) (SdkList kind (ownerSelector LabelMachineID i)) = Inr items"
      "names = map md_Id items"
      "u = s\<lparr>calls := calls s @ [SdkList kind (ownerSelector LabelMachineID i)]\<rparr>"
    using run names by (auto elim: list_Inr)
  have "run_state (collectErrs (\<lambda>n. deleteTolerant (b @ '' '' @ n) (delOp E n)) names) u = ([], t)"
    using assms run names by (simp add: deleteListed_def)
  note all = collect_none [OF this]
  then obtain zs where "calls t = calls s @ SdkList kind (ownerSelector LabelMachineID i) # zs"
    using items(3) by (auto simp: prefix_def)
  then show ?thesis
    using all items unfolding allDeleted_def by auto
qed

end

interpretation ownedSG: owned_kind SecurityGroupK SecurityGroupService_ListByMachineOwner
    SecurityGroupService_Delete
  by unfold_locales
    (auto simp: SecurityGroupService_ListByMachineOwner_def SecurityGroupService_listNamesBySelector_def
      SecurityGroupService_Delete_def split: sum.splits option.splits intro!: emits_ops go_rules)

interpretation ownedIP: owned_kind PublicIPK PublicIPService_ListByOwner PublicIPService_Delete
  by unfold_locales
    (auto simp: PublicIPService_ListByOwner_def PublicIPService_Delete_def
      split: sum.splits option.splits intro!: emits_ops go_rules)

interpretation ownedDisk: owned_kind DiskK DiskService_ListByOwner DiskService_Delete
  by unfold_locales
    (auto simp: DiskService_ListByOwner_def DiskService_Delete_def
      split: sum.splits option.splits intro!: emits_ops go_rules)

section \<open>The deletion of a machine\<close>

lemma emits_deleteOwnedResources:
  assumes "\<And>k sel. P (SdkList k sel)" and "\<And>k n. k \<in> {SecurityGroupK, PublicIPK, DiskK} \<Longrightarrow> P (SdkDelete k n)"
  shows "emits P (deleteOwnedResources E i)"
  unfolding deleteOwnedResources_def
  by (intro go_rules ownedSG.emits_deleteListed ownedIP.emits_deleteListed ownedDisk.emits_deleteListed
      assms) simp_all

lemma emits_deleteMachineFromCloud:
  assumes "\<And>k. P (KGetCapiCluster k)" and "\<And>k. P (KGetCluster k)" and "\<And>a b. P (SdkRemoveBackendRef a b)"
    and "\<And>k n. P (SdkGet k n)" and "\<And>k sel. P (SdkList k sel)"
    and "P (SdkDelete VirtualMachineK (om_Name (m_Meta m)))"
    and "\<And>k n. k \<in> {SecurityGroupK, PublicIPK, DiskK} \<Longrightarrow> P (SdkDelete k n)"
  shows "emits P (deleteMachineFromCloud E m)"
  unfolding deleteMachineFromCloud_def deleteVMThenOwned_def Let_def
  by (intro go_rules emits_ops emits_deleteTolerant emits_deleteOwnedResources assms) simp_all

lemma justifies_deleteOwnedResources:
  assumes "vmGone E name h"
  shows "justifies (deleteJudge E i name) h (deleteOwnedResources E i)"
  unfolding deleteOwnedResources_def
  by (intro just_rules ownedSG.justifies_deleteListed ownedIP.justifies_deleteListed
      ownedDisk.justifies_deleteListed assms)

lemma vm_exists_answer:
  assumes "run_state (VirtualMachineService_Exists E name) s = (Inr ex, t)"
  shows "if ex then vmFound E name (calls t) else vmGone E name (calls t)"
proof -
  have "resultOf (VirtualMachineService_Exists E name) s = Inr ex"
    using assms by (simp add: resultOf_def)
  then have ans: "case e_vm E (calls s) (SdkGet VirtualMachineK name) of
      Inl e \<Rightarrow> errIs e NotFoundM \<and> \<not> ex | Inr _ \<Rightarrow> ex"
    by (simp add: virtualMachineR.exists_result)
  have "calls t = calls s @ [SdkGet VirtualMachineK name]"
    by (rule virtualMachineR.run_exists [of E name s]) (use assms in auto)
  then show ?thesis
    using ans by (auto simp: vmFound_def vmGone_def intro!: answeredIn_snoc split: sum.splits)
qed

lemma justifies_deleteVMThenOwned:
  "justifies (deleteJudge E (machineOwnershipID (Some m)) (om_Name (m_Meta m))) h (deleteVMThenOwned E m errs)"
  (is "justifies ?J h _")
  unfolding deleteVMThenOwned_def Let_def
proof (rule justifies_onResult_after)
  let ?name = "om_Name (m_Meta m)"
  show "justifies ?J h (VirtualMachineService_Exists E ?name)"
    by (rule emits_justifies [where P = "\<lambda>c. \<not> isCloudWrite c"], intro emits_ops)
       (simp_all add: deleteJudge_other)
  fix s :: "EvrocMachine cst" and ex t
  assume "run_state (VirtualMachineService_Exists E ?name) s = (Inr ex, t)"
  then have ans: "if ex then vmFound E ?name (calls t) else vmGone E ?name (calls t)"
    by (rule vm_exists_answer)
  have vm: "justifies ?J (calls t) (VirtualMachineService_Delete E ?name)" if "ex"
    by (rule emits_justifies [where P = "(=) (SdkDelete VirtualMachineK ?name)"], intro emits_ops)
       (use ans that in \<open>auto simp: vmFound_def intro: answeredIn_prefix\<close>)
  show "justifies ?J (calls t) (if ex then
         onError (deleteTolerant ''failed to delete machine'' (VirtualMachineService_Delete E ?name))
           (\<lambda>err. ret (Some err)) (ret (Some errMachineDeletionPending))
       else do {
         subErrs \<leftarrow> deleteOwnedResources E (machineOwnershipID (Some m));
         ret (joinErrs (errs @ subErrs)) })"
    using ans by (intro just_rules justifies_deleteTolerant vm justifies_deleteOwnedResources) simp_all
qed (intro just_rules)

lemma justifies_deleteMachineFromCloud:
  "justifies (deleteJudge E (machineOwnershipID (Some m)) (om_Name (m_Meta m))) h (deleteMachineFromCloud E m)"
  (is "justifies ?J h _")
proof -
  have "justifies ?J h (deregisterFromLB E m)"
    by (rule emits_justifies [where P = "\<lambda>c. \<not> isCloudWrite c \<or> (\<exists>a b. c = SdkRemoveBackendRef a b)"],
        intro emits_ops) (auto simp: deleteJudge_other)
  then show ?thesis
    unfolding deleteMachineFromCloud_def Let_def by (intro just_rules justifies_deleteVMThenOwned)
qed

text \<open>Without an error nothing is left: all three kinds were listed and every item deleted.\<close>

definition allOwnedDeleted :: "Env \<Rightarrow> string \<Rightarrow> Call list \<Rightarrow> bool" where
  "allOwnedDeleted E i h \<longleftrightarrow>
     ownedSG.allDeleted E i h \<and> ownedIP.allDeleted E i h \<and> ownedDisk.allDeleted E i h"

lemma deleteOwnedResources_none:
  assumes "run_state (deleteOwnedResources E i) s = ([], t)"
  shows "prefix (calls s) (calls t) \<and> allOwnedDeleted E i (calls t)"
proof -
  obtain u v where
    sg: "run_state (deleteListed ''failed to list machine security groups''
       ''failed to delete managed security group''
       (SecurityGroupService_ListByMachineOwner E i) (SecurityGroupService_Delete E)) s = ([], u)" and
    ip: "run_state (deleteListed ''failed to list machine public IPs''
       ''failed to delete managed public IP''
       (PublicIPService_ListByOwner E i) (PublicIPService_Delete E)) u = ([], v)" and
    disk: "run_state (deleteListed ''failed to list machine disks'' ''failed to delete disk''
       (DiskService_ListByOwner E i) (DiskService_Delete E)) v = ([], t)"
    using assms unfolding deleteOwnedResources_def by (auto split: prod.splits)
  have "prefix (calls s) (calls u)" "ownedSG.allDeleted E i (calls u)"
    using ownedSG.deleteListed_none [OF sg] by simp_all
  moreover have "prefix (calls u) (calls v)" "ownedIP.allDeleted E i (calls v)"
    using ownedIP.deleteListed_none [OF ip] by simp_all
  moreover have "prefix (calls v) (calls t)" "ownedDisk.allDeleted E i (calls t)"
    using ownedDisk.deleteListed_none [OF disk] by simp_all
  ultimately show ?thesis
    unfolding allOwnedDeleted_def
    by (meson ownedIP.allDeleted_prefix ownedSG.allDeleted_prefix prefix_order.trans)
qed

lemma deleteMachineFromCloud_None:
  assumes "run_state (deleteMachineFromCloud E m) s = (None, t)"
  shows "machineOwnershipID (Some m) \<noteq> '''' \<and> vmGone E (om_Name (m_Meta m)) (calls t) \<and>
    allOwnedDeleted E (machineOwnershipID (Some m)) (calls t)"
proof -
  let ?i = "machineOwnershipID (Some m)" and ?name = "om_Name (m_Meta m)"
  have i: "?i \<noteq> ''''"
    using assms by (auto simp: deleteMachineFromCloud_def Let_def)
  obtain errs u where "run_state (deleteVMThenOwned E m errs) u = (None, t)"
    using assms i by (auto simp: deleteMachineFromCloud_def Let_def split: prod.splits sum.splits)
  then obtain v where ex: "run_state (VirtualMachineService_Exists E ?name) u = (Inr False, v)"
      and sub: "run_state (deleteOwnedResources E ?i) v = ([], t)"
    by (auto simp: deleteVMThenOwned_def Let_def split: prod.splits sum.splits if_splits option.splits)
  have "vmGone E ?name (calls v)"
    using vm_exists_answer [OF ex] by simp
  then show ?thesis
    using deleteOwnedResources_none [OF sub] i by (auto intro: vmGone_prefix)
qed

lemma deleteMachineFromCloud_unowned:
  "machineOwnershipID (Some m) = '''' \<Longrightarrow>
     run_state (deleteMachineFromCloud E m) s =
       (Some (newErr (''machine '' @ om_Namespace (m_Meta m) @ ''/'' @ om_Name (m_Meta m) @
          '' has no ownership ID'')), s)"
  by (simp add: deleteMachineFromCloud_def Let_def)

end
