(* ===== verification/MachineReconcile.thy ===== *)
theory MachineReconcile
  imports MachineDelete Credentials
begin

text \<open>
  The machine controller: \<open>Reconcile\<close>, \<open>reconcileNormal\<close> and \<open>reconcileExistingVM\<close> of
  \<open>evrocmachine_controller.go\<close>.  \<open>reconcileNormal\<close> is cut into the stages of its source; a
  stage answers \<open>Some\<close> outcome when the Go function returns there, \<open>None\<close> when it goes on.
\<close>

section \<open>Creating a machine\<close>

definition machineFinalizer :: string where
  "machineFinalizer = ''infrastructure.cluster.x-k8s.io/evrocmachine''"

definition early :: "('o, 'r) go \<Rightarrow> ('o, 'r option) go" where
  "early m = do { r \<leftarrow> m; ret (Some r) }"

definition bootDiskFor ::
    "Env \<Rightarrow> clusterLabelInfo \<Rightarrow> EvrocMachine \<Rightarrow> (EvrocMachine, outcome option) go" where
  "bootDiskFor E clusterInfo machine =
     (if ms_RootDiskSize (m_Spec machine) > 0 then
        let diskName = bootDiskName (om_Name (m_Meta machine)) in
        onResult (DiskService_Get E diskName)
          (\<lambda>diskErr.
             if IsNotFoundError diskErr then
               onResult (DiskService_Create E diskName (ms_RootDiskSize (m_Spec machine))
                   (ms_Image (m_Spec machine)) (mst_AvailabilityZone (m_Status machine))
                   (machineResourceLabels machine (ci_ID clusterInfo) (ci_AdditionalLabels clusterInfo)))
                 (\<lambda>createErr. early (handleMachineError E (wrapErr ''failed to create boot disk'' createErr)))
                 (\<lambda>_. do {
                    ensureResources;
                    setResources (\<lambda>r. r\<lparr>mr_BootDisk := Some \<lparr>mdk_ID = diskName, mdk_UID = '''',
                      mdk_SizeGB = ms_RootDiskSize (m_Spec machine), mdk_Managed = True\<rparr>\<rparr>);
                    onError (persistResourcesStatus E)
                      (\<lambda>err. ret (Some (failWith (wrapErr ''failed to persist boot disk status'' err))))
                      (ret (Some (requeueAfter requeueLong))) })
             else early (handleMachineError E (wrapErr ''failed to get boot disk'' diskErr)))
          (\<lambda>evrocDisk.
             if \<not> s_diskReady E evrocDisk then
               (case getDiskErrorCondition evrocDisk of (reason, message) \<Rightarrow>
                  if reason \<noteq> '''' then early (handleMachineError E (newErr (''boot disk '' @
                    quoted diskName @ '' failed: '' @ reason @ '': '' @ message)))
                  else ret (Some (requeueAfter requeueLong)))
             else do {
               ensureResources;
               setResources (\<lambda>r. case mr_BootDisk r of
                   None \<Rightarrow> r\<lparr>mr_BootDisk := Some \<lparr>mdk_ID = md_Id (d_Meta evrocDisk),
                     mdk_UID = md_Uid (d_Meta evrocDisk),
                     mdk_SizeGB = ms_RootDiskSize (m_Spec machine), mdk_Managed = True\<rparr>\<rparr>
                 | Some _ \<Rightarrow> r);
               ret None })
      else ret None)"

definition ensureBootDisk :: "Env \<Rightarrow> clusterLabelInfo \<Rightarrow> (EvrocMachine, outcome option) go" where
  "ensureBootDisk E clusterInfo = do { machine \<leftarrow> getCur; bootDiskFor E clusterInfo machine }"

text \<open>
  The stages for additional disks, placement group and public IP have one shape: reconcile,
  record the outcome in the status, and come back later while it is pending.
\<close>

definition pendingStage ::
    "Env \<Rightarrow> (EvrocMachine \<Rightarrow> (EvrocMachine, goerr + bool \<times> 'a) go) \<Rightarrow> string
      \<Rightarrow> ('a \<Rightarrow> MachineResources \<Rightarrow> MachineResources) \<Rightarrow> string \<Rightarrow> nat \<Rightarrow> (EvrocMachine, outcome option) go" where
  "pendingStage E step errCtx store persistMsg delay = do {
     machine \<leftarrow> getCur;
     onResult (step machine)
       (\<lambda>err. early (handleMachineError E (wrapErr errCtx err)))
       (\<lambda>(pending, x). do {
          ensureResources;
          setResources (store x);
          (if pending then
             onError (persistResourcesStatus E)
               (\<lambda>err. ret (Some (failWith (wrapErr persistMsg err))))
               (ret (Some (requeueAfter delay)))
           else ret None) }) }"

definition ensureAdditionalDisks :: "Env \<Rightarrow> clusterLabelInfo \<Rightarrow> (EvrocMachine, outcome option) go" where
  "ensureAdditionalDisks E clusterInfo =
     pendingStage E (\<lambda>m. reconcileAdditionalDisks E m clusterInfo) ''failed to reconcile additional disks''
       (\<lambda>disks r. r\<lparr>mr_AdditionalDisks := disks\<rparr>)
       ''failed to persist managed additional disks status'' requeueLong"

definition ensurePlacementGroup :: "Env \<Rightarrow> (EvrocMachine, outcome option) go" where
  "ensurePlacementGroup E =
     pendingStage E (reconcilePlacementGroup E) ''failed to reconcile placement group''
       (\<lambda>pg r. r\<lparr>mr_PlacementGroup := pg\<rparr>)
       ''failed to persist managed placement group status'' requeueMedium"

definition ensurePublicIP :: "Env \<Rightarrow> clusterLabelInfo \<Rightarrow> (EvrocMachine, outcome option) go" where
  "ensurePublicIP E clusterInfo =
     pendingStage E (\<lambda>m. reconcilePublicIPCreation E m clusterInfo) ''failed to reconcile machine public IP''
       (\<lambda>ip r. r\<lparr>mr_PublicIP := ip\<rparr>)
       ''failed to persist managed public IP status'' requeueShort"

definition ensureSecurityGroups :: "Env \<Rightarrow> clusterLabelInfo \<Rightarrow> (EvrocMachine, outcome option) go" where
  "ensureSecurityGroups E clusterInfo = do {
     machine \<leftarrow> getCur;
     onError (reconcileMachineSecurityGroups E machine clusterInfo)
       (\<lambda>err. early (handleMachineError E (wrapErr ''failed to reconcile machine security groups'' err)))
       (ret None) }"

definition submitVM :: "Env \<Rightarrow> string \<Rightarrow> EvrocCluster option \<Rightarrow> (EvrocMachine, outcome) go" where
  "submitVM E userData evrocCluster = do {
     machine \<leftarrow> getCur;
     (case buildVMRequest E machine userData evrocCluster of
        Inl buildErr \<Rightarrow> handleMachineError E (wrapErr ''failed to build VM request'' buildErr)
      | Inr vmRequest \<Rightarrow>
          onResult (VirtualMachineService_Create E vmRequest)
            (\<lambda>err. handleMachineError E err)
            (\<lambda>_. ret (requeueAfter requeueLong))) }"

definition createVM ::
    "Env \<Rightarrow> string \<Rightarrow> clusterLabelInfo \<Rightarrow> EvrocCluster option \<Rightarrow> (EvrocMachine, outcome) go" where
  "createVM E userData clusterInfo evrocCluster =
     onError (ensureBootDisk E clusterInfo) ret
       (onError (ensureAdditionalDisks E clusterInfo) ret
         (onError (ensurePlacementGroup E) ret
           (onError (ensurePublicIP E clusterInfo) ret
             (onError (ensureSecurityGroups E clusterInfo) ret
               (submitVM E userData evrocCluster)))))"

text \<open>The cloud-init data of the bootstrap provider, or the outcome when it is not there.\<close>

definition bootstrapData :: "Env \<Rightarrow> OwnerMachine \<Rightarrow> (EvrocMachine, outcome + string) go" where
  "bootstrapData E ownerMachine = do {
     machine \<leftarrow> getCur;
     (case nestedString (ow_DataSecretName ownerMachine) of
        Inl nestedErr \<Rightarrow> ret (Inl (failWith
          (wrapErr ''reading spec.bootstrap.dataSecretName from owner Machine'' nestedErr)))
      | Inr (dataSecretName, found) \<Rightarrow>
          if \<not> found \<or> dataSecretName = '''' then ret (Inl (requeueAfter requeueShort))
          else onResult (invoke (e_secret E) (KGetSecret
                 \<lparr>k_Namespace = om_Namespace (m_Meta machine), k_Name = dataSecretName\<rparr>))
            (\<lambda>err. if ignoreNotFound err = None then ret (Inl (requeueAfter requeueShort))
               else ret (Inl (failWith
                 (wrapErr (''failed to get bootstrap secret '' @ quoted dataSecretName) err))))
            (\<lambda>secret. ret (Inr (mget (sec_Data secret) ''value'')))) }"

section \<open>A machine that exists\<close>

definition statusFromVM :: "Env \<Rightarrow> VirtualMachine \<Rightarrow> EvrocMachine \<Rightarrow> EvrocMachine" where
  "statusFromVM E evrocVM m =
     m\<lparr>m_Status := (m_Status m)\<lparr>mst_Ready := s_vmReady E evrocVM,
         mst_MachineID := md_Uid (vm_Meta evrocVM),
         mst_Addresses := extractMachineAddresses evrocVM\<rparr>\<rparr>"

definition setProvisioned :: "EvrocMachine \<Rightarrow> EvrocMachine" where
  "setProvisioned m = m\<lparr>m_Status := (m_Status m)\<lparr>mst_Provisioned := Some True\<rparr>\<rparr>"

text \<open>Linking the node; every failure is logged and retried.\<close>

definition linkNode :: "Env \<Rightarrow> EvrocCluster option \<Rightarrow> (EvrocMachine, outcome) go" where
  "linkNode E evrocCluster = do {
     machine \<leftarrow> getCur;
     onResult (getWorkloadClusterClient E machine) (\<lambda>_. ret (requeueAfter requeueMedium))
       (\<lambda>wc. case wc of
            None \<Rightarrow> ret (requeueAfter requeueMedium)
          | Some _ \<Rightarrow>
              onResult (if usesExternalCloudProvider evrocCluster then adoptNodeProviderID E
                        else patchNodeProviderID E)
                (\<lambda>_. ret (requeueAfter requeueMedium))
                (\<lambda>linked. if \<not> linked then ret (requeueAfter requeueMedium)
                   else do {
                     machine \<leftarrow> getCur;
                     err \<leftarrow> reconcileNodeInitialization E machine evrocCluster;
                     ret finished })) }"

definition reportVM :: "Env \<Rightarrow> VirtualMachine \<Rightarrow> EvrocCluster option \<Rightarrow> (EvrocMachine, outcome) go" where
  "reportVM E evrocVM evrocCluster = do {
     modCur (statusFromVM E evrocVM);
     (if s_vmReady E evrocVM
      then setMachineCondition E ReadyCondition ConditionTrue SeverityNone MachineReadyReason ''''
      else setMachineCondition E ReadyCondition ConditionFalse SeverityInfo MachineNotReadyReason
        ''VM is not yet ready'');
     modCur setProvisioned;
     onError (k8sStatusMachine E) (\<lambda>err. ret (failWith err))
       (do {
          machine \<leftarrow> getCur;
          (if mst_Ready (m_Status machine) then linkNode E evrocCluster else ret finished) }) }"

text \<open>One step of keeping the virtual machine in line: an error ends the reconcile.\<close>

definition driftStep ::
    "Env \<Rightarrow> (EvrocMachine \<Rightarrow> (EvrocMachine, goerr option) go) \<Rightarrow> string \<Rightarrow> (EvrocMachine, outcome option) go" where
  "driftStep E step errCtx = do {
     machine \<leftarrow> getCur;
     onError (step machine) (\<lambda>err. early (handleMachineError E (wrapErr errCtx err))) (ret None) }"

definition reconcileExistingVM ::
    "Env \<Rightarrow> VirtualMachine \<Rightarrow> EvrocCluster option \<Rightarrow> (EvrocMachine, outcome) go" where
  "reconcileExistingVM E evrocVM evrocCluster =
     (if \<not> s_vmReady E evrocVM then ret (requeueAfter requeueLong)
      else
        onError (driftStep E (\<lambda>m. reconcileVMSecurityGroups E m evrocCluster)
            ''failed to reconcile VM security groups'') ret
        (onError (driftStep E (\<lambda>m. reconcilePublicIPAttachment E m evrocCluster)
            ''failed to reconcile VM public IP'') ret
        (onError (driftStep E (reconcileVMDisks E) ''failed to reconcile VM disks'') ret
        (onError (driftStep E (\<lambda>m. reconcileVMPlacement E m evrocVM)
            ''failed to reconcile VM placement'') ret
        (onError (driftStep E (\<lambda>m. reconcileLBBackend E m evrocCluster)
            ''failed to register LB backend'') ret
        (onError (ensureMachineProviderID E evrocVM evrocCluster)
          (\<lambda>err. ret (0, ignoreNotFound err))
          (reportVM E evrocVM evrocCluster)))))))"

section \<open>Reconcile\<close>

definition customImageForeign :: "EvrocMachine \<Rightarrow> EvrocCluster option \<Rightarrow> bool" where
  "customImageForeign m evrocCluster \<longleftrightarrow> hasCustomImage m \<and>
     (case evrocCluster of None \<Rightarrow> True
      | Some c \<Rightarrow> ms_Project (m_Spec m) \<noteq> cs_Project (cl_Spec c) \<or> ms_Region (m_Spec m) \<noteq> cs_Region (cl_Spec c))"

text \<open>From the owner Machine on: the zone, and the virtual machine as the cloud has it.\<close>

definition assignZone ::
    "Env \<Rightarrow> OwnerMachine \<Rightarrow> EvrocCluster option \<Rightarrow> (EvrocMachine, outcome option) go" where
  "assignZone E ownerMachine evrocCluster = do {
     machine \<leftarrow> getCur;
     (if mst_AvailabilityZone (m_Status machine) = '''' then
        onError (pickAndUpdateZoneForMachine E ownerMachine evrocCluster)
          (\<lambda>err. early (handleMachineError E err)) (ret None)
      else ret None) }"

definition reconcileOwned ::
    "Env \<Rightarrow> OwnerMachine \<Rightarrow> EvrocCluster option \<Rightarrow> (EvrocMachine, outcome) go" where
  "reconcileOwned E ownerMachine evrocCluster =
     onError (assignZone E ownerMachine evrocCluster) ret
       (do {
          machine \<leftarrow> getCur;
          onResult (VirtualMachineService_Get E (om_Name (m_Meta machine)))
            (\<lambda>err. if \<not> IsNotFoundError err then
                 handleMachineError E (wrapErr ''failed to get VM from cloud'' err)
               else onResult (bootstrapData E ownerMachine) ret
                 (\<lambda>bootstrapUserData. do {
                    machine \<leftarrow> getCur;
                    createVM E (mergeUserData (s_mimeBoundary E) bootstrapUserData
                        (ms_UserData (m_Spec machine)))
                      (clusterLabelInfoFrom evrocCluster) evrocCluster }))
            (\<lambda>evrocVM. reconcileExistingVM E evrocVM evrocCluster) })"

definition Machine_reconcileNormal :: "Env \<Rightarrow> EvrocCluster option \<Rightarrow> (EvrocMachine, outcome) go" where
  "Machine_reconcileNormal E evrocCluster = do {
     machine \<leftarrow> getCur;
     (if customImageForeign machine evrocCluster then
        ret (failWith (newErr (''a custom disk image requires machine project and region to match '' @
          ''the owning EvrocCluster'')))
      else do {
        setMachineCondition E PausedCondition ConditionFalse SeverityNone ''Reconciling''
          ''Reconciliation is active'';
        (case getOwnerMachineRef E (om_OwnerReferences (m_Meta machine)) of (ownerName, ownerAPIVersion) \<Rightarrow>
           if ownerName = '''' then ret (requeueAfter requeueShort)
           else onResult (invoke (e_owner E) (KGetOwnerMachine ownerAPIVersion
                  \<lparr>k_Namespace = om_Namespace (m_Meta machine), k_Name = ownerName\<rparr>))
             (\<lambda>err. if ignoreNotFound err = None then ret (requeueAfter requeueShort)
                else ret (failWith (wrapErr ''failed to get owner Machine'' err)))
             (\<lambda>ownerMachine. reconcileOwned E ownerMachine evrocCluster)) }) }"

text \<open>\<open>errors.Join\<close> of two errors\<close>

definition join2 :: "goerr \<Rightarrow> goerr \<Rightarrow> goerr" where
  "join2 a b = GoErr (errMsg a @ newline @ errMsg b) (errMarks a @ errMarks b)"

definition Machine_pausedBranch :: "Env \<Rightarrow> (EvrocMachine, outcome) go" where
  "Machine_pausedBranch E = do {
     setMachineCondition E PausedCondition ConditionTrue SeverityNone PausedReason
       ''Reconciliation is paused'';
     onError (k8sStatusMachine E) (\<lambda>err. ret (failWith (wrapErr ''updating paused condition'' err)))
       (ret finished) }"

definition Machine_credentialFailure :: "Env \<Rightarrow> goerr \<Rightarrow> (EvrocMachine, outcome) go" where
  "Machine_credentialFailure E err = do {
     setMachineCondition E ReadyCondition ConditionFalse SeverityError CredentialsNotFoundReason (errMsg err);
     (let credentialErr = wrapErr ''resolving cloud credentials'' err in
      onError (k8sStatusMachine E)
        (\<lambda>statusErr. ret (failWith (join2 credentialErr
           (wrapErr ''updating credential failure condition'' statusErr))))
        (ret (failWith credentialErr))) }"

definition machineCleanup :: "Env \<Rightarrow> (EvrocMachine, goerr option) go" where
  "machineCleanup E = do { machine \<leftarrow> getCur; deleteMachineFromCloud E machine }"

text \<open>Ownership, deletion, finalizer, and then the normal case.\<close>

definition Machine_dispatch :: "Env \<Rightarrow> EvrocCluster option \<Rightarrow> (EvrocMachine, outcome) go" where
  "Machine_dispatch E evrocCluster = do {
     machine \<leftarrow> getCur;
     onResult (if om_DeletionTimestamp (m_Meta machine) = None
               then ensureOwnershipID machineOps E machineOwnershipIDAnnotation else ret (Inr False))
       (\<lambda>err. ret (failWith err))
       (\<lambda>ownershipInitialized. do {
          d \<leftarrow> HandleDeletion machineOps (k8sUpdateMachine E) machineFinalizer (machineCleanup E);
          (case d of (deleting, err) \<Rightarrow>
             if deleting then
               (case err of
                  Some e \<Rightarrow> if errIs e MachineDeletionPendingM then ret (requeueAfter requeueShort)
                            else ret (failWith e)
                | None \<Rightarrow> ret finished)
             else
               onResult (EnsureFinalizer machineOps (k8sUpdateMachine E) machineFinalizer)
                 (\<lambda>err. ret (failWith err))
                 (\<lambda>requeue.
                    if requeue then ret (requeueAfter requeueImmediately)
                    else if ownershipInitialized then
                      onError (k8sUpdateMachine E)
                        (\<lambda>err. ret (failWith (wrapErr ''persisting machine ownership ID'' err)))
                        (ret (requeueAfter requeueImmediately))
                    else Machine_reconcileNormal E evrocCluster)) }) }"

definition Machine_active :: "Env \<Rightarrow> (EvrocMachine, outcome) go" where
  "Machine_active E = do {
     machine \<leftarrow> getCur;
     onResult (resolveEvrocCluster E machine)
       (\<lambda>err. ret (failWith (wrapErr ''resolving EvrocCluster'' err)))
       (\<lambda>evrocCluster.
          onError (Machine_resolveCloudClient E machine evrocCluster)
            (Machine_credentialFailure E)
            (Machine_dispatch E evrocCluster)) }"

definition Machine_afterFetch :: "Env \<Rightarrow> (EvrocMachine, outcome) go" where
  "Machine_afterFetch E = do {
     paused \<leftarrow> IsPaused machineOps E;
     (if paused then Machine_pausedBranch E else Machine_active E) }"

definition Machine_Reconcile :: "Env \<Rightarrow> Key \<Rightarrow> (EvrocMachine, outcome) go" where
  "Machine_Reconcile E req =
     onError (k8sGetMachine E req) (\<lambda>err. ret (0, ignoreNotFound err)) (Machine_afterFetch E)"

text \<open>Which machine a change of a CAPI Machine wakes up.\<close>

definition capiMachineToEvrocMachine :: "CapiMachine \<Rightarrow> Key list" where
  "capiMachineToEvrocMachine machine =
     (if cm_RefKind machine \<noteq> ''EvrocMachine'' \<or> cm_RefName machine = '''' then []
      else [\<lparr>k_Namespace = cm_Namespace machine, k_Name = cm_RefName machine\<rparr>])"

end
