(* ===== verification/ClusterReconcile.thy ===== *)
theory ClusterReconcile
  imports ClusterSteps MachineReconcile
begin

text \<open>
  The cluster controller: \<open>Reconcile\<close>, \<open>reconcileNormal\<close> with its deferred patch, the cleanup,
  and the functions that map events of other objects to clusters.
\<close>

section \<open>Constants\<close>

definition clusterFinalizer :: string where
  "clusterFinalizer = ''evroccluster.infrastructure.cluster.x-k8s.io''"

definition DeleteCSIDisksAnnotation :: string where
  "DeleteCSIDisksAnnotation = ''evroccluster.infrastructure.cluster.x-k8s.io/delete-csi-disks''"

definition errCloudResourcesDeleting :: goerr where
  "errCloudResourcesDeleting = GoErr ''cloud resources still deleting'' [CloudResourcesDeletingM]"

section \<open>Cleanup\<close>

text \<open>The managed public IP is deleted unless the specification names an existing one.\<close>

definition ownsLBPublicIP :: "EvrocCluster \<Rightarrow> bool" where
  "ownsLBPublicIP c =
     (case GetLoadBalancer (cs_ControlPlaneConfig (cl_Spec c)) of None \<Rightarrow> True
      | Some cfg \<Rightarrow> (case lbc_ExistingPublicIPID cfg of None \<Rightarrow> True | Some i \<Rightarrow> i = ''''))"

abbreviation errList :: "goerr option \<Rightarrow> goerr list" where
  "errList r \<equiv> (case r of None \<Rightarrow> [] | Some e \<Rightarrow> [e])"

text \<open>Deleting the load balancer, then asking whether all of it is gone.\<close>

definition tearDownLB ::
    "Env \<Rightarrow> EvrocCluster \<Rightarrow> string \<Rightarrow> string \<Rightarrow> ('o, string list \<times> goerr option) go" where
  "tearDownLB E cluster clusterID lbName =
     (let deletePublicIP = ownsLBPublicIP cluster in
      do {
        delErr \<leftarrow> deleteTolerant (''failed to delete managed LoadBalancer '' @ lbName)
          (LoadBalancerService_Delete E lbName clusterID deletePublicIP);
        complete \<leftarrow> LoadBalancerService_DeletionComplete E lbName clusterID deletePublicIP;
        (case complete of
           Inl err \<Rightarrow> ret ([], joinErrs (errList delErr @ [wrapErr
             (''failed to check LoadBalancer deletion for cluster '' @ om_UID (cl_Meta cluster)) err]))
         | Inr isDone \<Rightarrow> ret (if isDone then [] else [''LoadBalancer/'' @ lbName], joinErrs (errList delErr))) })"

definition cleanupLB :: "Env \<Rightarrow> string \<Rightarrow> (EvrocCluster, string list \<times> goerr option) go" where
  "cleanupLB E clusterID = do {
     cluster \<leftarrow> getCur;
     (case resolveLoadBalancerName cluster of
        Inl err \<Rightarrow> ret ([], Some (wrapErr ''resolving load balancer name for cleanup'' err))
      | Inr (lbName, c') \<Rightarrow> do {
          modCur (\<lambda>_. c');
          tearDownLB E cluster clusterID lbName }) }"

definition cleanupSGs :: "Env \<Rightarrow> string \<Rightarrow> ('o, string list \<times> goerr option) go" where
  "cleanupSGs E clusterID =
     onResult (SecurityGroupService_ListByOwner E clusterID)
       (\<lambda>err. ret ([], Some (wrapErr ''failed to list security groups for cleanup'' err)))
       (\<lambda>sgNames. do {
          errs \<leftarrow> collectErrs (\<lambda>name. deleteTolerant (''failed to delete managed SecurityGroup '' @ name)
            (SecurityGroupService_Delete E name)) sgNames;
          onResult (SecurityGroupService_ListByOwner E clusterID)
            (\<lambda>err. ret ([], joinErrs (errs @ [wrapErr ''failed to recheck security groups for cleanup'' err])))
            (\<lambda>remaining. ret (map (\<lambda>name. ''SecurityGroup/'' @ name) remaining, joinErrs errs)) })"

text \<open>What the drivers of the workload cluster left, then the load balancer, then the groups.\<close>

definition cleanupDrivers :: "Env \<Rightarrow> string \<Rightarrow> bool \<Rightarrow> ('o, string list \<times> goerr option) go" where
  "cleanupDrivers E clusterID shouldDeleteDisks =
     onResult (Cleanup E clusterID shouldDeleteDisks)
       (\<lambda>err. ret ([], Some (wrapErr ''failed to clean up workload driver resources'' err)))
       (\<lambda>left. ret (if left then [''driver resources labelled managed-by='' @ clusterID] else [], None))"

definition cleanupVerdict :: "goerr list \<Rightarrow> string list \<Rightarrow> goerr option" where
  "cleanupVerdict errs stillDeleting =
     (if length errs > 0 then joinErrs errs
      else if length stillDeleting > 0 then
        Some (GoErr (errMsg errCloudResourcesDeleting @ '': '' @ joinStr '', '' stillDeleting)
               (errMarks errCloudResourcesDeleting))
      else None)"

definition cleanupResources :: "Env \<Rightarrow> (EvrocCluster, goerr option) go" where
  "cleanupResources E = do {
     cluster \<leftarrow> getCur;
     (let clusterID = clusterOwnershipID (Some cluster) in
      if clusterID = '''' then
        ret (Some (newErr (''cluster '' @ om_Namespace (cl_Meta cluster) @ ''/'' @ om_Name (cl_Meta cluster) @
          '' has no ownership ID'')))
      else do {
        (pendingDrivers, driverErr) \<leftarrow> cleanupDrivers E clusterID
          (mget (om_Annotations (cl_Meta cluster)) DeleteCSIDisksAnnotation = ''true'');
        (pendingLB, lbErr) \<leftarrow>
          (if ShouldManageControlPlaneEndpoint (Some cluster) then cleanupLB E clusterID else ret ([], None));
        (pendingSGs, sgErr) \<leftarrow> cleanupSGs E clusterID;
        ret (cleanupVerdict (errList driverErr @ errList lbErr @ errList sgErr)
          (pendingDrivers @ pendingLB @ pendingSGs)) }) }"

section \<open>The normal case\<close>

definition requeueClusterShort :: nat where
  "requeueClusterShort = 10"

text \<open>The load balancer stage: \<open>Some\<close> outcome when the function returns there.\<close>

definition ensureEndpoint :: "Env \<Rightarrow> (EvrocCluster, outcome option) go" where
  "ensureEndpoint E = do {
     cluster \<leftarrow> getCur;
     (if \<not> ShouldManageControlPlaneEndpoint (Some cluster) then ret None
      else case resolveLoadBalancerName cluster of
          Inl err \<Rightarrow> ret (Some (failWith err))
        | Inr (lbName, c') \<Rightarrow> do {
            modCur (\<lambda>_. c');
            onResult (reconcileAutoCreatedLoadBalancer E lbName)
              (\<lambda>err. early (handleClusterError E err))
              (\<lambda>delay. if delay \<noteq> 0 then ret (Some (requeueAfter delay)) else ret None) }) }"

definition markProvisioned :: "EvrocCluster \<Rightarrow> EvrocCluster" where
  "markProvisioned c =
     c\<lparr>cl_Status := (cl_Status c)\<lparr>cst_Ready := True,
        cst_Initialization := \<lparr>ci_Provisioned = Some True, ci_InfrastructureProvisioned = Some True\<rparr>\<rparr>\<rparr>"

definition reconcileClusterBody :: "Env \<Rightarrow> (EvrocCluster, outcome) go" where
  "reconcileClusterBody E = do {
     setClusterCondition E PausedCondition ConditionFalse SeverityNone ''Reconciling''
       ''Reconciliation is active'';
     cluster \<leftarrow> getCur;
     copyErr \<leftarrow> ensureCredentialSecretCopy E cluster;
     modCur reconcileFailureDomains;
     modCur storeNetworkStatus;
     onError (ensureEndpoint E) ret
       (onError (reconcileSecurityGroups E) (handleClusterError E)
         (do {
            modCur markProvisioned;
            setClusterCondition E ReadyCondition ConditionTrue SeverityNone ClusterReadyReason '''';
            ret finished })) }"

text \<open>The deferred patch: it runs on every return, and its error joins the result's.\<close>

definition Cluster_reconcileNormal :: "Env \<Rightarrow> (EvrocCluster, outcome) go" where
  "Cluster_reconcileNormal E = do {
     old \<leftarrow> getCur;
     (case s_newPatchHelper E old of
        Some err \<Rightarrow> ret (failWith err)
      | None \<Rightarrow> do {
          result \<leftarrow> reconcileClusterBody E;
          after \<leftarrow> getCur;
          patchErr \<leftarrow> invoke (e_err E) (KPatchCluster old after);
          ret (case patchErr of None \<Rightarrow> result
               | Some err \<Rightarrow> (fst result, joinErrs (errList (snd result) @ [err]))) }) }"

section \<open>Reconcile\<close>

definition Cluster_pausedBranch :: "Env \<Rightarrow> (EvrocCluster, outcome) go" where
  "Cluster_pausedBranch E = do {
     setClusterCondition E PausedCondition ConditionTrue SeverityNone PausedReason
       ''Reconciliation is paused'';
     onError (k8sStatusCluster E) (\<lambda>err. ret (failWith (wrapErr ''updating paused condition'' err)))
       (ret finished) }"

definition Cluster_credentialFailure :: "Env \<Rightarrow> goerr \<Rightarrow> (EvrocCluster, outcome) go" where
  "Cluster_credentialFailure E err = do {
     setClusterCondition E ReadyCondition ConditionFalse SeverityError CredentialsNotFoundReason (errMsg err);
     (let credentialErr = wrapErr ''resolving cloud credentials'' err in
      onError (k8sStatusCluster E)
        (\<lambda>statusErr. ret (failWith (join2 credentialErr
           (wrapErr ''updating credential failure condition'' statusErr))))
        (ret (failWith credentialErr))) }"

definition Cluster_dispatch :: "Env \<Rightarrow> (EvrocCluster, outcome) go" where
  "Cluster_dispatch E = do {
     cluster \<leftarrow> getCur;
     onResult (if om_DeletionTimestamp (cl_Meta cluster) = None
               then ensureOwnershipID clusterOps E clusterOwnershipIDAnnotation else ret (Inr False))
       (\<lambda>err. ret (failWith err))
       (\<lambda>ownershipInitialized. do {
          d \<leftarrow> HandleDeletion clusterOps (k8sUpdateCluster E) clusterFinalizer (cleanupResources E);
          (case d of (deleting, err) \<Rightarrow>
             if deleting then
               (case err of
                  Some e \<Rightarrow> if errIs e CloudResourcesDeletingM then ret (requeueAfter requeueClusterShort)
                            else ret (failWith e)
                | None \<Rightarrow> ret finished)
             else
               onResult (EnsureFinalizer clusterOps (k8sUpdateCluster E) clusterFinalizer)
                 (\<lambda>err. ret (failWith err))
                 (\<lambda>requeue.
                    if requeue then ret (requeueAfter 1)
                    else if ownershipInitialized then
                      onError (k8sUpdateCluster E)
                        (\<lambda>err. ret (failWith (wrapErr ''persisting cluster ownership ID'' err)))
                        (ret (requeueAfter 1))
                    else Cluster_reconcileNormal E)) }) }"

definition Cluster_active :: "Env \<Rightarrow> (EvrocCluster, outcome) go" where
  "Cluster_active E = do {
     cluster \<leftarrow> getCur;
     onError (Cluster_resolveCloudClient E cluster) (Cluster_credentialFailure E) (Cluster_dispatch E) }"

definition Cluster_afterFetch :: "Env \<Rightarrow> (EvrocCluster, outcome) go" where
  "Cluster_afterFetch E = do {
     paused \<leftarrow> IsPaused clusterOps E;
     (if paused then Cluster_pausedBranch E else Cluster_active E) }"

definition Cluster_Reconcile :: "Env \<Rightarrow> Key \<Rightarrow> (EvrocCluster, outcome) go" where
  "Cluster_Reconcile E req =
     onError (k8sGetCluster E req) (\<lambda>err. ret (0, ignoreNotFound err)) (Cluster_afterFetch E)"

section \<open>Events of other objects\<close>

definition clusterKey :: "EvrocCluster \<Rightarrow> Key" where
  "clusterKey c = \<lparr>k_Namespace = om_Namespace (cl_Meta c), k_Name = om_Name (cl_Meta c)\<rparr>"

definition secretToCluster :: "Env \<Rightarrow> Secret \<Rightarrow> ('o, Key list) go" where
  "secretToCluster E secret =
     onResult (invoke (e_clusters E) (KListClusters (k_Namespace (sec_Key secret)))) (\<lambda>_. ret [])
       (\<lambda>items. ret (map clusterKey (filter (\<lambda>c. case cs_CredentialsRef (cl_Spec c) of
            None \<Rightarrow> False | Some r \<Rightarrow> sref_Name r = k_Name (sec_Key secret)) items)))"

definition capiClusterToEvrocCluster :: "CapiCluster \<Rightarrow> Key list" where
  "capiClusterToEvrocCluster c =
     (if cc_RefKind c \<noteq> ''EvrocCluster'' \<or> cc_RefName c = '''' then []
      else [\<lparr>k_Namespace = cc_Namespace c, k_Name = cc_RefName c\<rparr>])"

definition machineToCluster :: "Env \<Rightarrow> ObjectMeta \<Rightarrow> ('o, Key list) go" where
  "machineToCluster E meta =
     (let clusterName = mget (om_Labels meta) ClusterNameLabel in
      if clusterName = '''' then ret []
      else onResult (invoke (e_capiCluster E)
             (KGetCapiCluster \<lparr>k_Namespace = om_Namespace meta, k_Name = clusterName\<rparr>))
        (\<lambda>_. ret [])
        (\<lambda>c. if cc_RefName c = '''' then ret []
             else ret [\<lparr>k_Namespace = om_Namespace meta, k_Name = cc_RefName c\<rparr>]))"

end
