(* ===== verification/ClusterWebhook.thy ===== *)
theory ClusterWebhook
  imports Admission ClusterReconcile
begin

text \<open>
  \<open>evroccluster_webhook.go\<close>: defaulting and validation of clusters at admission, and the
  declarative description of the clusters and of the updates it accepts.
\<close>

section \<open>Defaults\<close>

definition defaultCluster :: "EvrocCluster \<Rightarrow> EvrocCluster" where
  "defaultCluster c =
     c\<lparr>cl_Spec := (cl_Spec c)
       \<lparr>cs_Region := (if cs_Region (cl_Spec c) = '''' then ''se-sto'' else cs_Region (cl_Spec c)),
        cs_FailureDomains := (if length (cs_FailureDomains (cl_Spec c)) = 0 then [''a'', ''b'', ''c'']
          else cs_FailureDomains (cl_Spec c))\<rparr>\<rparr>"

definition ClusterDefaulter_Default :: "runtimeObject \<Rightarrow> string + runtimeObject" where
  "ClusterDefaulter_Default obj =
     (case obj of ClusterObject c \<Rightarrow> Inr (ClusterObject (defaultCluster c))
      | _ \<Rightarrow> Inl (''expected an EvrocCluster but got a '' @ goType obj))"

section \<open>Validation\<close>

text \<open>
  \<open>url.Parse\<close> is a parameter: the error of a URL that cannot be parsed, or its scheme and host.
\<close>

type_synonym urlParser = "string \<Rightarrow> goerr + string \<times> string"

definition urlErrs :: "urlParser \<Rightarrow> string \<times> string \<Rightarrow> fieldError list" where
  "urlErrs parseURL u =
     (case u of (name, value) \<Rightarrow>
        let path = NewPath [''spec'', ''endpoints'', name] in
        if value = '''' then []
        else (case parseURL value of
            Inl err \<Rightarrow> [FieldInvalid path (BadString value) (''must be a valid URL: '' @ errMsg err)]
          | Inr (scheme, host) \<Rightarrow>
              if scheme \<noteq> ''https'' then [FieldInvalid path (BadString value) ''must use the https scheme'']
              else if host = '''' then [FieldInvalid path (BadString value) ''must include a host'']
              else []))"

definition issuerErrs :: "string \<Rightarrow> fieldError list" where
  "issuerErrs issuer =
     errIf (hasSuffix (trimSuffix issuer ''/'') TokenPathSuffix)
       (FieldInvalid (NewPath [''spec'', ''endpoints'', ''issuerURL'']) (BadString issuer)
         (''must be the issuer (realm) URL, not the token endpoint; drop the trailing '' @ quoted TokenPathSuffix))"

definition clusterRequiredErrs :: "EvrocClusterSpec \<Rightarrow> fieldError list" where
  "clusterRequiredErrs spec =
     errIf (cs_Project spec = '''') (FieldRequired (NewPath [''spec'', ''project'']) ''project must be specified'') @
     errIf (cs_Region spec = '''') (FieldRequired (NewPath [''spec'', ''region'']) ''region must be specified'') @
     (case cs_CredentialsRef spec of
        None \<Rightarrow> [FieldRequired (NewPath [''spec'', ''credentialsRef'']) ''credentialsRef must be specified'']
      | Some r \<Rightarrow> errIf (sref_Name r = '''')
          (FieldRequired (NewPath [''spec'', ''credentialsRef'', ''name'']) ''credentialsRef.name must be specified''))"

definition endpointErrs :: "EvrocClusterSpec \<Rightarrow> fieldError list" where
  "endpointErrs spec =
     (let ep = cs_ControlPlaneEndpoint spec; policy = cs_ControlPlaneEndpointPolicy spec in
      errIf ((ae_Host ep \<noteq> '''' \<and> ae_Port ep = 0) \<or> (ae_Host ep = '''' \<and> ae_Port ep \<noteq> 0))
        (FieldInvalid (NewPath [''spec'', ''controlPlaneEndpoint'']) (BadEndpoint ep)
          ''host and port must both be set or both be empty'') @
      errIf (policy \<noteq> '''' \<and> policy \<noteq> EndpointManaged \<and> policy \<noteq> EndpointExternal)
        (FieldNotSupported (NewPath [''spec'', ''controlPlaneEndpointPolicy'']) policy
          [EndpointManaged, EndpointExternal]))"

text \<open>
  A zone of the wrong form is reported and skipped; it is never compared with a later one, so it
  does not matter that it is not remembered.
\<close>

definition zoneErrs :: "nat \<Rightarrow> bool \<Rightarrow> string \<Rightarrow> fieldError list" where
  "zoneErrs i seen zone =
     (let path = AtIndex (NewPath [''spec'', ''failureDomains'']) i in
      if \<not> zonePattern zone then [FieldInvalid path (BadString zone) ''failure domain must be a, b, or c'']
      else if seen then [FieldDuplicate path zone] else [])"

definition clusterNameErrs :: "string \<Rightarrow> fieldError list" where
  "clusterNameErrs name =
     (let clusterResourceOverhead = 9 + 6 in
      errIf (slen name + clusterResourceOverhead > evrocMaxResourceNameLen)
        (FieldTooLong (NewPath [''metadata'', ''name'']) name (evrocMaxResourceNameLen - clusterResourceOverhead)))"

definition subnetKeyErrs :: "gomap \<Rightarrow> fieldError list" where
  "subnetKeyErrs refs =
     concat (map (\<lambda>zone. errIf (\<not> zonePattern zone)
       (FieldInvalid (AtKey (NewPath [''spec'', ''network'', ''subnetRefs'']) zone) (BadString zone)
         ''subnet ref key must be a valid zone letter (a, b, or c)'')) (map fst refs))"

definition clusterSGPath :: "string \<Rightarrow> string \<Rightarrow> nat \<Rightarrow> fieldPath" where
  "clusterSGPath role f i = AtIndex (NewPath [''spec'', ''securityGroups'', role, f]) i"

definition acrossSections :: "string \<Rightarrow> string" where
  "acrossSections name = name @ '' (SG names must be unique across all sections)''"

definition clusterInlineErrs ::
    "EvrocCluster \<Rightarrow> string \<Rightarrow> nat \<Rightarrow> bool \<Rightarrow> InlineSecurityGroup \<Rightarrow> fieldError list" where
  "clusterInlineErrs c role i seen sg =
     (let sgPath = clusterSGPath role ''inlineSecurityGroups'' i; nameLen = slen (om_Name (cl_Meta c)) in
      errIf seen (FieldDuplicate (Child sgPath ''name'') (acrossSections (isg_Name sg))) @
      errIf (nameLen + 9 + 1 + slen (isg_Name sg) > evrocMaxResourceNameLen)
        (FieldTooLong (Child sgPath ''name'') (isg_Name sg) (evrocMaxResourceNameLen - nameLen - 10)) @
      rulesErrs sgPath (isg_Rules sg))"

text \<open>The sections share the names seen so far.\<close>

fun sectionErrs ::
    "EvrocCluster \<Rightarrow> string list \<Rightarrow> (string \<times> SecurityGroupsConfig) list \<Rightarrow> fieldError list" where
  "sectionErrs c seen [] = []"
| "sectionErrs c seen ((role, cfg) # sections) =
     (let inlineSeen = rev (map isg_Name (sgc_InlineSecurityGroups cfg)) @ seen in
      eachNamed isg_Name (clusterInlineErrs c role) 0 seen (sgc_InlineSecurityGroups cfg) @
      eachNamed id (\<lambda>i dup name. errIf dup (FieldDuplicate (clusterSGPath role ''existingIDs'' i) (acrossSections name)))
        0 inlineSeen (sgc_ExistingIDs cfg) @
      sectionErrs c (rev (sgc_ExistingIDs cfg) @ inlineSeen) sections)"

definition csiErrs :: "string \<Rightarrow> fieldError list" where
  "csiErrs v =
     errIf (v \<noteq> '''' \<and> v \<noteq> ''true'' \<and> v \<noteq> ''false'')
       (FieldNotSupported (AtKey (NewPath [''metadata'', ''annotations'']) DeleteCSIDisksAnnotation) v
         [''true'', ''false''])"

definition clusterErrs :: "urlParser \<Rightarrow> EvrocCluster \<Rightarrow> fieldError list" where
  "clusterErrs parseURL c =
     (let spec = cl_Spec c; issuer = GetIssuerURL (cs_Endpoints spec); net = cs_Network spec in
      clusterRequiredErrs spec @
      errIf (cs_Region spec \<noteq> '''' \<and> \<not> regionPattern (cs_Region spec))
        (FieldInvalid (NewPath [''spec'', ''region'']) (BadString (cs_Region spec))
          ''region must be in format xx-xxx (e.g., se-sto)'') @
      concat (map (urlErrs parseURL)
        [(''apiBaseURL'', GetAPIBaseURL (cs_Endpoints spec)), (''issuerURL'', issuer)]) @
      issuerErrs issuer @
      endpointErrs spec @
      errIf (length (cs_FailureDomains spec) = 0)
        (FieldRequired (NewPath [''spec'', ''failureDomains'']) ''at least one failure domain must be specified'') @
      eachNamed id zoneErrs 0 [] (cs_FailureDomains spec) @
      clusterNameErrs (om_Name (cl_Meta c)) @
      (if length (cs_AdditionalLabels spec) > 0
       then validateAdditionalLabels (cs_AdditionalLabels spec) (NewPath [''spec'', ''additionalLabels'']) else []) @
      (if length (net_SubnetRefs net) > 0 then subnetKeyErrs (net_SubnetRefs net) else []) @
      (case cs_SecurityGroups spec of None \<Rightarrow> [] | Some cfg \<Rightarrow> sectionErrs c [] (sgSections cfg)) @
      csiErrs (mget (om_Annotations (cl_Meta c)) DeleteCSIDisksAnnotation))"

definition domainWarnings :: "EvrocClusterSpec \<Rightarrow> string list" where
  "domainWarnings spec =
     (if length (cs_FailureDomains spec) = 1
      then [''using a single failure domain provides no high availability; consider using multiple zones for production clusters'']
      else []) @
     (if length (cs_FailureDomains spec) = 2
      then [''using 2 failure domains may not provide optimal high availability; consider using 3 zones for production clusters'']
      else [])"

definition subnetWarnings :: "EvrocClusterSpec \<Rightarrow> string list" where
  "subnetWarnings spec =
     (let net = cs_Network spec in
      if length (net_SubnetRefs net) > 0 then
        (if net_VPCRef net = None
         then [''subnetRefs is set without vpcRef; default VPC subnets are auto-named, explicit subnet refs are typically used with a custom VPC'']
         else []) @
        map (\<lambda>zone. ''failure domain '' @ quoted zone @
            '' has no entry in subnetRefs; VMs in this zone will use the default subnet'')
          (filter (\<lambda>zone. \<not> mhas (net_SubnetRefs net) zone) (cs_FailureDomains spec))
      else [])"

definition validateEvrocCluster :: "urlParser \<Rightarrow> EvrocCluster \<Rightarrow> verdict" where
  "validateEvrocCluster parseURL c =
     rejectErrs (domainWarnings (cl_Spec c) @ subnetWarnings (cl_Spec c)) (clusterErrs parseURL c)"

section \<open>The webhook\<close>

definition ClusterValidator_ValidateCreate :: "urlParser \<Rightarrow> runtimeObject \<Rightarrow> verdict" where
  "ClusterValidator_ValidateCreate parseURL obj =
     (case obj of
        ClusterObject c \<Rightarrow> validateEvrocCluster parseURL c
      | _ \<Rightarrow> ([], Some (WrongType (''expected an EvrocCluster but got a '' @ goType obj))))"

definition clusterImmutableErrs :: "EvrocCluster \<Rightarrow> EvrocCluster \<Rightarrow> fieldError list" where
  "clusterImmutableErrs oldCluster r =
     (let old = cl_Spec oldCluster; new = cl_Spec r; oldNet = cs_Network old; newNet = cs_Network new;
          oldEP = cs_ControlPlaneEndpoint old; newEP = cs_ControlPlaneEndpoint new in
      errIf (cs_Project new \<noteq> cs_Project old)
        (FieldForbidden (NewPath [''spec'', ''project'']) ''project is immutable'') @
      errIf (cs_Region new \<noteq> cs_Region old)
        (FieldForbidden (NewPath [''spec'', ''region'']) ''region is immutable'') @
      errIf (net_VPCRef oldNet \<noteq> None \<and> net_VPCRef newNet \<noteq> net_VPCRef oldNet)
        (FieldForbidden (NewPath [''spec'', ''network'', ''vpcRef'']) ''vpcRef is immutable once set'') @
      concat (map (\<lambda>zone. errIf (map_of (net_SubnetRefs newNet) zone \<noteq> map_of (net_SubnetRefs oldNet) zone)
          (FieldForbidden (AtKey (NewPath [''spec'', ''network'', ''subnetRefs'']) zone)
            ''subnetRef for a zone is immutable once set''))
        (remdups (map fst (net_SubnetRefs oldNet)))) @
      errIf (net_StackType oldNet \<noteq> None \<and> net_StackType newNet \<noteq> net_StackType oldNet)
        (FieldForbidden (NewPath [''spec'', ''network'', ''stackType'']) ''stackType is immutable once set'') @
      concat (map (\<lambda>(name, o', n). errIf (o' \<noteq> '''' \<and> n \<noteq> o')
          (FieldForbidden (NewPath [''spec'', ''endpoints'', name]) (name @ '' is immutable once set'')))
        [(''apiBaseURL'', GetAPIBaseURL (cs_Endpoints old), GetAPIBaseURL (cs_Endpoints new)),
         (''issuerURL'', GetIssuerURL (cs_Endpoints old), GetIssuerURL (cs_Endpoints new)),
         (''clientID'', GetClientID (cs_Endpoints old), GetClientID (cs_Endpoints new))]) @
      errIf ((ae_Host oldEP \<noteq> '''' \<or> ae_Port oldEP \<noteq> 0) \<and>
          (ae_Host newEP \<noteq> ae_Host oldEP \<or> ae_Port newEP \<noteq> ae_Port oldEP))
        (FieldForbidden (NewPath [''spec'', ''controlPlaneEndpoint'']) ''controlPlaneEndpoint is immutable once set'') @
      errIf (ShouldManageControlPlaneEndpoint (Some oldCluster) \<noteq> ShouldManageControlPlaneEndpoint (Some r))
        (FieldForbidden (NewPath [''spec'', ''controlPlaneEndpointPolicy'']) ''controlPlaneEndpointPolicy is immutable'') @
      concat (map (\<lambda>z. errIf (z \<notin> set (cs_FailureDomains new))
          (FieldForbidden (NewPath [''spec'', ''failureDomains''])
            (''cannot remove failure domain '' @ quoted z @ '': existing VMs may be running in it'')))
        (cs_FailureDomains old)))"

text \<open>
  The rejection of the validation becomes one more field error; its text is made by the API
  machinery, a parameter here.
\<close>

definition ClusterValidator_ValidateUpdate ::
    "urlParser \<Rightarrow> (rejection \<Rightarrow> string) \<Rightarrow> runtimeObject \<Rightarrow> runtimeObject \<Rightarrow> verdict" where
  "ClusterValidator_ValidateUpdate parseURL errText oldObj newObj =
     (case newObj of
        ClusterObject r \<Rightarrow>
          (case oldObj of
             ClusterObject oldCluster \<Rightarrow>
               (case validateEvrocCluster parseURL r of (warnings, err) \<Rightarrow>
                  rejectErrs warnings (clusterImmutableErrs oldCluster r @
                    (case err of None \<Rightarrow> []
                     | Some e \<Rightarrow> [FieldInvalid (NewPath [''spec'']) (BadSpec (cl_Spec r)) (errText e)])))
           | _ \<Rightarrow> ([], Some (WrongType (''expected an EvrocCluster but got a '' @ goType oldObj))))
      | _ \<Rightarrow> ([], Some (WrongType (''expected an EvrocCluster but got a '' @ goType newObj))))"

definition ClusterValidator_ValidateDelete :: "runtimeObject \<Rightarrow> verdict" where
  "ClusterValidator_ValidateDelete obj = ([], None)"

section \<open>What is accepted\<close>

definition validURL :: "urlParser \<Rightarrow> string \<Rightarrow> bool" where
  "validURL parseURL u \<longleftrightarrow> u = '''' \<or> (\<exists>host. parseURL u = Inr (''https'', host) \<and> host \<noteq> '''')"

definition clusterGroupOk :: "EvrocCluster \<Rightarrow> InlineSecurityGroup \<Rightarrow> bool" where
  "clusterGroupOk c g \<longleftrightarrow> length (om_Name (cl_Meta c)) + 10 + length (isg_Name g) \<le> 63 \<and>
     list_all ruleOk (isg_Rules g)"

text \<open>All names of the sections, inline and existing.\<close>

definition sectionNamesOf :: "(string \<times> SecurityGroupsConfig) list \<Rightarrow> string list" where
  "sectionNamesOf sections =
     concat (map (\<lambda>(role, cfg). map isg_Name (sgc_InlineSecurityGroups cfg) @ sgc_ExistingIDs cfg) sections)"

definition validCluster :: "urlParser \<Rightarrow> EvrocCluster \<Rightarrow> bool" where
  "validCluster parseURL c \<longleftrightarrow>
     (let spec = cl_Spec c; ep = cs_ControlPlaneEndpoint spec in
      cs_Project spec \<noteq> '''' \<and> regionPattern (cs_Region spec) \<and>
      (\<exists>r. cs_CredentialsRef spec = Some r \<and> sref_Name r \<noteq> '''') \<and>
      validURL parseURL (GetAPIBaseURL (cs_Endpoints spec)) \<and> validURL parseURL (GetIssuerURL (cs_Endpoints spec)) \<and>
      \<not> hasSuffix (trimSuffix (GetIssuerURL (cs_Endpoints spec)) ''/'') TokenPathSuffix \<and>
      (ae_Host ep = '''' \<longleftrightarrow> ae_Port ep = 0) \<and>
      cs_ControlPlaneEndpointPolicy spec \<in> {'''', EndpointManaged, EndpointExternal} \<and>
      cs_FailureDomains spec \<noteq> [] \<and> distinct (cs_FailureDomains spec) \<and>
      set (cs_FailureDomains spec) \<subseteq> {''a'', ''b'', ''c''} \<and>
      length (om_Name (cl_Meta c)) \<le> 48 \<and> list_all labelOk (cs_AdditionalLabels spec) \<and>
      fst ` set (net_SubnetRefs (cs_Network spec)) \<subseteq> {''a'', ''b'', ''c''} \<and>
      (\<forall>cfg. cs_SecurityGroups spec = Some cfg \<longrightarrow> distinct (sectionNamesOf (sgSections cfg)) \<and>
         (\<forall>s \<in> set (sgSections cfg). list_all (clusterGroupOk c) (sgc_InlineSecurityGroups (snd s)))) \<and>
      mget (om_Annotations (cl_Meta c)) DeleteCSIDisksAnnotation \<in> {'''', ''true'', ''false''})"

lemma urlErrs_iff: "urlErrs parseURL (name, u) = [] \<longleftrightarrow> validURL parseURL u"
  by (auto simp: urlErrs_def validURL_def Let_def split: sum.splits)

interpretation zoneCheck: field_check "\<lambda>i. zoneErrs i False" zonePattern
  by unfold_locales (simp add: zoneErrs_def Let_def)

interpretation clusterGroupCheck: field_check "\<lambda>i. clusterInlineErrs c role i False" "clusterGroupOk c" for c role
  by unfold_locales
     (auto simp: clusterInlineErrs_def clusterGroupOk_def evrocMaxResourceNameLen_def rulesErrs_iff Let_def)

lemma zones_iff:
  "eachNamed id zoneErrs 0 [] zs = [] \<longleftrightarrow> distinct zs \<and> set zs \<subseteq> {''a'', ''b'', ''c''}"
proof -
  have "zoneErrs j seen z = [] \<longleftrightarrow> \<not> seen \<and> zoneErrs (id j) False z = []" for j seen z
    by (simp add: zoneErrs_def Let_def)
  from zoneCheck.named_iff [OF this] show ?thesis
    by (auto simp: list_all_iff zonePattern_def)
qed

lemma clusterGroups_iff:
  "eachNamed isg_Name (clusterInlineErrs c role) 0 seen gs = [] \<longleftrightarrow>
     distinct (map isg_Name gs) \<and> set (map isg_Name gs) \<inter> set seen = {} \<and> list_all (clusterGroupOk c) gs"
proof -
  have "clusterInlineErrs c role j dup g = [] \<longleftrightarrow> \<not> dup \<and> clusterInlineErrs c role (id j) False g = []" for j dup g
    by (auto simp: clusterInlineErrs_def Let_def)
  from clusterGroupCheck.named_iff [OF this] show ?thesis
    by simp
qed

lemma sectionNamesOf_simps [simp]:
  "sectionNamesOf [] = []"
  "sectionNamesOf ((role, cfg) # sections) =
     (map isg_Name (sgc_InlineSecurityGroups cfg) @ sgc_ExistingIDs cfg) @ sectionNamesOf sections"
  by (simp_all add: sectionNamesOf_def)

lemma sections_iff:
  "sectionErrs c seen sections = [] \<longleftrightarrow> distinct (sectionNamesOf sections) \<and>
     set (sectionNamesOf sections) \<inter> set seen = {} \<and>
     (\<forall>s \<in> set sections. list_all (clusterGroupOk c) (sgc_InlineSecurityGroups (snd s)))"
proof (induction sections arbitrary: seen)
  case (Cons s sections)
  obtain role cfg where s: "s = (role, cfg)"
    by (cases s)
  show ?case
    unfolding s sectionErrs.simps Let_def append_is_Nil_conv Cons.IH clusterGroups_iff duplicates_iff
      sectionNamesOf_simps distinct_append set_append set_rev list.set ball_simps snd_conv
    by blast
qed simp

lemma clusterErrs_iff: "clusterErrs parseURL c = [] \<longleftrightarrow> validCluster parseURL c"
proof -
  let ?spec = "cl_Spec c"
  have urls: "concat (map (urlErrs parseURL) [(n, u), (n', u')]) = [] \<longleftrightarrow>
      validURL parseURL u \<and> validURL parseURL u'" for n u n' u'
    by (simp add: urlErrs_iff)
  have subnets: "(if length refs > 0 then subnetKeyErrs refs else []) = [] \<longleftrightarrow>
      fst ` set refs \<subseteq> {''a'', ''b'', ''c''}" for refs
    unfolding subnetKeyErrs_def concat_errIf by (auto simp: zonePattern_def)
  have groups: "(case g of None \<Rightarrow> [] | Some cfg \<Rightarrow> sectionErrs c [] (sgSections cfg)) = [] \<longleftrightarrow>
      (\<forall>cfg. g = Some cfg \<longrightarrow> sectionErrs c [] (sgSections cfg) = [])" for g
    by (simp split: option.split)
  have required: "clusterRequiredErrs ?spec = [] \<longleftrightarrow> cs_Project ?spec \<noteq> '''' \<and> cs_Region ?spec \<noteq> '''' \<and>
      (\<exists>r. cs_CredentialsRef ?spec = Some r \<and> sref_Name r \<noteq> '''')"
    by (auto simp: clusterRequiredErrs_def split: option.splits)
  have endpoint: "endpointErrs ?spec = [] \<longleftrightarrow>
      (ae_Host (cs_ControlPlaneEndpoint ?spec) = '''' \<longleftrightarrow> ae_Port (cs_ControlPlaneEndpoint ?spec) = 0) \<and>
      cs_ControlPlaneEndpointPolicy ?spec \<in> {'''', EndpointManaged, EndpointExternal}"
    by (auto simp: endpointErrs_def Let_def)
  have csi: "csiErrs v = [] \<longleftrightarrow> v \<in> {'''', ''true'', ''false''}" for v
    by (auto simp: csiErrs_def)
  have name: "clusterNameErrs n = [] \<longleftrightarrow> length n \<le> 48" for n
    by (auto simp: clusterNameErrs_def evrocMaxResourceNameLen_def)
  show ?thesis
    unfolding clusterErrs_def validCluster_def Let_def append_is_Nil_conv urls labels_iff subnets groups sections_iff
      required endpoint csi name zones_iff
    by (auto simp: issuerErrs_def dest: regionPattern_nonempty)
qed

section \<open>What an update may change\<close>

definition frozen :: "EvrocCluster \<Rightarrow> EvrocCluster \<Rightarrow> bool" where
  "frozen oldCluster r \<longleftrightarrow>
     (let old = cl_Spec oldCluster; new = cl_Spec r in
      cs_Project new = cs_Project old \<and> cs_Region new = cs_Region old \<and>
      (\<forall>v. net_VPCRef (cs_Network old) = Some v \<longrightarrow> net_VPCRef (cs_Network new) = Some v) \<and>
      map_of (net_SubnetRefs (cs_Network old)) \<subseteq>\<^sub>m map_of (net_SubnetRefs (cs_Network new)) \<and>
      (\<forall>v. net_StackType (cs_Network old) = Some v \<longrightarrow> net_StackType (cs_Network new) = Some v) \<and>
      (\<forall>f \<in> {GetAPIBaseURL, GetIssuerURL, GetClientID}.
         f (cs_Endpoints old) \<noteq> '''' \<longrightarrow> f (cs_Endpoints new) = f (cs_Endpoints old)) \<and>
      (cs_ControlPlaneEndpoint old \<noteq> \<lparr>ae_Host = '''', ae_Port = 0\<rparr> \<longrightarrow>
         cs_ControlPlaneEndpoint new = cs_ControlPlaneEndpoint old) \<and>
      ShouldManageControlPlaneEndpoint (Some r) = ShouldManageControlPlaneEndpoint (Some oldCluster) \<and>
      set (cs_FailureDomains old) \<subseteq> set (cs_FailureDomains new))"

lemma clusterImmutableErrs_iff: "clusterImmutableErrs old r = [] \<longleftrightarrow> frozen old r"
proof -
  have subnets: "concat (map (\<lambda>zone. errIf (map_of new zone \<noteq> map_of prev zone) (e zone)) (remdups (map fst prev))) = [] \<longleftrightarrow>
      map_of prev \<subseteq>\<^sub>m map_of new" for new prev :: gomap and e
    unfolding concat_errIf by (auto simp: map_le_def dom_map_of_conv_image_fst)
  have domains: "concat (map (\<lambda>z. errIf (z \<notin> set new) (e z)) prev) = [] \<longleftrightarrow> set prev \<subseteq> set new"
    for new prev :: "string list" and e
    unfolding concat_errIf by auto
  have kept: "errIf (x \<noteq> None \<and> y \<noteq> x) e = [] \<longleftrightarrow> (\<forall>v. x = Some v \<longrightarrow> y = Some v)" for x y :: "string option" and e
    by auto
  have endpoints: "concat (map (\<lambda>(name, o', n). errIf (o' \<noteq> '''' \<and> n \<noteq> o') (e name))
        [(n1, GetAPIBaseURL x, GetAPIBaseURL y), (n2, GetIssuerURL x, GetIssuerURL y), (n3, GetClientID x, GetClientID y)]) = [] \<longleftrightarrow>
      (\<forall>f \<in> {GetAPIBaseURL, GetIssuerURL, GetClientID}. f x \<noteq> '''' \<longrightarrow> f y = f x)" for n1 n2 n3 x y e
    by auto
  have endpoint: "errIf ((ae_Host x \<noteq> '''' \<or> ae_Port x \<noteq> 0) \<and> (ae_Host y \<noteq> ae_Host x \<or> ae_Port y \<noteq> ae_Port x)) e = [] \<longleftrightarrow>
      (x \<noteq> \<lparr>ae_Host = '''', ae_Port = 0\<rparr> \<longrightarrow> y = x)" for x y :: APIEndpoint and e
    by (cases x; cases y) auto
  have errIf: "errIf b e = [] \<longleftrightarrow> \<not> b" for b e
    by simp
  show ?thesis
    unfolding clusterImmutableErrs_def frozen_def Let_def append_is_Nil_conv subnets domains kept endpoints endpoint
    unfolding errIf by blast
qed

end
