(* ===== verification/MachineInvariant.thy ===== *)
theory MachineInvariant
  imports MachineReconcile
begin

text \<open>
  What the normal reconcile of a machine may change, in the cloud and on the object.
  \<open>normalWrite\<close> is the abstract specification: for a machine as it stands, the writes to the
  cloud that its specification and status ask for.  The main lemma says that
  \<open>Machine_reconcileNormal\<close> makes no other write, for machines in any invariant that the
  code's own assignments and the API server's answers keep.
\<close>

section \<open>The specification\<close>

definition inlineGroupsOf :: "EvrocMachine \<Rightarrow> InlineSecurityGroup list" where
  "inlineGroupsOf m = (case machineSGConfig m of None \<Rightarrow> [] | Some c \<Rightarrow> msgc_InlineSecurityGroups c)"

text \<open>The pool that the load balancer service derives for a cluster.\<close>

definition clusterPool :: "EvrocCluster option \<Rightarrow> string option" where
  "clusterPool cl = (case cl of None \<Rightarrow> None
     | Some c \<Rightarrow> (case resolveLoadBalancerName c of Inl _ \<Rightarrow> None | Inr (n, _) \<Rightarrow> Some (poolName n)))"

fun normalWrite :: "Env \<Rightarrow> EvrocCluster option \<Rightarrow> EvrocMachine \<Rightarrow> Call \<Rightarrow> bool" where
  "normalWrite E cl m (SdkCreate (CreateVM r)) \<longleftrightarrow> (\<exists>u. buildVMRequest E m u cl = Inr r)"
| "normalWrite E cl m (SdkCreate r) \<longleftrightarrow>
     requestLabels r = machineResourceLabels m (ci_ID (clusterLabelInfoFrom cl))
       (ci_AdditionalLabels (clusterLabelInfoFrom cl)) \<and>
     (case r of
        CreateDisk d \<Rightarrow> dr_Zone d = mst_AvailabilityZone (m_Status m) \<and> dr_Name d \<in> set (desiredDiskNames m)
      | CreatePublicIP n l \<Rightarrow> n = managedPublicIPName (om_Name (m_Meta m))
      | CreateSecurityGroup g \<Rightarrow> sgq_Name g \<in> inlineSGName (om_Name (m_Meta m)) ` set (inlineGroupsOf m)
      | _ \<Rightarrow> False)"
| "normalWrite E cl m (SdkDelete k n) \<longleftrightarrow>
     k = DiskK \<and> n \<in> mdk_ID ` {d \<in> set (trackedDisks m). mdk_Managed d} \<or>
     k = SecurityGroupK \<and> n \<in> msg_ID ` {g \<in> set (trackedSGs m). msg_Managed g}"
| "normalWrite E cl m (SdkPatchVM n p) \<longleftrightarrow>
     n = om_Name (m_Meta m) \<and> (case p of PatchPlacement pl \<Rightarrow> vp_Zone pl = None | _ \<Rightarrow> True)"
| "normalWrite E cl m (SdkPatchSG n g) \<longleftrightarrow>
     n \<in> inlineSGName (om_Name (m_Meta m)) ` set (inlineGroupsOf m)"
| "normalWrite E cl m (SdkAddBackendRef p b) \<longleftrightarrow>
     isControlPlane m \<and> ShouldManageControlPlaneEndpoint cl \<and> b = s_ref E VMRefK (om_Name (m_Meta m)) \<and>
     clusterPool cl = Some p"
| "normalWrite E cl m c \<longleftrightarrow> False"

fun allowed :: "Env \<Rightarrow> EvrocCluster option \<Rightarrow> (EvrocMachine \<Rightarrow> bool) \<Rightarrow> Call \<Rightarrow> bool" where
  "allowed E cl I (KUpdateMachine m) \<longleftrightarrow> I m"
| "allowed E cl I (KStatusMachine m) \<longleftrightarrow> I m"
| "allowed E cl I (KPatchMachine m m') \<longleftrightarrow> I m \<and> I m'"
| "allowed E cl I c \<longleftrightarrow> (isCloudWrite c \<longrightarrow> (\<exists>m. I m \<and> normalWrite E cl m c))"

text \<open>
  Invariants that every assignment of the normal reconcile and every answer of the API server
  keep: a server that is given objects in the invariant answers with such.
\<close>

fun carried :: "(EvrocMachine \<Rightarrow> bool) \<Rightarrow> Call \<Rightarrow> bool" where
  "carried I (KUpdateMachine m) \<longleftrightarrow> I m"
| "carried I (KStatusMachine m) \<longleftrightarrow> I m"
| "carried I (KPatchMachine m m') \<longleftrightarrow> I m \<and> I m'"
| "carried I c \<longleftrightarrow> True"

definition stableInv :: "Env \<Rightarrow> (EvrocMachine \<Rightarrow> bool) \<Rightarrow> bool" where
  "stableInv E I \<longleftrightarrow>
     (\<forall>m new. I m \<longrightarrow> I (Machine_SetConditions m (setConditionList new (Machine_GetConditions m)))) \<and>
     (\<forall>m r. I m \<longrightarrow> I (m\<lparr>m_Status := (m_Status m)\<lparr>mst_Resources := r\<rparr>\<rparr>)) \<and>
     (\<forall>m b. I m \<longrightarrow> I (m\<lparr>m_Status := (m_Status m)\<lparr>mst_Ready := b\<rparr>\<rparr>)) \<and>
     (\<forall>m vm. I m \<longrightarrow> I (statusFromVM E vm m)) \<and>
     (\<forall>m. I m \<longrightarrow> I (setProvisioned m)) \<and>
     (\<forall>m z. I m \<longrightarrow> mst_AvailabilityZone (m_Status m) = '''' \<longrightarrow>
        I (m\<lparr>m_Status := (m_Status m)\<lparr>mst_AvailabilityZone := z\<rparr>\<rparr>)) \<and>
     (\<forall>m p. I m \<longrightarrow> ms_ProviderID (m_Spec m) = None \<longrightarrow> I (setProviderID p m)) \<and>
     (\<forall>h c m. e_machine E h c = Inr m \<longrightarrow> carried I c \<longrightarrow> I m)"

lemma stableInv_rules:
  assumes "stableInv E I"
  shows "I m \<Longrightarrow> I (Machine_SetConditions m (setConditionList new (Machine_GetConditions m)))"
    and "I m \<Longrightarrow> I (m\<lparr>m_Status := (m_Status m)\<lparr>mst_Resources := r\<rparr>\<rparr>)"
    and "I m \<Longrightarrow> I (m\<lparr>m_Status := (m_Status m)\<lparr>mst_Ready := b\<rparr>\<rparr>)"
    and "I m \<Longrightarrow> I (statusFromVM E vm m)"
    and "I m \<Longrightarrow> I (setProvisioned m)"
    and "I m \<Longrightarrow> mst_AvailabilityZone (m_Status m) = '''' \<Longrightarrow>
      I (m\<lparr>m_Status := (m_Status m)\<lparr>mst_AvailabilityZone := z\<rparr>\<rparr>)"
    and "I m \<Longrightarrow> ms_ProviderID (m_Spec m) = None \<Longrightarrow> I (setProviderID p m)"
    and "e_machine E h c = Inr m \<Longrightarrow> carried I c \<Longrightarrow> I m"
  using assms by (simp_all add: stableInv_def)

lemma allowed_read [simp]:
  "\<not> isCloudWrite c \<Longrightarrow> (\<And>m. c \<noteq> KUpdateMachine m) \<Longrightarrow> (\<And>m. c \<noteq> KStatusMachine m) \<Longrightarrow>
     (\<And>m m'. c \<noteq> KPatchMachine m m') \<Longrightarrow> allowed E cl I c"
  by (cases c) auto

lemma allowed_write: "I m \<Longrightarrow> normalWrite E cl m c \<Longrightarrow> isCloudWrite c \<Longrightarrow> allowed E cl I c"
  by (cases c) auto

section \<open>Frames of the steps\<close>

text \<open>The steps get the machine as an argument and leave the object alone.\<close>

lemma frames_deleteStaleDisks: "frames v (deleteStaleDisks E tracked desired)"
  unfolding deleteStaleDisks_def by (intro frames_rules frames_deleteTolerant frames_ops)

lemma frames_reconcileAdditionalDisks: "frames v (reconcileAdditionalDisks E m info)"
  unfolding reconcileAdditionalDisks_def reconcileOneDisk_def Let_def
  by (intro frames_rules frames_deleteStaleDisks frames_ops)

lemma frames_reconcilePlacementGroup: "frames v (reconcilePlacementGroup E m)"
  unfolding reconcilePlacementGroup_def by (intro frames_rules frames_ops)

lemma frames_reconcileMachineSecurityGroups: "frames v (reconcileMachineSecurityGroups E m info)"
  unfolding reconcileMachineSecurityGroups_def ensureMachineSG_def Let_def
  by (intro frames_rules frames_ops)

lemma frames_reconcileVMSecurityGroups: "frames v (reconcileVMSecurityGroups E m cl)"
  unfolding reconcileVMSecurityGroups_def Let_def
  by (intro frames_rules frames_deleteTolerant frames_ops)

lemma frames_AddBackend [frames_ops]: "frames v (LoadBalancerService_AddBackend E a b)"
  unfolding LoadBalancerService_AddBackend_def by (intro frames_rules)

lemma frames_reconcileLBBackend: "frames v (reconcileLBBackend E m cl)"
  unfolding reconcileLBBackend_def by (intro frames_rules frames_ops)

lemma frames_reconcilePublicIPAttachment: "frames v (reconcilePublicIPAttachment E m cl)"
  unfolding reconcilePublicIPAttachment_def Let_def by (intro frames_rules frames_ops)

lemma frames_reconcileVMDisks: "frames v (reconcileVMDisks E m)"
  unfolding reconcileVMDisks_def Let_def by (intro frames_rules frames_ops)

lemma frames_reconcileVMPlacement: "frames v (reconcileVMPlacement E m vm)"
  unfolding reconcileVMPlacement_def Let_def by (intro frames_rules frames_ops)

lemmas frames_steps =
  frames_reconcileAdditionalDisks frames_reconcilePlacementGroup
  frames_reconcileMachineSecurityGroups frames_reconcileVMSecurityGroups frames_reconcileLBBackend
  frames_reconcilePublicIPAttachment frames_reconcileVMDisks frames_reconcileVMPlacement

section \<open>Calls of the steps\<close>

text \<open>For one machine: each step makes reads and the writes of \<open>normalWrite\<close>.\<close>

definition permitted :: "Env \<Rightarrow> EvrocCluster option \<Rightarrow> EvrocMachine \<Rightarrow> Call \<Rightarrow> bool" where
  "permitted E cl m c \<longleftrightarrow> (\<forall>x. c \<noteq> KUpdateMachine x) \<and> (\<forall>x. c \<noteq> KStatusMachine x) \<and>
     (\<forall>x y. c \<noteq> KPatchMachine x y) \<and> (isCloudWrite c \<longrightarrow> normalWrite E cl m c)"

lemma permitted_allowed: "permitted E cl m c \<Longrightarrow> I m \<Longrightarrow> allowed E cl I c"
  by (cases "isCloudWrite c") (auto simp: permitted_def intro: allowed_write)

lemma emits_deleteStaleDisks:
  assumes "tracked = trackedDisks m"
  shows "emits (permitted E cl m) (deleteStaleDisks E tracked desired)"
  unfolding deleteStaleDisks_def
  by (intro go_rules emits_deleteTolerant emits_ops) (auto simp: permitted_def assms)

lemma emits_reconcileAdditionalDisks:
  "emits (permitted E cl m) (reconcileAdditionalDisks E m (clusterLabelInfoFrom cl))"
  unfolding reconcileAdditionalDisks_def reconcileOneDisk_def Let_def
  by (intro go_rules emits_deleteStaleDisks emits_ops refl) (auto simp: permitted_def desiredDiskNames_def)

lemma emits_reconcilePlacementGroup: "emits (permitted E cl m) (reconcilePlacementGroup E m)"
  unfolding reconcilePlacementGroup_def by (intro go_rules emits_ops) (simp_all add: permitted_def)

lemma emits_reconcilePublicIPCreation:
  "emits (permitted E cl m) (reconcilePublicIPCreation E m (clusterLabelInfoFrom cl))"
  unfolding reconcilePublicIPCreation_def warnPublicIPTimeout_def Let_def
  by (intro go_rules emits_ops) (simp_all add: permitted_def)

lemma emits_reconcileMachineSecurityGroups:
  "emits (permitted E cl m) (reconcileMachineSecurityGroups E m (clusterLabelInfoFrom cl))"
  unfolding reconcileMachineSecurityGroups_def ensureMachineSG_def Let_def
  by (intro go_rules emits_ops) (simp_all add: permitted_def inlineGroupsOf_def)

lemma emits_reconcileVMSecurityGroups: "emits (permitted E cl m) (reconcileVMSecurityGroups E m cl)"
  unfolding reconcileVMSecurityGroups_def Let_def
  by (intro go_rules emits_deleteTolerant emits_ops) (auto simp: permitted_def)

lemma emits_reconcileLBBackend: "emits (permitted E cl m) (reconcileLBBackend E m cl)"
  unfolding reconcileLBBackend_def
  by (auto simp: permitted_def clusterPool_def intro!: go_rules emits_ops split: option.split sum.split)

lemma emits_reconcilePublicIPAttachment: "emits (permitted E cl m) (reconcilePublicIPAttachment E m cl)"
  unfolding reconcilePublicIPAttachment_def Let_def by (intro go_rules emits_ops) (simp_all add: permitted_def)

lemma emits_reconcileVMDisks: "emits (permitted E cl m) (reconcileVMDisks E m)"
  unfolding reconcileVMDisks_def Let_def by (intro go_rules emits_ops) (simp_all add: permitted_def)

lemma emits_reconcileVMPlacement: "emits (permitted E cl m) (reconcileVMPlacement E m vm)"
  unfolding reconcileVMPlacement_def Let_def by (intro go_rules emits_ops) (simp_all add: permitted_def)

lemmas emits_steps =
  emits_reconcileAdditionalDisks emits_reconcilePlacementGroup emits_reconcilePublicIPCreation
  emits_reconcileMachineSecurityGroups emits_reconcileVMSecurityGroups emits_reconcileLBBackend
  emits_reconcilePublicIPAttachment emits_reconcileVMDisks emits_reconcileVMPlacement

text \<open>A step of a machine in the invariant maintains it.\<close>

lemma maintains_step:
  assumes "emits (permitted E cl m) k" and "frames (\<lambda>x. x) k" and "I m"
  shows "maintains I (allowed E cl I) k"
proof -
  have "emits (allowed E cl I) k"
    by (rule emits_mono [OF assms(1)]) (use permitted_allowed [of E cl m _ I] assms(3) in blast)
  then show ?thesis
    using assms(2) by (rule maintains_emits)
qed

section \<open>The stages of the normal reconcile\<close>

lemma maintains_setMachineCondition:
  assumes "stableInv E I"
  shows "maintains I P (setMachineCondition E t st sv r msg)"
  unfolding setMachineCondition_def
  by (intro inv.keeps_bind maintains_ask maintains_modCur stableInv_rules(1) [OF assms])

lemma maintains_k8sStatusMachine:
  assumes "stableInv E I"
  shows "maintains I (allowed E cl I) (k8sStatusMachine E)"
  unfolding k8sStatusMachine_def
  by (rule maintains_bind_getCur, rule maintains_storeReply) (simp_all add: stableInv_rules [OF assms])

lemma maintains_k8sUpdateMachine:
  assumes "stableInv E I"
  shows "maintains I (allowed E cl I) (k8sUpdateMachine E)"
  unfolding k8sUpdateMachine_def
  by (rule maintains_bind_getCur, rule maintains_storeReply) (simp_all add: stableInv_rules [OF assms])

lemma maintains_k8sGetMachine:
  assumes "stableInv E I"
  shows "maintains I (allowed E cl I) (k8sGetMachine E k)"
  unfolding k8sGetMachine_def by (rule maintains_storeReply) (simp_all add: stableInv_rules [OF assms])

lemma maintains_HandleCloudError:
  assumes "stableInv E I"
  shows "maintains I (allowed E cl I) (HandleCloudError E err dr dm
    (\<lambda>reason message. setMachineCondition E t st sv reason message))"
  unfolding HandleCloudError_def Let_def
  by (intro inv.keeps_rules maintains_setMachineCondition [OF assms] maintains_invoke) simp_all

lemma maintains_handleMachineError:
  assumes "stableInv E I"
  shows "maintains I (allowed E cl I) (handleMachineError E err)"
  unfolding handleMachineError_def
  by (intro inv.keeps_rules maintains_modCur maintains_HandleCloudError [OF assms]
      maintains_k8sStatusMachine [OF assms] stableInv_rules(3) [OF assms])

lemma maintains_early: "maintains I P m \<Longrightarrow> maintains I P (early m)"
  unfolding early_def by (intro inv.keeps_rules)

lemma maintains_ensureResources:
  assumes "stableInv E I"
  shows "maintains I P ensureResources"
  unfolding ensureResources_def by (intro maintains_modCur stableInv_rules(2) [OF assms])

lemma maintains_setResources:
  assumes "stableInv E I"
  shows "maintains I P (setResources f)"
  unfolding setResources_def by (intro maintains_modCur stableInv_rules(2) [OF assms])

lemma maintains_persistResourcesStatus:
  assumes "stableInv E I"
  shows "maintains I (allowed E cl I) (persistResourcesStatus E)"
  unfolding persistResourcesStatus_def
  by (intro inv.keeps_rules maintains_getCur maintains_k8sStatusMachine [OF assms]
      maintains_k8sGetMachine [OF assms])

lemmas maintains_status =
  maintains_setMachineCondition maintains_k8sStatusMachine maintains_k8sUpdateMachine
  maintains_k8sGetMachine maintains_handleMachineError maintains_ensureResources
  maintains_setResources maintains_persistResourcesStatus

lemma maintains_reconcilePublicIPCreation:
  assumes "stableInv E I" and "I m"
  shows "maintains I (allowed E cl I) (reconcilePublicIPCreation E m (clusterLabelInfoFrom cl))"
proof -
  have "maintains I (allowed E cl I) (warnPublicIPTimeout E m n)" for n
    unfolding warnPublicIPTimeout_def
    by (intro inv.keeps_rules maintains_ask maintains_invoke maintains_setMachineCondition [OF assms(1)]) simp
  moreover have "maintains I (allowed E cl I) (PublicIPService_Get E n)" for n
    by (rule maintains_step [of E cl m _ I, OF _ _ assms(2)]; intro emits_ops frames_ops) (simp_all add: permitted_def)
  moreover have "maintains I (allowed E cl I) (PublicIPService_Exists E n)" for n
    by (rule maintains_step [of E cl m _ I, OF _ _ assms(2)]; intro emits_ops frames_ops) (simp_all add: permitted_def)
  moreover have "maintains I (allowed E cl I) (PublicIPService_Create E
      (managedPublicIPName (om_Name (m_Meta m)))
      (machineResourceLabels m (ci_ID (clusterLabelInfoFrom cl)) (ci_AdditionalLabels (clusterLabelInfoFrom cl))))"
    by (rule maintains_step [of E cl m _ I, OF _ _ assms(2)]; intro emits_ops frames_ops) (simp_all add: permitted_def)
  ultimately show ?thesis
    unfolding reconcilePublicIPCreation_def Let_def by (intro inv.keeps_rules)
qed

lemma maintains_pendingStage:
  assumes "stableInv E I" and "\<And>m. I m \<Longrightarrow> maintains I (allowed E cl I) (step m)"
  shows "maintains I (allowed E cl I) (pendingStage E step ec store pm d)"
  unfolding pendingStage_def
  by (rule maintains_bind_getCur)
     (intro inv.keeps_rules maintains_early maintains_status [OF assms(1)] assms(2))

lemma maintains_bootDiskFor:
  assumes "stableInv E I" and m: "I m"
  shows "maintains I (allowed E cl I) (bootDiskFor E (clusterLabelInfoFrom cl) m)"
proof -
  have "maintains I (allowed E cl I) (DiskService_Get E n)" for n
    by (rule maintains_step [of E cl m _ I, OF _ _ m]; intro emits_ops frames_ops) (simp_all add: permitted_def)
  moreover have "maintains I (allowed E cl I) (DiskService_Create E (bootDiskName (om_Name (m_Meta m))) sz i
      (mst_AvailabilityZone (m_Status m))
      (machineResourceLabels m (ci_ID (clusterLabelInfoFrom cl)) (ci_AdditionalLabels (clusterLabelInfoFrom cl))))"
    if "0 < ms_RootDiskSize (m_Spec m)" for sz i
    by (rule maintains_step [of E cl m _ I, OF _ _ m]; intro emits_ops frames_ops)
       (use that in \<open>simp_all add: permitted_def desiredDiskNames_def\<close>)
  ultimately show ?thesis
    unfolding bootDiskFor_def Let_def
    by (intro inv.keeps_rules maintains_early maintains_status [OF assms(1)])
qed

lemma maintains_submitVM:
  assumes "stableInv E I"
  shows "maintains I (allowed E cl I) (submitVM E u cl)"
  unfolding submitVM_def
proof (rule maintains_bind_getCur)
  fix m
  assume m: "I m"
  have "maintains I (allowed E cl I) (VirtualMachineService_Create E r)" if "buildVMRequest E m u cl = Inr r" for r
    by (rule maintains_step [of E cl m _ I, OF _ _ m]; intro emits_ops frames_ops)
       (use that in \<open>auto simp: permitted_def\<close>)
  then show "maintains I (allowed E cl I)
      (case buildVMRequest E m u cl of
        Inl buildErr \<Rightarrow> handleMachineError E (wrapErr ''failed to build VM request'' buildErr)
      | Inr vmRequest \<Rightarrow> onResult (VirtualMachineService_Create E vmRequest)
            (\<lambda>err. handleMachineError E err) (\<lambda>_. ret (requeueAfter requeueLong)))"
    by (intro inv.keeps_rules maintains_status [OF assms])
qed

lemma maintains_createVM:
  assumes "stableInv E I"
  shows "maintains I (allowed E cl I) (createVM E u (clusterLabelInfoFrom cl) cl)"
proof -
  have "maintains I (allowed E cl I) (ensureBootDisk E (clusterLabelInfoFrom cl))"
    unfolding ensureBootDisk_def by (rule maintains_bind_getCur) (rule maintains_bootDiskFor [OF assms])
  moreover have "maintains I (allowed E cl I) (ensureAdditionalDisks E (clusterLabelInfoFrom cl))"
    unfolding ensureAdditionalDisks_def
    by (rule maintains_pendingStage [OF assms]) (rule maintains_step [OF emits_reconcileAdditionalDisks frames_reconcileAdditionalDisks])
  moreover have "maintains I (allowed E cl I) (ensurePlacementGroup E)"
    unfolding ensurePlacementGroup_def
    by (rule maintains_pendingStage [OF assms]) (rule maintains_step [OF emits_reconcilePlacementGroup frames_reconcilePlacementGroup])
  moreover have "maintains I (allowed E cl I) (ensurePublicIP E (clusterLabelInfoFrom cl))"
    unfolding ensurePublicIP_def
    by (rule maintains_pendingStage [OF assms]) (rule maintains_reconcilePublicIPCreation [OF assms])
  moreover have "maintains I (allowed E cl I) (ensureSecurityGroups E (clusterLabelInfoFrom cl))"
    unfolding ensureSecurityGroups_def
    by (rule maintains_bind_getCur)
       (intro inv.keeps_rules maintains_early maintains_status [OF assms]
         maintains_step [OF emits_reconcileMachineSecurityGroups frames_reconcileMachineSecurityGroups])
  ultimately show ?thesis
    unfolding createVM_def by (intro inv.keeps_rules maintains_submitVM [OF assms])
qed

section \<open>The stages for a machine that exists\<close>

lemma maintains_driftStep:
  assumes "stableInv E I" and "\<And>m. I m \<Longrightarrow> maintains I (allowed E cl I) (step m)"
  shows "maintains I (allowed E cl I) (driftStep E step ec)"
  unfolding driftStep_def
  by (rule maintains_bind_getCur)
     (intro inv.keeps_rules maintains_early maintains_status [OF assms(1)] assms(2))

lemma maintains_ensureMachineProviderID:
  assumes "stableInv E I"
  shows "maintains I (allowed E cl I) (ensureMachineProviderID E vm c)"
  unfolding ensureMachineProviderID_def
  by (intro maintains_read inv.from_if inv.from_return maintainsFrom_modCur
      stableInv_rules(7) [OF assms] inv.keeps_rules maintains_getCur maintains_status [OF assms]) auto

lemma maintains_adoptNodeProviderID:
  assumes "stableInv E I"
  shows "maintains I (allowed E cl I) (adoptNodeProviderID E)"
  unfolding adoptNodeProviderID_def
proof (intro maintains_read inv.from_if inv.from_return inv.from_onResult)
  fix m node
  assume "I m" and "\<not> ms_ProviderID (m_Spec m) \<noteq> None"
  then show "maintainsFrom m I (allowed E cl I) (do {
      modCur (setProviderID (nd_ProviderID node));
      patched \<leftarrow> getCur;
      onError (storeReply (invoke (e_machine E) (KPatchMachine m patched)))
        (\<lambda>err. ret (Inl (wrapErr ''adopting node providerID'' err))) (ret (Inr True)) })"
    by (intro maintainsFrom_modCur maintains_bind_getCur inv.keeps_rules maintains_storeReply)
       (simp_all add: stableInv_rules [OF assms])
qed (auto intro!: maintains_invoke frames_rules)

lemma maintains_patchNodeProviderID: "maintains I (allowed E cl I) (patchNodeProviderID E)"
  unfolding patchNodeProviderID_def
  by (intro inv.keeps_rules maintains_getCur maintains_invoke) simp_all

lemma maintains_reconcileNodeInitialization:
  "maintains I (allowed E cl I) (reconcileNodeInitialization E m c)"
  unfolding reconcileNodeInitialization_def reconcileNodeLabelsAndTaints_def
  by (intro inv.keeps_rules maintains_invoke) simp_all

lemma maintains_getWorkloadClusterClient: "maintains I (allowed E cl I) (getWorkloadClusterClient E m)"
  unfolding getWorkloadClusterClient_def Let_def
  by (intro inv.keeps_rules maintains_invoke) simp_all

lemma maintains_linkNode:
  assumes "stableInv E I"
  shows "maintains I (allowed E cl I) (linkNode E c)"
  unfolding linkNode_def
  by (intro inv.keeps_rules maintains_getCur maintains_getWorkloadClusterClient
      maintains_adoptNodeProviderID [OF assms] maintains_patchNodeProviderID
      maintains_reconcileNodeInitialization)

lemma maintains_reportVM:
  assumes "stableInv E I"
  shows "maintains I (allowed E cl I) (reportVM E vm c)"
  unfolding reportVM_def
  by (intro inv.keeps_rules maintains_getCur maintains_modCur maintains_status [OF assms]
      maintains_linkNode [OF assms] stableInv_rules(4,5) [OF assms])

lemma maintains_reconcileExistingVM:
  assumes "stableInv E I"
  shows "maintains I (allowed E cl I) (reconcileExistingVM E vm cl)"
  unfolding reconcileExistingVM_def
  by (intro inv.keeps_rules maintains_driftStep [OF assms] maintains_ensureMachineProviderID [OF assms]
      maintains_reportVM [OF assms]; rule maintains_step; (rule emits_steps frames_steps)?)

lemma emits_pickZoneForMachine: "emits (permitted E cl m) (pickZoneForMachine E m c)"
  unfolding pickZoneForMachine_def Let_def by (intro go_rules) (simp_all add: permitted_def)

lemma frames_pickZoneForMachine: "frames v (pickZoneForMachine E m c)"
  unfolding pickZoneForMachine_def Let_def by (intro frames_rules)

lemma from_pickAndUpdateZone:
  assumes "stableInv E I" and "I m" and "mst_AvailabilityZone (m_Status m) = ''''"
  shows "maintainsFrom m I (allowed E cl I) (pickAndUpdateZoneForMachine E ow c)"
proof -
  have "maintains I (allowed E cl I) (pickZoneForMachine E m c)"
    by (rule maintains_step [of E cl m _ I, OF emits_pickZoneForMachine frames_pickZoneForMachine assms(2)])
  then show ?thesis
    unfolding pickAndUpdateZoneForMachine_def
    by (intro inv.from_getCur inv.from_case_sum inv.from_case_prod inv.from_onResult inv.from_if maintainsFrom_modCur
        inv.from_return inv.keeps_rules maintains_status [OF assms(1)]
        stableInv_rules(6) [OF assms(1) assms(2,3)] 
        frame.keeps_if frame.keeps_return frames_pickZoneForMachine)
qed

lemma maintains_assignZone:
  assumes "stableInv E I"
  shows "maintains I (allowed E cl I) (assignZone E ow c)"
  unfolding assignZone_def
  by (intro maintains_read inv.from_if inv.from_onError_then from_pickAndUpdateZone [OF assms]
      inv.from_return inv.keeps_return maintains_early
      maintains_status [OF assms])

section \<open>The normal reconcile\<close>

lemma maintains_reconcileOwned:
  assumes "stableInv E I"
  shows "maintains I (allowed E cl I) (reconcileOwned E ow cl)"
proof -
  have "maintains I (allowed E cl I) (VirtualMachineService_Get E n)" for n
    by (rule maintains_emits; intro emits_ops frames_ops) simp
  moreover have "maintains I (allowed E cl I) (bootstrapData E ow)"
    unfolding bootstrapData_def by (intro inv.keeps_rules maintains_getCur maintains_invoke) simp
  ultimately show ?thesis
    unfolding reconcileOwned_def
    by (intro inv.keeps_rules maintains_getCur maintains_assignZone [OF assms]
        maintains_status [OF assms] maintains_createVM [OF assms] maintains_reconcileExistingVM [OF assms])
qed

text \<open>
  The main lemma: from a machine in the invariant, the normal reconcile stays in it, writes
  only objects in it, and makes only the cloud writes that the specification allows for a
  machine in it.
\<close>

lemma maintains_reconcileNormal:
  assumes "stableInv E I"
  shows "maintains I (allowed E cl I) (Machine_reconcileNormal E cl)"
  unfolding Machine_reconcileNormal_def
  by (intro inv.keeps_rules maintains_getCur maintains_status [OF assms]
      maintains_reconcileOwned [OF assms] maintains_invoke) simp

end
