(* ===== verification/MachineControl.thy ===== *)
theory MachineControl
  imports MachineInvariant
begin

text \<open>
  The guards of the machine controller: what \<open>Reconcile\<close> may do with the machine it fetched,
  depending on whether it is paused, being deleted, owned and protected by the finalizer.
\<close>

section \<open>Dispatch\<close>

abbreviation machineOwned :: "EvrocMachine \<Rightarrow> bool" where
  "machineOwned m \<equiv> machineOwnershipID (Some m) \<noteq> ''''"

abbreviation machineProtected :: "EvrocMachine \<Rightarrow> bool" where
  "machineProtected m \<equiv> hasFinalizer (m_Meta m) machineFinalizer"

abbreviation machineLive :: "EvrocMachine \<Rightarrow> bool" where
  "machineLive m \<equiv> om_DeletionTimestamp (m_Meta m) = None"

lemma machineOps_simps [simp]:
  "oo_Meta machineOps m = m_Meta m" "oo_SetMeta machineOps x m = m\<lparr>m_Meta := x\<rparr>"
  by (simp_all add: machineOps_def)

text \<open>The normal case is reached only by a live machine with its finalizer and its owner ID.\<close>

lemma dispatch_ready:
  assumes "machineLive (cur s)" and "machineOwned (cur s)" and "machineProtected (cur s)"
  shows "run_state (Machine_dispatch E cl) s = run_state (Machine_reconcileNormal E cl) s"
  using assms
  by (simp add: Machine_dispatch_def ensureOwnershipID_def machineOwnershipID_def HandleDeletion_live
      EnsureFinalizer_def)

lemma run_k8sUpdateMachine:
  obtains r y where "run_state (k8sUpdateMachine E) s =
    (r, s\<lparr>calls := calls s @ [KUpdateMachine (cur s)], cur := y\<rparr>)"
proof (cases "e_machine E (calls s) (KUpdateMachine (cur s))")
  case (Inl e)
  then show ?thesis by (intro that [of "Some e" "cur s"]) (simp add: k8sUpdateMachine_def)
next
  case (Inr x)
  then show ?thesis by (intro that [of None x]) (simp add: k8sUpdateMachine_def)
qed

text \<open>Otherwise a live machine is only updated, with the owner ID and the finalizer, and comes back.\<close>

lemma dispatch_unready:
  assumes "machineLive (cur s)" and "\<not> (machineOwned (cur s) \<and> machineProtected (cur s))"
  obtains x where "calls (stateAfter (Machine_dispatch E cl) s) = calls s @ [KUpdateMachine x]"
    and "machineProtected x"
    and "machineOwnershipID (Some x) =
      (if machineOwned (cur s) then machineOwnershipID (Some (cur s)) else e_uuid E (calls s))"
proof -
  define s1 where "s1 = (if machineOwned (cur s) then s else s\<lparr>cur := (cur s)\<lparr>m_Meta := (m_Meta (cur s))
      \<lparr>om_Annotations := mput machineOwnershipIDAnnotation (e_uuid E (calls s))
         (om_Annotations (m_Meta (cur s)))\<rparr>\<rparr>\<rparr>)"
  have own: "run_state (ensureOwnershipID machineOps E machineOwnershipIDAnnotation) s =
      (Inr (\<not> machineOwned (cur s)), s1)"
    by (simp add: s1_def ensureOwnershipID_def machineOwnershipID_def modMeta_def)
  have s1: "calls s1 = calls s" "machineLive (cur s1)" "machineProtected (cur s1) = machineProtected (cur s)"
      "machineOwnershipID (Some (cur s1)) =
        (if machineOwned (cur s) then machineOwnershipID (Some (cur s)) else e_uuid E (calls s))"
    using assms(1) by (simp_all add: s1_def machineOwnershipID_def hasFinalizer_def)
  show ?thesis
  proof (cases "machineProtected (cur s)")
    case True
    obtain r y where "run_state (k8sUpdateMachine E) s1 =
        (r, s1\<lparr>calls := calls s1 @ [KUpdateMachine (cur s1)], cur := y\<rparr>)"
      by (rule run_k8sUpdateMachine)
    then have "calls (stateAfter (Machine_dispatch E cl) s) = calls s @ [KUpdateMachine (cur s1)]"
      using assms True own s1
      by (cases r) (simp_all add: Machine_dispatch_def HandleDeletion_live EnsureFinalizer_def stateAfter_def)
    then show ?thesis
      using True s1 by (intro that) simp_all
  next
    case False
    let ?s2 = "s1\<lparr>cur := cur s1\<lparr>m_Meta := withFinalizer machineFinalizer (m_Meta (cur s1))\<rparr>\<rparr>"
    obtain r y where "run_state (k8sUpdateMachine E) ?s2 =
        (r, ?s2\<lparr>calls := calls ?s2 @ [KUpdateMachine (cur ?s2)], cur := y\<rparr>)"
      by (rule run_k8sUpdateMachine)
    then have "calls (stateAfter (Machine_dispatch E cl) s) = calls s @ [KUpdateMachine (cur ?s2)]"
      using assms(1) False own s1
      by (cases r) (simp_all add: Machine_dispatch_def HandleDeletion_live EnsureFinalizer_def
        modMeta_def stateAfter_def)
    then show ?thesis
      by (rule that) (use s1 in \<open>simp_all add: machineOwnershipID_def withFinalizer_def hasFinalizer_def\<close>)
  qed
qed

lemma dispatch_deleting:
  assumes "\<not> machineLive (cur s)"
  shows "stateAfter (Machine_dispatch E cl) s =
    stateAfter (HandleDeletion machineOps (k8sUpdateMachine E) machineFinalizer (machineCleanup E)) s"
proof -
  obtain r t where run: "run_state (HandleDeletion machineOps (k8sUpdateMachine E) machineFinalizer
      (machineCleanup E)) s = ((True, r), t)"
    by (rule HandleDeletion_result [of machineOps s]) (use assms in auto)
  then show ?thesis
    using assms by (auto simp: Machine_dispatch_def stateAfter_def split: option.splits)
qed

text \<open>Dispatch from a known machine, for a relation between states that counts the calls.\<close>

lemma dispatch_emits:
  assumes update: "\<And>x. P (KUpdateMachine x)"
    and cleanup: "\<not> machineLive m \<Longrightarrow> machineProtected m \<Longrightarrow> emits P (deleteMachineFromCloud E m)"
    and normal: "machineLive m \<Longrightarrow> machineOwned m \<Longrightarrow> machineProtected m \<Longrightarrow>
      state_io_rel (fromRel m (emitRel P)) (Machine_reconcileNormal E cl)"
  shows "state_io_rel (fromRel m (emitRel P)) (Machine_dispatch E cl)"
  unfolding state_io_rel_def fromRel_def
proof (intro allI impI)
  fix s :: "EvrocMachine cst"
  assume m: "cur s = m"
  consider (ready) "machineLive m" "machineOwned m" "machineProtected m"
    | (unready) "machineLive m" "\<not> (machineOwned m \<and> machineProtected m)" | (deleting) "\<not> machineLive m"
    by blast
  then show "emitRel P s (snd (run_state (Machine_dispatch E cl) s))"
  proof cases
    case ready
    then show ?thesis
      using normal m dispatch_ready [of s E cl] by (auto simp: state_io_rel_def fromRel_def)
  next
    case unready
    with m obtain x where "calls (stateAfter (Machine_dispatch E cl) s) = calls s @ [KUpdateMachine x]"
      using dispatch_unready [of s E cl thesis for thesis] by blast
    then show ?thesis
      using update by (simp add: emitRel_def stateAfter_def)
  next
    case deleting
    have "state_io_rel (fromRel m (emitRel P)) (machineCleanup E)" if "machineProtected m"
      unfolding machineCleanup_def
      by (intro emit.from_getCur emit.from_keeps cleanup deleting that)
    moreover have "emits P (RemoveFinalizer machineOps (k8sUpdateMachine E) machineFinalizer)"
      unfolding k8sUpdateMachine_def by (intro emits_RemoveFinalizer go_rules update)
    ultimately have "state_io_rel (fromRel m (emitRel P))
        (HandleDeletion machineOps (k8sUpdateMachine E) machineFinalizer (machineCleanup E))"
      unfolding HandleDeletion_def
      by (intro emit.from_getCur emit.from_if emit.from_return emit.from_onError_then
          emit.keeps_return emit.keeps_onError) simp_all
    then show ?thesis
      using m deleting dispatch_deleting [of s E cl]
      by (simp add: state_io_rel_def fromRel_def stateAfter_def)
  qed
qed

section \<open>Reconcile\<close>

text \<open>The calls before dispatch: none of them writes to the cloud.\<close>

fun preludeCall :: "Call \<Rightarrow> bool" where
  "preludeCall (KGetMachine _) = True"
| "preludeCall (KGetCapiCluster _) = True"
| "preludeCall (KGetCluster _) = True"
| "preludeCall (KGetSecret _) = True"
| "preludeCall (KStatusMachine _) = True"
| "preludeCall (SdkNewClient _) = True"
| "preludeCall (SdkUseCatalog _) = True"
| "preludeCall _ = False"

lemma afterFetch_emits:
  assumes prelude: "\<And>c. preludeCall c \<Longrightarrow> P c"
    and dispatch: "\<And>cl. \<not> HasPausedAnnotation (m_Meta m) \<Longrightarrow>
      state_io_rel (fromRel m (emitRel P)) (Machine_dispatch E cl)"
  shows "state_io_rel (fromRel m (emitRel P)) (Machine_afterFetch E)"
proof -
  have paused: "emits P (Machine_pausedBranch E)"
    unfolding Machine_pausedBranch_def k8s_defs by (intro go_rules emits_ops prelude) simp
  have active: "state_io_rel (fromRel m (emitRel P)) (Machine_active E)" if "\<not> HasPausedAnnotation (m_Meta m)"
    unfolding Machine_active_def
    by (intro emit.from_getCur emit.from_onResult emit.from_onError emit.from_keeps [OF emit.keeps_return]
        emits_ops frames_ops dispatch that prelude)
       (auto simp: Machine_credentialFailure_def Let_def k8s_defs
         intro!: emit.from_keeps go_rules emits_ops prelude)
  show ?thesis
  proof (cases "HasPausedAnnotation (m_Meta m)")
    case True
    then have "run_state (Machine_afterFetch E) s = run_state (Machine_pausedBranch E) s" if "cur s = m" for s
      using that by (simp add: Machine_afterFetch_def IsPaused_def)
    then show ?thesis
      using paused by (simp add: state_io_rel_def fromRel_def)
  next
    case False
    then show ?thesis
      unfolding Machine_afterFetch_def
      by (intro emit.from_bind emit.from_if emit.from_keeps [OF paused] active emits_ops frames_ops prelude) simp_all
  qed
qed

lemma reconcile_fetched:
  assumes "e_machine E [] (KGetMachine req) = Inr m"
  shows "run_state (Machine_Reconcile E req) (startOf zeroMachine) =
    run_state (Machine_afterFetch E) \<lparr>cur = m, calls = [KGetMachine req]\<rparr>"
  using assms by (simp add: Machine_Reconcile_def k8sGetMachine_def startOf_def)

lemma reconcile_emitted:
  assumes fetch: "e_machine E [] (KGetMachine req) = Inr m"
    and P: "state_io_rel (fromRel m (emitRel P)) (Machine_afterFetch E)"
    and get: "P (KGetMachine req)"
    and c: "c \<in> set (emitted (Machine_Reconcile E req) (startOf zeroMachine))"
  shows "P c"
proof -
  let ?s = "\<lparr>cur = m, calls = [KGetMachine req]\<rparr>"
  have "emitRel P ?s (snd (run_state (Machine_afterFetch E) ?s))"
    using P by (simp add: state_io_rel_def fromRel_def)
  then show ?thesis
    using c get reconcile_fetched [OF fetch] by (auto simp: emitted_def emitRel_def)
qed

text \<open>A machine that cannot be fetched is left alone.\<close>

lemma reconcile_unfetched:
  assumes "e_machine E [] (KGetMachine req) = Inl err"
  shows "run_state (Machine_Reconcile E req) (startOf zeroMachine) =
    ((0, ignoreNotFound err), \<lparr>cur = zeroMachine, calls = [KGetMachine req]\<rparr>)"
  using assms by (simp add: Machine_Reconcile_def k8sGetMachine_def startOf_def)

end
