(* ===== verification/Examples.thy ===== *)
theory Examples
  imports MachineControl Workload
begin

text \<open>
  A concrete world for the witnesses: an environment in which every lookup answers not found
  and every other call succeeds, and a machine in it.
\<close>

definition notFound :: goerr where
  "notFound = GoErr ''not found'' [NotFoundM, K8sNotFoundM]"

definition emptyWorld :: Env where
  "emptyWorld =
     \<lparr>e_now = (\<lambda>_. 0), e_uuid = (\<lambda>_. ''u''), e_err = (\<lambda>_ _. None),
      e_disk = (\<lambda>_ _. Inl notFound), e_ip = (\<lambda>_ _. Inl notFound), e_sg = (\<lambda>_ _. Inl notFound),
      e_pg = (\<lambda>_ _. Inl notFound), e_vm = (\<lambda>_ _. Inl notFound), e_lb = (\<lambda>_ _. Inl notFound),
      e_pool = (\<lambda>_ _. Inl notFound), e_svc = (\<lambda>_ _. Inl notFound), e_route = (\<lambda>_ _. Inl notFound),
      e_items = (\<lambda>_ _. Inr []), e_machine = (\<lambda>_ _. Inl notFound), e_machines = (\<lambda>_ _. Inr []),
      e_cluster = (\<lambda>_ _. Inl notFound), e_clusters = (\<lambda>_ _. Inr []),
      e_capiCluster = (\<lambda>_ _. Inl notFound), e_owner = (\<lambda>_ _. Inl notFound),
      e_secret = (\<lambda>_ _. Inl notFound), e_node = (\<lambda>_ _. Inl notFound),
      s_ref = (\<lambda>_ n. ''/'' @ n), s_defaultVPCRef = ''/v'', s_ipRef = (\<lambda>i. md_Id (ip_Meta i)),
      s_poolRef = (\<lambda>p. md_Id (bp_Meta p)), s_svcRef = (\<lambda>s. md_Id (bs_Meta s)),
      s_routeRef = (\<lambda>r. md_Id (l4_Meta r)), s_nameFromRef = (\<lambda>r. r),
      s_vmReady = (\<lambda>_. True), s_diskReady = (\<lambda>_. True), s_lbReady = (\<lambda>_. True),
      s_publicIPAddress = (\<lambda>_. ''1''), s_setDefaults = (\<lambda>c. c),
      s_restConfigInsecure = (\<lambda>_. Inr False), s_parseGroupVersion = (\<lambda>v. Some v),
      s_endpointIsZero = (\<lambda>e. ae_Host e = '''' \<and> ae_Port e = 0), s_newPatchHelper = (\<lambda>_. None),
      s_mimeBoundary = ''b'', s_defaultImage = ''i'', e_hasRecorder = False\<rparr>"

definition exampleKey :: Key where
  "exampleKey = \<lparr>k_Namespace = ''n'', k_Name = ''m''\<rparr>"

definition exampleMeta :: "gomap \<Rightarrow> gomap \<Rightarrow> string list \<Rightarrow> int option \<Rightarrow> ObjectMeta" where
  "exampleMeta labels annotations finalizers deleted =
     \<lparr>om_Name = ''m'', om_Namespace = ''n'', om_UID = ''uid'', om_ResourceVersion = ''1'',
      om_Labels = labels, om_Annotations = annotations, om_Finalizers = finalizers,
      om_OwnerReferences = [\<lparr>or_APIVersion = ''cluster.x-k8s.io'', or_Kind = ''Machine'',
        or_Name = ''o'', or_UID = ''uid''\<rparr>],
      om_DeletionTimestamp = deleted, om_CreationTimestamp = 0\<rparr>"

text \<open>A machine with its owner ID \<open>x\<close> and finalizer, in a cluster \<open>c\<close>, live or being deleted.\<close>

definition exampleMachine :: "int option \<Rightarrow> EvrocMachine" where
  "exampleMachine deleted =
     zeroMachine\<lparr>m_Meta := exampleMeta [(ClusterNameLabel, ''c'')] [(machineOwnershipIDAnnotation, ''x'')]
       [machineFinalizer] deleted,
     m_Spec := (m_Spec zeroMachine)\<lparr>ms_RootDiskSize := 5\<rparr>,
     m_Status := (m_Status zeroMachine)\<lparr>mst_AvailabilityZone := ''a''\<rparr>\<rparr>"

definition exampleSecret :: Secret where
  "exampleSecret = \<lparr>sec_Key = exampleKey, sec_UID = ''s'', sec_ResourceVersion = ''1'', sec_Labels = [],
     sec_OwnerReferences = [], sec_Type = '''',
     sec_Data = [(''serviceAccountID'', ''a''), (''serviceAccountSecret'', ''b''), (''value'', ''v'')]\<rparr>"

definition exampleCluster :: EvrocCluster where
  "exampleCluster = zeroCluster\<lparr>cl_Meta := exampleMeta [] [(clusterOwnershipIDAnnotation, ''y'')] [] None,
     cl_Spec := (cl_Spec zeroCluster)\<lparr>cs_CredentialsRef := Some \<lparr>sref_Name = ''s''\<rparr>,
       cs_FailureDomains := [''a'']\<rparr>\<rparr>"

text \<open>The world around the machine: its cluster, its credentials, and its own owner.\<close>

definition machineWorld :: "int option \<Rightarrow> Env" where
  "machineWorld deleted = emptyWorld
     \<lparr>e_machine := (\<lambda>_ c. case c of KGetMachine _ \<Rightarrow> Inr (exampleMachine deleted)
          | KUpdateMachine m \<Rightarrow> Inr m | KStatusMachine m \<Rightarrow> Inr m | KPatchMachine _ m \<Rightarrow> Inr m
          | _ \<Rightarrow> Inl notFound),
      e_capiCluster := (\<lambda>_ _. Inr \<lparr>cc_Namespace = ''n'', cc_RefKind = ''EvrocCluster'',
          cc_RefName = ''c'', cc_Paused = None\<rparr>),
      e_cluster := (\<lambda>_ _. Inr exampleCluster),
      e_secret := (\<lambda>_ _. Inr exampleSecret),
      e_owner := (\<lambda>_ _. Inr \<lparr>ow_FailureDomain = NestedAbsent, ow_DataSecretName = NestedFound ''d''\<rparr>),
      e_sg := (\<lambda>_ _. Inl notFound),
      e_items := (\<lambda>_ c. case c of SdkList SecurityGroupK _ \<Rightarrow> Inr [\<lparr>md_Id = ''m-g'', md_Uid = ''1''\<rparr>]
          | _ \<Rightarrow> Inr [])\<rparr>"

text \<open>A paused machine.\<close>

definition pausedMachine :: EvrocMachine where
  "pausedMachine = zeroMachine\<lparr>m_Meta := exampleMeta [] [(PausedAnnotation, '''')] [] None\<rparr>"

definition pausedWorld :: Env where
  "pausedWorld = emptyWorld\<lparr>e_machine := (\<lambda>_ _. Inr pausedMachine)\<rparr>"

lemma pausedWorld_fetch: "e_machine pausedWorld [] (KGetMachine exampleKey) = Inr pausedMachine"
  by (simp add: pausedWorld_def)

lemma pausedMachine_paused: "HasPausedAnnotation (m_Meta pausedMachine)"
  by (simp add: pausedMachine_def exampleMeta_def HasPausedAnnotation_def mhas_def)

lemma machineWorld_fetch:
  "e_machine (machineWorld d) [] (KGetMachine exampleKey) = Inr (exampleMachine d)"
  by (simp add: machineWorld_def)

text \<open>A world whose API server always answers with the same live machine.\<close>

definition fixedMachine :: EvrocMachine where
  "fixedMachine = setProviderID ''p'' (exampleMachine None)"

definition fixedWorld :: Env where
  "fixedWorld = (machineWorld None)\<lparr>e_machine := (\<lambda>_ _. Inr fixedMachine)\<rparr>"

lemma fixedWorld_machine: "e_machine fixedWorld h c = Inr m \<longleftrightarrow> m = fixedMachine"
  by (auto simp: fixedWorld_def)

lemma fixedMachine_simps:
  "mst_AvailabilityZone (m_Status fixedMachine) = ''a''"
  "machineOwnershipID (Some fixedMachine) = ''x''"
  "om_Name (m_Meta fixedMachine) = ''m''"
  "ms_ProviderID (m_Spec fixedMachine) = Some ''p''"
  by (simp_all add: fixedMachine_def setProviderID_def exampleMachine_def exampleMeta_def
      machineOwnershipID_def mget_def)

text \<open>The same world, with its disks ready, and the machine being deleted in an empty cloud.\<close>

definition readyWorld :: Env where
  "readyWorld = fixedWorld\<lparr>e_disk := (\<lambda>_ _. Inr \<lparr>d_Meta = \<lparr>md_Id = ''d'', md_Uid = ''1''\<rparr>,
     d_Conditions = None, d_State = ''''\<rparr>)\<rparr>"

definition emptyCloud :: Env where
  "emptyCloud = (machineWorld (Some 1))\<lparr>e_items := (\<lambda>_ _. Inr [])\<rparr>"

end
