(* ===== verification/MachineWhole.thy ===== *)
theory MachineWhole
  imports MachineControl
begin

text \<open>
  Invariants over a whole reconcile of a machine, deletion included.  An invariant of the
  normal case that finalizer changes and the first ownership ID keep as well holds of every
  object that \<open>Machine_Reconcile\<close> writes, and every write to the cloud is one that
  \<open>normalWrite\<close> grants to a machine in the invariant, or part of the teardown.
\<close>

definition metaInv :: "Env \<Rightarrow> (EvrocMachine \<Rightarrow> bool) \<Rightarrow> bool" where
  "metaInv E I \<longleftrightarrow>
     (\<forall>m f. I m \<longrightarrow> \<not> hasFinalizer (m_Meta m) f \<longrightarrow>
        I (m\<lparr>m_Meta := withFinalizer f (m_Meta m)\<rparr>)) \<and>
     (\<forall>m f. I m \<longrightarrow> I (m\<lparr>m_Meta := withoutFinalizer f (m_Meta m)\<rparr>)) \<and>
     (\<forall>m h. I m \<longrightarrow> machineOwnershipID (Some m) = '''' \<longrightarrow>
        I (m\<lparr>m_Meta := (m_Meta m)\<lparr>om_Annotations :=
          mput machineOwnershipIDAnnotation (e_uuid E h) (om_Annotations (m_Meta m))\<rparr>\<rparr>))"

lemma metaInv_rules:
  assumes "metaInv E I" and "I m"
  shows "\<not> hasFinalizer (m_Meta m) f \<Longrightarrow> I (m\<lparr>m_Meta := withFinalizer f (m_Meta m)\<rparr>)"
    and "I (m\<lparr>m_Meta := withoutFinalizer f (m_Meta m)\<rparr>)"
    and "machineOwnershipID (Some m) = '''' \<Longrightarrow> I (m\<lparr>m_Meta := (m_Meta m)\<lparr>om_Annotations :=
          mput machineOwnershipIDAnnotation (e_uuid E h) (om_Annotations (m_Meta m))\<rparr>\<rparr>)"
  using assms by (simp_all add: metaInv_def)

fun granted :: "Env \<Rightarrow> (EvrocMachine \<Rightarrow> bool) \<Rightarrow> Call \<Rightarrow> bool" where
  "granted E I (SdkDelete _ _) \<longleftrightarrow> True"
| "granted E I (SdkRemoveBackendRef _ _) \<longleftrightarrow> True"
| "granted E I c \<longleftrightarrow> (\<exists>cl. allowed E cl I c)"

lemma allowed_granted: "allowed E cl I c \<Longrightarrow> granted E I c"
  by (cases c) auto

lemma preludeCall_granted: "preludeCall c \<Longrightarrow> (\<And>m. c \<noteq> KStatusMachine m) \<Longrightarrow> granted E I c"
  by (cases c) auto

lemma granted_write:
  assumes "granted E I c" and "isCloudWrite c" and "\<not> isDelete c"
    and "\<And>p b. c \<noteq> SdkRemoveBackendRef p b"
  shows "\<exists>cl m. I m \<and> normalWrite E cl m c"
  using assms by (cases c) auto

section \<open>The dispatch\<close>

lemma maintains_ensureOwnershipID:
  assumes "metaInv E I"
  shows "maintains I P (ensureOwnershipID machineOps E machineOwnershipIDAnnotation)"
  unfolding ensureOwnershipID_def modMeta_def machineOps_simps
  by (intro maintains_read inv.from_if inv.from_return maintainsFrom_ask maintainsFrom_modCur
      inv.keeps_return metaInv_rules(3) [OF assms])
     (simp_all add: machineOwnershipID_def)

lemma maintains_modMeta:
  assumes "\<And>m. I m \<Longrightarrow> I (m\<lparr>m_Meta := f (m_Meta m)\<rparr>)"
  shows "maintains I P (modMeta machineOps f)"
  unfolding modMeta_def machineOps_simps by (rule maintains_modCur) (rule assms)

lemma maintains_EnsureFinalizer:
  assumes "metaInv E I" and "maintains I P update"
  shows "maintains I P (EnsureFinalizer machineOps update f)"
  unfolding EnsureFinalizer_def modMeta_def machineOps_simps
  by (intro maintains_read inv.from_if inv.from_return maintainsFrom_modCur inv.keeps_rules
      metaInv_rules(1) [OF assms(1)] assms(2))

lemma maintains_granted: "maintains I (allowed E cl I) m \<Longrightarrow> maintains I (granted E I) m"
  by (erule maintains_mono) (rule allowed_granted)

lemma maintains_prelude:
  assumes "emits (\<lambda>c. preludeCall c \<and> (\<forall>x. c \<noteq> KStatusMachine x)) m" and "frames (\<lambda>x. x) m"
  shows "maintains I (granted E I) m"
  by (rule maintains_emits [OF emits_mono [OF assms(1)] assms(2)]) (auto intro: preludeCall_granted)

lemma maintains_HandleDeletion:
  assumes "stableInv E I" and "metaInv E I"
  shows "maintains I (granted E I)
    (HandleDeletion machineOps (k8sUpdateMachine E) machineFinalizer (machineCleanup E))"
proof -
  have "maintains I (granted E I) (deleteMachineFromCloud E m)" for m
    by (rule maintains_emits [OF emits_deleteMachineFromCloud frames_deleteMachineFromCloud]) simp_all
  moreover have "maintains I (granted E I) (k8sUpdateMachine E)"
    by (rule maintains_granted [OF maintains_k8sUpdateMachine [OF assms(1)]])
  ultimately show ?thesis
    unfolding HandleDeletion_def RemoveFinalizer_def machineCleanup_def
    by (intro inv.keeps_rules maintains_getCur maintains_modMeta metaInv_rules(2) [OF assms(2)])
qed

lemma maintains_dispatch:
  assumes "stableInv E I" and "metaInv E I"
  shows "maintains I (granted E I) (Machine_dispatch E cl)"
proof -
  have update: "maintains I (granted E I) (k8sUpdateMachine E)"
    by (rule maintains_granted [OF maintains_k8sUpdateMachine [OF assms(1)]])
  have normal: "maintains I (granted E I) (Machine_reconcileNormal E cl)"
    by (rule maintains_granted [OF maintains_reconcileNormal [OF assms(1)]])
  show ?thesis
    unfolding Machine_dispatch_def
    by (intro inv.keeps_rules maintains_getCur maintains_EnsureFinalizer [OF assms(2)]
        maintains_ensureOwnershipID [OF assms(2)] maintains_HandleDeletion [OF assms] update normal)
qed

lemma maintains_afterFetch:
  assumes "stableInv E I" and "metaInv E I"
  shows "maintains I (granted E I) (Machine_afterFetch E)"
proof -
  have status: "maintains I (granted E I) (k8sStatusMachine E)"
    by (rule maintains_granted [OF maintains_k8sStatusMachine [OF assms(1)]])
  have "maintains I (granted E I) (IsPaused machineOps E)"
    by (rule maintains_prelude) (intro emits_ops frames_ops; simp)+
  moreover have "maintains I (granted E I) (resolveEvrocCluster E m)" for m
    by (rule maintains_prelude) (intro emits_ops frames_ops; simp)+
  moreover have "maintains I (granted E I) (Machine_resolveCloudClient E m cl)" for m cl
    by (rule maintains_prelude) (intro emits_ops frames_ops; simp)+
  ultimately show ?thesis
    unfolding Machine_afterFetch_def Machine_pausedBranch_def Machine_active_def
      Machine_credentialFailure_def Let_def
    by (intro inv.keeps_rules maintains_getCur status maintains_setMachineCondition [OF assms(1)]
        maintains_dispatch [OF assms])
qed

section \<open>The reconcile\<close>

lemma reconcile_granted:
  assumes "stableInv E I" and "metaInv E I" and "c \<in> set (emitted (Machine_Reconcile E req) (startOf zeroMachine))"
  shows "granted E I c"
proof (cases "e_machine E [] (KGetMachine req)")
  case (Inl err)
  then show ?thesis
    using assms(3) by (simp add: emitted_def reconcile_unfetched)
next
  case (Inr m)
  let ?s = "\<lparr>cur = m, calls = [KGetMachine req]\<rparr>"
  have "I m"
    using assms(1) Inr by (auto intro: stableInv_rules(8))
  then have "emitRel (granted E I) ?s (snd (run_state (Machine_afterFetch E) ?s))"
    using maintains_afterFetch [OF assms(1,2)] by (simp add: state_io_rel_def invRel_def)
  then show ?thesis
    using assms(3) reconcile_fetched [OF Inr] by (auto simp: emitted_def emitRel_def)
qed

end
