(* ===== verification/MachineCreate.thy ===== *)
theory MachineCreate
  imports MachineControl
begin

text \<open>
  What has happened before a virtual machine is created: every disk its request names was found
  ready, and the placement group and the public IP it refers to were found.  The stages of
  \<open>createVM\<close> each answer \<open>None\<close> only after they saw their resource.
\<close>

section \<open>The judgement\<close>

definition diskSeen :: "Env \<Rightarrow> Call list \<Rightarrow> string \<Rightarrow> bool" where
  "diskSeen E h n \<longleftrightarrow> answeredIn h (SdkGet DiskK n)
     (\<lambda>h'. \<exists>d. e_disk E h' (SdkGet DiskK n) = Inr d \<and> s_diskReady E d)"

definition placementSeen :: "Env \<Rightarrow> Call list \<Rightarrow> string \<Rightarrow> bool" where
  "placementSeen E h n \<longleftrightarrow> answeredIn h (SdkGet PlacementGroupK n)
     (\<lambda>h'. \<exists>g. e_pg E h' (SdkGet PlacementGroupK n) = Inr g)"

definition publicIPSeen :: "Env \<Rightarrow> Call list \<Rightarrow> string \<Rightarrow> bool" where
  "publicIPSeen E h n \<longleftrightarrow> answeredIn h (SdkGet PublicIPK n)
     (\<lambda>h'. \<exists>i. e_ip E h' (SdkGet PublicIPK n) = Inr i)"

lemmas seen_defs = diskSeen_def placementSeen_def publicIPSeen_def

lemma seen_prefix:
  "diskSeen E h n \<Longrightarrow> prefix h h' \<Longrightarrow> diskSeen E h' n"
  "placementSeen E h n \<Longrightarrow> prefix h h' \<Longrightarrow> placementSeen E h' n"
  "publicIPSeen E h n \<Longrightarrow> prefix h h' \<Longrightarrow> publicIPSeen E h' n"
  unfolding seen_defs by (rule answeredIn_prefix; assumption)+

fun createJudge :: "Env \<Rightarrow> Call list \<Rightarrow> Call \<Rightarrow> bool" where
  "createJudge E h (SdkCreate (CreateVM r)) \<longleftrightarrow>
     (\<forall>d\<in>set (vr_Disks r). diskSeen E h (vdi_DiskRef d)) \<and>
     (\<forall>g. vp_PlacementGroupRef (vr_Placement r) = Some g \<longrightarrow> placementSeen E h g) \<and>
     (\<forall>i. vnw_PublicIPRef (vr_Networking r) = Some i \<longrightarrow> publicIPSeen E h i)"
| "createJudge E h c \<longleftrightarrow> True"

abbreviation noCreateVM :: "Call \<Rightarrow> bool" where
  "noCreateVM c \<equiv> \<forall>r. c \<noteq> SdkCreate (CreateVM r)"

abbreviation createsNothing :: "Call \<Rightarrow> bool" where
  "createsNothing c \<equiv> \<not> isCreate c"

lemma createsNothing_noVM: "emits createsNothing m \<Longrightarrow> emits noCreateVM m"
  by (erule emits_mono) auto

lemma createJudge_other: "noCreateVM c \<Longrightarrow> createJudge E h c"
  by (cases "(E, h, c)" rule: createJudge.cases) auto

lemma justifies_noCreate: "emits noCreateVM m \<Longrightarrow> justifies (createJudge E) h m"
  by (erule emits_justifies) (rule createJudge_other)

section \<open>What the stages saw\<close>

lemma run_early [simp]: "run_state (early m) s = (Some (fst (run_state m s)), snd (run_state m s))"
  by (simp add: early_def split: prod.split)

text \<open>The parts of the machine that its request is built from.\<close>

definition requestView :: "EvrocMachine \<Rightarrow> ObjectMeta \<times> EvrocMachineSpec \<times> string" where
  "requestView m = (m_Meta m, m_Spec m, mst_AvailabilityZone (m_Status m))"

lemma requestView_resources [simp]:
  "requestView (m\<lparr>m_Status := (m_Status m)\<lparr>mst_Resources := r\<rparr>\<rparr>) = requestView m"
  by (simp add: requestView_def)

lemma frames_ensureResources: "frames requestView ensureResources"
  unfolding ensureResources_def by (intro frames_rules) simp

lemma frames_setResources: "frames requestView (setResources f)"
  unfolding setResources_def by (intro frames_rules) simp

lemma run_storing:
  obtains t where "run_state ensureResources s = ((), t)" "calls t = calls s"
    "requestView (cur t) = requestView (cur s)"
  by (rule that [of "snd (run_state ensureResources s)"]) (simp_all add: ensureResources_def)

lemma run_setting:
  obtains t where "run_state (setResources f) s = ((), t)" "calls t = calls s"
    "requestView (cur t) = requestView (cur s)"
  by (rule that [of "snd (run_state (setResources f) s)"]) (simp_all add: setResources_def)

lemma bootDisk_seen:
  assumes "run_state (ensureBootDisk E info) s = (None, t)"
  shows "prefix (calls s) (calls t) \<and> requestView (cur t) = requestView (cur s) \<and>
    (ms_RootDiskSize (m_Spec (cur s)) > 0 \<longrightarrow>
       diskSeen E (calls t) (bootDiskName (om_Name (m_Meta (cur s)))))"
proof (cases "ms_RootDiskSize (m_Spec (cur s)) > 0")
  case False
  then show ?thesis
    using assms by (simp add: ensureBootDisk_def bootDiskFor_def)
next
  case True
  let ?n = "bootDiskName (om_Name (m_Meta (cur s)))"
  let ?s = "s\<lparr>calls := calls s @ [SdkGet DiskK ?n]\<rparr>"
  obtain d where d: "e_disk E (calls s) (SdkGet DiskK ?n) = Inr d" "s_diskReady E d"
    using assms True
    by (auto simp: ensureBootDisk_def bootDiskFor_def Let_def DiskService_Get_def
        split: sum.splits if_splits prod.splits option.splits)
  have "calls t = calls ?s \<and> requestView (cur t) = requestView (cur s)"
    using assms True d
    by (auto simp: ensureBootDisk_def bootDiskFor_def Let_def DiskService_Get_def ensureResources_def
        setResources_def)
  then show ?thesis
    using d by (auto simp: diskSeen_def intro!: answeredIn_snoc)
qed

lemma pendingStage_None:
  assumes "run_state (pendingStage E step ec store pm d) s = (None, t)"
  obtains x u where "run_state (step (cur s)) s = (Inr (False, x), u)" "calls t = calls u"
    "requestView (cur t) = requestView (cur u)"
proof -
  obtain r u where run: "run_state (step (cur s)) s = (r, u)"
    by fastforce
  obtain p x where r: "r = Inr (p, x)"
    using assms run by (cases r) (auto simp: pendingStage_def)
  obtain u1 where u1: "run_state ensureResources u = ((), u1)" "calls u1 = calls u"
      "requestView (cur u1) = requestView (cur u)"
    by (rule run_storing)
  obtain u2 where u2: "run_state (setResources (store x)) u1 = ((), u2)" "calls u2 = calls u1"
      "requestView (cur u2) = requestView (cur u1)"
    by (rule run_setting)
  have "\<not> p \<and> t = u2"
    using assms run r u1 u2 by (auto simp: pendingStage_def split: if_splits prod.splits option.splits)
  then show ?thesis
    using that run r u1 u2 by auto
qed

lemma emits_reconcileOneDisk: "emits noCreateVM (reconcileOneDisk E m info d)"
  unfolding reconcileOneDisk_def Let_def by (intro go_rules emits_ops) simp_all

lemma oneDisk_seen:
  assumes "run_state (reconcileOneDisk E m info d) s = (Inr (x, False), t)"
  shows "diskSeen E (calls t) (additionalDiskName (om_Name (m_Meta m)) (ad_Name d))"
proof -
  let ?n = "additionalDiskName (om_Name (m_Meta m)) (ad_Name d)"
  obtain disk where "e_disk E (calls s) (SdkGet DiskK ?n) = Inr disk" "s_diskReady E disk"
      "t = s\<lparr>calls := calls s @ [SdkGet DiskK ?n]\<rparr>"
    using assms
    by (auto simp: reconcileOneDisk_def Let_def DiskService_Get_def
        split: sum.splits if_splits prod.splits option.splits)
  then show ?thesis
    by (auto simp: diskSeen_def intro!: answeredIn_snoc)
qed

lemma allDisks_seen:
  assumes "run_state (mapEach (reconcileOneDisk E m info) specs) s = (Inr results, t)"
    and "\<not> list_ex snd results"
  shows "prefix (calls s) (calls t) \<and>
    (\<forall>d\<in>set specs. diskSeen E (calls t) (additionalDiskName (om_Name (m_Meta m)) (ad_Name d)))"
  using assms
proof (induction specs arbitrary: s results)
  case (Cons d specs)
  obtain r u where run: "run_state (reconcileOneDisk E m info d) s = (r, u)"
    by fastforce
  then obtain x p where r: "r = Inr (x, p)"
    using Cons.prems(1) by (cases r) auto
  then obtain rest where rest: "run_state (mapEach (reconcileOneDisk E m info) specs) u = (Inr rest, t)"
      "results = (x, p) # rest"
    using Cons.prems(1) run by (auto split: sum.splits prod.splits)
  then have p: "\<not> p" "\<not> list_ex snd rest"
    using Cons.prems(2) by auto
  have "prefix (calls s) (calls u)"
    by (rule run_emits [OF emits_reconcileOneDisk run])
  moreover have "diskSeen E (calls u) (additionalDiskName (om_Name (m_Meta m)) (ad_Name d))"
    using run r p(1) by (auto intro: oneDisk_seen)
  ultimately show ?case
    using Cons.IH [OF rest(1) p(2)] by (auto intro: seen_prefix prefix_order.trans)
qed simp

lemma emits_deleteStaleDisks_noCreate: "emits noCreateVM (deleteStaleDisks E tracked desired)"
  unfolding deleteStaleDisks_def by (intro go_rules emits_deleteTolerant emits_ops) simp_all

lemma additionalDisks_seen:
  assumes "run_state (reconcileAdditionalDisks E m info) s = (Inr (False, x), t)"
  shows "\<forall>d\<in>set (ms_AdditionalDisks (m_Spec m)).
    diskSeen E (calls t) (additionalDiskName (om_Name (m_Meta m)) (ad_Name d))"
proof (cases "ms_AdditionalDisks (m_Spec m) = []")
  case False
  obtain r u where run: "run_state (mapEach (reconcileOneDisk E m info) (ms_AdditionalDisks (m_Spec m))) s = (r, u)"
    by fastforce
  then obtain results where results: "r = Inr results" "\<not> list_ex snd results"
    using assms False by (cases r) (auto simp: reconcileAdditionalDisks_def Let_def split: if_splits)
  then have "prefix (calls u) (calls t)"
    using assms False run
    by (auto simp: reconcileAdditionalDisks_def Let_def
        dest!: run_emits [OF emits_deleteStaleDisks_noCreate] split: prod.splits option.splits)
  then show ?thesis
    using allDisks_seen [of E m info _ s results u] run results by (auto intro: seen_prefix)
qed simp

lemma placement_seen:
  assumes "run_state (reconcilePlacementGroup E m) s = (Inr (False, x), t)"
    and "vp_PlacementGroupRef (buildPlacement m) = Some g"
  shows "placementSeen E (calls t) g"
  using assms
  by (auto simp: reconcilePlacementGroup_def buildPlacement_def PlacementGroupService_Get_def placementSeen_def
      intro!: answeredIn_snoc split: option.splits sum.splits)

lemma publicIP_seen:
  assumes "run_state (reconcilePublicIPCreation E m info) s = (Inr (False, x), t)"
    and "resolvePublicIPRef m cl = i" "i \<noteq> ''''"
  shows "publicIPSeen E (calls t) i"
  using assms
  by (auto simp: reconcilePublicIPCreation_def resolvePublicIPRef_def PublicIPService_Get_def publicIPSeen_def
      Let_def warnPublicIPTimeout_def intro!: answeredIn_snoc split: option.splits sum.splits if_splits prod.splits)

section \<open>The stages make no virtual machine\<close>

lemma emits_early: "emits P m \<Longrightarrow> emits P (early m)"
  unfolding early_def by (intro go_rules)

lemma createsNothing_status:
  "emits createsNothing (handleMachineError E err)" "emits createsNothing ensureResources"
  "emits createsNothing (setResources f)" "emits createsNothing (persistResourcesStatus E)"
  unfolding ensureResources_def setResources_def persistResourcesStatus_def k8s_defs
  by (intro go_rules emits_handleMachineError; simp)+

lemmas noCreate_status = createsNothing_status [THEN createsNothing_noVM]

lemma noCreate_pendingStage:
  "(\<And>m. emits noCreateVM (step m)) \<Longrightarrow> emits noCreateVM (pendingStage E step ec store pm d)"
  unfolding pendingStage_def by (intro go_rules emits_early noCreate_status)

lemma noCreate_stages:
  "emits noCreateVM (ensureBootDisk E info)" "emits noCreateVM (ensureAdditionalDisks E info)"
  "emits noCreateVM (ensurePlacementGroup E)" "emits noCreateVM (ensurePublicIP E info)"
  "emits noCreateVM (ensureSecurityGroups E info)"
proof -
  show "emits noCreateVM (ensureBootDisk E info)"
    unfolding ensureBootDisk_def bootDiskFor_def Let_def
    by (intro go_rules emits_early noCreate_status emits_ops) simp_all
  show "emits noCreateVM (ensureAdditionalDisks E info)"
    unfolding ensureAdditionalDisks_def reconcileAdditionalDisks_def Let_def
    by (intro noCreate_pendingStage go_rules emits_reconcileOneDisk emits_deleteStaleDisks_noCreate)
  show "emits noCreateVM (ensurePlacementGroup E)"
    unfolding ensurePlacementGroup_def reconcilePlacementGroup_def
    by (intro noCreate_pendingStage go_rules emits_ops) simp
  show "emits noCreateVM (ensurePublicIP E info)"
    unfolding ensurePublicIP_def reconcilePublicIPCreation_def warnPublicIPTimeout_def Let_def
    by (intro noCreate_pendingStage go_rules emits_ops) simp_all
  show "emits noCreateVM (ensureSecurityGroups E info)"
    unfolding ensureSecurityGroups_def reconcileMachineSecurityGroups_def ensureMachineSG_def Let_def
    by (intro go_rules emits_early noCreate_status emits_ops) simp_all
qed

section \<open>The creation\<close>

lemma justRel_onError:
  assumes "justifies J [] m" and "run_state m s = (r, t)"
    and "\<And>e. r = Some e \<Longrightarrow> justRel J [] t (snd (run_state (f e) t))"
    and "r = None \<Longrightarrow> justRel J [] t (snd (run_state k t))"
  shows "justRel J [] s (snd (run_state (onError m f k) s))"
proof -
  have "justRel J [] s t"
    using assms(1,2) by (metis snd_conv state_io_rel_def)
  then show ?thesis
    using assms(2-4) by (cases r) (auto intro: justRel_trans)
qed

text \<open>A stage that ends the reconcile makes no further call.\<close>

lemma justRel_stage:
  assumes "emits noCreateVM m"
    and "\<And>t. run_state m s = (None, t) \<Longrightarrow> justRel (createJudge E) [] t (snd (run_state k t))"
  shows "justRel (createJudge E) [] s (snd (run_state (onError m ret k) s))"
proof -
  obtain r t where "run_state m s = (r, t)"
    by fastforce
  then show ?thesis
    using assms by (intro justRel_onError [OF justifies_noCreate]) (auto simp: justRel_refl)
qed

definition requestSeen :: "Env \<Rightarrow> EvrocMachine \<Rightarrow> EvrocCluster option \<Rightarrow> Call list \<Rightarrow> bool" where
  "requestSeen E m cl h \<longleftrightarrow>
     (\<forall>d\<in>set (buildDisks m). diskSeen E h (vdi_DiskRef d)) \<and>
     (\<forall>g. vp_PlacementGroupRef (buildPlacement m) = Some g \<longrightarrow> placementSeen E h g) \<and>
     (resolvePublicIPRef m cl \<noteq> '''' \<longrightarrow> publicIPSeen E h (resolvePublicIPRef m cl))"

lemma requestSeen_prefix: "requestSeen E m cl h \<Longrightarrow> prefix h h' \<Longrightarrow> requestSeen E m cl h'"
  by (auto simp: requestSeen_def intro: seen_prefix)

lemma requestSeen_createJudge:
  "requestSeen E m cl h \<Longrightarrow> buildVMRequest E m u cl = Inr r \<Longrightarrow> createJudge E h (SdkCreate (CreateVM r))"
  by (auto simp: requestSeen_def buildVMRequest_def buildNetworking_def Let_def
      split: sum.splits if_splits option.splits)

lemma justifies_submitVM:
  assumes "requestSeen E (cur s) cl (calls s)"
  shows "justRel (createJudge E) [] s (snd (run_state (submitVM E u cl) s))"
proof -
  have "justifies (createJudge E) (calls s) (VirtualMachineService_Create E r)"
    if "buildVMRequest E (cur s) u cl = Inr r" for r
    unfolding VirtualMachineService_Create_def
    by (intro just_rules justifies_invoke requestSeen_createJudge [OF requestSeen_prefix [OF assms] that]) simp_all
  then have "justifies (createJudge E) (calls s)
      (case buildVMRequest E (cur s) u cl of
        Inl buildErr \<Rightarrow> handleMachineError E (wrapErr ''failed to build VM request'' buildErr)
      | Inr vmRequest \<Rightarrow> onResult (VirtualMachineService_Create E vmRequest)
            (\<lambda>err. handleMachineError E err) (\<lambda>_. ret (requeueAfter requeueLong)))"
    by (intro just_rules justifies_noCreate [OF noCreate_status(1)])
  then show ?thesis
    by (simp add: submitVM_def state_io_rel_def justRel_def)
qed

lemma frames_reconcilePublicIPCreation: "frames requestView (reconcilePublicIPCreation E m info)"
  unfolding reconcilePublicIPCreation_def warnPublicIPTimeout_def Let_def
  by (intro frames_rules frames_ops frames_setMachineCondition)
     (simp_all add: requestView_def Machine_SetConditions_def)

lemma securityGroups_None:
  assumes "run_state (ensureSecurityGroups E info) s = (None, t)"
  shows "cur t = cur s"
proof -
  obtain r u where run: "run_state (reconcileMachineSecurityGroups E (cur s) info) s = (r, u)"
    by fastforce
  then have "t = u"
    using assms by (cases r) (auto simp: ensureSecurityGroups_def)
  then show ?thesis
    using run_frames [OF frames_reconcileMachineSecurityGroups run] by simp
qed

lemma resolvePublicIPRef_cong:
  "m_Meta x = m_Meta y \<Longrightarrow> m_Spec x = m_Spec y \<Longrightarrow> resolvePublicIPRef x cl = resolvePublicIPRef y cl"
  by (simp add: resolvePublicIPRef_def cong: option.case_cong if_cong)

lemma justifies_createVM: "justifies (createJudge E) [] (createVM E u info cl)"
  unfolding state_io_rel_def createVM_def
proof (intro allI justRel_stage noCreate_stages)
  fix s s1 s2 s3 s4 s5
  assume 1: "run_state (ensureBootDisk E info) s = (None, s1)"
    and 2: "run_state (ensureAdditionalDisks E info) s1 = (None, s2)"
    and 3: "run_state (ensurePlacementGroup E) s2 = (None, s3)"
    and 4: "run_state (ensurePublicIP E info) s3 = (None, s4)"
    and 5: "run_state (ensureSecurityGroups E info) s4 = (None, s5)"
  note p = run_emits [OF noCreate_stages(2) 2] run_emits [OF noCreate_stages(3) 3]
    run_emits [OF noCreate_stages(4) 4] run_emits [OF noCreate_stages(5) 5]
  have v1: "requestView (cur s1) = requestView (cur s)"
    and boot_seen: "ms_RootDiskSize (m_Spec (cur s)) > 0 \<Longrightarrow> diskSeen E (calls s1) (bootDiskName (om_Name (m_Meta (cur s))))"
    using bootDisk_seen [OF 1] by auto
  obtain x2 u2 where 2: "run_state (reconcileAdditionalDisks E (cur s1) info) s1 = (Inr (False, x2), u2)"
      "calls s2 = calls u2" "requestView (cur s2) = requestView (cur u2)"
    using 2 unfolding ensureAdditionalDisks_def by (elim pendingStage_None)
  obtain x3 u3 where 3: "run_state (reconcilePlacementGroup E (cur s2)) s2 = (Inr (False, x3), u3)"
      "calls s3 = calls u3" "requestView (cur s3) = requestView (cur u3)"
    using 3 unfolding ensurePlacementGroup_def by (elim pendingStage_None)
  obtain x4 u4 where 4: "run_state (reconcilePublicIPCreation E (cur s3) info) s3 = (Inr (False, x4), u4)"
      "calls s4 = calls u4" "requestView (cur s4) = requestView (cur u4)"
    using 4 unfolding ensurePublicIP_def by (elim pendingStage_None)
  have v2: "requestView (cur s2) = requestView (cur s1)"
    using 2(3) run_frames [OF frames_reconcileAdditionalDisks 2(1)] by simp
  have v3: "requestView (cur s3) = requestView (cur s2)"
    using 3(3) run_frames [OF frames_reconcilePlacementGroup 3(1)] by simp
  have v4: "requestView (cur s4) = requestView (cur s3)"
    using 4(3) run_frames [OF frames_reconcilePublicIPCreation 4(1)] by simp
  have v5: "requestView (cur s5) = requestView (cur s4)"
    using securityGroups_None [OF 5] by simp
  note views = v1 v2 v3 v4 v5
  have "requestSeen E (cur s5) cl (calls s5)"
    unfolding requestSeen_def
  proof (intro conjI allI impI ballI)
    fix d
    assume "d \<in> set (buildDisks (cur s5))"
    then consider (boot) "ms_RootDiskSize (m_Spec (cur s5)) > 0"
          "vdi_DiskRef d = bootDiskName (om_Name (m_Meta (cur s5)))"
      | (extra) a where "a \<in> set (ms_AdditionalDisks (m_Spec (cur s5)))"
          "vdi_DiskRef d = additionalDiskName (om_Name (m_Meta (cur s5))) (ad_Name a)"
      by (auto simp: buildDisks_def split: if_splits)
    then show "diskSeen E (calls s5) (vdi_DiskRef d)"
    proof cases
      case boot
      then show ?thesis
        using boot_seen [unfolded requestView_def] views p by (auto simp: requestView_def intro: seen_prefix)
    next
      case extra
      then show ?thesis
        using additionalDisks_seen [OF 2(1)] 2(2) views p by (auto simp: requestView_def intro: seen_prefix)
    qed
  next
    fix g
    assume "vp_PlacementGroupRef (buildPlacement (cur s5)) = Some g"
    then have "vp_PlacementGroupRef (buildPlacement (cur s2)) = Some g"
      using views by (simp add: requestView_def buildPlacement_def)
    then show "placementSeen E (calls s5) g"
      using placement_seen [OF 3(1)] 3(2) p by (auto intro: seen_prefix)
  next
    assume i: "resolvePublicIPRef (cur s5) cl \<noteq> ''''"
    have "resolvePublicIPRef (cur s5) cl = resolvePublicIPRef (cur s3) cl"
      by (rule resolvePublicIPRef_cong) (use views in \<open>simp_all add: requestView_def\<close>)
    then show "publicIPSeen E (calls s5) (resolvePublicIPRef (cur s5) cl)"
      using publicIP_seen [OF 4(1)] i 4(2) p by (auto intro: seen_prefix)
  qed
  then show "justRel (createJudge E) [] s5 (snd (run_state (submitVM E u cl) s5))"
    by (rule justifies_submitVM)
qed

section \<open>The whole reconcile\<close>

lemma createsNothing_steps:
  "emits createsNothing (pickAndUpdateZoneForMachine E ow cl)"
  "emits createsNothing (reconcileVMSecurityGroups E m cl)" "emits createsNothing (reconcilePublicIPAttachment E m cl)"
  "emits createsNothing (reconcileVMDisks E m)" "emits createsNothing (reconcileVMPlacement E m vm)"
  "emits createsNothing (reconcileLBBackend E m cl)" "emits createsNothing (ensureMachineProviderID E vm cl)"
  "emits createsNothing (linkNode E cl)" "emits createsNothing (bootstrapData E ow)"
  unfolding pickAndUpdateZoneForMachine_def pickZoneForMachine_def reconcileVMSecurityGroups_def
    reconcilePublicIPAttachment_def reconcileVMDisks_def reconcileVMPlacement_def reconcileLBBackend_def
    ensureMachineProviderID_def linkNode_def adoptNodeProviderID_def patchNodeProviderID_def
    reconcileNodeInitialization_def reconcileNodeLabelsAndTaints_def getWorkloadClusterClient_def
    bootstrapData_def k8s_defs Let_def
  by (intro go_rules emits_deleteTolerant emits_ops; simp)+

lemma createsNothing_existing: "emits createsNothing (reconcileExistingVM E vm cl)"
  unfolding reconcileExistingVM_def driftStep_def reportVM_def k8s_defs
  by (intro go_rules emits_early createsNothing_status createsNothing_steps emits_ops) simp_all

lemma createsNothing_assignZone: "emits createsNothing (assignZone E ow cl)"
  unfolding assignZone_def by (intro go_rules emits_early createsNothing_status createsNothing_steps)

text \<open>
  Only a machine with its owner creates: a judgement about creates holds for a reconcile when it
  holds for that part.
\<close>

lemma justifies_from_owned:
  assumes other: "\<And>h c. \<not> isCreate c \<Longrightarrow> J h c" and owned: "\<And>ow cl. justifies J [] (reconcileOwned E ow cl)"
  shows "justifies J [] (Machine_Reconcile E req)"
proof -
  have "emits createsNothing (deleteMachineFromCloud E m)" for m
    by (intro emits_deleteMachineFromCloud) simp_all
  then have cleanup: "emits createsNothing
      (HandleDeletion machineOps (k8sUpdateMachine E) machineFinalizer (machineCleanup E))"
    unfolding machineCleanup_def k8s_defs by (intro emits_HandleDeletion go_rules) simp_all
  have finalizer: "emits createsNothing (EnsureFinalizer machineOps (k8sUpdateMachine E) machineFinalizer)"
    unfolding k8s_defs by (intro emits_EnsureFinalizer go_rules) simp
  have branches: "emits createsNothing (Machine_credentialFailure E err)"
      "emits createsNothing (Machine_pausedBranch E)" for err
    unfolding Machine_credentialFailure_def Machine_pausedBranch_def Let_def k8s_defs
    by (intro go_rules emits_ops; simp)+
  have reads: "emits createsNothing (k8sGetMachine E req)" "emits createsNothing (k8sUpdateMachine E)"
      "emits createsNothing (IsPaused machineOps E)" "emits createsNothing (resolveEvrocCluster E m)"
      "emits createsNothing (Machine_resolveCloudClient E m cl)" for m cl
    unfolding k8s_defs by (intro go_rules emits_ops; simp)+
  show ?thesis
    unfolding Machine_Reconcile_def Machine_afterFetch_def Machine_active_def Machine_dispatch_def
      Machine_reconcileNormal_def
    by (intro just_rules owned emits_justifies [OF cleanup] emits_justifies [OF finalizer]
        emits_justifies [OF branches(1)] emits_justifies [OF branches(2)] emits_justifies [OF reads(1)]
        emits_justifies [OF reads(2)] emits_justifies [OF reads(3)] emits_justifies [OF reads(4)]
        emits_justifies [OF reads(5)] emits_justifies [OF emits_ensureOwnershipID]
        emits_justifies [OF emits_setMachineCondition] justifies_invoke other)
      simp_all
qed

lemma justifies_owned: "justifies (createJudge E) [] (reconcileOwned E ow cl)"
  unfolding reconcileOwned_def
  by (intro just_rules justifies_createVM justifies_noCreate createsNothing_noVM createsNothing_existing
      createsNothing_assignZone createsNothing_status createsNothing_steps virtualMachineR.emits_get) simp

lemma justifies_Reconcile: "justifies (createJudge E) [] (Machine_Reconcile E req)"
  by (intro justifies_from_owned justifies_owned createJudge_other) auto

end
