(* ===== verification/MachineProgress.thy ===== *)
theory MachineProgress
  imports MachineControl
begin

text \<open>
  Progress of a deletion: what a reconcile of a machine that is being deleted comes to in a
  cloud that answers every list and accepts every delete.
\<close>

section \<open>A cooperative cloud\<close>

definition cooperative :: "Env \<Rightarrow> bool" where
  "cooperative E \<longleftrightarrow>
     (\<forall>h c. e_err E h c = None) \<and>
     (\<forall>h c. \<exists>items. e_items E h c = Inr items) \<and>
     (\<forall>h c err. e_capiCluster E h c = Inl err \<longrightarrow> errIs err K8sNotFoundM) \<and>
     (\<forall>h c err. e_cluster E h c = Inl err \<longrightarrow> errIs err K8sNotFoundM) \<and>
     (\<forall>h m. \<exists>x. e_machine E h (KUpdateMachine m) = Inr x)"

context owned_kind
begin

lemma collect_ok:
  assumes "cooperative E"
  shows "fst (run_state (collectErrs (\<lambda>n. deleteTolerant (b @ '' '' @ n) (delOp E n)) names) s) = []"
proof (induction names arbitrary: s)
  case (Cons n names)
  obtain c where "run_state (delOp E n) s =
      (map_option (wrapErr c) (e_err E (calls s) (SdkDelete kind n)), s\<lparr>calls := calls s @ [SdkDelete kind n]\<rparr>)"
    using run_del by blast
  then show ?case
    using assms Cons [of "s\<lparr>calls := calls s @ [SdkDelete kind n]\<rparr>"]
    by (simp add: deleteTolerant_def cooperative_def split: prod.split)
qed simp

lemma deleteListed_ok:
  assumes "cooperative E"
  shows "resultOf (deleteListed a b (listOp E i) (delOp E)) s = []"
proof -
  obtain items where items: "e_items E (calls s) (SdkList kind (ownerSelector LabelMachineID i)) = Inr items"
    using assms unfolding cooperative_def by blast
  obtain r u where run: "run_state (listOp E i) s = (r, u)"
    by fastforce
  then have "r = Inr (map md_Id items)"
    using run_list [of E i s] items by simp
  then show ?thesis
    using run collect_ok [OF assms] by (simp add: deleteListed_def resultOf_def)
qed

end

lemma deregister_ok:
  assumes "cooperative E"
  shows "fst (run_state (deregisterFromLB E m) s) = Inr []"
proof -
  have "\<exists>cl t. run_state (resolveEvrocCluster E m) s = (Inr cl, t)"
    using assms
    by (auto simp: resolveEvrocCluster_def Let_def cooperative_def ignoreNotFound_def split: sum.splits)
  then obtain cl t where "run_state (resolveEvrocCluster E m) s = (Inr cl, t)"
    by blast
  then show ?thesis
    using assms
    by (auto simp: deregisterFromLB_def deleteTolerant_def LoadBalancerService_RemoveBackend_def cooperative_def
        split: option.split sum.split)
qed

lemma deleteOwned_ok:
  assumes "cooperative E"
  shows "resultOf (deleteOwnedResources E i) s = []"
  using assms
  by (simp add: deleteOwnedResources_def resultOf_bind ownedSG.deleteListed_ok ownedIP.deleteListed_ok
      ownedDisk.deleteListed_ok)

section \<open>The two phases\<close>

lemma delete_phase:
  assumes coop: "cooperative E" and owned: "machineOwned m"
    and vm: "\<And>h. e_vm E h (SdkGet VirtualMachineK (om_Name (m_Meta m))) = r"
  shows "case r of
      Inr _ \<Rightarrow> fst (run_state (deleteMachineFromCloud E m) s) = Some errMachineDeletionPending \<and>
        SdkDelete VirtualMachineK (om_Name (m_Meta m)) \<in> set (emitted (deleteMachineFromCloud E m) s)
    | Inl err \<Rightarrow> errIs err NotFoundM \<longrightarrow> fst (run_state (deleteMachineFromCloud E m) s) = None"
proof -
  let ?n = "om_Name (m_Meta m)"
  obtain t where dereg: "run_state (deregisterFromLB E m) s = (Inr [], t)"
    using deregister_ok [OF coop] by (metis prod.collapse)
  have "emits (\<lambda>_. True) (deregisterFromLB E m)"
    by (intro emits_ops) simp_all
  then have t: "prefix (calls s) (calls t)"
    using emits_calls [of "\<lambda>_. True" "deregisterFromLB E m" s] dereg by auto
  obtain c where ex: "run_state (VirtualMachineService_Exists E ?n) t =
      ((case e_vm E (calls t) (SdkGet VirtualMachineK ?n) of
          Inl e \<Rightarrow> if IsNotFoundError e then Inr False else Inl (wrapErr c e) | Inr _ \<Rightarrow> Inr True),
       t\<lparr>calls := calls t @ [SdkGet VirtualMachineK ?n]\<rparr>)"
    by (rule virtualMachineR.run_exists [of E ?n t])
  note ex = ex [unfolded vm]
  show ?thesis
  proof (cases r)
    case (Inr v)
    then show ?thesis
      using coop owned dereg ex Inr t
      by (auto simp: deleteMachineFromCloud_def deleteVMThenOwned_def deleteTolerant_def Let_def
          VirtualMachineService_Delete_def cooperative_def emitted_def prefix_def)
  next
    case (Inl e)
    obtain u where "run_state (deleteOwnedResources E (machineOwnershipID (Some m)))
        (t\<lparr>calls := calls t @ [SdkGet VirtualMachineK ?n]\<rparr>) = ([], u)"
      using deleteOwned_ok [OF coop] by (metis prod.collapse resultOf_def)
    then show ?thesis
      using owned dereg ex Inl
      by (simp add: deleteMachineFromCloud_def deleteVMThenOwned_def Let_def IsNotFoundError_def)
  qed
qed

lemma fst_runE:
  assumes "fst (run_state m s) = r"
  obtains t where "run_state m s = (r, t)"
  using assms by (cases "run_state m s") auto

lemma run_cleanup: "run_state (machineCleanup E) s = run_state (deleteMachineFromCloud E (cur s)) s"
  by (simp add: machineCleanup_def)

lemma cur_cleanup: "run_state (machineCleanup E) s = (r, t) \<Longrightarrow> cur t = cur s"
  using frames_deleteMachineFromCloud [of "\<lambda>x. x" E "cur s"]
  by (auto simp: run_cleanup state_io_rel_def frameRel_def dest!: spec [of _ s])

lemma dispatch_deletion:
  assumes "\<not> machineLive (cur s)"
  shows "run_state (Machine_dispatch E cl) s =
    (case run_state (HandleDeletion machineOps (k8sUpdateMachine E) machineFinalizer (machineCleanup E)) s of
       ((_, Some e), t) \<Rightarrow>
         (if errIs e MachineDeletionPendingM then requeueAfter requeueShort else failWith e, t)
     | ((_, None), t) \<Rightarrow> (finished, t))"
proof -
  obtain r t where "run_state (HandleDeletion machineOps (k8sUpdateMachine E) machineFinalizer
      (machineCleanup E)) s = ((True, r), t)"
    by (rule HandleDeletion_result [of machineOps s]) (use assms in auto)
  then show ?thesis
    using assms by (auto simp: Machine_dispatch_def split: option.splits)
qed

lemma dispatch_pending:
  assumes "\<not> machineLive (cur s)" and "machineProtected (cur s)"
    and "run_state (machineCleanup E) s = (Some errMachineDeletionPending, t)"
  shows "run_state (Machine_dispatch E cl) s = (requeueAfter requeueShort, t)"
  using assms HandleDeletion_cleanup_failed [of machineOps s machineFinalizer "machineCleanup E" _ t]
  by (simp add: dispatch_deletion errMachineDeletionPending_def)

lemma dispatch_cleaned:
  assumes "\<not> machineLive (cur s)" and prot: "machineProtected (cur s)"
    and clean: "run_state (machineCleanup E) s = (None, t)"
    and update: "\<And>h x. \<exists>y. e_machine E h (KUpdateMachine x) = Inr y"
  shows "\<exists>y. run_state (Machine_dispatch E cl) s =
    (finished, t\<lparr>calls := calls t @ [KUpdateMachine ((cur s)\<lparr>m_Meta := withoutFinalizer machineFinalizer (m_Meta (cur s))\<rparr>)],
       cur := y\<rparr>)"
proof -
  have t: "cur t = cur s"
    by (rule cur_cleanup [OF clean])
  let ?x = "(cur s)\<lparr>m_Meta := withoutFinalizer machineFinalizer (m_Meta (cur s))\<rparr>"
  obtain y where y: "e_machine E (calls t) (KUpdateMachine ?x) = Inr y"
    using update by blast
  have "run_state (RemoveFinalizer machineOps (k8sUpdateMachine E) machineFinalizer) t =
      (None, t\<lparr>calls := calls t @ [KUpdateMachine ?x], cur := y\<rparr>)"
    using prot t y by (simp add: RemoveFinalizer_def modMeta_def k8sUpdateMachine_def)
  then show ?thesis
    using assms HandleDeletion_cleaned [of machineOps s machineFinalizer "machineCleanup E" t "k8sUpdateMachine E"]
    by (intro exI [of _ y]) (simp add: dispatch_deletion)
qed

end
