(* ===== verification/MachineProperties.thy ===== *)
theory MachineProperties
  imports Examples MachineWhole MachineCreate MachineProgress
begin

text \<open>
  The properties of the machine controller as a whole: what \<open>Reconcile\<close> does to the cloud and to
  the object, for every environment.  The state before a reconcile is \<open>startOf zeroMachine\<close>, so
  the history at a call is the list of the calls before it.
\<close>

section \<open>Pause\<close>

abbreviation machineCalls :: "Env \<Rightarrow> Key \<Rightarrow> Call list" where
  "machineCalls E req \<equiv> emitted (Machine_Reconcile E req) (startOf zeroMachine)"

text \<open>
  C7. A paused machine, by its annotation or by its CAPI cluster, is left alone: no call to the
  cloud and no change of the object other than its status.
\<close>

theorem reconcile_paused:
  assumes fetch: "e_machine E [] (KGetMachine req) = Inr m"
    and paused: "HasPausedAnnotation (m_Meta m) \<or>
      map_of (om_Labels (m_Meta m)) ClusterNameLabel = Some cn \<and> cn \<noteq> '''' \<and>
      e_capiCluster E [KGetMachine req]
        (KGetCapiCluster \<lparr>k_Namespace = om_Namespace (m_Meta m), k_Name = cn\<rparr>) = Inr c \<and>
      cc_Paused c = Some True"
  shows "set (machineCalls E req) \<subseteq> {KGetMachine req} \<union> range KGetCapiCluster \<union> range KStatusMachine"
proof -
  let ?s = "\<lparr>cur = m, calls = [KGetMachine req]\<rparr>"
  obtain t where run: "run_state (IsPaused machineOps E) ?s = (True, t)"
      and t: "\<exists>xs. calls t = [KGetMachine req] @ xs \<and> set xs \<subseteq> range KGetCapiCluster"
  proof (cases "HasPausedAnnotation (m_Meta m)")
    case True
    then show ?thesis by (intro that [of ?s]) (simp_all add: IsPaused_def Let_def)
  next
    case False
    let ?k = "KGetCapiCluster \<lparr>k_Namespace = om_Namespace (m_Meta m), k_Name = cn\<rparr>"
    show ?thesis
      using paused False
      by (intro that [of "?s\<lparr>calls := [KGetMachine req, ?k]\<rparr>"]) (simp_all add: IsPaused_def Let_def)
  qed
  have "emits (\<lambda>c. c \<in> range KStatusMachine) (Machine_pausedBranch E)"
    unfolding Machine_pausedBranch_def k8s_defs by (intro go_rules emits_ops) simp
  then obtain ys where ys: "calls (snd (run_state (Machine_pausedBranch E) t)) = calls t @ ys"
      "set ys \<subseteq> range KStatusMachine"
    using emits_calls [of "\<lambda>c. c \<in> range KStatusMachine" "Machine_pausedBranch E" t] by blast
  obtain xs where xs: "calls t = [KGetMachine req] @ xs" "set xs \<subseteq> range KGetCapiCluster"
    using t by blast
  have "machineCalls E req = [KGetMachine req] @ xs @ ys"
    by (simp add: emitted_def reconcile_fetched [OF fetch] Machine_afterFetch_def run ys(1) xs(1))
  then show ?thesis
    using xs(2) ys(2) by auto
qed

theorem reconcile_paused_witness:
  "set (machineCalls pausedWorld exampleKey) \<subseteq>
    {KGetMachine exampleKey} \<union> range KGetCapiCluster \<union> range KStatusMachine"
  by (rule reconcile_paused [OF pausedWorld_fetch disjI1 [OF pausedMachine_paused]])

section \<open>Who may be written\<close>

lemma normal_emits:
  "emits (allowed E cl (\<lambda>_. True)) (Machine_reconcileNormal E cl)"
proof -
  have "maintains (\<lambda>_. True) (allowed E cl (\<lambda>_. True)) (Machine_reconcileNormal E cl)"
    by (rule maintains_reconcileNormal) (simp add: stableInv_def)
  then show ?thesis
    by (simp add: state_io_rel_def invRel_def)
qed

lemma reconcile_guarded:
  assumes fetch: "e_machine E [] (KGetMachine req) = Inr m"
    and c: "c \<in> set (machineCalls E req)" and wr: "isCloudWrite c"
  shows "\<not> HasPausedAnnotation (m_Meta m) \<and> machineOwnershipID (Some m) \<noteq> '''' \<and>
    hasFinalizer (m_Meta m) machineFinalizer \<and>
    (isCreate c \<longrightarrow> om_DeletionTimestamp (m_Meta m) = None) \<and>
    (\<forall>n. c = SdkDelete VirtualMachineK n \<longrightarrow>
       om_DeletionTimestamp (m_Meta m) \<noteq> None \<and> n = om_Name (m_Meta m))"
proof -
  let ?P = "\<lambda>c. isCloudWrite c \<longrightarrow> \<not> HasPausedAnnotation (m_Meta m) \<and> machineOwned m \<and> machineProtected m \<and>
    (isCreate c \<longrightarrow> machineLive m) \<and>
    (\<forall>n. c = SdkDelete VirtualMachineK n \<longrightarrow> \<not> machineLive m \<and> n = om_Name (m_Meta m))"
  have cleanup: "emits ?P (deleteMachineFromCloud E m)"
    if "\<not> machineLive m" "machineProtected m" "\<not> HasPausedAnnotation (m_Meta m)"
  proof (cases "machineOwned m")
    case True
    then show ?thesis
      using that by (intro emits_deleteMachineFromCloud) auto
  next
    case False \<comment> \<open>then nothing is called\<close>
    then show ?thesis
      by (simp add: state_io_rel_def deleteMachineFromCloud_unowned emitRel_refl)
  qed
  have "emits ?P (Machine_reconcileNormal E cl)"
    if "machineLive m" "machineOwned m" "machineProtected m" "\<not> HasPausedAnnotation (m_Meta m)" for cl
  proof (rule emits_mono [OF normal_emits [of E cl]])
    fix c
    assume "allowed E cl (\<lambda>_. True) c"
    then show "?P c"
      using that by (cases c) auto
  qed
  then have "state_io_rel (fromRel m (emitRel ?P)) (Machine_dispatch E cl)"
    if "\<not> HasPausedAnnotation (m_Meta m)" for cl
    using that cleanup by (intro dispatch_emits emit.from_keeps) auto
  then have "state_io_rel (fromRel m (emitRel ?P)) (Machine_afterFetch E)"
    by (rule afterFetch_emits [rotated]) (auto elim: preludeCall.elims)
  then have "?P c"
    by (rule reconcile_emitted [OF fetch _ _ c]) simp
  then show ?thesis
    using wr by blast
qed

text \<open>
  C8. The controller writes to the cloud only for a machine that it fetched unpaused, with its
  finalizer and its ownership ID already persisted; it creates only while the machine is not
  being deleted, and deletes a virtual machine only when it is, and then the machine's own.
\<close>

theorem reconcile_write_guard:
  assumes fetch: "e_machine E [] (KGetMachine req) = Inr m"
    and c: "c \<in> set (machineCalls E req)" and wr: "isCloudWrite c"
  shows "\<not> HasPausedAnnotation (m_Meta m) \<and> machineOwnershipID (Some m) \<noteq> '''' \<and>
    hasFinalizer (m_Meta m) machineFinalizer \<and>
    (isCreate c \<longrightarrow> om_DeletionTimestamp (m_Meta m) = None) \<and>
    (\<forall>n. c = SdkDelete VirtualMachineK n \<longrightarrow>
       om_DeletionTimestamp (m_Meta m) \<noteq> None \<and> n = om_Name (m_Meta m))"
  by (rule reconcile_guarded [OF fetch c wr])

lemma exampleCreate:
  "SdkCreate (CreateDisk \<lparr>dr_Name = ''m-boot-disk'', dr_SizeGB = 5, dr_Zone = ''a'', dr_Image = NoImage,
     dr_Labels = machineResourceLabels (exampleMachine None) ''y'' []\<rparr>)
   \<in> set (machineCalls (machineWorld None) exampleKey)"
  by code_simp

theorem reconcile_write_guard_witness:
  "om_DeletionTimestamp (m_Meta (exampleMachine None)) = None \<and>
   machineOwnershipID (Some (exampleMachine None)) \<noteq> '''' \<and>
   hasFinalizer (m_Meta (exampleMachine None)) machineFinalizer"
  using reconcile_write_guard [OF machineWorld_fetch exampleCreate] by simp

section \<open>Deleting\<close>

text \<open>The judgement of a deletion: deletes as \<open>deleteJudge\<close> says, updates once nothing is left.\<close>

definition releaseJudge :: "Env \<Rightarrow> EvrocMachine \<Rightarrow> Call list \<Rightarrow> Call \<Rightarrow> bool" where
  "releaseJudge E m h c \<longleftrightarrow>
     (\<forall>k n. c = SdkDelete k n \<longrightarrow>
        deleteJudge E (machineOwnershipID (Some m)) (om_Name (m_Meta m)) h c) \<and>
     (\<forall>x. c = KUpdateMachine x \<longrightarrow> machineOwned m \<and> vmGone E (om_Name (m_Meta m)) h \<and>
        allOwnedDeleted E (machineOwnershipID (Some m)) h)"

lemma releaseJudge_other:
  "(\<And>k n. c \<noteq> SdkDelete k n) \<Longrightarrow> (\<And>x. c \<noteq> KUpdateMachine x) \<Longrightarrow> releaseJudge E m h c"
  by (simp add: releaseJudge_def)

lemma allOwnedDeleted_prefix: "allOwnedDeleted E i h \<Longrightarrow> prefix h h' \<Longrightarrow> allOwnedDeleted E i h'"
  by (auto simp: allOwnedDeleted_def intro: ownedSG.allDeleted_prefix ownedIP.allDeleted_prefix
      ownedDisk.allDeleted_prefix)

lemma justifies_release:
  "justifies (releaseJudge E m) h
     (HandleDeletion machineOps (k8sUpdateMachine E) machineFinalizer (deleteMachineFromCloud E m))"
  unfolding HandleDeletion_def
proof (intro just.keeps_bind justifies_getCur just.keeps_if just.keeps_return)
  have "justifies (\<lambda>h c. \<not> (\<exists>x. c = KUpdateMachine x)) h (deleteMachineFromCloud E m)" for h
    by (rule emits_justifies [where P = "\<lambda>c. \<not> (\<exists>x. c = KUpdateMachine x)"],
        intro emits_deleteMachineFromCloud) simp_all
  then have del: "justifies (releaseJudge E m) h (deleteMachineFromCloud E m)" for h
    by (rule justifies_weaken [OF justifies_conj [OF justifies_deleteMachineFromCloud]])
       (auto simp: releaseJudge_def)
  show "justifies (releaseJudge E m) h
     (onError (deleteMachineFromCloud E m) (\<lambda>err. ret (True, Some err))
        (onError (RemoveFinalizer machineOps (k8sUpdateMachine E) machineFinalizer)
          (\<lambda>err. ret (True, Some err)) (ret (True, None))))"
  proof (rule justifies_onError_after [OF del])
    fix s :: "EvrocMachine cst" and t
    assume "run_state (deleteMachineFromCloud E m) s = (None, t)"
    note done' = deleteMachineFromCloud_None [OF this]
    have "justifies (releaseJudge E m) (calls t)
        (RemoveFinalizer machineOps (k8sUpdateMachine E) machineFinalizer)"
    proof (rule emits_justifies)
      show "emits (\<lambda>c. \<exists>x. c = KUpdateMachine x)
          (RemoveFinalizer machineOps (k8sUpdateMachine E) machineFinalizer)"
        unfolding k8sUpdateMachine_def by (intro emits_RemoveFinalizer go_rules) simp
    qed (use done' in \<open>auto simp: releaseJudge_def intro: vmGone_prefix allOwnedDeleted_prefix\<close>)
    then show "justifies (releaseJudge E m) (calls t)
        (onError (RemoveFinalizer machineOps (k8sUpdateMachine E) machineFinalizer)
          (\<lambda>err. ret (True, Some err)) (ret (True, None)))"
      by (intro just_rules)
  qed (intro just_rules)
qed

lemma justifies_deletion:
  assumes "\<not> machineLive m"
  shows "state_io_rel (fromRel m (justRel (releaseJudge E m) [])) (Machine_afterFetch E)"
proof -
  have dispatch: "state_io_rel (fromRel m (justRel (releaseJudge E m) [])) (Machine_dispatch E cl)" for cl
    unfolding state_io_rel_def fromRel_def
  proof (intro allI impI)
    fix s :: "EvrocMachine cst"
    assume m: "cur s = m"
    have "run_state (HandleDeletion machineOps (k8sUpdateMachine E) machineFinalizer (machineCleanup E)) s =
        run_state (HandleDeletion machineOps (k8sUpdateMachine E) machineFinalizer (deleteMachineFromCloud E m)) s"
      using m by (simp add: HandleDeletion_def machineCleanup_def)
    then show "justRel (releaseJudge E m) [] s (snd (run_state (Machine_dispatch E cl) s))"
      using dispatch_deleting [of s E cl] assms m justifies_release [of E m "[]"]
      by (simp add: stateAfter_def state_io_rel_def)
  qed
  have other: "justifies (releaseJudge E m) [] k" if "emits preludeCall k" for k :: "(EvrocMachine, 'a) go"
    by (rule emits_justifies [OF that]) (auto intro!: releaseJudge_other elim: preludeCall.elims)
  have creds: "emits preludeCall (Machine_credentialFailure E err)" for err
    unfolding Machine_credentialFailure_def Let_def k8s_defs by (intro go_rules emits_ops) simp
  have paused: "emits preludeCall (Machine_pausedBranch E)"
    unfolding Machine_pausedBranch_def k8s_defs by (intro go_rules emits_ops) simp
  show ?thesis
    unfolding Machine_afterFetch_def Machine_active_def
    by (intro just.from_bind just.from_getCur just.from_if just.from_onResult just.from_onError dispatch
        just.from_return just.from_keeps [OF other] emits_ops frames_ops paused creds other) simp_all
qed

lemma deletion_judged:
  assumes fetch: "e_machine E [] (KGetMachine req) = Inr m"
    and deleting: "\<not> machineLive m"
    and split: "machineCalls E req = ys @ c # zs"
  shows "releaseJudge E m ys c"
proof -
  let ?s = "\<lparr>cur = m, calls = [KGetMachine req]\<rparr>"
  have "justRel (releaseJudge E m) [] ?s (snd (run_state (Machine_afterFetch E) ?s))"
    using justifies_deletion [OF deleting, of E] by (simp add: state_io_rel_def fromRel_def)
  then obtain xs where xs: "calls (snd (run_state (Machine_afterFetch E) ?s)) = [KGetMachine req] @ xs"
      "\<And>ys c zs. xs = ys @ c # zs \<Longrightarrow> releaseJudge E m ([KGetMachine req] @ ys) c"
    by (auto simp: justRel_def)
  then have "KGetMachine req # xs = ys @ c # zs"
    using split reconcile_fetched [OF fetch] by (simp add: emitted_def)
  then show ?thesis
    using xs(2) releaseJudge_other [of c E m ys] by (cases ys) auto
qed

text \<open>
  C9. While a machine is being deleted, every delete is of a resource that the ownership label
  selects, and comes after the cloud said that the virtual machine is gone; the virtual machine
  itself is deleted only after it was found, so the two never happen in one pass.
\<close>

theorem deletion_justified:
  assumes fetch: "e_machine E [] (KGetMachine req) = Inr m"
    and deleting: "om_DeletionTimestamp (m_Meta m) \<noteq> None"
    and split: "machineCalls E req = ys @ SdkDelete k n # zs"
  shows "if k = VirtualMachineK then n = om_Name (m_Meta m) \<and> vmFound E n ys
    else k \<in> {SecurityGroupK, PublicIPK, DiskK} \<and>
      listedByOwner E (machineOwnershipID (Some m)) ys k n \<and> vmGone E (om_Name (m_Meta m)) ys"
  using deletion_judged [OF fetch deleting split] by (auto simp: releaseJudge_def split: if_splits)

lemma exampleDelete:
  "machineCalls (machineWorld (Some 1)) exampleKey =
     take 9 (machineCalls (machineWorld (Some 1)) exampleKey) @ SdkDelete SecurityGroupK ''m-g'' #
     drop 10 (machineCalls (machineWorld (Some 1)) exampleKey)"
  by code_simp

theorem deletion_justified_witness:
  "listedByOwner (machineWorld (Some 1)) ''x'' (take 9 (machineCalls (machineWorld (Some 1)) exampleKey))
     SecurityGroupK ''m-g''"
proof -
  have "om_DeletionTimestamp (m_Meta (exampleMachine (Some 1))) \<noteq> None"
    by (simp add: exampleMachine_def exampleMeta_def)
  from deletion_justified [OF machineWorld_fetch this exampleDelete] show ?thesis
    by (simp add: exampleMachine_def exampleMeta_def machineOwnershipID_def mget_def)
qed

text \<open>
  C10. The object of a machine that is being deleted is updated, which drops its finalizer, only
  after the virtual machine was found gone, all three kinds of owned resources were listed, and
  the delete of every listed one was accepted or answered by not found.
\<close>

theorem finalizer_released:
  assumes fetch: "e_machine E [] (KGetMachine req) = Inr m"
    and deleting: "om_DeletionTimestamp (m_Meta m) \<noteq> None"
    and split: "machineCalls E req = ys @ KUpdateMachine x # zs"
  shows "machineOwnershipID (Some m) \<noteq> '''' \<and> vmGone E (om_Name (m_Meta m)) ys \<and>
    allOwnedDeleted E (machineOwnershipID (Some m)) ys"
  using deletion_judged [OF fetch deleting split] by (simp add: releaseJudge_def)

lemma exampleRelease:
  "machineCalls (machineWorld (Some 1)) exampleKey =
     butlast (machineCalls (machineWorld (Some 1)) exampleKey) @
     KUpdateMachine ((exampleMachine (Some 1))\<lparr>m_Meta := withoutFinalizer machineFinalizer
        (m_Meta (exampleMachine (Some 1)))\<rparr>) # []"
  by code_simp

theorem finalizer_released_witness:
  "vmGone (machineWorld (Some 1)) ''m'' (butlast (machineCalls (machineWorld (Some 1)) exampleKey))"
proof -
  have "om_DeletionTimestamp (m_Meta (exampleMachine (Some 1))) \<noteq> None"
    by (simp add: exampleMachine_def exampleMeta_def)
  from finalizer_released [OF machineWorld_fetch this exampleRelease] show ?thesis
    by (simp add: exampleMachine_def exampleMeta_def)
qed

section \<open>What the writes look like\<close>

text \<open>
  The hypothesis of the next properties is about the API server: a field of the object that
  nobody else changes comes back as it is, as far as the controller left it so.
\<close>

abbreviation serverKeeps :: "Env \<Rightarrow> (EvrocMachine \<Rightarrow> bool) \<Rightarrow> bool" where
  "serverKeeps E I \<equiv> \<forall>h c m. e_machine E h c = Inr m \<longrightarrow> carried I c \<longrightarrow> I m"

lemma inlineName_prefix: "n \<in> inlineSGName p ` A \<Longrightarrow> hasPrefix n (p @ ''-'')"
  by (auto simp: inlineSGName_def hasPrefix_def)

lemma desiredDiskNames_prefix: "n \<in> set (desiredDiskNames m) \<Longrightarrow> hasPrefix n (om_Name (m_Meta m) @ ''-'')"
  by (auto simp: desiredDiskNames_def bootDiskName_def additionalDiskName_def hasPrefix_def split: if_splits)

lemma update_simps [simp]:
  "m_Meta (Machine_SetConditions m cs) = m_Meta m" "m_Spec (Machine_SetConditions m cs) = m_Spec m"
  "mst_AvailabilityZone (m_Status (Machine_SetConditions m cs)) = mst_AvailabilityZone (m_Status m)"
  "m_Meta (statusFromVM E vm m) = m_Meta m" "m_Spec (statusFromVM E vm m) = m_Spec m"
  "mst_AvailabilityZone (m_Status (statusFromVM E vm m)) = mst_AvailabilityZone (m_Status m)"
  "m_Meta (setProvisioned m) = m_Meta m" "m_Spec (setProvisioned m) = m_Spec m"
  "mst_AvailabilityZone (m_Status (setProvisioned m)) = mst_AvailabilityZone (m_Status m)"
  "m_Meta (setProviderID p m) = m_Meta m" "m_Status (setProviderID p m) = m_Status m"
  "ms_ProviderID (m_Spec (setProviderID p m)) = Some p"
  "om_Name (withFinalizer f meta) = om_Name meta" "om_Name (withoutFinalizer f meta) = om_Name meta"
  "om_Annotations (withFinalizer f meta) = om_Annotations meta"
  "om_Annotations (withoutFinalizer f meta) = om_Annotations meta"
  by (simp_all add: Machine_SetConditions_def statusFromVM_def setProvisioned_def setProviderID_def
      withFinalizer_def withoutFinalizer_def)

lemmas inv_simps = stableInv_def metaInv_def

text \<open>
  C11. The zone is kept: once a machine has one, its disks are created in it, the virtual machine
  is placed in it, no placement patch names another, and no update of the object changes it.
\<close>

theorem zone_kept:
  assumes zone: "z \<noteq> ''''" and server: "serverKeeps E (\<lambda>m. mst_AvailabilityZone (m_Status m) = z)"
    and c: "c \<in> set (machineCalls E req)"
  shows "case c of
      SdkCreate (CreateDisk d) \<Rightarrow> dr_Zone d = z
    | SdkCreate (CreateVM r) \<Rightarrow> vp_Zone (vr_Placement r) = Some z
    | SdkPatchVM _ (PatchPlacement p) \<Rightarrow> vp_Zone p = None
    | KUpdateMachine x \<Rightarrow> mst_AvailabilityZone (m_Status x) = z
    | KStatusMachine x \<Rightarrow> mst_AvailabilityZone (m_Status x) = z
    | KPatchMachine _ x \<Rightarrow> mst_AvailabilityZone (m_Status x) = z
    | _ \<Rightarrow> True"
proof -
  let ?I = "\<lambda>m. mst_AvailabilityZone (m_Status m) = z"
  have "stableInv E ?I" "metaInv E ?I"
    using server zone by (simp_all add: inv_simps)
  then have "granted E ?I c"
    using c by (rule reconcile_granted)
  then show ?thesis
    using zone by (auto split: Call.split SdkRequest.split VmPatch.split dest!: buildVMRequest_fields(4))
qed

definition fixedDisk :: DiskRequest where
  "fixedDisk = \<lparr>dr_Name = ''m-boot-disk'', dr_SizeGB = 5, dr_Zone = ''a'', dr_Image = NoImage,
     dr_Labels = machineResourceLabels fixedMachine ''y'' []\<rparr>"

lemma fixedCreate: "SdkCreate (CreateDisk fixedDisk) \<in> set (machineCalls fixedWorld exampleKey)"
  by code_simp

theorem zone_kept_witness: "dr_Zone fixedDisk = ''a''"
  using zone_kept [OF _ _ fixedCreate, of "''a''"] by (simp add: fixedWorld_machine fixedMachine_simps)

text \<open>
  Every disk, public IP and security group that a reconcile creates is found again by the
  teardown of the same machine: the selector over its ownership ID matches the labels.
\<close>

theorem created_is_selected:
  assumes owner: "i \<noteq> ''''" "CHR '','' \<notin> set i"
    and server: "serverKeeps E (\<lambda>m. machineOwnershipID (Some m) = i)"
    and c: "SdkCreate r \<in> set (machineCalls E req)" and kind: "requestKind r \<noteq> VirtualMachineK"
  shows "requestKind r \<in> {DiskK, PublicIPK, SecurityGroupK} \<and>
    selectorMatches (ownerSelector LabelMachineID i) (requestLabels r)"
proof -
  let ?I = "\<lambda>m. machineOwnershipID (Some m) = i"
  have "stableInv E ?I" "metaInv E ?I"
    using server owner by (simp_all add: inv_simps machineOwnershipID_def)
  then have "granted E ?I (SdkCreate r)"
    using c by (rule reconcile_granted)
  then obtain cl m where m: "?I m" and w: "normalWrite E cl m (SdkCreate r)"
    using granted_write [of E ?I "SdkCreate r"] by auto
  then have "requestLabels r = machineResourceLabels m (ci_ID (clusterLabelInfoFrom cl))
      (ci_AdditionalLabels (clusterLabelInfoFrom cl))" "requestKind r \<in> {DiskK, PublicIPK, SecurityGroupK}"
    using kind by (cases r; auto)+
  then show ?thesis
    using selects_machineResourceLabels [of m] m owner by auto
qed

theorem created_is_selected_witness:
  "selectorMatches (ownerSelector LabelMachineID ''x'') (dr_Labels fixedDisk)"
  using created_is_selected [OF _ _ _ fixedCreate, of "''x''"]
  by (simp add: fixedWorld_machine fixedMachine_simps)

text \<open>
  Everything a reconcile writes outside a teardown carries the machine's name: what it
  creates, the virtual machine it patches, the security groups it updates, the backend it adds.
\<close>

theorem writes_named:
  assumes server: "serverKeeps E (\<lambda>m. om_Name (m_Meta m) = n)"
    and c: "c \<in> set (machineCalls E req)"
  shows "case c of
      SdkCreate (CreateVM r) \<Rightarrow> vr_Name r = n
    | SdkCreate (CreateDisk d) \<Rightarrow> hasPrefix (dr_Name d) (n @ ''-'')
    | SdkCreate (CreatePublicIP p _) \<Rightarrow> p = n @ ''-public-ip''
    | SdkCreate (CreateSecurityGroup g) \<Rightarrow> hasPrefix (sgq_Name g) (n @ ''-'')
    | SdkCreate _ \<Rightarrow> False
    | SdkPatchVM v _ \<Rightarrow> v = n
    | SdkPatchSG g _ \<Rightarrow> hasPrefix g (n @ ''-'')
    | SdkAddBackendRef _ b \<Rightarrow> b = s_ref E VMRefK n
    | _ \<Rightarrow> True"
proof -
  let ?I = "\<lambda>m. om_Name (m_Meta m) = n"
  have "stableInv E ?I" "metaInv E ?I"
    using server by (simp_all add: inv_simps)
  then have "granted E ?I c"
    using c by (rule reconcile_granted)
  then show ?thesis
    by (auto split: Call.split SdkRequest.split dest!: buildVMRequest_fields(1) inlineName_prefix
        desiredDiskNames_prefix simp: managedPublicIPName_def)
qed

theorem writes_named_witness: "hasPrefix (dr_Name fixedDisk) ''m-''"
  using writes_named [OF _ fixedCreate, of "''m''"] by (simp add: fixedWorld_machine fixedMachine_simps)

text \<open>
  C12. The provider ID is written once: after it is set, every update, status update and patch of
  the object carries the same one.
\<close>

theorem providerID_kept:
  assumes server: "serverKeeps E (\<lambda>m. ms_ProviderID (m_Spec m) = Some p)"
    and c: "c \<in> set (machineCalls E req)"
  shows "case c of
      KUpdateMachine x \<Rightarrow> ms_ProviderID (m_Spec x) = Some p
    | KStatusMachine x \<Rightarrow> ms_ProviderID (m_Spec x) = Some p
    | KPatchMachine _ x \<Rightarrow> ms_ProviderID (m_Spec x) = Some p
    | _ \<Rightarrow> True"
proof -
  let ?I = "\<lambda>m. ms_ProviderID (m_Spec m) = Some p"
  have "stableInv E ?I" "metaInv E ?I"
    using server by (simp_all add: inv_simps)
  then have "granted E ?I c"
    using c by (rule reconcile_granted)
  then show ?thesis
    by (auto split: Call.split)
qed

lemma fixedStatus:
  "list_ex (\<lambda>c. case c of KStatusMachine _ \<Rightarrow> True | _ \<Rightarrow> False) (machineCalls fixedWorld exampleKey)"
  by code_simp

theorem providerID_kept_witness:
  "\<exists>x. KStatusMachine x \<in> set (machineCalls fixedWorld exampleKey) \<and> ms_ProviderID (m_Spec x) = Some ''p''"
proof -
  obtain c where c: "c \<in> set (machineCalls fixedWorld exampleKey)"
      "case c of KStatusMachine _ \<Rightarrow> True | _ \<Rightarrow> False"
    using fixedStatus unfolding list_ex_iff by blast
  then obtain x where "c = KStatusMachine x"
    by (auto split: Call.splits)
  with c have x: "KStatusMachine x \<in> set (machineCalls fixedWorld exampleKey)"
    by simp
  then show ?thesis
    using providerID_kept [OF _ x, of "''p''"] by (auto simp: fixedWorld_machine fixedMachine_simps)
qed

section \<open>Order and progress\<close>

text \<open>
  C13. A virtual machine is created only after every disk of its request was found ready, and the
  placement group and the public IP that the request refers to were found.
\<close>

theorem vm_after_resources:
  assumes split: "machineCalls E req = ys @ SdkCreate (CreateVM r) # zs"
  shows "(\<forall>d\<in>set (vr_Disks r). diskSeen E ys (vdi_DiskRef d)) \<and>
    (\<forall>g. vp_PlacementGroupRef (vr_Placement r) = Some g \<longrightarrow> placementSeen E ys g) \<and>
    (\<forall>i. vnw_PublicIPRef (vr_Networking r) = Some i \<longrightarrow> publicIPSeen E ys i)"
  using justifies_emitted [OF justifies_Reconcile split] by simp

lemma exampleVM:
  "list_ex (\<lambda>c. case c of SdkCreate (CreateVM r) \<Rightarrow> map vdi_DiskRef (vr_Disks r) = [''m-boot-disk''] | _ \<Rightarrow> False)
     (machineCalls readyWorld exampleKey)"
  by code_simp

theorem vm_after_resources_witness: "\<exists>ys. diskSeen readyWorld ys ''m-boot-disk''"
proof -
  obtain c where c: "c \<in> set (machineCalls readyWorld exampleKey)"
      "case c of SdkCreate (CreateVM r) \<Rightarrow> map vdi_DiskRef (vr_Disks r) = [''m-boot-disk''] | _ \<Rightarrow> False"
    using exampleVM unfolding list_ex_iff by blast
  then obtain r where r: "c = SdkCreate (CreateVM r)" "map vdi_DiskRef (vr_Disks r) = [''m-boot-disk'']"
    by (auto split: Call.splits SdkRequest.splits)
  obtain ys zs where "machineCalls readyWorld exampleKey = ys @ SdkCreate (CreateVM r) # zs"
    using split_list [OF c(1)] r(1) by blast
  from vm_after_resources [OF this] r(2) show ?thesis
    by auto
qed

text \<open>
  C15. A deletion makes progress in a cloud that answers and accepts: while the virtual machine
  is found, its delete is sent, the finalizer is kept and the machine comes back in ten seconds;
  once it is gone, the reconcile finishes and the update drops the finalizer.
\<close>

theorem deletion_progress:
  assumes coop: "cooperative E" and deleting: "om_DeletionTimestamp (m_Meta m) \<noteq> None"
    and owned: "machineOwned m" and prot: "machineProtected m" and s: "cur s = m"
    and vm: "\<forall>h. e_vm E h (SdkGet VirtualMachineK (om_Name (m_Meta m))) = r"
    and gone: "\<forall>err. r = Inl err \<longrightarrow> errIs err NotFoundM"
  shows "case r of
      Inr _ \<Rightarrow> resultOf (Machine_dispatch E cl) s = requeueAfter requeueShort \<and>
        SdkDelete VirtualMachineK (om_Name (m_Meta m)) \<in> set (emitted (Machine_dispatch E cl) s) \<and>
        finalCur (Machine_dispatch E cl) s = m
    | Inl _ \<Rightarrow> resultOf (Machine_dispatch E cl) s = finished \<and>
        last (emitted (Machine_dispatch E cl) s) =
          KUpdateMachine (m\<lparr>m_Meta := withoutFinalizer machineFinalizer (m_Meta m)\<rparr>)"
proof (cases r)
  case (Inr v)
  have "fst (run_state (machineCleanup E) s) = Some errMachineDeletionPending"
    using delete_phase [OF coop owned, of r s] vm Inr s by (simp add: run_cleanup)
  then obtain t where t: "run_state (machineCleanup E) s = (Some errMachineDeletionPending, t)"
    by (rule fst_runE)
  have "run_state (Machine_dispatch E cl) s = (requeueAfter requeueShort, t)"
    by (rule dispatch_pending [OF _ _ t]) (use deleting prot s in auto)
  then show ?thesis
    using delete_phase [OF coop owned, of r s] vm Inr s t cur_cleanup [OF t]
    by (auto simp: resultOf_def emitted_def finalCur_def run_cleanup)
next
  case (Inl err)
  then have "fst (run_state (machineCleanup E) s) = None"
    using delete_phase [OF coop owned, of r s] vm gone s by (simp add: run_cleanup)
  then obtain t where t: "run_state (machineCleanup E) s = (None, t)"
    by (rule fst_runE)
  have "\<And>h x. \<exists>y. e_machine E h (KUpdateMachine x) = Inr y"
    using coop unfolding cooperative_def by blast
  then obtain y where run: "run_state (Machine_dispatch E cl) s =
      (finished, t\<lparr>calls := calls t @ [KUpdateMachine ((cur s)\<lparr>m_Meta := withoutFinalizer machineFinalizer
         (m_Meta (cur s))\<rparr>)], cur := y\<rparr>)"
    using dispatch_cleaned [of s E t cl] t deleting prot s by auto
  have "emits (\<lambda>_. True) (machineCleanup E)"
    unfolding machineCleanup_def by (intro go_rules emits_deleteMachineFromCloud) simp_all
  then have "prefix (calls s) (calls t)"
    by (rule run_emits [OF _ t])
  then show ?thesis
    using run Inl s by (auto simp: resultOf_def emitted_def prefix_def)
qed

theorem deletion_progress_witness:
  "resultOf (Machine_dispatch emptyCloud None) (startOf (exampleMachine (Some 1))) = finished"
proof -
  have "cooperative emptyCloud"
    by (simp add: cooperative_def emptyCloud_def machineWorld_def emptyWorld_def)
  then show ?thesis
    using deletion_progress [of emptyCloud "exampleMachine (Some 1)" "startOf (exampleMachine (Some 1))"
        "Inl notFound" None]
    by (simp add: exampleMachine_def exampleMeta_def emptyCloud_def machineWorld_def emptyWorld_def
        machineOwnershipID_def mget_def hasFinalizer_def notFound_def)
qed

text \<open>
  C16. Errors of the cloud and the retry: whatever the error, the machine is marked not ready with
  a false Ready condition and its status is written; a quota or permission error is returned for
  backoff, a bad request as terminal, and anything else comes back after thirty seconds.
\<close>

theorem machine_error_policy:
  "resultOf (handleMachineError E err) s =
     (if errIs err QuotaM \<or> errIs err ForbiddenM then failWith err
      else if errIs err BadRequestM then failWith (terminalError err)
      else requeueAfter transientRequeue) \<and>
   (\<exists>x. last (emitted (handleMachineError E err) s) = KStatusMachine x \<and> \<not> mst_Ready (m_Status x) \<and>
     (\<exists>c. conditionOf ReadyCondition (Machine_GetConditions x) = Some c \<and> c_Status c = ConditionFalse \<and>
        c_Severity c = SeverityError))"
proof -
  define m0 where "m0 = (cur s)\<lparr>m_Status := (m_Status (cur s))\<lparr>mst_Ready := False\<rparr>\<rparr>"
  let ?c = "classifyCloudError err MachineOperationFailedReason (''Failed to get/create machine: '' @ errMsg err)"
  let ?new = "\<lparr>c_Type = ReadyCondition, c_Status = ConditionFalse, c_Severity = SeverityError,
      c_LastTransitionTime = e_now E (calls s), c_Reason = cec_Reason ?c, c_Message = cec_Message ?c\<rparr>"
  let ?m = "Machine_SetConditions m0 (setConditionList ?new (Machine_GetConditions m0))"
  have "last (emitted (handleMachineError E err) s) = KStatusMachine ?m"
    by (auto simp: handleMachineError_def HandleCloudError_def Let_def setMachineCondition_def
        k8sStatusMachine_def emitted_def m0_def split: sum.split)
  moreover have "\<not> mst_Ready (m_Status ?m)"
    by (simp add: Machine_SetConditions_def m0_def)
  moreover have "\<exists>c. conditionOf ReadyCondition (Machine_GetConditions ?m) = Some c \<and>
      c_Status c = ConditionFalse \<and> c_Severity c = SeverityError"
    using machineConds.condition_after_set [of ?new m0] by (auto split: option.splits)
  ultimately show ?thesis
    using resultOf_handleMachineError [of E err s] unfolding errorOutcome_def by blast
qed

end
