(* ===== verification/ClusterInvariant.thy ===== *)
theory ClusterInvariant
  imports ClusterReconcile MachineInvariant
begin

text \<open>
  What the normal reconcile of a cluster may write to the cloud.  \<open>clusterWrite\<close> is the abstract
  specification: for a cluster as it was fetched, the creations, patches and deletes that its
  specification and status ask for.  The main lemma says that \<open>reconcileClusterBody\<close> makes no
  other write.  Nothing in it reads the object back from the API server, so no hypothesis
  about the server is needed.
\<close>

section \<open>The specification\<close>

text \<open>What \<open>LoadBalancerService_Create\<close> creates for a request.\<close>

fun lbCreates :: "Env \<Rightarrow> LoadBalancerCreateRequest \<Rightarrow> SdkRequest \<Rightarrow> bool" where
  "lbCreates E q (CreatePublicIP n l) \<longleftrightarrow> lcr_ExistingPublicIPID q = '''' \<and> n = ipName (lcr_Name q)"
| "lbCreates E q (CreateBackendPool n l) \<longleftrightarrow> n = poolName (lcr_Name q)"
| "lbCreates E q (CreateBackendService n port pool v6 l) \<longleftrightarrow>
     n = svcName (lcr_Name q) \<and> port = lcr_BackendPort q \<and> v6 = (lcr_StackType q = ''ipv6-only'') \<or>
     n = svcName (lcr_Name q) @ ''-'' @ showInt port \<and> port \<in> set (lcr_AdditionalPorts q) \<and> \<not> v6"
| "lbCreates E q (CreateL4Route n svc l) \<longleftrightarrow>
     n = routeName (lcr_Name q) \<or>
     (\<exists>port \<in> set (lcr_AdditionalPorts q). n = routeName (lcr_Name q) @ ''-'' @ showInt port)"
| "lbCreates E q (CreateLB r) \<longleftrightarrow> lbq_Name r = lcr_Name q \<and>
     lbq_BackendNetwork r = map_option (lbBackendNetwork E) (lcr_BackendNetwork q) \<and>
     (\<exists>ref ls. lbq_Listeners r = apiServerListener (lcr_Port q) ref # ls)"
| "lbCreates E q r \<longleftrightarrow> False"

definition prefixOf :: "EvrocCluster \<Rightarrow> string option" where
  "prefixOf c = (case clusterResourcePrefix c of Inl _ \<Rightarrow> None | Inr (p, _) \<Rightarrow> Some p)"

text \<open>The prefix is empty only when the status names a load balancer \<open>-cp-lb\<close>.\<close>

definition settledPrefix :: "EvrocCluster \<Rightarrow> string \<Rightarrow> bool" where
  "settledPrefix c p \<longleftrightarrow> prefixOf c = Some p \<and> p \<noteq> ''''"

definition wantedSections :: "EvrocCluster \<Rightarrow> SecurityGroupsConfig list" where
  "wantedSections c = (case cs_SecurityGroups (cl_Spec c) of None \<Rightarrow> [] | Some cfg \<Rightarrow> map snd (sgSections cfg))"

definition inlineClusterSGs :: "EvrocCluster \<Rightarrow> InlineSecurityGroup list" where
  "inlineClusterSGs c = concat (map sgc_InlineSecurityGroups (wantedSections c))"

definition existingClusterSGs :: "EvrocCluster \<Rightarrow> string list" where
  "existingClusterSGs c = concat (map sgc_ExistingIDs (wantedSections c))"

definition managedSGNames :: "EvrocCluster \<Rightarrow> string set" where
  "managedSGNames c = msg_ID ` {g \<in> set (trackedClusterSGs c). msg_Managed g}"

fun clusterWrite :: "Env \<Rightarrow> EvrocCluster \<Rightarrow> Call \<Rightarrow> bool" where
  "clusterWrite E c (SdkCreate (CreateSecurityGroup g)) \<longleftrightarrow>
     sgq_Labels g = clusterResourceLabels c \<and>
     (\<exists>i \<in> set (inlineClusterSGs c). \<forall>p. settledPrefix c p \<longrightarrow> sgq_Name g = inlineSGName p i)"
| "clusterWrite E c (SdkCreate r) \<longleftrightarrow>
     ShouldManageControlPlaneEndpoint (Some c) \<and> requestLabels r = clusterResourceLabels c \<and>
     (\<forall>p. settledPrefix c p \<longrightarrow> lbCreates E (buildLoadBalancerCreateRequest c (p @ ''-cp-lb'')) r)"
| "clusterWrite E c (SdkDelete k n) \<longleftrightarrow>
     k = SecurityGroupK \<and> n \<in> managedSGNames c \<and> n \<notin> set (existingClusterSGs c) \<and>
     (\<forall>p. settledPrefix c p \<longrightarrow> n \<notin> inlineSGName p ` set (inlineClusterSGs c))"
| "clusterWrite E c (SdkPatchSG n g) \<longleftrightarrow>
     (\<exists>i \<in> set (inlineClusterSGs c). \<forall>p. settledPrefix c p \<longrightarrow> n = inlineSGName p i)"
| "clusterWrite E c k \<longleftrightarrow> False"

definition sanctioned :: "Env \<Rightarrow> EvrocCluster \<Rightarrow> Call \<Rightarrow> bool" where
  "sanctioned E c k \<longleftrightarrow> isCloudWrite k \<longrightarrow> clusterWrite E c k"

lemma sanctioned_read [simp]: "\<not> isCloudWrite k \<Longrightarrow> sanctioned E c k"
  by (simp add: sanctioned_def)

section \<open>The part of the cluster the specification reads\<close>

definition clusterCore ::
    "EvrocCluster \<Rightarrow> ObjectMeta \<times> string \<times> EvrocClusterSpec \<times> ManagedSecurityGroup list" where
  "clusterCore c = ((cl_Meta c)\<lparr>om_Annotations := []\<rparr>, clusterOwnershipID (Some c),
     (cl_Spec c)\<lparr>cs_ControlPlaneEndpoint := cs_ControlPlaneEndpoint (cl_Spec zeroCluster)\<rparr>,
     trackedClusterSGs c)"

lemma core_spec:
  assumes "clusterCore x = clusterCore c"
  shows "cs_SecurityGroups (cl_Spec x) = cs_SecurityGroups (cl_Spec c)"
    and "cs_AdditionalLabels (cl_Spec x) = cs_AdditionalLabels (cl_Spec c)"
    and "cs_ControlPlaneEndpointPolicy (cl_Spec x) = cs_ControlPlaneEndpointPolicy (cl_Spec c)"
    and "cs_ControlPlaneConfig (cl_Spec x) = cs_ControlPlaneConfig (cl_Spec c)"
    and "cs_Network (cl_Spec x) = cs_Network (cl_Spec c)"
    and "cs_FailureDomains (cl_Spec x) = cs_FailureDomains (cl_Spec c)"
    and "cs_Region (cl_Spec x) = cs_Region (cl_Spec c)"
    and "om_Name (cl_Meta x) = om_Name (cl_Meta c)"
    and "clusterOwnershipID (Some x) = clusterOwnershipID (Some c)"
    and "trackedClusterSGs x = trackedClusterSGs c"
proof -
  let ?spec = "\<lambda>c. (cl_Spec c)\<lparr>cs_ControlPlaneEndpoint := cs_ControlPlaneEndpoint (cl_Spec zeroCluster)\<rparr>"
  have spec: "f (?spec x) = f (?spec c)" for f :: "EvrocClusterSpec \<Rightarrow> 'a"
    using assms by (simp add: clusterCore_def)
  show "cs_SecurityGroups (cl_Spec x) = cs_SecurityGroups (cl_Spec c)"
    using spec [of cs_SecurityGroups] by simp
  show "cs_AdditionalLabels (cl_Spec x) = cs_AdditionalLabels (cl_Spec c)"
    using spec [of cs_AdditionalLabels] by simp
  show "cs_ControlPlaneEndpointPolicy (cl_Spec x) = cs_ControlPlaneEndpointPolicy (cl_Spec c)"
    using spec [of cs_ControlPlaneEndpointPolicy] by simp
  show "cs_ControlPlaneConfig (cl_Spec x) = cs_ControlPlaneConfig (cl_Spec c)"
    using spec [of cs_ControlPlaneConfig] by simp
  show "cs_Network (cl_Spec x) = cs_Network (cl_Spec c)"
    using spec [of cs_Network] by simp
  show "cs_FailureDomains (cl_Spec x) = cs_FailureDomains (cl_Spec c)"
    using spec [of cs_FailureDomains] by simp
  show "cs_Region (cl_Spec x) = cs_Region (cl_Spec c)"
    using spec [of cs_Region] by simp
  have "om_Name ((cl_Meta x)\<lparr>om_Annotations := []\<rparr>) = om_Name ((cl_Meta c)\<lparr>om_Annotations := []\<rparr>)"
    using assms unfolding clusterCore_def by (simp only: prod.inject)
  then show "om_Name (cl_Meta x) = om_Name (cl_Meta c)"
    by simp
  show "clusterOwnershipID (Some x) = clusterOwnershipID (Some c)" "trackedClusterSGs x = trackedClusterSGs c"
    using assms by (simp_all add: clusterCore_def)
qed

lemma core_derived:
  assumes "clusterCore x = clusterCore c"
  shows "clusterResourceLabels x = clusterResourceLabels c"
    and "ShouldManageControlPlaneEndpoint (Some x) = ShouldManageControlPlaneEndpoint (Some c)"
    and "buildLoadBalancerCreateRequest x n = buildLoadBalancerCreateRequest c n"
    and "wantedSections x = wantedSections c"
    and "managedSGNames x = managedSGNames c"
proof -
  note core = core_spec [OF assms]
  show labels: "clusterResourceLabels x = clusterResourceLabels c"
    by (simp add: clusterResourceLabels_def core)
  show "ShouldManageControlPlaneEndpoint (Some x) = ShouldManageControlPlaneEndpoint (Some c)"
    by (simp add: ShouldManageControlPlaneEndpoint_def core)
  show "buildLoadBalancerCreateRequest x n = buildLoadBalancerCreateRequest c n"
    by (simp add: buildLoadBalancerCreateRequest_def labels resolveVPCName_def resolveStackType_def
        subnetMap_def resolveSubnetName_def core cong: option.case_cong if_cong)
  show "wantedSections x = wantedSections c"
    by (simp add: wantedSections_def core)
  show "managedSGNames x = managedSGNames c"
    by (simp add: managedSGNames_def core)
qed

section \<open>The load balancer stage\<close>

text \<open>The creations of the load balancer service, one by one.\<close>

lemma emits_Create_named:
  assumes get: "\<And>k n. P (SdkGet k n)" and wait: "\<And>n t. P (SdkWaitForReady PublicIPK n t)"
    and create: "\<And>r. requestLabels r = lcr_Labels q \<Longrightarrow> lbCreates E q r \<Longrightarrow> P (SdkCreate r)"
  shows "emits P (LoadBalancerService_Create E (Some q))"
proof -
  have "emits P (lbPublicIP E q)"
    unfolding lbPublicIP_def Let_def by (intro go_rules wait create) simp_all
  moreover have "emits P (lbPool E q)"
    unfolding lbPool_def by (intro emits_createOrGet go_rules get create) simp_all
  moreover have "emits P (lbService E q pool)" for pool
    unfolding lbService_def by (intro emits_createOrGet go_rules get create) simp_all
  moreover have "emits P (lbRoute E q svc)" for svc
    unfolding lbRoute_def by (intro emits_createOrGet go_rules get create) simp_all
  moreover have "emits P (lbExtraPort E q pool port)" if "port \<in> set (lcr_AdditionalPorts q)" for pool port
    unfolding lbExtraPort_def Let_def using that by (intro emits_createOrGet go_rules get create) auto
  moreover have "emits P (lbSubmit E q ip route ls)" for ip route ls
    unfolding lbSubmit_def Let_def by (intro go_rules emits_ops get create) auto
  ultimately show ?thesis
    unfolding LoadBalancerService_Create_def option.case by (intro go_rules)
qed

lemma frames_buildLoadBalancer [frames_ops]: "frames v (buildLoadBalancer E n)"
  unfolding buildLoadBalancer_def Let_def by (intro frames_rules)

lemma frames_createOrGet: "frames v c \<Longrightarrow> frames v g \<Longrightarrow> frames v (createOrGet c g a b)"
  unfolding createOrGet_def by (intro frames_rules)

lemma frames_LoadBalancerService_Create [frames_ops]: "frames v (LoadBalancerService_Create E q)"
  unfolding LoadBalancerService_Create_def lbPublicIP_def lbPool_def lbService_def lbRoute_def
    lbExtraPort_def lbSubmit_def Let_def
  by (intro frames_rules frames_createOrGet frames_ops)

lemma frames_LoadBalancerService_Get [frames_ops]: "frames v (LoadBalancerService_Get E n)"
  unfolding LoadBalancerService_Get_def by (intro frames_ops)

lemma frames_getOrCreateLB: "frames v (getOrCreateLB E c n)"
  unfolding getOrCreateLB_def by (intro frames_rules frames_ops)

lemma emits_getOrCreateLB:
  assumes core: "clusterCore x = clusterCore c" and managed: "ShouldManageControlPlaneEndpoint (Some c)"
    and name: "\<And>p. settledPrefix c p \<Longrightarrow> n = p @ ''-cp-lb''"
  shows "emits (sanctioned E c) (getOrCreateLB E x n)"
proof -
  have "sanctioned E c (SdkCreate r)"
    if "requestLabels r = lcr_Labels (buildLoadBalancerCreateRequest x n)"
      and lb: "lbCreates E (buildLoadBalancerCreateRequest x n) r" for r
  proof -
    have "requestLabels r = clusterResourceLabels c"
      using that(1) by (simp add: core_derived [OF core] buildLoadBalancerCreateRequest_def Let_def)
    moreover have "\<forall>p. settledPrefix c p \<longrightarrow> lbCreates E (buildLoadBalancerCreateRequest c (p @ ''-cp-lb'')) r"
      using lb name core_derived [OF core] by auto
    ultimately show ?thesis
      using managed lb by (cases r) (simp_all add: sanctioned_def)
  qed
  then show ?thesis
    unfolding getOrCreateLB_def by (intro go_rules emits_ops emits_Create_named) simp_all
qed

section \<open>The invariant of the normal reconcile\<close>

definition prefixKept :: "EvrocCluster \<Rightarrow> EvrocCluster \<Rightarrow> bool" where
  "prefixKept c x \<longleftrightarrow> clusterCore x = clusterCore c \<and> (\<forall>p. settledPrefix c p \<longrightarrow> prefixOf x = Some p)"

text \<open>The same with the prefix in the annotation, where nothing in the status can change it.\<close>

definition prefixNoted :: "EvrocCluster \<Rightarrow> EvrocCluster \<Rightarrow> bool" where
  "prefixNoted c x \<longleftrightarrow> clusterCore x = clusterCore c \<and>
     (\<forall>p. settledPrefix c p \<longrightarrow> mget (om_Annotations (cl_Meta x)) clusterResourcePrefixAnnotation = p)"

lemma prefixNoted_Kept: "prefixNoted c x \<Longrightarrow> prefixKept c x"
  by (auto simp: prefixNoted_def prefixKept_def settledPrefix_def prefixOf_def clusterResourcePrefix_def Let_def)

lemma prefixKept_refl: "prefixKept c c"
  by (simp add: prefixKept_def settledPrefix_def)

lemma core_annotate: "clusterCore (setClusterResourcePrefixAnnotation p x) = clusterCore x"
  by (simp add: clusterCore_def setClusterResourcePrefixAnnotation_def clusterOwnershipID_def
      trackedClusterSGs_def clusterOwnershipIDAnnotation_def clusterResourcePrefixAnnotation_def)

lemma prefix_noted:
  assumes "prefixKept c x" and "clusterResourcePrefix x = Inr (p, x')"
  shows "prefixNoted c x' \<and> (\<forall>q. settledPrefix c q \<longrightarrow> p = q)"
proof -
  have "prefixOf x = Some p"
    using assms(2) by (simp add: prefixOf_def)
  then have q: "\<forall>q. settledPrefix c q \<longrightarrow> p = q"
    using assms(1) by (auto simp: prefixKept_def)
  then show ?thesis
    using assms(1) clusterResourcePrefix_cases [OF assms(2)]
    by (auto simp: prefixNoted_def prefixKept_def core_annotate mget_setPrefix)
qed

text \<open>Two clusters with the same metadata, specification and resources.\<close>

lemma prefix_same:
  assumes "cl_Meta x = cl_Meta y" and "cl_Spec x = cl_Spec y"
    and "cst_Resources (cl_Status x) = cst_Resources (cl_Status y)"
  shows "prefixKept c x = prefixKept c y"
proof -
  have "clusterCore x = clusterCore y"
    using assms by (simp add: clusterCore_def trackedClusterSGs_def clusterOwnershipID_def)
  moreover have "prefixOf x = prefixOf y"
    using assms
    by (auto simp: prefixOf_def clusterResourcePrefix_def recoveredPrefix_def Let_def split: option.splits)
  ultimately show ?thesis
    by (simp add: prefixKept_def)
qed

text \<open>The changes of the object that keep the note.\<close>

lemma noted_change:
  assumes "prefixNoted c x" and "cl_Meta y = cl_Meta x" and "clusterCore y = clusterCore x"
  shows "prefixNoted c y"
  using assms by (simp add: prefixNoted_def)

lemma noted_setConditions: "prefixNoted c x \<Longrightarrow> prefixNoted c (Cluster_SetConditions x cs)"
  by (erule noted_change)
     (simp_all add: Cluster_SetConditions_def clusterCore_def clusterOwnershipID_def trackedClusterSGs_def)

lemma noted_setEndpoint: "prefixNoted c x \<Longrightarrow> prefixNoted c (setEndpoint E a x)"
  by (erule noted_change)
     (simp_all add: setEndpoint_def clusterCore_def clusterOwnershipID_def trackedClusterSGs_def)

lemma noted_setLB: "prefixNoted c x \<Longrightarrow> prefixNoted c (setClusterResources (\<lambda>r. r\<lparr>cr_LoadBalancer := l\<rparr>) x)"
  by (erule noted_change)
     (simp_all add: setClusterResources_def clusterCore_def clusterOwnershipID_def trackedClusterSGs_def
       zeroClusterResources_def split: option.split)

lemma noted_notReady: "prefixNoted c x \<Longrightarrow> prefixNoted c (x\<lparr>cl_Status := (cl_Status x)\<lparr>cst_Ready := b\<rparr>\<rparr>)"
  by (erule noted_change) (simp_all add: clusterCore_def clusterOwnershipID_def trackedClusterSGs_def)

lemma maintains_noted_condition: "maintains (prefixNoted c) P (setClusterCondition E t st sv r msg)"
  unfolding setClusterCondition_def by (intro inv.keeps_rules maintains_ask maintains_modCur noted_setConditions)

lemma maintains_noted_error:
  assumes "\<And>r msg. P (KEvent r msg)"
  shows "maintains (prefixNoted c) P (handleClusterError E err)"
  unfolding handleClusterError_def HandleCloudError_def Let_def
  by (intro inv.keeps_rules maintains_noted_condition maintains_modCur maintains_invoke noted_notReady assms)

lemma maintains_reconcileLB:
  assumes managed: "ShouldManageControlPlaneEndpoint (Some c)"
    and name: "\<And>p. settledPrefix c p \<Longrightarrow> n = p @ ''-cp-lb''"
  shows "maintains (prefixNoted c) (sanctioned E c) (reconcileAutoCreatedLoadBalancer E n)"
proof -
  have "maintains (prefixNoted c) (sanctioned E c) (getOrCreateLB E x n)" if "prefixNoted c x" for x
    using that by (intro maintains_emits emits_getOrCreateLB frames_getOrCreateLB managed name)
      (simp_all add: prefixNoted_def)
  then show ?thesis
    unfolding reconcileAutoCreatedLoadBalancer_def useLoadBalancer_def
    by (intro maintains_bind_getCur inv.keeps_rules maintains_noted_condition maintains_modCur
        noted_setEndpoint noted_setLB)
qed

lemma from_modCur_strong:
  fixes k :: "(('a, 'b) st, 'c) state"
  assumes "J (g x)" and "maintains J P k" and "\<And>y. J y \<Longrightarrow> I y"
  shows "maintainsFrom x I P (do { modCur g; k })"
  unfolding state_io_rel_def fromRel_def
proof (intro allI impI)
  fix s :: "('a, 'b) st"
  assume "cur s = x"
  moreover have "invRel J P (s\<lparr>cur := g (cur s)\<rparr>) (snd (run_state k (s\<lparr>cur := g (cur s)\<rparr>)))"
    using assms(2) by (simp add: state_io_rel_def)
  ultimately show "invRel I P s (snd (run_state (do { modCur g; k }) s))"
    using assms(1,3) by (simp add: invRel_def emitRel_def)
qed

lemma maintains_ensureEndpoint: "maintains (prefixKept c) (sanctioned E c) (ensureEndpoint E)"
  unfolding ensureEndpoint_def
proof (rule maintains_read)
  fix x
  assume x: "prefixKept c x"
  have rest: "maintains (prefixNoted c) (sanctioned E c) (onResult (reconcileAutoCreatedLoadBalancer E n)
        (\<lambda>err. early (handleClusterError E err))
        (\<lambda>delay. if delay \<noteq> 0 then ret (Some (requeueAfter delay)) else ret None))"
    if managed: "ShouldManageControlPlaneEndpoint (Some x)" and n: "resolveLoadBalancerName x = Inr (n, x')"
    for n x'
  proof -
    obtain p where p: "clusterResourcePrefix x = Inr (p, x')" "n = p @ ''-cp-lb''"
      using n by (auto simp: resolveLoadBalancerName_def split: sum.splits)
    have "ShouldManageControlPlaneEndpoint (Some c)"
      using managed x core_derived(2) [of x c] by (simp add: prefixKept_def)
    then show ?thesis
      using prefix_noted [OF x p(1)] p(2)
      by (intro inv.keeps_rules maintains_early maintains_reconcileLB maintains_noted_error) auto
  qed
  have noted: "prefixNoted c x'" if "resolveLoadBalancerName x = Inr (n, x')" for n x'
    using that prefix_noted [OF x] by (auto simp: resolveLoadBalancerName_def split: sum.splits)
  show "maintainsFrom x (prefixKept c) (sanctioned E c)
     (if \<not> ShouldManageControlPlaneEndpoint (Some x) then ret None
      else case resolveLoadBalancerName x of Inl err \<Rightarrow> ret (Some (failWith err))
        | Inr (lbName, c') \<Rightarrow> do {
            modCur (\<lambda>_. c');
            onResult (reconcileAutoCreatedLoadBalancer E lbName)
              (\<lambda>err. early (handleClusterError E err))
              (\<lambda>delay. if delay \<noteq> 0 then ret (Some (requeueAfter delay)) else ret None) })"
    by (intro inv.from_if inv.from_return inv.from_case_sum inv.from_case_prod
        from_modCur_strong [where J = "prefixNoted c"] rest prefixNoted_Kept) (auto dest: noted)
qed

section \<open>The security group stage\<close>

text \<open>The names a section asks for, in the order the code handles them.\<close>

definition sectionNames :: "string \<Rightarrow> SecurityGroupsConfig \<Rightarrow> string list" where
  "sectionNames p cfg = map (inlineSGName p) (sgc_InlineSecurityGroups cfg) @ sgc_ExistingIDs cfg"

lemma mapEach_result:
  assumes "\<And>x s y t. run_state (f x) s = (Inr y, t) \<Longrightarrow> g y = h x"
    and "run_state (mapEach f xs) s = (Inr ys, t)"
  shows "map g ys = map h xs"
  using assms(2)
  by (induction xs arbitrary: s ys) (auto split: prod.splits sum.splits dest: assms(1))

lemma emits_onResult_after:
  assumes m: "emits P m" and err: "\<And>e. emits P (g e)"
    and k: "\<And>s x t. run_state m s = (Inr x, t) \<Longrightarrow> emits P (k x)"
  shows "emits P (onResult m g k)"
  unfolding state_io_rel_def
proof (intro allI)
  fix s
  obtain r t where run: "run_state m s = (r, t)"
    by fastforce
  have st: "emitRel P s t"
    using m run by (metis snd_conv state_io_rel_def)
  show "emitRel P s (snd (run_state (onResult m g k) s))"
  proof (cases r)
    case (Inl e)
    then show ?thesis
      using st err [of e] run by (auto simp: state_io_rel_def intro: emitRel_trans)
  next
    case (Inr x)
    then show ?thesis
      using st k [of s x t] run by (auto simp: state_io_rel_def intro: emitRel_trans)
  qed
qed

lemma ensureClusterSG_name:
  assumes "run_state (ensureClusterSG E x p role i) s = (Inr g, t)"
  shows "msg_ID g = inlineSGName p i"
  using assms by (auto simp: ensureClusterSG_def Let_def split: prod.splits sum.splits if_splits)

lemma checkExistingSG_name:
  assumes "run_state (checkExistingSG E role n) s = (Inr g, t)"
  shows "msg_ID g = n"
  using assms by (auto simp: checkExistingSG_def split: prod.splits sum.splits if_splits)

lemma section_names:
  assumes "run_state (reconcileSecurityGroupSection E x p role cfg) s = (Inr sgs, t)"
  shows "map msg_ID sgs = sectionNames p cfg"
proof -
  obtain managed existing u
    where managed: "run_state (mapEach (ensureClusterSG E x p role) (sgc_InlineSecurityGroups cfg)) s = (Inr managed, u)"
      and existing: "run_state (mapEach (checkExistingSG E role) (sgc_ExistingIDs cfg)) u = (Inr existing, t)"
      and "sgs = managed @ existing"
    using assms by (auto simp: reconcileSecurityGroupSection_def split: prod.splits sum.splits)
  moreover have "map msg_ID managed = map (inlineSGName p) (sgc_InlineSecurityGroups cfg)"
    by (rule mapEach_result [OF _ managed]) (rule ensureClusterSG_name)
  moreover have "map msg_ID existing = map (\<lambda>n. n) (sgc_ExistingIDs cfg)"
    by (rule mapEach_result [OF _ existing]) (rule checkExistingSG_name)
  ultimately show ?thesis
    by (simp add: sectionNames_def)
qed

lemma sections_names:
  assumes "run_state (mapEach (\<lambda>(role, config). reconcileSecurityGroupSection E x p role config) secs) s
    = (Inr sgs, t)"
  shows "map msg_ID (concat sgs) = concat (map (sectionNames p \<circ> snd) secs)"
proof -
  have "map (map msg_ID) sgs = map (sectionNames p \<circ> snd) secs"
    by (rule mapEach_result [OF _ assms]) (auto split: prod.splits dest: section_names)
  then show ?thesis
    by (simp add: map_concat)
qed

definition prefixFits :: "EvrocCluster \<Rightarrow> string \<Rightarrow> bool" where
  "prefixFits c p \<longleftrightarrow> inlineClusterSGs c = [] \<or> (\<forall>q. settledPrefix c q \<longrightarrow> p = q)"

lemma emits_ensureClusterSG:
  assumes "clusterCore x = clusterCore c" and "i \<in> set (inlineClusterSGs c)" and "prefixFits c p"
  shows "emits (sanctioned E c) (ensureClusterSG E x p role i)"
  unfolding ensureClusterSG_def Let_def
  using assms(2,3)
  by (intro go_rules emits_ops)
     (auto simp: sanctioned_def core_derived [OF assms(1)] prefixFits_def)

lemma emits_checkExistingSG: "emits (sanctioned E c) (checkExistingSG E role n)"
  unfolding checkExistingSG_def by (intro go_rules emits_ops) simp

lemma emits_sections:
  assumes "clusterCore x = clusterCore c" and "cs_SecurityGroups (cl_Spec c) = Some cfg" and "prefixFits c p"
  shows "emits (sanctioned E c)
    (mapEach (\<lambda>(role, config). reconcileSecurityGroupSection E x p role config) (sgSections cfg))"
proof -
  have "emits (sanctioned E c) (reconcileSecurityGroupSection E x p role config)"
    if "(role, config) \<in> set (sgSections cfg)" for role config
  proof -
    have "i \<in> set (inlineClusterSGs c)" if "i \<in> set (sgc_InlineSecurityGroups config)" for i
      using that \<open>(role, config) \<in> _\<close> assms(2)
      by (force simp: inlineClusterSGs_def wantedSections_def)
    then show ?thesis
      unfolding reconcileSecurityGroupSection_def
      by (intro go_rules emits_ensureClusterSG emits_checkExistingSG assms) simp_all
  qed
  then show ?thesis
    by (intro emit.keeps_mapEach) (auto split: prod.split)
qed

lemma emits_deleteStaleSecurityGroups:
  assumes core: "clusterCore x = clusterCore c"
    and "set (existingClusterSGs c) \<subseteq> set (map msg_ID desired)"
    and "\<And>p. settledPrefix c p \<Longrightarrow> inlineSGName p ` set (inlineClusterSGs c) \<subseteq> set (map msg_ID desired)"
  shows "emits (sanctioned E c) (deleteStaleSecurityGroups E x desired)"
proof -
  have "sanctioned E c (SdkDelete SecurityGroupK (msg_ID old))"
    if "old \<in> set (trackedClusterSGs x)" "msg_Managed old" "msg_ID old \<notin> set (map msg_ID desired)" for old
  proof -
    have "msg_ID old \<in> managedSGNames c"
      using that core by (auto simp: managedSGNames_def clusterCore_def)
    moreover have "msg_ID old \<notin> inlineSGName p ` set (inlineClusterSGs c)" if "settledPrefix c p" for p
      using assms(3) [OF that] \<open>msg_ID old \<notin> _\<close> by blast
    ultimately show ?thesis
      using that(3) assms(2) by (auto simp: sanctioned_def)
  qed
  then show ?thesis
    unfolding deleteStaleSecurityGroups_def
    by (intro emit.keeps_forEach go_rules emits_deleteTolerant emits_ops) auto
qed

lemma emits_propagate: "emits (sanctioned E c) (reconcileClusterSecurityGroupsOnVMs E x)"
  unfolding reconcileClusterSecurityGroupsOnVMs_def touchMachine_def by (intro go_rules) simp_all

lemma wanted_names:
  assumes "cs_SecurityGroups (cl_Spec c) = Some cfg" and "prefixFits c p"
  shows "set (existingClusterSGs c) \<subseteq> set (concat (map (sectionNames p \<circ> snd) (sgSections cfg)))"
    and "settledPrefix c q \<Longrightarrow>
      inlineSGName q ` set (inlineClusterSGs c) \<subseteq> set (concat (map (sectionNames p \<circ> snd) (sgSections cfg)))"
  using assms
  by (auto simp: existingClusterSGs_def inlineClusterSGs_def wantedSections_def sectionNames_def prefixFits_def)

lemma emits_reconcileWantedSGs:
  assumes core: "clusterCore x = clusterCore c" and cfg: "cs_SecurityGroups (cl_Spec c) = Some cfg"
    and p: "prefixFits c p"
  shows "state_io_rel (fromRel x (emitRel (sanctioned E c))) (reconcileWantedSGs E cfg p)"
proof -
  have "emits (sanctioned E c) (onResult
      (mapEach (\<lambda>(role, config). reconcileSecurityGroupSection E x p role config) (sgSections cfg))
      (\<lambda>err. ret (Some err))
      (\<lambda>sgs. onError (deleteStaleSecurityGroups E x (concat sgs)) (\<lambda>err. ret (Some err))
        (do {
           modCur (setClusterResources (\<lambda>r. r\<lparr>cr_SecurityGroups := concat sgs\<rparr>));
           onError (reconcileClusterSecurityGroupsOnVMs E x)
             (\<lambda>err. ret (Some (wrapErr ''failed to propagate cluster SGs to VMs'' err)))
             (ret None) })))"
  proof (rule emits_onResult_after [OF emits_sections [OF core cfg p] emit.keeps_return])
    fix s :: "EvrocCluster cst" and sgs t
    assume "run_state (mapEach (\<lambda>(role, config). reconcileSecurityGroupSection E x p role config)
      (sgSections cfg)) s = (Inr sgs, t)"
    note names = sections_names [OF this]
    show "emits (sanctioned E c) (onError (deleteStaleSecurityGroups E x (concat sgs)) (\<lambda>err. ret (Some err))
        (do {
           modCur (setClusterResources (\<lambda>r. r\<lparr>cr_SecurityGroups := concat sgs\<rparr>));
           onError (reconcileClusterSecurityGroupsOnVMs E x)
             (\<lambda>err. ret (Some (wrapErr ''failed to propagate cluster SGs to VMs'' err)))
             (ret None) }))"
      by (intro go_rules emits_deleteStaleSecurityGroups [OF core] emits_propagate)
         (simp_all only: names wanted_names [OF cfg p])
  qed
  then show ?thesis
    unfolding reconcileWantedSGs_def by (intro emit.from_getCur emit.from_keeps)
qed

lemma securityGroupPrefix_fits:
  assumes x: "prefixKept c x" and cfg: "cs_SecurityGroups (cl_Spec c) = Some cfg" and s: "cur s = x"
    and run: "run_state (securityGroupPrefix cfg) s = (Inr p, t)"
  shows "clusterCore (cur t) = clusterCore c \<and> prefixFits c p"
proof (cases "needsPrefix cfg")
  case True
  then obtain x' where "clusterResourcePrefix x = Inr (p, x')" "cur t = x'"
    using run s by (auto simp: securityGroupPrefix_def split: sum.splits prod.splits)
  then show ?thesis
    using prefix_noted [OF x] by (auto simp: prefixNoted_def prefixFits_def)
next
  case False
  then have "inlineClusterSGs c = []"
    using cfg by (auto simp: inlineClusterSGs_def wantedSections_def needsPrefix_def list_ex_iff)
  then show ?thesis
    using False run s x by (auto simp: securityGroupPrefix_def prefixFits_def prefixKept_def)
qed

lemma emits_reconcileSecurityGroups:
  assumes x: "prefixKept c x"
  shows "state_io_rel (fromRel x (emitRel (sanctioned E c))) (reconcileSecurityGroups E)"
proof -
  have core: "clusterCore x = clusterCore c"
    using x by (simp add: prefixKept_def)
  show ?thesis
  proof (cases "cs_SecurityGroups (cl_Spec c)")
    case None
    then have "state_io_rel (fromRel x (emitRel (sanctioned E c))) (removeAllSGs E)"
      unfolding removeAllSGs_def
      by (intro emit.from_getCur emit.from_keeps go_rules emits_deleteStaleSecurityGroups [OF core]
          emits_propagate) (simp_all add: existingClusterSGs_def inlineClusterSGs_def wantedSections_def)
    then show ?thesis
      unfolding reconcileSecurityGroups_def using None core_spec(1) [OF core]
      by (intro emit.from_getCur) simp
  next
    case (Some cfg)
    have "emitRel (sanctioned E c) s (snd (run_state (reconcileSecurityGroups E) s))" if s: "cur s = x" for s
    proof -
      obtain r t where run: "run_state (securityGroupPrefix cfg) s = (r, t)"
        by fastforce
      have "emitRel (sanctioned E c) t (snd (run_state (reconcileWantedSGs E cfg p) t))" if "r = Inr p" for p
        using emits_reconcileWantedSGs [OF _ Some, of "cur t" p E] securityGroupPrefix_fits [OF x Some s] run that
        by (simp add: state_io_rel_def fromRel_def)
      moreover have "calls t = calls s"
        using run by (auto simp: securityGroupPrefix_def split: if_splits sum.splits)
      ultimately show ?thesis
        using s Some core_spec(1) [OF core] run
        by (cases r) (simp_all add: reconcileSecurityGroups_def emitRel_def)
    qed
    then show ?thesis
      by (simp add: state_io_rel_def fromRel_def)
  qed
qed

section \<open>The normal reconcile\<close>

text \<open>
  The invariant holds up to the security group stage, which reads the object once and is the last
  to call the cloud.
\<close>

definition guardRel :: "('o \<Rightarrow> bool) \<Rightarrow> ('c \<Rightarrow> bool) \<Rightarrow> ('o, 'c) st \<Rightarrow> ('o, 'c) st \<Rightarrow> bool" where
  "guardRel I P s t \<longleftrightarrow> I (cur s) \<longrightarrow> emitRel P s t"

abbreviation guarded :: "('o \<Rightarrow> bool) \<Rightarrow> ('c \<Rightarrow> bool) \<Rightarrow> (('o, 'c) st, 'a) state \<Rightarrow> bool" where
  "guarded I P \<equiv> state_io_rel (guardRel I P)"

lemma guarded_then:
  assumes "maintains I P m" and "\<And>x. guarded I P (f x)"
  shows "guarded I P (State_Monad.bind m f)"
  using assms
  by (auto simp: state_io_rel_def guardRel_def invRel_def split: prod.splits)
     (metis emitRel_trans snd_conv)

lemma guarded_onError:
  assumes "maintains I P m" and "\<And>e. guarded I P (f e)" and "guarded I P k"
  shows "guarded I P (onError m f k)"
  unfolding onError_def by (rule guarded_then [OF assms(1)]) (auto split: option.split intro: assms)

lemma guarded_from:
  assumes "\<And>x. I x \<Longrightarrow> state_io_rel (fromRel x (emitRel P)) k"
  shows "guarded I P k"
  using assms by (auto simp: state_io_rel_def guardRel_def fromRel_def)

lemma guarded_emits: "emits P k \<Longrightarrow> guarded I P k"
  by (auto simp: state_io_rel_def guardRel_def)

lemma kept_status:
  assumes "prefixKept c x" and "cl_Meta y = cl_Meta x" and "cl_Spec y = cl_Spec x"
    and "cst_Resources (cl_Status y) = cst_Resources (cl_Status x)"
  shows "prefixKept c y"
  using assms prefix_same [of y x c] by simp

lemma maintains_kept_condition: "maintains (prefixKept c) P (setClusterCondition E t st sv r msg)"
  unfolding setClusterCondition_def
  by (intro inv.keeps_rules maintains_ask maintains_modCur)
     (erule kept_status, simp_all add: Cluster_SetConditions_def)

lemma guarded_body: "guarded (prefixKept c) (sanctioned E c) (reconcileClusterBody E)"
proof -
  have copy: "maintains (prefixKept c) (sanctioned E c) (ensureCredentialSecretCopy E x)" for x
    by (rule maintains_emits; intro emits_ops frames_ops) simp_all
  have domains: "maintains (prefixKept c) (sanctioned E c) (modCur reconcileFailureDomains)"
    by (rule maintains_modCur) (erule kept_status, simp_all add: reconcileFailureDomains_def)
  have network: "maintains (prefixKept c) (sanctioned E c) (modCur storeNetworkStatus)"
    by (rule maintains_modCur) (erule kept_status, simp_all add: storeNetworkStatus_def)
  have tail: "guarded (prefixKept c) (sanctioned E c) (onError (reconcileSecurityGroups E) (handleClusterError E)
      (do { modCur markProvisioned;
            setClusterCondition E ReadyCondition ConditionTrue SeverityNone ClusterReadyReason '''';
            ret finished }))"
    by (intro guarded_from emit.from_onError_then emits_reconcileSecurityGroups emits_handleClusterError
        go_rules emits_ops) simp_all
  show ?thesis
    unfolding reconcileClusterBody_def
    by (intro tail guarded_then guarded_onError maintains_kept_condition maintains_getCur copy domains network
        maintains_ensureEndpoint guarded_emits emit.keeps_return)
qed

lemma from_reconcileNormal:
  "state_io_rel (fromRel c (emitRel (sanctioned E c))) (Cluster_reconcileNormal E)"
proof -
  have "state_io_rel (fromRel c (emitRel (sanctioned E c))) (reconcileClusterBody E)"
    using guarded_body [of c E] prefixKept_refl [of c]
    by (simp add: state_io_rel_def guardRel_def fromRel_def)
  then show ?thesis
    unfolding Cluster_reconcileNormal_def
    by (intro emit.from_getCur emit.from_case_option emit.from_return emit.from_then go_rules) simp_all
qed

end
