(* ===== verification/ClusterTeardown.thy ===== *)
theory ClusterTeardown
  imports ClusterReconcile
begin

text \<open>
  The teardown of a cluster: why \<open>cleanupResources\<close> deletes what it deletes, and what the cloud
  has answered when it reports that nothing is left.
\<close>

section \<open>What justifies a delete\<close>

text \<open>The resource is in the answer to the list call for the cluster's ownership label.\<close>

definition listedByCluster :: "Env \<Rightarrow> string \<Rightarrow> Call list \<Rightarrow> SdkKind \<Rightarrow> string \<Rightarrow> bool" where
  "listedByCluster E i h k n \<longleftrightarrow>
     answeredIn h (SdkList k (ownerSelector LabelClusterID i))
       (\<lambda>h'. \<exists>items. e_items E h' (SdkList k (ownerSelector LabelClusterID i)) = Inr items \<and>
          n \<in> md_Id ` set items)"

definition csiDisksRequested :: "EvrocCluster \<Rightarrow> bool" where
  "csiDisksRequested c \<longleftrightarrow> mget (om_Annotations (cl_Meta c)) DeleteCSIDisksAnnotation = ''true''"

definition lbNameOf :: "EvrocCluster \<Rightarrow> string option" where
  "lbNameOf c = (case resolveLoadBalancerName c of Inl _ \<Rightarrow> None | Inr (n, _) \<Rightarrow> Some n)"

text \<open>What belongs to the load balancer \<open>lb\<close> of the cluster with ownership ID \<open>i\<close>.\<close>

definition lbDeleteJudge :: "Env \<Rightarrow> string \<Rightarrow> string \<Rightarrow> bool \<Rightarrow> Call list \<Rightarrow> SdkKind \<Rightarrow> string \<Rightarrow> bool" where
  "lbDeleteJudge E i lb ip h k n \<longleftrightarrow>
     k = LoadBalancerK \<and> n = lb \<or> k = PublicIPK \<and> ip \<and> n = ipName lb \<or>
     k \<in> snd ` set lbResourceKinds \<and> listedByCluster E i h k n"

fun teardownJudge :: "Env \<Rightarrow> EvrocCluster \<Rightarrow> Call list \<Rightarrow> Call \<Rightarrow> bool" where
  "teardownJudge E c h (SdkDelete k n) \<longleftrightarrow>
     cleanupJudge E (clusterOwnershipID (Some c)) (csiDisksRequested c) h (SdkDelete k n) \<or>
     (ShouldManageControlPlaneEndpoint (Some c) \<and> (\<exists>lb. lbNameOf c = Some lb \<and>
        lbDeleteJudge E (clusterOwnershipID (Some c)) lb (ownsLBPublicIP c) h k n)) \<or>
     k = SecurityGroupK \<and> listedByCluster E (clusterOwnershipID (Some c)) h k n"
| "teardownJudge E c h k \<longleftrightarrow> \<not> isCloudWrite k"

lemma teardownJudge_other: "\<not> isCloudWrite k \<Longrightarrow> teardownJudge E c h k"
  by (cases k) auto

lemma listedByCluster_prefix: "listedByCluster E i h k n \<Longrightarrow> prefix h h' \<Longrightarrow> listedByCluster E i h' k n"
  unfolding listedByCluster_def by (rule answeredIn_prefix)

lemma justifies_read: "emits (\<lambda>k. \<not> isCloudWrite k) m \<Longrightarrow> justifies (teardownJudge E c) h m"
  by (erule emits_justifies) (rule teardownJudge_other)

text \<open>A list call by the cluster's label, as the services make it.\<close>

lemma run_lbListByOwner:
  "run_state (lbListByOwner E k i) s =
     (case e_items E (calls s) (SdkList k (ownerSelector LabelClusterID i)) of
        Inl err \<Rightarrow> Inl err | Inr items \<Rightarrow> Inr (map md_Id items),
      s\<lparr>calls := calls s @ [SdkList k (ownerSelector LabelClusterID i)]\<rparr>)"
  by (simp add: lbListByOwner_def split: sum.split)

lemma run_clusterSGs:
  obtains msg where "run_state (SecurityGroupService_ListByOwner E i) s =
     (case e_items E (calls s) (SdkList SecurityGroupK (ownerSelector LabelClusterID i)) of
        Inl err \<Rightarrow> Inl (wrapErr msg err) | Inr items \<Rightarrow> Inr (map md_Id items),
      s\<lparr>calls := calls s @ [SdkList SecurityGroupK (ownerSelector LabelClusterID i)]\<rparr>)"
  by (rule that [of "''failed to list security groups by owner''"])
     (simp add: SecurityGroupService_ListByOwner_def SecurityGroupService_listNamesBySelector_def
       split: sum.split)

lemma listed_after:
  assumes "e_items E (calls s) (SdkList k (ownerSelector LabelClusterID i)) = Inr items"
    and "calls t = calls s @ [SdkList k (ownerSelector LabelClusterID i)]" and "n \<in> set (map md_Id items)"
  shows "listedByCluster E i (calls t) k n"
  unfolding listedByCluster_def assms(2) using assms(1,3) by (intro answeredIn_snoc) auto

text \<open>Deletes of listed names.\<close>

lemma justifies_lbDel:
  assumes "\<And>h'. prefix h h' \<Longrightarrow> teardownJudge E c h' (SdkDelete k n)"
  shows "justifies (teardownJudge E c) h (lbDel E kn k n)"
  unfolding lbDel_def by (intro just_rules justifies_invoke assms)

lemma justifies_lbDelKind:
  assumes "ShouldManageControlPlaneEndpoint (Some c)" and "lbNameOf c = Some lb" and k: "k \<in> set lbResourceKinds"
  shows "justifies (teardownJudge E c) h (lbDelKind E (clusterOwnershipID (Some c)) k)"
  unfolding lbDelKind_def
proof (rule justifies_onResult_after)
  let ?i = "clusterOwnershipID (Some c)"
  show "justifies (teardownJudge E c) h (lbListByOwner E (snd k) ?i)"
    unfolding lbListByOwner_def by (intro justifies_read go_rules) simp
  fix s :: "('o, Call) st" and names t
  assume "run_state (lbListByOwner E (snd k) ?i) s = (Inr names, t)"
  then have "listedByCluster E ?i (calls t) (snd k) n" if "n \<in> set names" for n
    using that by (auto simp: run_lbListByOwner split: sum.splits intro: listed_after)
  then have "teardownJudge E c h' (SdkDelete (snd k) n)" if "prefix (calls t) h'" "n \<in> set names" for h' n
    using that assms by (auto simp: lbDeleteJudge_def intro: listedByCluster_prefix)
  then show "justifies (teardownJudge E c) (calls t) (collectErrs (lbDel E (fst k) (snd k)) names)"
    by (intro just.keeps_collectErrs justifies_lbDel)
qed (intro just_rules)

lemma justifies_concatErrs:
  assumes "\<And>x. x \<in> set xs \<Longrightarrow> justifies J h (f x)"
  shows "justifies J h (concatErrs f xs)"
  using assms by (induction xs) (auto intro!: just_rules)

lemma justifies_LoadBalancerService_Delete:
  assumes "ShouldManageControlPlaneEndpoint (Some c)" and "lbNameOf c = Some lb"
  shows "justifies (teardownJudge E c) h
    (LoadBalancerService_Delete E lb (clusterOwnershipID (Some c)) (ownsLBPublicIP c))"
  unfolding LoadBalancerService_Delete_def Let_def
  by (intro just_rules justifies_concatErrs justifies_lbDelKind [OF assms] justifies_lbDel)
     (auto simp: assms lbDeleteJudge_def)

lemma frames_cleanupDrivers: "frames v (cleanupDrivers E i dd)"
  unfolding cleanupDrivers_def by (intro frames_rules frames_ops)

lemma justifies_cleanupDrivers:
  "justifies (teardownJudge E c) h (cleanupDrivers E (clusterOwnershipID (Some c)) (csiDisksRequested c))"
proof -
  have "justifies (teardownJudge E c) h (Cleanup E (clusterOwnershipID (Some c)) (csiDisksRequested c))"
  proof (rule justifies_weaken [OF justifies_Cleanup])
    fix h' k
    assume "cleanupJudge E (clusterOwnershipID (Some c)) (csiDisksRequested c) h' k"
    then show "teardownJudge E c h' k"
      by (cases k) (auto intro: teardownJudge_other)
  qed
  then show ?thesis
    unfolding cleanupDrivers_def by (intro just_rules)
qed

lemma justifies_deleteTolerant_call:
  assumes "emits ((=) k) m" and "\<And>h'. prefix h h' \<Longrightarrow> J h' k"
  shows "justifies J h (deleteTolerant msg m)"
  by (rule justifies_deleteTolerant, rule emits_justifies [OF assms(1)]) (use assms(2) in blast)

lemma justifies_cleanupSGs:
  "justifies (teardownJudge E c) h (cleanupSGs E (clusterOwnershipID (Some c)))"
  unfolding cleanupSGs_def
proof (rule justifies_onResult_after)
  let ?i = "clusterOwnershipID (Some c)"
  have list: "justifies (teardownJudge E c) h (SecurityGroupService_ListByOwner E ?i)" for h
    unfolding SecurityGroupService_ListByOwner_def SecurityGroupService_listNamesBySelector_def
    by (intro justifies_read go_rules) simp
  then show "justifies (teardownJudge E c) h (SecurityGroupService_ListByOwner E ?i)" .
  fix s :: "('o, Call) st" and names t
  assume run: "run_state (SecurityGroupService_ListByOwner E ?i) s = (Inr names, t)"
  have "listedByCluster E ?i (calls t) SecurityGroupK n" if "n \<in> set names" for n
    using run that
    by (auto simp: SecurityGroupService_ListByOwner_def SecurityGroupService_listNamesBySelector_def
        split: sum.splits intro: listed_after)
  then have "teardownJudge E c h' (SdkDelete SecurityGroupK n)" if "prefix (calls t) h'" "n \<in> set names" for h' n
    using that by (auto intro: listedByCluster_prefix)
  then have "justifies (teardownJudge E c) (calls t) (deleteTolerant m (SecurityGroupService_Delete E n))"
    if "n \<in> set names" for m n
    using that by (intro justifies_deleteTolerant_call [of "SdkDelete SecurityGroupK n"] emits_ops refl)
  then show "justifies (teardownJudge E c) (calls t) (do {
       errs \<leftarrow> collectErrs (\<lambda>name. deleteTolerant (''failed to delete managed SecurityGroup '' @ name)
            (SecurityGroupService_Delete E name)) names;
       onResult (SecurityGroupService_ListByOwner E ?i)
         (\<lambda>err. ret ([], joinErrs (errs @ [wrapErr ''failed to recheck security groups for cleanup'' err])))
         (\<lambda>remaining. ret (map (\<lambda>name. ''SecurityGroup/'' @ name) remaining, joinErrs errs)) })"
    by (intro just_rules list)
qed (intro just_rules)

lemma justifies_tearDownLB:
  assumes "ShouldManageControlPlaneEndpoint (Some c)" and "lbNameOf c = Some lb"
  shows "justifies (teardownJudge E c) h (tearDownLB E c (clusterOwnershipID (Some c)) lb)"
proof -
  have "justifies (teardownJudge E c) h
      (LoadBalancerService_DeletionComplete E lb (clusterOwnershipID (Some c)) (ownsLBPublicIP c))"
    by (intro justifies_read emits_ops) simp_all
  then show ?thesis
    unfolding tearDownLB_def Let_def
    by (intro just_rules justifies_deleteTolerant justifies_LoadBalancerService_Delete [OF assms])
qed

lemma justifies_cleanupResources:
  "state_io_rel (fromRel c (justRel (teardownJudge E c) h)) (cleanupResources E)"
proof -
  have "state_io_rel (fromRel c (justRel (teardownJudge E c) h)) (cleanupLB E (clusterOwnershipID (Some c)))"
    if m: "ShouldManageControlPlaneEndpoint (Some c)"
    unfolding cleanupLB_def
    by (intro just.from_getCur just.from_case_sum just.from_return just.from_case_prod just.from_keeps
        just.keeps_bind justifies_modCur justifies_tearDownLB [OF m]) (auto simp: lbNameOf_def)
  then show ?thesis
    unfolding cleanupResources_def Let_def csiDisksRequested_def [symmetric]
    by (intro just.from_getCur just.from_if just.from_return just.from_bind just.from_case_prod
        justifies_cleanupDrivers frames_cleanupDrivers just.from_then just.keeps_case_prod just.keeps_bind
        justifies_cleanupSGs just.keeps_return)
qed

section \<open>What is gone when nothing is reported\<close>

text \<open>A lookup was answered by not found.\<close>

definition saidGone :: "'a reply \<Rightarrow> Call list \<Rightarrow> SdkKind \<Rightarrow> string \<Rightarrow> bool" where
  "saidGone reply h k n \<longleftrightarrow> answeredIn h (SdkGet k n)
     (\<lambda>h'. \<exists>err. reply h' (SdkGet k n) = Inl err \<and> errIs err NotFoundM)"

definition driversGone :: "Env \<Rightarrow> string \<Rightarrow> bool \<Rightarrow> Call list \<Rightarrow> bool" where
  "driversGone E i dd h \<longleftrightarrow> noneListed E (ownerSelector LabelClusterID i) h VirtualMachineK \<and>
     (\<forall>k \<in> insert HotswapDiskAttachmentK (snd ` set driverKinds). noneListed E (driverSelector i) h k) \<and>
     (dd \<longrightarrow> noneListed E (driverSelector i) h DiskK)"

definition lbChainGone :: "Env \<Rightarrow> string \<Rightarrow> string \<Rightarrow> bool \<Rightarrow> Call list \<Rightarrow> bool" where
  "lbChainGone E i lb ip h \<longleftrightarrow> saidGone (e_lb E) h LoadBalancerK lb \<and>
     saidGone (e_route E) h L4RouteK (routeName lb) \<and> saidGone (e_svc E) h BackendServiceK (svcName lb) \<and>
     saidGone (e_pool E) h BackendPoolK (poolName lb) \<and>
     (ip \<longrightarrow> saidGone (e_ip E) h PublicIPK (ipName lb)) \<and>
     (\<forall>k \<in> snd ` set lbResourceKinds. noneListed E (ownerSelector LabelClusterID i) h k)"

definition clusterGone :: "Env \<Rightarrow> EvrocCluster \<Rightarrow> Call list \<Rightarrow> bool" where
  "clusterGone E c h \<longleftrightarrow>
     (let i = clusterOwnershipID (Some c) in
      i \<noteq> '''' \<and> driversGone E i (csiDisksRequested c) h \<and>
      (ShouldManageControlPlaneEndpoint (Some c) \<longrightarrow>
        (\<exists>lb. lbNameOf c = Some lb \<and> lbChainGone E i lb (ownsLBPublicIP c) h)) \<and>
      noneListed E (ownerSelector LabelClusterID i) h SecurityGroupK)"

lemma noneListed_prefix: "noneListed E sel h k \<Longrightarrow> prefix h h' \<Longrightarrow> noneListed E sel h' k"
  unfolding noneListed_def by (rule answeredIn_prefix)

lemma saidGone_prefix: "saidGone r h k n \<Longrightarrow> prefix h h' \<Longrightarrow> saidGone r h' k n"
  unfolding saidGone_def by (rule answeredIn_prefix)

lemma driversGone_prefix: "driversGone E i dd h \<Longrightarrow> prefix h h' \<Longrightarrow> driversGone E i dd h'"
  by (auto simp: driversGone_def intro: noneListed_prefix)

lemma lbChainGone_prefix: "lbChainGone E i lb ip h \<Longrightarrow> prefix h h' \<Longrightarrow> lbChainGone E i lb ip h'"
  by (auto simp: lbChainGone_def intro: noneListed_prefix saidGone_prefix)

lemma clusterGone_prefix: "clusterGone E c h \<Longrightarrow> prefix h h' \<Longrightarrow> clusterGone E c h'"
  by (auto simp: clusterGone_def Let_def intro: noneListed_prefix driversGone_prefix lbChainGone_prefix)

text \<open>The drivers' resources.\<close>

lemma deleteKinds_none:
  assumes "run_state (deleteKinds E i p ks) s = (Inr False, t)"
  shows "prefix (calls s) (calls t) \<and> \<not> p \<and> (\<forall>k\<in>snd ` set ks. noneListed E (driverSelector i) (calls t) k)"
  using assms
proof (induction ks arbitrary: s p)
  case (Cons k ks)
  obtain r u where run: "run_state (deleteOwned E i k) s = (r, u)"
    by fastforce
  then obtain found where found: "r = Inr found" "run_state (deleteKinds E i (p \<or> found) ks) u = (Inr False, t)"
    using Cons.prems by (cases r) auto
  have "prefix (calls s) (calls u)"
    by (rule run_emits [OF emits_deleteOwned run]) simp_all
  moreover have "\<not> found \<Longrightarrow> noneListed E (driverSelector i) (calls u) (snd k)"
    using run found(1) by (auto intro: deleteOwned_none)
  ultimately show ?case
    using Cons.IH [OF found(2)] by (auto intro: prefix_order.trans noneListed_prefix)
qed simp

lemma cleanupDisks_none:
  assumes "run_state (cleanupDisks E i dd p) s = (Inr False, t)"
  shows "prefix (calls s) (calls t) \<and> \<not> p \<and> noneListed E (driverSelector i) (calls t) HotswapDiskAttachmentK \<and>
    (dd \<longrightarrow> noneListed E (driverSelector i) (calls t) DiskK)"
proof -
  let ?att = "deleteOwned E i (''disk attachment'', HotswapDiskAttachmentK)"
    and ?disk = "deleteOwned E i (''disk'', DiskK)"
  obtain u where att: "run_state ?att s = (Inr False, u)" and p: "\<not> p"
      and rest: "if dd then run_state ?disk u = (Inr False, t) else t = u"
    using assms unfolding cleanupDisks_def by (auto split: prod.splits sum.splits if_splits)
  have "prefix (calls s) (calls u)"
    by (rule run_emits [OF emits_deleteOwned att]) simp_all
  moreover have "prefix (calls u) (calls t)"
    using rest by (auto split: if_splits dest!: run_emits [OF emits_deleteOwned, rotated 2])
  ultimately show ?thesis
    using p rest deleteOwned_none [OF att] deleteOwned_none [of E i "(''disk'', DiskK)" u t]
    by (auto split: if_splits intro: noneListed_prefix prefix_order.trans)
qed

lemma Cleanup_none:
  assumes "run_state (Cleanup E i dd) s = (Inr False, t)"
  shows "driversGone E i dd (calls t)"
proof -
  let ?c = "SdkList VirtualMachineK (ownerSelector LabelClusterID i)"
  obtain u p where vms: "e_items E (calls s) ?c = Inr []"
      and run: "run_state (deleteKinds E i False driverKinds) (s\<lparr>calls := calls s @ [?c]\<rparr>) = (Inr p, u)"
      and disks: "run_state (cleanupDisks E i dd p) u = (Inr False, t)"
    using assms unfolding Cleanup_def by (auto split: prod.splits sum.splits if_splits)
  have kinds: "run_state (deleteKinds E i False driverKinds) (s\<lparr>calls := calls s @ [?c]\<rparr>) = (Inr False, u)"
    using run cleanupDisks_none [OF disks] by simp
  have vm: "noneListed E (ownerSelector LabelClusterID i) (calls s @ [?c]) VirtualMachineK"
    using vms by (auto simp: noneListed_def intro!: answeredIn_snoc)
  have "prefix (calls s @ [?c]) (calls u)" "prefix (calls u) (calls t)"
    using deleteKinds_none [OF kinds] cleanupDisks_none [OF disks] by simp_all
  then show ?thesis
    using vm deleteKinds_none [OF kinds] cleanupDisks_none [OF disks]
    unfolding driversGone_def by (blast intro: noneListed_prefix prefix_order.trans)
qed

text \<open>The load balancer and what is behind it.\<close>

lemma anyPresent_none:
  assumes "run_state (anyPresent checks) s = (Inr False, t)"
  shows "prefix (calls s) (calls t) \<and> (\<forall>k\<in>set checks. answeredIn (calls t) (snd (snd k))
    (\<lambda>h. \<exists>err. fst (snd k) h (snd (snd k)) = Some err \<and> errIs err NotFoundM))"
  using assms
proof (induction checks arbitrary: s rule: anyPresent.induct)
  case (2 name fn c checks)
  obtain err where err: "fn (calls s) c = Some err" "errIs err NotFoundM"
      and rest: "run_state (anyPresent checks) (s\<lparr>calls := calls s @ [c]\<rparr>) = (Inr False, t)"
    using "2.prems" by (auto simp: IsNotFoundError_def split: option.splits if_splits)
  have "prefix (calls s @ [c]) (calls t)" and IH: "\<forall>k\<in>set checks. answeredIn (calls t) (snd (snd k))
      (\<lambda>h. \<exists>err. fst (snd k) h (snd (snd k)) = Some err \<and> errIs err NotFoundM)"
    using "2.IH" [OF _ rest, of err] err by (simp_all add: IsNotFoundError_def)
  moreover have "answeredIn (calls s @ [c]) c (\<lambda>h. \<exists>err. fn h c = Some err \<and> errIs err NotFoundM)"
    by (rule answeredIn_snoc) (use err in blast)
  ultimately show ?case
    by (auto intro: answeredIn_prefix append_prefixD)
qed simp

lemma probe_gone:
  "answeredIn h (snd (snd (probe reply k n))) (\<lambda>h. \<exists>err. fst (snd (probe reply k n)) h
     (snd (snd (probe reply k n))) = Some err \<and> errIs err NotFoundM) \<longleftrightarrow> saidGone reply h k n"
proof -
  have "((case r of Inl err \<Rightarrow> Some err | Inr _ \<Rightarrow> None) = Some err) = (r = Inl err)"
    for r :: "goerr + 'a" and err
    by (cases r) auto
  then show ?thesis
    by (simp add: probe_def saidGone_def)
qed

lemma noneOwned_none:
  assumes "run_state (noneOwned E i ks) s = (Inr True, t)"
  shows "prefix (calls s) (calls t) \<and>
    (\<forall>k\<in>snd ` set ks. noneListed E (ownerSelector LabelClusterID i) (calls t) k)"
  using assms
proof (induction ks arbitrary: s)
  case (Cons k ks)
  let ?c = "SdkList (snd k) (ownerSelector LabelClusterID i)"
  have items: "e_items E (calls s) ?c = Inr []"
      and rest: "run_state (noneOwned E i ks) (s\<lparr>calls := calls s @ [?c]\<rparr>) = (Inr True, t)"
    using Cons.prems by (auto simp: run_lbListByOwner split: sum.splits if_splits)
  have "noneListed E (ownerSelector LabelClusterID i) (calls s @ [?c]) (snd k)"
    unfolding noneListed_def by (rule answeredIn_snoc) (use items in simp)
  then show ?case
    using Cons.IH [OF rest] by (auto intro: noneListed_prefix append_prefixD)
qed simp

lemma DeletionComplete_gone:
  assumes "run_state (LoadBalancerService_DeletionComplete E lb i ip) s = (Inr True, t)"
  shows "prefix (calls s) (calls t) \<and> lbChainGone E i lb ip (calls t)"
proof -
  obtain u where ex: "run_state (anyPresent (lbChecks E lb ip)) s = (Inr False, u)"
      and own: "run_state (noneOwned E i lbResourceKinds) u = (Inr True, t)"
    using assms unfolding LoadBalancerService_DeletionComplete_def lbExists_def
    by (auto split: prod.splits sum.splits if_splits)
  have gone: "\<forall>k\<in>set (lbChecks E lb ip). answeredIn (calls u) (snd (snd k))
      (\<lambda>h. \<exists>err. fst (snd k) h (snd (snd k)) = Some err \<and> errIs err NotFoundM)"
    using anyPresent_none [OF ex] by blast
  have "saidGone (e_lb E) (calls u) LoadBalancerK lb" "saidGone (e_route E) (calls u) L4RouteK (routeName lb)"
      "saidGone (e_svc E) (calls u) BackendServiceK (svcName lb)"
      "saidGone (e_pool E) (calls u) BackendPoolK (poolName lb)"
      "ip \<Longrightarrow> saidGone (e_ip E) (calls u) PublicIPK (ipName lb)"
    by (subst probe_gone [symmetric], rule bspec [OF gone], simp add: lbChecks_def)+
  moreover have "prefix (calls s) (calls u)" "prefix (calls u) (calls t)"
    using anyPresent_none [OF ex] noneOwned_none [OF own] by simp_all
  ultimately show ?thesis
    using noneOwned_none [OF own] unfolding lbChainGone_def
    by (blast intro: saidGone_prefix prefix_order.trans)
qed

lemma emits_tearDownLB: "emits (\<lambda>_. True) (tearDownLB E c i lb)"
  unfolding tearDownLB_def Let_def
  by (intro go_rules emits_deleteTolerant emits_LoadBalancerService_Delete emits_ops) simp_all

lemma tearDownLB_none:
  assumes "run_state (tearDownLB E c i lb) s = (([], None), t)"
  shows "prefix (calls s) (calls t) \<and> lbChainGone E i lb (ownsLBPublicIP c) (calls t)"
proof -
  obtain u where "run_state (LoadBalancerService_DeletionComplete E lb i (ownsLBPublicIP c)) u = (Inr True, t)"
    using assms unfolding tearDownLB_def Let_def
    by (auto split: prod.splits sum.splits if_splits simp: joinErrs_def)
  then show ?thesis
    using DeletionComplete_gone run_emits [OF emits_tearDownLB assms] by blast
qed

lemma cleanupLB_none:
  assumes "run_state (cleanupLB E i) s = (([], None), t)"
  shows "prefix (calls s) (calls t) \<and>
    (\<exists>lb. lbNameOf (cur s) = Some lb \<and> lbChainGone E i lb (ownsLBPublicIP (cur s)) (calls t))"
  using assms by (auto simp: cleanupLB_def lbNameOf_def split: sum.splits prod.splits dest: tearDownLB_none)

lemma cleanupSGs_none:
  assumes "run_state (cleanupSGs E i) s = (([], None), t)"
  shows "noneListed E (ownerSelector LabelClusterID i) (calls t) SecurityGroupK"
proof -
  obtain u where "run_state (SecurityGroupService_ListByOwner E i) u = (Inr [], t)"
    using assms unfolding cleanupSGs_def by (auto split: prod.splits sum.splits)
  then show ?thesis
    by (auto simp: SecurityGroupService_ListByOwner_def SecurityGroupService_listNamesBySelector_def
        noneListed_def split: sum.splits intro!: answeredIn_snoc)
qed

lemma cleanupDrivers_none:
  assumes "run_state (cleanupDrivers E i dd) s = (([], None), t)"
  shows "driversGone E i dd (calls t)"
  using assms unfolding cleanupDrivers_def
  by (auto split: prod.splits sum.splits if_splits intro: Cleanup_none)

lemma cleanupVerdict_None: "cleanupVerdict errs names = None \<longleftrightarrow> errs = [] \<and> names = []"
  by (simp add: cleanupVerdict_def joinErrs_def)

lemma errList_Nil [simp]: "errList r = [] \<longleftrightarrow> r = None"
  by (simp split: option.split)

lemma emits_cleanupSGs: "emits (\<lambda>_. True) (cleanupSGs E i)"
  unfolding cleanupSGs_def by (intro go_rules emits_deleteTolerant emits_ops) simp_all

lemma cleanupResources_none:
  assumes run: "run_state (cleanupResources E) s = (None, t)"
  shows "clusterGone E (cur s) (calls t)"
proof -
  let ?c = "cur s" and ?i = "clusterOwnershipID (Some (cur s))"
  let ?lb = "if ShouldManageControlPlaneEndpoint (Some ?c) then cleanupLB E ?i else ret ([], None)"
  have i: "?i \<noteq> ''''"
    using run by (auto simp: cleanupResources_def Let_def)
  obtain u v where drivers: "run_state (cleanupDrivers E ?i (csiDisksRequested ?c)) s = (([], None), u)"
      and lb: "run_state ?lb u = (([], None), v)" and sgs: "run_state (cleanupSGs E ?i) v = (([], None), t)"
    using run i unfolding cleanupResources_def csiDisksRequested_def [symmetric]
    by (auto simp: Let_def cleanupVerdict_None split: prod.splits)
  have u: "cur u = ?c"
    by (rule run_frames [OF frames_cleanupDrivers drivers, of "\<lambda>x. x", simplified])
  have uv: "prefix (calls u) (calls v)" and vt: "prefix (calls v) (calls t)"
    using lb cleanupLB_none [of E ?i u v] run_emits [OF emits_cleanupSGs sgs] by (auto split: if_splits)
  have "driversGone E ?i (csiDisksRequested ?c) (calls t)"
    using cleanupDrivers_none [OF drivers] uv vt by (blast intro: driversGone_prefix)
  moreover have "\<exists>n. lbNameOf ?c = Some n \<and> lbChainGone E ?i n (ownsLBPublicIP ?c) (calls t)"
    if "ShouldManageControlPlaneEndpoint (Some ?c)"
    using cleanupLB_none [of E ?i u v] lb that u vt by (auto intro: lbChainGone_prefix)
  ultimately show ?thesis
    using i cleanupSGs_none [OF sgs] by (simp add: clusterGone_def Let_def)
qed

text \<open>Without an ownership ID nothing is called.\<close>

lemma cleanupResources_unowned:
  "clusterOwnershipID (Some (cur s)) = '''' \<Longrightarrow> stateAfter (cleanupResources E) s = s"
  by (simp add: cleanupResources_def stateAfter_def Let_def)

end
