(* ===== verification/ClusterControl.thy ===== *)
theory ClusterControl
  imports ClusterInvariant ClusterTeardown
begin

text \<open>
  The guards of the cluster controller: what \<open>Reconcile\<close> may do with the cluster it fetched,
  depending on whether it is paused, being deleted, owned and protected by the finalizer.
\<close>

section \<open>Dispatch\<close>

abbreviation clusterOwned :: "EvrocCluster \<Rightarrow> bool" where
  "clusterOwned c \<equiv> clusterOwnershipID (Some c) \<noteq> ''''"

abbreviation clusterProtected :: "EvrocCluster \<Rightarrow> bool" where
  "clusterProtected c \<equiv> hasFinalizer (cl_Meta c) clusterFinalizer"

abbreviation clusterLive :: "EvrocCluster \<Rightarrow> bool" where
  "clusterLive c \<equiv> om_DeletionTimestamp (cl_Meta c) = None"

lemma clusterOps_simps [simp]:
  "oo_Meta clusterOps c = cl_Meta c" "oo_SetMeta clusterOps x c = c\<lparr>cl_Meta := x\<rparr>"
  by (simp_all add: clusterOps_def)

text \<open>The normal case is reached only by a live cluster with its finalizer and its owner ID.\<close>

lemma cluster_dispatch_ready:
  assumes "clusterLive (cur s)" and "clusterOwned (cur s)" and "clusterProtected (cur s)"
  shows "run_state (Cluster_dispatch E) s = run_state (Cluster_reconcileNormal E) s"
  using assms
  by (simp add: Cluster_dispatch_def ensureOwnershipID_def clusterOwnershipID_def HandleDeletion_live
      EnsureFinalizer_def)

lemma run_k8sUpdateCluster:
  obtains r y where "run_state (k8sUpdateCluster E) s =
    (r, s\<lparr>calls := calls s @ [KUpdateCluster (cur s)], cur := y\<rparr>)"
proof (cases "e_cluster E (calls s) (KUpdateCluster (cur s))")
  case (Inl e)
  then show ?thesis by (intro that [of "Some e" "cur s"]) (simp add: k8sUpdateCluster_def)
next
  case (Inr x)
  then show ?thesis by (intro that [of None x]) (simp add: k8sUpdateCluster_def)
qed

text \<open>Otherwise a live cluster is only updated, with the owner ID and the finalizer, and comes back.\<close>

lemma cluster_dispatch_unready:
  assumes "clusterLive (cur s)" and "\<not> (clusterOwned (cur s) \<and> clusterProtected (cur s))"
  obtains x where "calls (stateAfter (Cluster_dispatch E) s) = calls s @ [KUpdateCluster x]"
    and "clusterLive x" and "clusterProtected x"
    and "clusterOwnershipID (Some x) =
      (if clusterOwned (cur s) then clusterOwnershipID (Some (cur s)) else e_uuid E (calls s))"
    and "\<And>y. e_cluster E (calls s) (KUpdateCluster x) = Inr y \<Longrightarrow>
      run_state (Cluster_dispatch E) s = (requeueAfter 1, s\<lparr>calls := calls s @ [KUpdateCluster x], cur := y\<rparr>)"
proof -
  define s1 where "s1 = (if clusterOwned (cur s) then s else s\<lparr>cur := (cur s)\<lparr>cl_Meta := (cl_Meta (cur s))
      \<lparr>om_Annotations := mput clusterOwnershipIDAnnotation (e_uuid E (calls s))
         (om_Annotations (cl_Meta (cur s)))\<rparr>\<rparr>\<rparr>)"
  have own: "run_state (ensureOwnershipID clusterOps E clusterOwnershipIDAnnotation) s =
      (Inr (\<not> clusterOwned (cur s)), s1)"
    by (simp add: s1_def ensureOwnershipID_def clusterOwnershipID_def modMeta_def)
  have s1: "calls s1 = calls s" "clusterLive (cur s1)" "clusterProtected (cur s1) = clusterProtected (cur s)"
      "clusterOwnershipID (Some (cur s1)) =
        (if clusterOwned (cur s) then clusterOwnershipID (Some (cur s)) else e_uuid E (calls s))"
    using assms(1) by (simp_all add: s1_def clusterOwnershipID_def hasFinalizer_def)
  show ?thesis
  proof (cases "clusterProtected (cur s)")
    case True
    obtain r y where "run_state (k8sUpdateCluster E) s1 =
        (r, s1\<lparr>calls := calls s1 @ [KUpdateCluster (cur s1)], cur := y\<rparr>)"
      by (rule run_k8sUpdateCluster)
    then have "calls (stateAfter (Cluster_dispatch E) s) = calls s @ [KUpdateCluster (cur s1)]"
      using assms True own s1
      by (cases r) (simp_all add: Cluster_dispatch_def HandleDeletion_live EnsureFinalizer_def stateAfter_def)
    moreover have "run_state (Cluster_dispatch E) s =
        (requeueAfter 1, s\<lparr>calls := calls s @ [KUpdateCluster (cur s1)], cur := y\<rparr>)"
      if "e_cluster E (calls s) (KUpdateCluster (cur s1)) = Inr y" for y
      using assms True own s1 that
      by (simp add: Cluster_dispatch_def HandleDeletion_live EnsureFinalizer_def k8sUpdateCluster_def s1_def)
    ultimately show ?thesis
      using True s1 by (intro that) simp_all
  next
    case False
    let ?s2 = "s1\<lparr>cur := cur s1\<lparr>cl_Meta := withFinalizer clusterFinalizer (cl_Meta (cur s1))\<rparr>\<rparr>"
    obtain r y where "run_state (k8sUpdateCluster E) ?s2 =
        (r, ?s2\<lparr>calls := calls ?s2 @ [KUpdateCluster (cur ?s2)], cur := y\<rparr>)"
      by (rule run_k8sUpdateCluster)
    then have called: "calls (stateAfter (Cluster_dispatch E) s) = calls s @ [KUpdateCluster (cur ?s2)]"
      using assms(1) False own s1
      by (cases r) (simp_all add: Cluster_dispatch_def HandleDeletion_live EnsureFinalizer_def
        modMeta_def stateAfter_def)
    have "run_state (Cluster_dispatch E) s =
        (requeueAfter 1, s\<lparr>calls := calls s @ [KUpdateCluster (cur ?s2)], cur := y\<rparr>)"
      if "e_cluster E (calls s) (KUpdateCluster (cur ?s2)) = Inr y" for y
      using assms(1) False own s1 that
      by (simp add: Cluster_dispatch_def HandleDeletion_live EnsureFinalizer_def modMeta_def
          k8sUpdateCluster_def s1_def)
    then show ?thesis
      by (rule that [OF called, rotated 3]) (use s1 in \<open>simp_all add: clusterOwnershipID_def withFinalizer_def hasFinalizer_def\<close>)
  qed
qed

lemma cluster_dispatch_deleting:
  assumes "\<not> clusterLive (cur s)"
  shows "run_state (Cluster_dispatch E) s =
    (case run_state (HandleDeletion clusterOps (k8sUpdateCluster E) clusterFinalizer (cleanupResources E)) s of
       ((_, Some e), t) \<Rightarrow>
         (if errIs e CloudResourcesDeletingM then requeueAfter requeueClusterShort else failWith e, t)
     | ((_, None), t) \<Rightarrow> (finished, t))"
proof -
  obtain r t where "run_state (HandleDeletion clusterOps (k8sUpdateCluster E) clusterFinalizer
      (cleanupResources E)) s = ((True, r), t)"
    by (rule HandleDeletion_result [of clusterOps s]) (use assms in auto)
  then show ?thesis
    using assms by (auto simp: Cluster_dispatch_def split: option.splits)
qed

lemma cluster_dispatch_deleting_state:
  assumes "\<not> clusterLive (cur s)"
  shows "stateAfter (Cluster_dispatch E) s =
    stateAfter (HandleDeletion clusterOps (k8sUpdateCluster E) clusterFinalizer (cleanupResources E)) s"
  using cluster_dispatch_deleting [OF assms, of E]
  by (simp add: stateAfter_def split: prod.splits option.splits)

text \<open>What dispatch does to a cluster, in terms of its three cases.\<close>

lemma cluster_dispatch_emits:
  assumes update: "\<And>x. P (KUpdateCluster x)"
    and cleanup: "\<not> clusterLive c \<Longrightarrow> clusterProtected c \<Longrightarrow>
      state_io_rel (fromRel c (emitRel P)) (cleanupResources E)"
    and normal: "clusterLive c \<Longrightarrow> clusterOwned c \<Longrightarrow> clusterProtected c \<Longrightarrow>
      state_io_rel (fromRel c (emitRel P)) (Cluster_reconcileNormal E)"
  shows "state_io_rel (fromRel c (emitRel P)) (Cluster_dispatch E)"
  unfolding state_io_rel_def fromRel_def
proof (intro allI impI)
  fix s :: "EvrocCluster cst"
  assume c: "cur s = c"
  consider (ready) "clusterLive c" "clusterOwned c" "clusterProtected c"
    | (unready) "clusterLive c" "\<not> (clusterOwned c \<and> clusterProtected c)" | (deleting) "\<not> clusterLive c"
    by blast
  then show "emitRel P s (snd (run_state (Cluster_dispatch E) s))"
  proof cases
    case ready
    then show ?thesis
      using normal c cluster_dispatch_ready [of s E] by (auto simp: state_io_rel_def fromRel_def)
  next
    case unready
    with c obtain x where "calls (stateAfter (Cluster_dispatch E) s) = calls s @ [KUpdateCluster x]"
      using cluster_dispatch_unready [of s E thesis for thesis] by blast
    then show ?thesis
      using update by (simp add: emitRel_def stateAfter_def)
  next
    case deleting
    have "emits P (RemoveFinalizer clusterOps (k8sUpdateCluster E) clusterFinalizer)"
      unfolding k8sUpdateCluster_def by (intro emits_RemoveFinalizer go_rules update)
    then have "state_io_rel (fromRel c (emitRel P))
        (HandleDeletion clusterOps (k8sUpdateCluster E) clusterFinalizer (cleanupResources E))"
      unfolding HandleDeletion_def using deleting
      by (intro emit.from_getCur emit.from_if emit.from_return emit.from_onError_then
          emit.keeps_return emit.keeps_onError cleanup) simp_all
    then show ?thesis
      using c deleting cluster_dispatch_deleting_state [of s E]
      by (simp add: state_io_rel_def fromRel_def stateAfter_def)
  qed
qed

section \<open>Reconcile\<close>

text \<open>The calls before dispatch: none of them writes to the cloud.\<close>

fun clusterPrelude :: "Call \<Rightarrow> bool" where
  "clusterPrelude (KGetCluster _) = True"
| "clusterPrelude (KGetCapiCluster _) = True"
| "clusterPrelude (KGetSecret _) = True"
| "clusterPrelude (KStatusCluster _) = True"
| "clusterPrelude (SdkNewClient _) = True"
| "clusterPrelude (SdkUseCatalog _) = True"
| "clusterPrelude _ = False"

lemma prelude_paused: "emits clusterPrelude (Cluster_pausedBranch E)"
  unfolding Cluster_pausedBranch_def k8s_defs by (intro go_rules emits_ops) simp

lemma prelude_credentialFailure: "emits clusterPrelude (Cluster_credentialFailure E err)"
  unfolding Cluster_credentialFailure_def Let_def k8s_defs by (intro go_rules emits_ops) simp

text \<open>Before dispatch the status is written only with other conditions.\<close>

definition withConditions :: "EvrocCluster \<Rightarrow> EvrocCluster \<Rightarrow> bool" where
  "withConditions c x \<longleftrightarrow> (\<exists>cs. x = Cluster_SetConditions c cs)"

lemma calls_paused:
  "\<exists>x. withConditions (cur s) x \<and> calls (snd (run_state (Cluster_pausedBranch E) s)) = calls s @ [KStatusCluster x]"
  by (auto simp: Cluster_pausedBranch_def setClusterCondition_def k8sStatusCluster_def withConditions_def
      split: option.split sum.split)

lemma calls_credentialFailure:
  "\<exists>x. withConditions (cur s) x \<and>
     calls (snd (run_state (Cluster_credentialFailure E err) s)) = calls s @ [KStatusCluster x]"
  by (auto simp: Cluster_credentialFailure_def setClusterCondition_def k8sStatusCluster_def withConditions_def
      Let_def split: option.split sum.split)

lemma cluster_afterFetch_emits:
  assumes prelude: "\<And>k. clusterPrelude k \<Longrightarrow> (\<And>x. k = KStatusCluster x \<Longrightarrow> withConditions c x) \<Longrightarrow> P k"
    and dispatch: "\<not> HasPausedAnnotation (cl_Meta c) \<Longrightarrow>
      state_io_rel (fromRel c (emitRel P)) (Cluster_dispatch E)"
  shows "state_io_rel (fromRel c (emitRel P)) (Cluster_afterFetch E)"
proof -
  have status: "state_io_rel (fromRel c (emitRel P)) k"
    if one: "\<And>s. \<exists>x. withConditions (cur s) x \<and> calls (snd (run_state k s)) = calls s @ [KStatusCluster x]"
    for k :: "(EvrocCluster, 'a) go"
    unfolding state_io_rel_def fromRel_def
  proof (intro allI impI)
    fix s :: "EvrocCluster cst"
    assume "cur s = c"
    then obtain x where "withConditions c x" "calls (snd (run_state k s)) = calls s @ [KStatusCluster x]"
      using one by blast
    then show "emitRel P s (snd (run_state k s))"
      using prelude [of "KStatusCluster x"] by (simp add: emitRel_def)
  qed
  note paused = status [OF calls_paused] and failure = status [OF calls_credentialFailure]
  have active: "state_io_rel (fromRel c (emitRel P)) (Cluster_active E)" if "\<not> HasPausedAnnotation (cl_Meta c)"
    unfolding Cluster_active_def
    by (intro emit.from_getCur emit.from_onError failure emits_ops frames_ops dispatch that prelude) simp_all
  show ?thesis
  proof (cases "HasPausedAnnotation (cl_Meta c)")
    case True
    then have "run_state (Cluster_afterFetch E) s = run_state (Cluster_pausedBranch E) s" if "cur s = c" for s
      using that by (simp add: Cluster_afterFetch_def IsPaused_def)
    then show ?thesis
      using paused by (simp add: state_io_rel_def fromRel_def)
  next
    case False
    then show ?thesis
      unfolding Cluster_afterFetch_def
      by (intro emit.from_bind emit.from_if paused active emits_ops frames_ops prelude) simp_all
  qed
qed

lemma cluster_reconcile_fetched:
  assumes "e_cluster E [] (KGetCluster req) = Inr c"
  shows "run_state (Cluster_Reconcile E req) (startOf zeroCluster) =
    run_state (Cluster_afterFetch E) \<lparr>cur = c, calls = [KGetCluster req]\<rparr>"
  using assms by (simp add: Cluster_Reconcile_def k8sGetCluster_def startOf_def)

text \<open>A cluster that cannot be fetched is left alone.\<close>

lemma cluster_reconcile_unfetched:
  assumes "e_cluster E [] (KGetCluster req) = Inl err"
  shows "run_state (Cluster_Reconcile E req) (startOf zeroCluster) =
    ((0, ignoreNotFound err), \<lparr>cur = zeroCluster, calls = [KGetCluster req]\<rparr>)"
  using assms by (simp add: Cluster_Reconcile_def k8sGetCluster_def startOf_def)

abbreviation clusterCalls :: "Env \<Rightarrow> Key \<Rightarrow> Call list" where
  "clusterCalls E req \<equiv> emitted (Cluster_Reconcile E req) (startOf zeroCluster)"

lemma cluster_emitted:
  assumes fetch: "e_cluster E [] (KGetCluster req) = Inr c"
    and P: "state_io_rel (fromRel c (emitRel P)) (Cluster_afterFetch E)"
    and get: "P (KGetCluster req)" and k: "k \<in> set (clusterCalls E req)"
  shows "P k"
proof -
  let ?s = "\<lparr>cur = c, calls = [KGetCluster req]\<rparr>"
  have "emitRel P ?s (snd (run_state (Cluster_afterFetch E) ?s))"
    using P by (simp add: state_io_rel_def fromRel_def)
  then show ?thesis
    using k get cluster_reconcile_fetched [OF fetch] by (auto simp: emitted_def emitRel_def)
qed

section \<open>The deletion\<close>

text \<open>Deletes as \<open>teardownJudge\<close> says, updates once nothing is left.\<close>

definition clusterReleaseJudge :: "Env \<Rightarrow> EvrocCluster \<Rightarrow> Call list \<Rightarrow> Call \<Rightarrow> bool" where
  "clusterReleaseJudge E c h k \<longleftrightarrow>
     teardownJudge E c h k \<and> (\<forall>x. k = KUpdateCluster x \<longrightarrow> clusterGone E c h)"

lemma clusterReleaseJudge_prelude: "clusterPrelude k \<Longrightarrow> clusterReleaseJudge E c h k"
  by (cases k) (simp_all add: clusterReleaseJudge_def)

lemma emits_cleanupResources:
  assumes "\<And>k n. P (SdkGet k n)" and "\<And>k sel. P (SdkList k sel)" and "\<And>k n. P (SdkDelete k n)"
  shows "emits P (cleanupResources E)"
  unfolding cleanupResources_def cleanupDrivers_def cleanupLB_def tearDownLB_def cleanupSGs_def Let_def
  by (intro go_rules emits_deleteTolerant emits_LoadBalancerService_Delete emits_ops assms)

lemma justifies_cluster_release:
  "state_io_rel (fromRel c (justRel (clusterReleaseJudge E c) h))
     (HandleDeletion clusterOps (k8sUpdateCluster E) clusterFinalizer (cleanupResources E))"
  unfolding state_io_rel_def fromRel_def
proof (intro allI impI)
  fix s :: "EvrocCluster cst"
  assume c: "cur s = c"
  let ?J = "clusterReleaseJudge E c"
  obtain r t where run: "run_state (cleanupResources E) s = (r, t)"
    by fastforce
  have upd: "justifies (\<lambda>h k. \<not> (\<exists>x. k = KUpdateCluster x)) h (cleanupResources E)"
    by (rule emits_justifies [OF emits_cleanupResources [of "\<lambda>k. \<not> (\<exists>x. k = KUpdateCluster x)"]]) simp_all
  have "justRel (teardownJudge E c) h s t"
    using justifies_cleanupResources [of c E h] c run by (auto simp: state_io_rel_def fromRel_def dest: spec [of _ s])
  moreover have "justRel (\<lambda>h k. \<not> (\<exists>x. k = KUpdateCluster x)) h s t"
    using upd run by (metis snd_conv state_io_rel_def)
  ultimately have st: "justRel ?J h s t"
    by (fastforce simp: justRel_def clusterReleaseJudge_def)
  have "justRel ?J h t (snd (run_state (RemoveFinalizer clusterOps (k8sUpdateCluster E) clusterFinalizer) t))"
    if "r = None"
  proof -
    have "clusterGone E c (calls t)"
      using cleanupResources_none [of E s t] run that c by simp
    then have "justifies ?J (calls t) (RemoveFinalizer clusterOps (k8sUpdateCluster E) clusterFinalizer)"
      unfolding k8sUpdateCluster_def
      by (intro emits_justifies [OF emits_RemoveFinalizer [where P = "\<lambda>k. \<exists>x. k = KUpdateCluster x"]] go_rules)
         (auto simp: clusterReleaseJudge_def intro: clusterGone_prefix)
    then show ?thesis
      by (simp add: state_io_rel_def justRel_def)
  qed
  then show "justRel ?J h s (snd (run_state
      (HandleDeletion clusterOps (k8sUpdateCluster E) clusterFinalizer (cleanupResources E)) s))"
    using st run
    by (cases r) (auto simp: HandleDeletion_def justRel_refl intro: justRel_trans split: prod.split option.split)
qed

lemma justifies_afterFetch:
  assumes dispatch: "state_io_rel (fromRel c (justRel J h)) (Cluster_dispatch E)"
    and prelude: "\<And>h k. clusterPrelude k \<Longrightarrow> J h k"
  shows "state_io_rel (fromRel c (justRel J h)) (Cluster_afterFetch E)"
proof -
  have pre: "justifies J h k" if "emits clusterPrelude k" for k :: "(EvrocCluster, 'a) go"
    by (rule emits_justifies [OF that]) (rule prelude)
  show ?thesis
    unfolding Cluster_afterFetch_def Cluster_active_def
    by (intro just.from_bind just.from_getCur just.from_if just.from_onError dispatch just.from_keeps [OF pre]
        prelude_paused prelude_credentialFailure pre emits_ops frames_ops) simp_all
qed

lemma cluster_judged_by:
  assumes fetch: "e_cluster E [] (KGetCluster req) = Inr c"
    and J: "state_io_rel (fromRel c (justRel J [])) (Cluster_afterFetch E)"
    and get: "\<And>h. J h (KGetCluster req)" and split: "clusterCalls E req = ys @ k # zs"
  shows "J ys k"
proof -
  let ?s = "\<lparr>cur = c, calls = [KGetCluster req]\<rparr>"
  have "justRel J [] ?s (snd (run_state (Cluster_afterFetch E) ?s))"
    using J by (simp add: state_io_rel_def fromRel_def)
  then obtain xs where xs: "calls (snd (run_state (Cluster_afterFetch E) ?s)) = [KGetCluster req] @ xs"
      "\<And>ys k zs. xs = ys @ k # zs \<Longrightarrow> J ([KGetCluster req] @ ys) k"
    by (auto simp: justRel_def)
  then have "KGetCluster req # xs = ys @ k # zs"
    using split cluster_reconcile_fetched [OF fetch] by (simp add: emitted_def)
  then show ?thesis
    using xs(2) get by (cases ys) auto
qed

lemma cluster_judged:
  assumes fetch: "e_cluster E [] (KGetCluster req) = Inr c"
    and deleting: "\<not> clusterLive c" and split: "clusterCalls E req = ys @ k # zs"
  shows "clusterReleaseJudge E c ys k"
proof (rule cluster_judged_by [OF fetch justifies_afterFetch clusterReleaseJudge_prelude split])
  show "state_io_rel (fromRel c (justRel (clusterReleaseJudge E c) [])) (Cluster_dispatch E)"
    using justifies_cluster_release [of c E "[]"] deleting cluster_dispatch_deleting_state
    by (simp add: state_io_rel_def fromRel_def stateAfter_def)
qed (simp_all add: clusterReleaseJudge_prelude)

end
