(* ===== verification/ClusterExamples.thy ===== *)
theory ClusterExamples
  imports Examples ClusterControl
begin

text \<open>
  A cluster and the worlds around it for the witnesses of the cluster properties.
\<close>

definition exampleGroups :: ClusterSecurityGroupsConfig where
  "exampleGroups = \<lparr>csg_Common = Some \<lparr>sgc_InlineSecurityGroups = [\<lparr>isg_Name = ''g'', isg_Rules = []\<rparr>],
     sgc_ExistingIDs = []\<rparr>, csg_ControlPlane = None, csg_Worker = None\<rparr>"

text \<open>A cluster with owner ID \<open>y\<close> and finalizer, one inline group, and one tracked group \<open>old\<close>.\<close>

definition liveCluster :: "int option \<Rightarrow> EvrocCluster" where
  "liveCluster deleted = exampleCluster
     \<lparr>cl_Meta := exampleMeta [] [(clusterOwnershipIDAnnotation, ''y'')] [clusterFinalizer] deleted,
      cl_Spec := (cl_Spec exampleCluster)\<lparr>cs_SecurityGroups := Some exampleGroups\<rparr>,
      cl_Status := (cl_Status exampleCluster)\<lparr>cst_Resources := Some
        (zeroClusterResources\<lparr>cr_SecurityGroups :=
           [\<lparr>msg_ID = ''old'', msg_UID = '''', msg_Managed = True, msg_Role = ''common''\<rparr>]\<rparr>)\<rparr>\<rparr>"

fun createsLB :: "Call \<Rightarrow> bool" where
  "createsLB (SdkCreate (CreateLB _)) = True"
| "createsLB _ = False"

text \<open>A cloud in which everything that is asked for works, and a load balancer is found once created.\<close>

definition clusterWorld :: "int option \<Rightarrow> Env" where
  "clusterWorld deleted = emptyWorld
     \<lparr>e_cluster := (\<lambda>_ c. case c of KGetCluster _ \<Rightarrow> Inr (liveCluster deleted) | KUpdateCluster x \<Rightarrow> Inr x
          | KStatusCluster x \<Rightarrow> Inr x | _ \<Rightarrow> Inl notFound),
      e_secret := (\<lambda>_ c. case c of
            KGetSecret k \<Rightarrow> if k_Name k = ''s'' then Inr (exampleSecret\<lparr>sec_Key := k\<rparr>) else Inl notFound
          | _ \<Rightarrow> Inr exampleSecret),
      e_ip := (\<lambda>_ _. Inr \<lparr>ip_Meta = \<lparr>md_Id = ''i'', md_Uid = ''1''\<rparr>, ip_Address = Some ''1''\<rparr>),
      e_pool := (\<lambda>_ _. Inr \<lparr>bp_Meta = \<lparr>md_Id = ''p'', md_Uid = ''1''\<rparr>, bp_BackendRefs = None\<rparr>),
      e_svc := (\<lambda>_ _. Inr \<lparr>bs_Meta = \<lparr>md_Id = ''s'', md_Uid = ''1''\<rparr>\<rparr>),
      e_route := (\<lambda>_ _. Inr \<lparr>l4_Meta = \<lparr>md_Id = ''r'', md_Uid = ''1''\<rparr>\<rparr>),
      e_lb := (\<lambda>h c. if createsLB c \<or> list_ex createsLB h
          then Inr \<lparr>lb_Meta = \<lparr>md_Id = ''l'', md_Uid = ''1''\<rparr>, lb_PublicIPRef = ''i'', lb_State = ''''\<rparr>
          else Inl notFound),
      e_sg := (\<lambda>_ c. case c of SdkCreate _ \<Rightarrow> Inr \<lparr>sg_Meta = \<lparr>md_Id = ''g'', md_Uid = ''1''\<rparr>, sg_Rules = None\<rparr>
          | _ \<Rightarrow> Inl notFound)\<rparr>"

lemma clusterWorld_fetch: "e_cluster (clusterWorld d) [] (KGetCluster k) = Inr (liveCluster d)"
  by (simp add: clusterWorld_def)

lemma liveCluster_simps:
  "om_DeletionTimestamp (cl_Meta (liveCluster d)) = d" "om_Name (cl_Meta (liveCluster d)) = ''m''"
  "clusterOwnershipID (Some (liveCluster d)) = ''y''" "\<not> cst_Ready (cl_Status (liveCluster d))"
  "ShouldManageControlPlaneEndpoint (Some (liveCluster d))"
  by (simp_all add: liveCluster_def exampleMeta_def clusterOwnershipID_def mget_def exampleCluster_def
      zeroCluster_def ShouldManageControlPlaneEndpoint_def EndpointExternal_def)

text \<open>
  The cluster being deleted, its endpoint left to the user, in a cloud that still lists a security
  group of it, and in an empty one.
\<close>

definition leanCluster :: EvrocCluster where
  "leanCluster = (liveCluster (Some 1))\<lparr>cl_Spec := (cl_Spec (liveCluster (Some 1)))
     \<lparr>cs_ControlPlaneEndpointPolicy := EndpointExternal\<rparr>\<rparr>"

definition groupWorld :: Env where
  "groupWorld = emptyWorld
     \<lparr>e_cluster := (\<lambda>_ c. case c of KGetCluster _ \<Rightarrow> Inr leanCluster | KUpdateCluster x \<Rightarrow> Inr x
          | _ \<Rightarrow> Inl notFound),
      e_secret := e_secret (clusterWorld (Some 1)),
      e_items := (\<lambda>_ c. case c of SdkList SecurityGroupK _ \<Rightarrow> Inr [\<lparr>md_Id = ''m-uid-g'', md_Uid = ''1''\<rparr>]
          | _ \<Rightarrow> Inr [])\<rparr>"

definition goneWorld :: Env where
  "goneWorld = groupWorld\<lparr>e_items := (\<lambda>_ _. Inr [])\<rparr>"

lemma leanWorlds_fetch:
  "e_cluster groupWorld [] (KGetCluster k) = Inr leanCluster"
  "e_cluster goneWorld [] (KGetCluster k) = Inr leanCluster"
  by (simp_all add: groupWorld_def goneWorld_def)

lemma leanCluster_simps:
  "om_DeletionTimestamp (cl_Meta leanCluster) = Some 1" "clusterOwnershipID (Some leanCluster) = ''y''"
  "\<not> ShouldManageControlPlaneEndpoint (Some leanCluster)"
  "hasFinalizer (cl_Meta leanCluster) clusterFinalizer"
  by (simp_all add: leanCluster_def liveCluster_simps clusterOwnershipID_def ShouldManageControlPlaneEndpoint_def)
    (simp_all add: liveCluster_def exampleMeta_def hasFinalizer_def mget_def)

text \<open>A cluster that its annotation pauses.\<close>

definition pausedCluster :: EvrocCluster where
  "pausedCluster = zeroCluster\<lparr>cl_Meta := exampleMeta [] [(PausedAnnotation, '''')] [] None\<rparr>"

definition pausedClusterWorld :: Env where
  "pausedClusterWorld = emptyWorld\<lparr>e_cluster := (\<lambda>_ _. Inr pausedCluster)\<rparr>"

lemma pausedCluster_facts:
  "e_cluster pausedClusterWorld [] (KGetCluster k) = Inr pausedCluster"
  "HasPausedAnnotation (cl_Meta pausedCluster)"
  by (simp_all add: pausedClusterWorld_def pausedCluster_def exampleMeta_def HasPausedAnnotation_def mhas_def)

end
