(* ===== verification/ClusterStatus.thy ===== *)
theory ClusterStatus
  imports ClusterControl
begin

text \<open>
  What the normal reconcile of a cluster changes on the object: the metadata only in the prefix
  annotation, the specification only in an endpoint that was not set, and the status; and
  what has to be there before the cluster becomes ready.
\<close>

section \<open>Preorders on the object\<close>

text \<open>
  A computation follows a preorder on objects when it ends with an object above the one it
  started with.
\<close>

definition objRel :: "('o \<Rightarrow> 'o \<Rightarrow> bool) \<Rightarrow> 'o cst \<Rightarrow> 'o cst \<Rightarrow> bool" where
  "objRel Q s t \<longleftrightarrow> Q (cur s) (cur t)"

abbreviation follows :: "('o \<Rightarrow> 'o \<Rightarrow> bool) \<Rightarrow> ('o, 'a) go \<Rightarrow> bool" where
  "follows Q \<equiv> state_io_rel (objRel Q)"

locale object_preorder =
  fixes Q :: "'o \<Rightarrow> 'o \<Rightarrow> bool"
  assumes Q_refl: "Q x x"
    and Q_trans: "Q x y \<Longrightarrow> Q y z \<Longrightarrow> Q x z"

sublocale object_preorder \<subseteq> object_relation "objRel Q"
  by unfold_locales (auto simp: objRel_def Q_refl intro: Q_trans)

context object_preorder
begin

lemma follows_frames: "frames v m \<Longrightarrow> (\<And>x y. v y = v x \<Longrightarrow> Q x y) \<Longrightarrow> follows Q m"
  by (simp add: state_io_rel_def frameRel_def objRel_def)

lemma follows_modCur: "(\<And>x. Q x (f x)) \<Longrightarrow> follows Q (modCur f)"
  by (simp add: state_io_rel_def objRel_def)

lemma from_modCur:
  fixes k :: "('o, 'a) go"
  assumes "Q x (g x)" and "follows Q k"
  shows "state_io_rel (fromRel x (objRel Q)) (do { modCur g; k })"
  unfolding state_io_rel_def fromRel_def objRel_def
proof (intro allI impI)
  fix s :: "'o cst"
  assume "cur s = x"
  moreover have "Q (g x) (cur (snd (run_state k (s\<lparr>cur := g x\<rparr>))))"
    using assms(2) by (auto simp: state_io_rel_def objRel_def dest: spec [of _ "s\<lparr>cur := g x\<rparr>"])
  ultimately show "Q (cur s) (cur (snd (run_state (do { modCur g; k }) s)))"
    using assms(1) by (auto intro: Q_trans)
qed

lemma follows_run: "follows Q m \<Longrightarrow> run_state m s = (x, t) \<Longrightarrow> Q (cur s) (cur t)"
  by (metis objRel_def snd_conv state_io_rel_def)

end

section \<open>Metadata and specification\<close>

definition clusterGrows :: "Env \<Rightarrow> EvrocCluster \<Rightarrow> EvrocCluster \<Rightarrow> bool" where
  "clusterGrows E x y \<longleftrightarrow>
     (cl_Meta y)\<lparr>om_Annotations := []\<rparr> = (cl_Meta x)\<lparr>om_Annotations := []\<rparr> \<and>
     (\<forall>a. a \<noteq> clusterResourcePrefixAnnotation \<longrightarrow>
        map_of (om_Annotations (cl_Meta y)) a = map_of (om_Annotations (cl_Meta x)) a) \<and>
     (mget (om_Annotations (cl_Meta x)) clusterResourcePrefixAnnotation \<noteq> '''' \<longrightarrow>
        mget (om_Annotations (cl_Meta y)) clusterResourcePrefixAnnotation =
        mget (om_Annotations (cl_Meta x)) clusterResourcePrefixAnnotation) \<and>
     (cl_Spec y)\<lparr>cs_ControlPlaneEndpoint := cs_ControlPlaneEndpoint (cl_Spec x)\<rparr> = cl_Spec x \<and>
     (cs_ControlPlaneEndpoint (cl_Spec y) \<noteq> cs_ControlPlaneEndpoint (cl_Spec x) \<longrightarrow>
        s_endpointIsZero E (cs_ControlPlaneEndpoint (cl_Spec x)) \<and>
        ae_Host (cs_ControlPlaneEndpoint (cl_Spec y)) \<noteq> [] \<and>
        ae_Port (cs_ControlPlaneEndpoint (cl_Spec y)) = 6443)"

lemma clusterGrows_refl: "clusterGrows E x x"
  by (simp add: clusterGrows_def)

lemma clusterGrows_trans:
  assumes "clusterGrows E x y" and "clusterGrows E y z"
  shows "clusterGrows E x z"
proof -
  let ?set = "\<lambda>spec. spec\<lparr>cs_ControlPlaneEndpoint := cs_ControlPlaneEndpoint (cl_Spec x)\<rparr>"
  note xy = assms(1) [unfolded clusterGrows_def] and yz = assms(2) [unfolded clusterGrows_def]
  have "(cl_Spec z)\<lparr>cs_ControlPlaneEndpoint := cs_ControlPlaneEndpoint (cl_Spec y)\<rparr> = cl_Spec y"
    using yz by blast
  from arg_cong [OF this, of ?set] have "?set (cl_Spec z) = ?set (cl_Spec y)"
    by simp
  moreover have "?set (cl_Spec y) = cl_Spec x"
    using xy by blast
  moreover have "cs_ControlPlaneEndpoint (cl_Spec z) \<noteq> cs_ControlPlaneEndpoint (cl_Spec x) \<longrightarrow>
      s_endpointIsZero E (cs_ControlPlaneEndpoint (cl_Spec x)) \<and>
      ae_Host (cs_ControlPlaneEndpoint (cl_Spec z)) \<noteq> [] \<and>
      ae_Port (cs_ControlPlaneEndpoint (cl_Spec z)) = 6443"
    using xy yz by metis
  moreover have "(cl_Meta z)\<lparr>om_Annotations := []\<rparr> = (cl_Meta x)\<lparr>om_Annotations := []\<rparr>"
    using xy yz by metis
  ultimately show ?thesis
    unfolding clusterGrows_def using xy yz by metis
qed

interpretation grow: object_preorder "clusterGrows E" for E
  by unfold_locales (rule clusterGrows_refl, erule (1) clusterGrows_trans)

lemma grow_frames: "frames (\<lambda>c. (cl_Meta c, cl_Spec c)) m \<Longrightarrow> follows (clusterGrows E) m"
  by (erule grow.follows_frames) (simp add: clusterGrows_def)

lemma grows_prefix:
  assumes "clusterResourcePrefix x = Inr (p, x')"
  shows "clusterGrows E x x'"
  using assms
  by (auto simp: clusterResourcePrefix_def Let_def setClusterResourcePrefixAnnotation_def clusterGrows_def
      split: if_splits option.splits)

lemma grows_lbName: "resolveLoadBalancerName x = Inr (n, x') \<Longrightarrow> clusterGrows E x x'"
  by (auto simp: resolveLoadBalancerName_def intro: grows_prefix split: sum.splits)

lemma grows_setEndpoint: "a \<noteq> [] \<Longrightarrow> clusterGrows E x (setEndpoint E a x)"
  by (simp add: setEndpoint_def clusterGrows_def)

lemma grows_status: "cl_Meta y = cl_Meta x \<Longrightarrow> cl_Spec y = cl_Spec x \<Longrightarrow> clusterGrows E x y"
  by (simp add: clusterGrows_def)

lemma grow_condition: "follows (clusterGrows E) (setClusterCondition E' t st sv r msg)"
  by (intro grow_frames frames_setClusterCondition) (simp add: Cluster_SetConditions_def)

lemma grow_error: "follows (clusterGrows E) (handleClusterError E' err)"
  unfolding handleClusterError_def HandleCloudError_def Let_def
  by (intro grow.keeps_rules grow_condition grow.follows_modCur grow_frames frames_invoke grows_status) simp_all

lemma frames_sgs:
  "frames v (ensureClusterSG E c p role i)" "frames v (checkExistingSG E role n)"
  "frames v (reconcileSecurityGroupSection E c p role cfg)" "frames v (deleteStaleSecurityGroups E c d)"
  "frames v (reconcileClusterSecurityGroupsOnVMs E c)"
  unfolding ensureClusterSG_def checkExistingSG_def reconcileSecurityGroupSection_def
    deleteStaleSecurityGroups_def reconcileClusterSecurityGroupsOnVMs_def touchMachine_def Let_def
  by (intro frames_rules frames_deleteTolerant frames_ops)+

lemma frames_sections: "frames v (mapEach (\<lambda>(role, config). reconcileSecurityGroupSection E c p role config) secs)"
  by (intro frames_rules frames_sgs)

lemma grow_securityGroups: "follows (clusterGrows E) (reconcileSecurityGroups E)"
proof -
  have res: "clusterGrows E x (setClusterResources f x)" for f x
    by (rule grows_status) (simp_all add: setClusterResources_def)
  have "follows (clusterGrows E) (removeAllSGs E)"
    unfolding removeAllSGs_def
    by (intro grow.keeps_rules grow_frames [OF frames_getCur] grow_frames [OF frames_sgs(4)]
        grow_frames [OF frames_sgs(5)] grow.follows_modCur res)
  moreover have "follows (clusterGrows E) (reconcileWantedSGs E cfg p)" for cfg p
    unfolding reconcileWantedSGs_def
    by (intro grow.keeps_rules grow_frames [OF frames_getCur] grow_frames [OF frames_sections]
        grow_frames [OF frames_sgs(4)] grow_frames [OF frames_sgs(5)] grow.follows_modCur res)
  moreover have "follows (clusterGrows E) (securityGroupPrefix cfg)" for cfg
    unfolding securityGroupPrefix_def
    by (intro grow.keeps_if grow.read grow.from_case_sum grow.from_return grow.from_case_prod
        grow.from_modCur grow.keeps_return) (auto intro: grows_prefix)
  ultimately show ?thesis
    unfolding reconcileSecurityGroups_def
    by (intro grow.keeps_rules grow_frames [OF frames_getCur])
qed

lemma grow_reconcileLB: "follows (clusterGrows E) (reconcileAutoCreatedLoadBalancer E n)"
proof -
  have res: "clusterGrows E x (setClusterResources f x)" for f x
    by (rule grows_status) (simp_all add: setClusterResources_def)
  show ?thesis
    unfolding reconcileAutoCreatedLoadBalancer_def useLoadBalancer_def
    by (intro grow.keeps_rules grow_frames [OF frames_getCur] grow_frames [OF frames_getOrCreateLB]
        grow_condition grow.follows_modCur res grows_setEndpoint)
qed

lemma grow_ensureEndpoint: "follows (clusterGrows E) (ensureEndpoint E)"
  unfolding ensureEndpoint_def early_def
  by (intro grow.read grow.from_if grow.from_return grow.from_case_sum grow.from_case_prod grow.from_modCur
      grow.keeps_rules grow_reconcileLB grow_error) (auto intro: grows_lbName)

lemma grow_body: "follows (clusterGrows E) (reconcileClusterBody E)"
  unfolding reconcileClusterBody_def
  by (intro grow_condition grow_ensureEndpoint grow_securityGroups grow_error grow.keeps_bind grow.keeps_onError
      grow_frames [OF frames_getCur] grow_frames [OF frames_ensureCredentialSecretCopy] grow.follows_modCur
      grow.keeps_return grows_status)
     (simp_all add: reconcileFailureDomains_def storeNetworkStatus_def markProvisioned_def)

section \<open>Becoming ready\<close>

text \<open>The load balancer is recorded with its address, reported ready, and behind the endpoint.\<close>

definition lbSettled :: "Env \<Rightarrow> EvrocCluster \<Rightarrow> bool" where
  "lbSettled E c \<longleftrightarrow> (\<exists>r l. cst_Resources (cl_Status c) = Some r \<and> cr_LoadBalancer r = Some l \<and>
     mlb_Address l \<noteq> '''' \<and>
     (s_endpointIsZero E (cs_ControlPlaneEndpoint (cl_Spec c)) \<longrightarrow>
        cs_ControlPlaneEndpoint (cl_Spec c) = \<lparr>ae_Host = mlb_Address l, ae_Port = 6443\<rparr>)) \<and>
     (\<exists>d. conditionOf LoadBalancerReadyCondition (Cluster_GetConditions c) = Some d \<and> c_Status d = ConditionTrue)"

text \<open>The same of a record that has a property besides.\<close>

definition lbSettledBy :: "Env \<Rightarrow> (ManagedLoadBalancer \<Rightarrow> bool) \<Rightarrow> EvrocCluster \<Rightarrow> bool" where
  "lbSettledBy E Q c \<longleftrightarrow> (\<exists>r l. cst_Resources (cl_Status c) = Some r \<and> cr_LoadBalancer r = Some l \<and>
     Q l \<and> mlb_Address l \<noteq> '''' \<and>
     (s_endpointIsZero E (cs_ControlPlaneEndpoint (cl_Spec c)) \<longrightarrow>
        cs_ControlPlaneEndpoint (cl_Spec c) = \<lparr>ae_Host = mlb_Address l, ae_Port = 6443\<rparr>)) \<and>
     (\<exists>d. conditionOf LoadBalancerReadyCondition (Cluster_GetConditions c) = Some d \<and> c_Status d = ConditionTrue)"

lemma lbSettled_by: "lbSettledBy E Q c \<Longrightarrow> lbSettled E c"
  by (auto simp: lbSettledBy_def lbSettled_def)

lemma lbSettledBy_mono: "lbSettledBy E P c \<Longrightarrow> (\<And>l. P l \<Longrightarrow> Q l) \<Longrightarrow> lbSettledBy E Q c"
  unfolding lbSettledBy_def by blast

text \<open>
  What the cloud answered of the load balancer \<open>n\<close>: it exists under the recorded identity, it is
  ready, and the recorded address is that of its public IP, read right after it.
\<close>

definition lbAnswered :: "Env \<Rightarrow> string \<Rightarrow> ManagedLoadBalancer \<Rightarrow> Call list \<Rightarrow> bool" where
  "lbAnswered E n l h \<longleftrightarrow> (\<exists>h1 sdk i rest. let ip = s_nameFromRef E (lb_PublicIPRef sdk) in
     h = h1 @ [SdkGet LoadBalancerK n, SdkGet PublicIPK ip] @ rest \<and>
     e_lb E h1 (SdkGet LoadBalancerK n) = Inr sdk \<and> s_lbReady E sdk \<and>
     mlb_ID l = md_Id (lb_Meta sdk) \<and> mlb_UID l = md_Uid (lb_Meta sdk) \<and>
     e_ip E (h1 @ [SdkGet LoadBalancerK n]) (SdkGet PublicIPK ip) = Inr i \<and>
     mlb_Address l = s_publicIPAddress E i)"

lemma lbAnswered_prefix: "lbAnswered E n l h \<Longrightarrow> prefix h h' \<Longrightarrow> lbAnswered E n l h'"
  unfolding lbAnswered_def prefix_def Let_def by fastforce

lemma buildLoadBalancer_answered:
  assumes "run_state (buildLoadBalancer E n) s = (Inr lb, t)" and "IsActive lb" and "lbr_Address lb \<noteq> ''''"
  shows "lbAnswered E n (managedLB lb) (calls t)"
  using assms
  by (auto simp: buildLoadBalancer_def lbAnswered_def managedLB_def IsActive_def Let_def
      split: sum.splits if_splits intro!: exI [of _ "calls s"])

text \<open>Every success of \<open>m\<close> is a success of \<open>b\<close>, its last step.\<close>

definition endsWith :: "('o, 'e + 'a) go \<Rightarrow> ('o, 'e + 'a) go \<Rightarrow> bool" where
  "endsWith b m \<longleftrightarrow> (\<forall>s x t. run_state m s = (Inr x, t) \<longrightarrow> (\<exists>u. run_state b u = (Inr x, t)))"

lemma endsWith_refl: "endsWith b b"
  by (auto simp: endsWith_def)

lemma endsWith_error: "endsWith b (ret (Inl e))"
  by (simp add: endsWith_def)

lemma endsWith_onResult:
  assumes "\<And>e. endsWith b (g e)" and "\<And>x. endsWith b (k x)"
  shows "endsWith b (onResult m g k)"
  unfolding endsWith_def
proof (intro allI impI)
  fix s x t
  assume "run_state (onResult m g k) s = (Inr x, t)"
  then show "\<exists>u. run_state b u = (Inr x, t)"
    using assms by (auto simp: endsWith_def split: prod.splits sum.splits)
qed

lemma endsWith_pass: "endsWith b m \<Longrightarrow> endsWith b (onResult m (\<lambda>e. ret (Inl (f e))) (\<lambda>x. ret (Inr x)))"
  by (auto simp: endsWith_def split: prod.splits sum.splits)

lemma endsWith_if: "endsWith b m \<Longrightarrow> endsWith b k \<Longrightarrow> endsWith b (if c then m else k)"
  by simp

text \<open>A load balancer that is got or created is read at the end.\<close>

lemma getOrCreateLB_reads: "endsWith (buildLoadBalancer E n) (getOrCreateLB E c n)"
proof -
  have create: "endsWith (buildLoadBalancer E (lcr_Name q)) (LoadBalancerService_Create E (Some q))" for q
    unfolding LoadBalancerService_Create_def lbSubmit_def Let_def option.case
    by (intro endsWith_onResult endsWith_if endsWith_refl endsWith_error)
  have "lcr_Name (buildLoadBalancerCreateRequest c n) = n"
    by (simp add: buildLoadBalancerCreateRequest_def Let_def)
  then have created: "endsWith (buildLoadBalancer E n) (LoadBalancerService_Create E (Some (buildLoadBalancerCreateRequest c n)))"
    using create [of "buildLoadBalancerCreateRequest c n"] by simp
  show ?thesis
    unfolding getOrCreateLB_def LoadBalancerService_Get_def endsWith_def
    using created by (auto simp: endsWith_def split: prod.splits sum.splits if_splits)
qed

lemma settled_condition:
  assumes "lbSettledBy E Q c" and "c_Type new \<noteq> LoadBalancerReadyCondition"
  shows "lbSettledBy E Q (Cluster_SetConditions c (setConditionList new (Cluster_GetConditions c)))"
  using assms clusterConds.other_condition_after_set [of LoadBalancerReadyCondition new c]
  by (auto simp: lbSettledBy_def Cluster_SetConditions_def)

lemma condition_types [simp]:
  "ReadyCondition \<noteq> LoadBalancerReadyCondition" "PausedCondition \<noteq> LoadBalancerReadyCondition"
  by (simp_all add: ReadyCondition_def PausedCondition_def LoadBalancerReadyCondition_def)

lemma maintains_settled_condition:
  assumes "t \<noteq> LoadBalancerReadyCondition"
  shows "maintains (lbSettledBy E Q) P (setClusterCondition E t st sv r msg)"
  unfolding setClusterCondition_def
  by (intro inv.keeps_rules maintains_ask maintains_modCur settled_condition) (simp_all add: assms)

lemma useLoadBalancer_settles:
  assumes "lbr_Address lb \<noteq> ''''" and "Q (managedLB lb)"
  shows "\<exists>t. run_state (useLoadBalancer E lb) s = (Inr 0, t) \<and> lbSettledBy E Q (cur t)"
proof -
  let ?x = "setClusterResources (\<lambda>r. r\<lparr>cr_LoadBalancer := Some (managedLB lb)\<rparr>)
    (setEndpoint E (lbr_Address lb) (cur s))"
  let ?new = "\<lparr>c_Type = LoadBalancerReadyCondition, c_Status = ConditionTrue, c_Severity = SeverityNone,
      c_LastTransitionTime = e_now E (calls s), c_Reason = LoadBalancerReadyReason,
      c_Message = ''Load balancer is active''\<rparr>"
  let ?y = "Cluster_SetConditions ?x (setConditionList ?new (Cluster_GetConditions ?x))"
  have "run_state (useLoadBalancer E lb) s = (Inr 0, s\<lparr>cur := ?y\<rparr>)"
    using assms by (simp add: useLoadBalancer_def setClusterCondition_def)
  moreover have "\<exists>d. conditionOf LoadBalancerReadyCondition (Cluster_GetConditions ?y) = Some d \<and>
      c_Status d = ConditionTrue"
    using clusterConds.condition_after_set [of ?new ?x] by (auto split: option.splits)
  then have "lbSettledBy E Q ?y"
    using assms
    by (simp add: lbSettledBy_def Cluster_SetConditions_def setClusterResources_def setEndpoint_def managedLB_def)
  ultimately show ?thesis
    by simp
qed

lemma useLoadBalancer_calls: "run_state (useLoadBalancer E lb) u = (r, t) \<Longrightarrow> calls t = calls u"
  by (auto simp: useLoadBalancer_def setClusterCondition_def split: if_splits)

lemma reconcileLB_settles:
  assumes "run_state (reconcileAutoCreatedLoadBalancer E n) s = (Inr 0, t)"
  shows "lbSettledBy E (\<lambda>l. lbAnswered E n l (calls t)) (cur t)"
proof -
  obtain lb u where lb: "lbr_Address lb \<noteq> ''''" "IsActive lb" "run_state (useLoadBalancer E lb) u = (Inr 0, t)"
      "run_state (getOrCreateLB E (cur s) n) s = (Inr lb, u)"
    using assms
    by (auto simp: reconcileAutoCreatedLoadBalancer_def setClusterCondition_def split: prod.splits sum.splits if_splits)
  obtain v where "run_state (buildLoadBalancer E n) v = (Inr lb, u)"
    using getOrCreateLB_reads [of E n "cur s"] lb(4) unfolding endsWith_def by blast
  then have "lbAnswered E n (managedLB lb) (calls t)"
    using buildLoadBalancer_answered lb(1,2) useLoadBalancer_calls [OF lb(3)] by metis
  then show ?thesis
    using useLoadBalancer_settles [OF lb(1), of "\<lambda>l. lbAnswered E n l (calls t)" E u] lb(3) by auto
qed

lemma ensureEndpoint_settles:
  assumes run: "run_state (ensureEndpoint E) s = (None, t)" and managed: "ShouldManageControlPlaneEndpoint (Some (cur s))"
  obtains n where "lbNameOf (cur s) = Some n" and "lbSettledBy E (\<lambda>l. lbAnswered E n l (calls t)) (cur t)"
proof -
  obtain n c' where name: "resolveLoadBalancerName (cur s) = Inr (n, c')"
    using run managed by (auto simp: ensureEndpoint_def split: sum.splits)
  moreover have "lbNameOf (cur s) = Some n"
    using name by (simp add: lbNameOf_def)
  moreover have "run_state (reconcileAutoCreatedLoadBalancer E n) (s\<lparr>cur := c'\<rparr>) = (Inr 0, t)"
    using run managed name
    by (auto simp: ensureEndpoint_def early_def split: prod.splits sum.splits if_splits)
  ultimately show thesis
    using that reconcileLB_settles by blast
qed

lemma settled_same:
  assumes "lbSettledBy E Q x" and "cl_Spec y = cl_Spec x" and "cl_Status y = cl_Status x"
  shows "lbSettledBy E Q y"
  using assms by (simp add: lbSettledBy_def Cluster_GetConditions_def)

lemma prefix_same_status:
  "clusterResourcePrefix x = Inr (p, x') \<Longrightarrow> cl_Spec x' = cl_Spec x \<and> cl_Status x' = cl_Status x"
  by (auto simp: clusterResourcePrefix_def Let_def setClusterResourcePrefixAnnotation_def
      split: if_splits option.splits)

lemma settled_setSGs:
  "lbSettledBy E Q x \<Longrightarrow> lbSettledBy E Q (setClusterResources (\<lambda>r. r\<lparr>cr_SecurityGroups := g\<rparr>) x)"
  by (auto simp: lbSettledBy_def setClusterResources_def Cluster_GetConditions_def)

text \<open>Steps that do not make the cluster ready, and steps that leave a settled load balancer.\<close>

definition notReadier :: "EvrocCluster \<Rightarrow> EvrocCluster \<Rightarrow> bool" where
  "notReadier x y \<longleftrightarrow> (cst_Ready (cl_Status y) \<longrightarrow> cst_Ready (cl_Status x))"

definition staysSettled :: "Env \<Rightarrow> (ManagedLoadBalancer \<Rightarrow> bool) \<Rightarrow> EvrocCluster \<Rightarrow> EvrocCluster \<Rightarrow> bool" where
  "staysSettled E Q x y \<longleftrightarrow> (lbSettledBy E Q x \<longrightarrow> lbSettledBy E Q y)"

interpretation calm: object_preorder notReadier
  by unfold_locales (auto simp: notReadier_def)

interpretation settle: object_preorder "staysSettled E Q" for E Q
  by unfold_locales (auto simp: staysSettled_def)

lemma calm_frames: "frames (\<lambda>c. cst_Ready (cl_Status c)) m \<Longrightarrow> follows notReadier m"
  by (erule calm.follows_frames) (simp add: notReadier_def)

lemma settle_frames: "frames (\<lambda>c. (cl_Spec c, cl_Status c)) m \<Longrightarrow> follows (staysSettled E Q) m"
  by (erule settle.follows_frames) (auto simp: staysSettled_def intro: settled_same)

lemma calm_condition: "follows notReadier (setClusterCondition E t st sv r msg)"
  by (intro calm_frames frames_setClusterCondition) (simp add: Cluster_SetConditions_def)

lemma calm_ensureEndpoint: "follows notReadier (ensureEndpoint E)"
proof -
  have "follows notReadier (handleClusterError E err)" for err
    unfolding handleClusterError_def HandleCloudError_def Let_def
    by (intro calm.keeps_rules calm_condition calm.follows_modCur calm_frames frames_invoke)
       (simp_all add: notReadier_def)
  moreover have "follows notReadier (reconcileAutoCreatedLoadBalancer E n)" for n
    unfolding reconcileAutoCreatedLoadBalancer_def useLoadBalancer_def
    by (intro calm.keeps_rules calm_frames [OF frames_getCur] calm_frames [OF frames_getOrCreateLB]
        calm_condition calm.follows_modCur)
       (simp_all add: notReadier_def setEndpoint_def setClusterResources_def)
  ultimately show ?thesis
    unfolding ensureEndpoint_def early_def
    by (intro calm.read calm.from_if calm.from_return calm.from_case_sum calm.from_case_prod
        calm.from_modCur calm.keeps_rules)
       (auto simp: notReadier_def resolveLoadBalancerName_def dest!: prefix_same_status split: sum.splits)
qed

lemma settle_securityGroups: "follows (staysSettled E Q) (reconcileSecurityGroups E)"
proof -
  have sgs: "staysSettled E Q x (setClusterResources (\<lambda>r. r\<lparr>cr_SecurityGroups := g\<rparr>) x)" for x g
    by (simp add: staysSettled_def settled_setSGs)
  have "follows (staysSettled E Q) (removeAllSGs E)"
    unfolding removeAllSGs_def
    by (intro settle.keeps_rules settle_frames [OF frames_getCur] settle_frames [OF frames_sgs(4)]
        settle_frames [OF frames_sgs(5)] settle.follows_modCur sgs)
  moreover have "follows (staysSettled E Q) (reconcileWantedSGs E cfg p)" for cfg p
    unfolding reconcileWantedSGs_def
    by (intro settle.keeps_rules settle_frames [OF frames_getCur] settle_frames [OF frames_sections]
        settle_frames [OF frames_sgs(4)] settle_frames [OF frames_sgs(5)] settle.follows_modCur sgs)
  moreover have "follows (staysSettled E Q) (securityGroupPrefix cfg)" for cfg
    unfolding securityGroupPrefix_def
    by (intro settle.keeps_if settle.read settle.from_case_sum settle.from_return settle.from_case_prod
        settle.from_modCur settle.keeps_return)
       (auto simp: staysSettled_def dest: prefix_same_status intro: settled_same)
  ultimately show ?thesis
    unfolding reconcileSecurityGroups_def
    by (intro settle.keeps_rules settle_frames [OF frames_getCur])
qed

text \<open>The first steps, as one computation.\<close>

lemma finalCur_error: "\<not> cst_Ready (cl_Status (cur (snd (run_state (handleClusterError E err) s))))"
  by (simp add: handleClusterError_def HandleCloudError_def Let_def setClusterCondition_def
      Cluster_SetConditions_def)

lemma markProvisioned_settled: "lbSettledBy E Q x \<Longrightarrow> lbSettledBy E Q (markProvisioned x)"
  by (simp add: lbSettledBy_def markProvisioned_def Cluster_GetConditions_def)

lemma run_finish:
  assumes "lbSettledBy E Q (cur s)"
  shows "lbSettledBy E Q (cur (snd (run_state (do { modCur markProvisioned;
    setClusterCondition E ReadyCondition ConditionTrue SeverityNone ClusterReadyReason ''''; ret finished }) s)))"
proof -
  let ?s = "s\<lparr>cur := markProvisioned (cur s)\<rparr>"
  have "maintains (lbSettledBy E Q) (\<lambda>_. True)
      (setClusterCondition E ReadyCondition ConditionTrue SeverityNone ClusterReadyReason '''')"
    by (rule maintains_settled_condition) simp
  then have "invRel (lbSettledBy E Q) (\<lambda>_. True) ?s (snd (run_state
      (setClusterCondition E ReadyCondition ConditionTrue SeverityNone ClusterReadyReason '''') ?s))"
    by (simp add: state_io_rel_def)
  then show ?thesis
    using assms by (auto simp: invRel_def markProvisioned_settled split: prod.split)
qed

lemma run_start:
  obtains y where "cst_Ready (cl_Status (cur y)) = cst_Ready (cl_Status (cur s))"
    and "cl_Spec (cur y) = cl_Spec (cur s)" and "cl_Meta (cur y) = cl_Meta (cur s)"
    and "cst_Resources (cl_Status (cur y)) = cst_Resources (cl_Status (cur s))"
    and "run_state (reconcileClusterBody E) s = run_state (onError (ensureEndpoint E) ret
      (onError (reconcileSecurityGroups E) (handleClusterError E)
         (do { modCur markProvisioned;
            setClusterCondition E ReadyCondition ConditionTrue SeverityNone ClusterReadyReason '''';
            ret finished }))) y"
proof -
  obtain s1 where s1: "run_state (setClusterCondition E PausedCondition ConditionFalse SeverityNone
      ''Reconciling'' ''Reconciliation is active'') s = ((), s1)"
      "cst_Ready (cl_Status (cur s1)) = cst_Ready (cl_Status (cur s))" "cl_Spec (cur s1) = cl_Spec (cur s)"
      "cl_Meta (cur s1) = cl_Meta (cur s)" "cst_Resources (cl_Status (cur s1)) = cst_Resources (cl_Status (cur s))"
    by (simp add: setClusterCondition_def Cluster_SetConditions_def)
  obtain e s2 where s2: "run_state (ensureCredentialSecretCopy E (cur s1)) s1 = (e, s2)"
    by fastforce
  have "cur s2 = cur s1"
    using run_frames [OF frames_ensureCredentialSecretCopy [where v = "\<lambda>x. x"] s2] .
  then show ?thesis
    using s1 s2
    by (intro that [of "s2\<lparr>cur := storeNetworkStatus (reconcileFailureDomains (cur s2))\<rparr>"])
       (simp_all add: reconcileClusterBody_def storeNetworkStatus_def reconcileFailureDomains_def)
qed

lemma emits_after_endpoint:
  "emits (\<lambda>_. True) (onError (reconcileSecurityGroups E) (handleClusterError E)
     (do { modCur markProvisioned;
        setClusterCondition E ReadyCondition ConditionTrue SeverityNone ClusterReadyReason ''''; ret finished }))"
  unfolding reconcileSecurityGroups_def removeAllSGs_def reconcileWantedSGs_def
    reconcileSecurityGroupSection_def securityGroupPrefix_def ensureClusterSG_def checkExistingSG_def
    deleteStaleSecurityGroups_def reconcileClusterSecurityGroupsOnVMs_def touchMachine_def Let_def
  by (intro go_rules emits_deleteTolerant emits_handleClusterError emits_ops TrueI)

lemma lbNameOf_kept:
  assumes "cl_Meta y = cl_Meta x" and "cst_Resources (cl_Status y) = cst_Resources (cl_Status x)"
  shows "lbNameOf y = lbNameOf x"
proof -
  have "recoveredPrefix y = recoveredPrefix x"
    using assms(2) by (simp add: recoveredPrefix_def)
  then show ?thesis
    using assms(1) by (simp add: lbNameOf_def resolveLoadBalancerName_def clusterResourcePrefix_def Let_def split: option.split)
qed

lemma ready_needs_lb:
  assumes run: "run_state (reconcileClusterBody E) s = (res, t)"
    and before: "\<not> cst_Ready (cl_Status (cur s))" and after: "cst_Ready (cl_Status (cur t))"
    and managed: "ShouldManageControlPlaneEndpoint (Some (cur s))"
  obtains n where "lbNameOf (cur s) = Some n" and "lbSettledBy E (\<lambda>l. lbAnswered E n l (calls t)) (cur t)"
proof -
  let ?last = "do { modCur markProvisioned;
      setClusterCondition E ReadyCondition ConditionTrue SeverityNone ClusterReadyReason ''''; ret finished }"
  let ?rest = "onError (reconcileSecurityGroups E) (handleClusterError E) ?last"
  obtain y where y: "cst_Ready (cl_Status (cur y)) = cst_Ready (cl_Status (cur s))"
      "cl_Spec (cur y) = cl_Spec (cur s)" "cl_Meta (cur y) = cl_Meta (cur s)"
      "cst_Resources (cl_Status (cur y)) = cst_Resources (cl_Status (cur s))"
      "run_state (reconcileClusterBody E) s = run_state (onError (ensureEndpoint E) ret ?rest) y"
    by (rule run_start [of s E])
  have y_managed: "ShouldManageControlPlaneEndpoint (Some (cur y))"
    using managed y(2) by (simp add: ShouldManageControlPlaneEndpoint_def)
  obtain r u where u: "run_state (ensureEndpoint E) y = (r, u)"
    by fastforce
  have "\<not> cst_Ready (cl_Status (cur u))"
    using calm.follows_run [OF calm_ensureEndpoint u] before y(1) by (simp add: notReadier_def)
  then have r: "r = None"
    using run after y(5) u by (cases r) auto
  then have rest: "run_state ?rest u = (res, t)"
    using run y(5) u by simp
  obtain n where n: "lbNameOf (cur y) = Some n" "lbSettledBy E (\<lambda>l. lbAnswered E n l (calls u)) (cur u)"
    by (rule ensureEndpoint_settles [OF u [unfolded r] y_managed])
  obtain r2 v where v: "run_state (reconcileSecurityGroups E) u = (r2, v)"
    by fastforce
  have v_settled: "lbSettledBy E (\<lambda>l. lbAnswered E n l (calls u)) (cur v)"
    using settle.follows_run [OF settle_securityGroups v] n(2) by (simp add: staysSettled_def)
  have "r2 = None"
  proof (cases r2)
    case (Some err)
    then show ?thesis
      using finalCur_error [of E err v] after rest v by simp
  qed simp
  then have settled: "lbSettledBy E (\<lambda>l. lbAnswered E n l (calls u)) (cur t)"
    using run_finish [OF v_settled] rest v by simp
  have "emitRel (\<lambda>_. True) u (snd (run_state ?rest u))"
    using emits_after_endpoint [of E] unfolding state_io_rel_def by (rule spec)
  then have "prefix (calls u) (calls t)"
    unfolding rest by (auto simp: emitRel_def)
  then have "lbAnswered E n l (calls u) \<Longrightarrow> lbAnswered E n l (calls t)" for l
    by (rule lbAnswered_prefix [rotated])
  then have "lbSettledBy E (\<lambda>l. lbAnswered E n l (calls t)) (cur t)"
    by (rule lbSettledBy_mono [OF settled])
  then show thesis
    using that n(1) lbNameOf_kept [OF y(3,4)] by simp
qed

section \<open>The patch\<close>

text \<open>Every patch compares the fetched cluster with what the normal reconcile made of it.\<close>

definition patchOf :: "Env \<Rightarrow> EvrocCluster \<Rightarrow> EvrocCluster \<Rightarrow> EvrocCluster \<Rightarrow> bool" where
  "patchOf E c b a \<longleftrightarrow> b = c \<and>
     (\<exists>s res t. cur s = c \<and> run_state (reconcileClusterBody E) s = (res, t) \<and> a = cur t)"

abbreviation patchesOnly :: "Env \<Rightarrow> EvrocCluster \<Rightarrow> Call \<Rightarrow> bool" where
  "patchesOnly E c k \<equiv> \<forall>b a. k = KPatchCluster b a \<longrightarrow> patchOf E c b a"

text \<open>What follows the copy of the credentials writes neither the cluster nor a secret.\<close>

fun stageCall :: "Call \<Rightarrow> bool" where
  "stageCall (KPatchCluster _ _) \<longleftrightarrow> False"
| "stageCall (KUpdateCluster _) \<longleftrightarrow> False"
| "stageCall (KStatusCluster _) \<longleftrightarrow> False"
| "stageCall (KCreateSecret _) \<longleftrightarrow> False"
| "stageCall (KUpdateSecret _) \<longleftrightarrow> False"
| "stageCall _ \<longleftrightarrow> True"

definition afterCopy :: "Env \<Rightarrow> (EvrocCluster, outcome) go" where
  "afterCopy E = do {
     modCur reconcileFailureDomains;
     modCur storeNetworkStatus;
     onError (ensureEndpoint E) ret
       (onError (reconcileSecurityGroups E) (handleClusterError E)
         (do {
            modCur markProvisioned;
            setClusterCondition E ReadyCondition ConditionTrue SeverityNone ClusterReadyReason '''';
            ret finished })) }"

lemma emits_afterCopy:
  assumes "\<And>k. stageCall k \<Longrightarrow> P k"
  shows "emits P (afterCopy E)"
proof -
  have "emits P (getOrCreateLB E c n)" for c n
    unfolding getOrCreateLB_def by (intro go_rules emits_ops emits_Create_named assms) simp_all
  moreover have "emits P (ensureClusterSG E c p role i)" for c p role i
    unfolding ensureClusterSG_def Let_def by (intro go_rules emits_ops assms) simp_all
  moreover have "emits P (checkExistingSG E role n)" for role n
    unfolding checkExistingSG_def by (intro go_rules emits_ops assms) simp_all
  moreover have "emits P (deleteStaleSecurityGroups E c d)" for c d
    unfolding deleteStaleSecurityGroups_def by (intro go_rules emits_deleteTolerant emits_ops assms) simp_all
  moreover have "emits P (reconcileClusterSecurityGroupsOnVMs E c)" for c
    unfolding reconcileClusterSecurityGroupsOnVMs_def touchMachine_def by (intro go_rules assms) simp_all
  moreover have "emits P (handleClusterError E err)" for err
    by (intro emits_handleClusterError assms) simp_all
  ultimately show ?thesis
    unfolding afterCopy_def ensureEndpoint_def early_def reconcileAutoCreatedLoadBalancer_def
      useLoadBalancer_def reconcileSecurityGroups_def removeAllSGs_def reconcileWantedSGs_def
      reconcileSecurityGroupSection_def securityGroupPrefix_def
    by (intro go_rules emits_ops assms) simp_all
qed

lemma emits_body:
  assumes "\<And>k. stageCall k \<Longrightarrow> P k" and "\<And>s. P (KCreateSecret s)" and "\<And>s. P (KUpdateSecret s)"
  shows "emits P (reconcileClusterBody E)"
proof -
  have "emits P (afterCopy E)"
    by (rule emits_afterCopy) (rule assms(1))
  then show ?thesis
    unfolding reconcileClusterBody_def afterCopy_def [symmetric] by (intro go_rules emits_ops assms) simp_all
qed

text \<open>The stages before, on a cluster that is known.\<close>

lemma run_body_after_paused:
  obtains y where "calls y = calls s" and "cl_Meta (cur y) = cl_Meta (cur s)"
    and "cl_Spec (cur y) = cl_Spec (cur s)"
    and "run_state (reconcileClusterBody E) s =
      run_state (do { copyErr \<leftarrow> ensureCredentialSecretCopy E (cur y); afterCopy E }) y"
  by (rule that [of "snd (run_state (setClusterCondition E PausedCondition ConditionFalse SeverityNone
      ''Reconciling'' ''Reconciliation is active'') s)"])
     (simp_all add: reconcileClusterBody_def afterCopy_def setClusterCondition_def Cluster_SetConditions_def)

lemma patches_normal: "state_io_rel (fromRel c (emitRel (patchesOnly E c))) (Cluster_reconcileNormal E)"
  unfolding state_io_rel_def fromRel_def
proof (intro allI impI)
  fix s :: "EvrocCluster cst"
  assume s: "cur s = c"
  obtain res t where run: "run_state (reconcileClusterBody E) s = (res, t)"
    by fastforce
  have "emits (patchesOnly E c) (reconcileClusterBody E)"
    by (rule emits_body) auto
  then have "emitRel (patchesOnly E c) s (snd (run_state (reconcileClusterBody E) s))"
    unfolding state_io_rel_def by (rule spec)
  then have "emitRel (patchesOnly E c) s t"
    by (simp only: run snd_conv)
  then obtain xs where xs: "calls t = calls s @ xs" "\<forall>k\<in>set xs. patchesOnly E c k"
    unfolding emitRel_def by blast
  have patch: "patchOf E c c (cur t)"
    unfolding patchOf_def using s run by blast
  show "emitRel (patchesOnly E c) s (snd (run_state (Cluster_reconcileNormal E) s))"
  proof (cases "s_newPatchHelper E c")
    case None
    then have "calls (snd (run_state (Cluster_reconcileNormal E) s)) =
        calls s @ (xs @ [KPatchCluster c (cur t)])"
      using s run xs(1) by (simp add: Cluster_reconcileNormal_def)
    moreover have "\<forall>k\<in>set (xs @ [KPatchCluster c (cur t)]). patchesOnly E c k"
      using xs(2) patch by simp
    ultimately show ?thesis
      unfolding emitRel_def by blast
  next
    case (Some err)
    then show ?thesis
      using s by (simp add: Cluster_reconcileNormal_def emitRel_refl)
  qed
qed

lemma patch_is:
  assumes fetch: "e_cluster E [] (KGetCluster req) = Inr c" and k: "KPatchCluster b a \<in> set (clusterCalls E req)"
  shows "patchOf E c b a"
proof -
  have cleanup: "state_io_rel (fromRel c (emitRel (patchesOnly E c))) (cleanupResources E)"
    by (intro emit.from_keeps emits_cleanupResources) simp_all
  have "state_io_rel (fromRel c (emitRel (patchesOnly E c))) (Cluster_dispatch E)"
    by (intro cluster_dispatch_emits cleanup patches_normal) simp_all
  then have "state_io_rel (fromRel c (emitRel (patchesOnly E c))) (Cluster_afterFetch E)"
    by (rule cluster_afterFetch_emits [rotated]) (auto elim: clusterPrelude.elims)
  then have "patchesOnly E c (KPatchCluster b a)"
    by (rule cluster_emitted [OF fetch _ _ k]) simp
  then show ?thesis
    by simp
qed

text \<open>And it is the last thing the reconcile asks for: the history before it is the normal reconcile's.\<close>

definition patchJudge :: "Env \<Rightarrow> EvrocCluster \<Rightarrow> Call list \<Rightarrow> Call \<Rightarrow> bool" where
  "patchJudge E c h k \<longleftrightarrow> (\<forall>b a. k = KPatchCluster b a \<longrightarrow> b = c \<and>
     (\<exists>s res t. cur s = c \<and> run_state (reconcileClusterBody E) s = (res, t) \<and> a = cur t \<and> h = calls t))"

abbreviation noPatch :: "Call \<Rightarrow> bool" where
  "noPatch k \<equiv> \<forall>b a. k \<noteq> KPatchCluster b a"

lemma emitRel_justRel:
  assumes "emitRel P s t" and "\<And>h k. P k \<Longrightarrow> J h k"
  shows "justRel J h s t"
  unfolding justRel_def
proof
  obtain xs where "calls t = calls s @ xs" "\<forall>k\<in>set xs. P k"
    using assms(1) by (auto simp: emitRel_def)
  then show "\<exists>xs. calls t = calls s @ xs \<and> (\<forall>ys k zs. xs = ys @ k # zs \<longrightarrow> J (calls s @ ys) k)"
    using assms(2) by (intro exI [of _ xs]) auto
qed

lemma justifies_patch_normal: "state_io_rel (fromRel c (justRel (patchJudge E c) h)) (Cluster_reconcileNormal E)"
  unfolding state_io_rel_def fromRel_def
proof (intro allI impI)
  fix s :: "EvrocCluster cst"
  assume s: "cur s = c"
  obtain res t where run: "run_state (reconcileClusterBody E) s = (res, t)"
    by fastforce
  have "emits noPatch (reconcileClusterBody E)"
    by (rule emits_body) auto
  then have "emitRel noPatch s (snd (run_state (reconcileClusterBody E) s))"
    unfolding state_io_rel_def by (rule spec)
  then have body: "justRel (patchJudge E c) h s t"
    unfolding run snd_conv by (rule emitRel_justRel) (simp add: patchJudge_def)
  have "patchJudge E c (calls t) (KPatchCluster c (cur t))"
    unfolding patchJudge_def using s run by blast
  then have "justRel (patchJudge E c) h t (t\<lparr>calls := calls t @ [KPatchCluster c (cur t)]\<rparr>)"
    by (auto simp: justRel_def Cons_eq_append_conv)
  then have whole: "justRel (patchJudge E c) h s (t\<lparr>calls := calls t @ [KPatchCluster c (cur t)]\<rparr>)"
    by (rule justRel_trans [OF body])
  show "justRel (patchJudge E c) h s (snd (run_state (Cluster_reconcileNormal E) s))"
  proof (cases "s_newPatchHelper E c")
    case None
    then show ?thesis
      using s run whole by (simp add: Cluster_reconcileNormal_def)
  next
    case (Some err)
    then show ?thesis
      using s by (simp add: Cluster_reconcileNormal_def justRel_refl)
  qed
qed

lemma patch_at:
  assumes fetch: "e_cluster E [] (KGetCluster req) = Inr c"
    and split: "clusterCalls E req = ys @ KPatchCluster b a # zs"
  obtains s res t where "b = c" and "cur s = c" and "run_state (reconcileClusterBody E) s = (res, t)"
    and "a = cur t" and "ys = calls t"
proof -
  have "state_io_rel (fromRel c (justRel (patchJudge E c) [])) (Cluster_dispatch E)"
  proof (cases "clusterLive c \<and> clusterOwned c \<and> clusterProtected c")
    case True
    then show ?thesis
      using justifies_patch_normal [of c E "[]"] cluster_dispatch_ready
      by (simp add: state_io_rel_def fromRel_def)
  next
    case False
    have "state_io_rel (fromRel c (emitRel noPatch)) (cleanupResources E)"
      by (intro emit.from_keeps emits_cleanupResources) simp_all
    then have "state_io_rel (fromRel c (emitRel noPatch)) (Cluster_dispatch E)"
      using False by (intro cluster_dispatch_emits) simp_all
    then show ?thesis
      unfolding state_io_rel_def fromRel_def
      by (auto intro!: emitRel_justRel [where P = noPatch] simp: patchJudge_def)
  qed
  moreover have "patchJudge E c h k" if "clusterPrelude k" for h k
    using that by (cases k) (simp_all add: patchJudge_def)
  ultimately have "state_io_rel (fromRel c (justRel (patchJudge E c) [])) (Cluster_afterFetch E)"
    by (rule justifies_afterFetch)
  then have "patchJudge E c ys (KPatchCluster b a)"
    by (rule cluster_judged_by [OF fetch _ _ split]) (simp add: patchJudge_def)
  then show thesis
    using that unfolding patchJudge_def by blast
qed

section \<open>Secrets\<close>

lemma patch_grows:
  assumes "e_cluster E [] (KGetCluster req) = Inr c" and "KPatchCluster b a \<in> set (clusterCalls E req)"
  shows "b = c \<and> clusterGrows E c a"
proof -
  obtain s res t where "b = c" "cur s = c" "run_state (reconcileClusterBody E) s = (res, t)" "a = cur t"
    using patch_is [OF assms] by (auto simp: patchOf_def)
  then show ?thesis
    using grow.follows_run [OF grow_body] by blast
qed

text \<open>The API server answers a read with the secret that was asked for.\<close>

definition answersKey :: "Env \<Rightarrow> bool" where
  "answersKey E \<longleftrightarrow> (\<forall>h k s. e_secret E h (KGetSecret k) = Inr s \<longrightarrow> sec_Key s = k)"

fun secretWriteAt :: "Key \<Rightarrow> Call \<Rightarrow> bool" where
  "secretWriteAt k (KCreateSecret s) \<longleftrightarrow> sec_Key s = k"
| "secretWriteAt k (KUpdateSecret s) \<longleftrightarrow> sec_Key s = k"
| "secretWriteAt k _ \<longleftrightarrow> True"

lemma emits_copy_key:
  assumes server: "answersKey E"
  shows "emits (secretWriteAt (credentialSecretCopyKey x)) (ensureCredentialSecretCopy E x)"
proof -
  let ?P = "secretWriteAt (credentialSecretCopyKey x)"
  have "emits ?P (syncCopy E x src)" for src
    unfolding syncCopy_def Let_def
  proof (rule emits_onResult_after)
    fix s :: "('o, Call) st" and found t
    assume "run_state (invoke (e_secret E) (KGetSecret (credentialSecretCopyKey x))) s = (Inr found, t)"
    then have "sec_Key found = credentialSecretCopyKey x"
      using server by (auto simp: answersKey_def)
    then show "emits ?P (if \<not> sameData (sec_Data found) (sec_Data (desiredCopy x src)) then
        onResult (invoke (e_secret E) (KUpdateSecret (found\<lparr>sec_Data := sec_Data (desiredCopy x src)\<rparr>)))
          (\<lambda>err. ret (Some (wrapErr ''failed to update credential secret copy'' err))) (\<lambda>_. ret None)
        else ret None)"
      by (intro go_rules) simp
  qed (intro go_rules; simp add: desiredCopy_def)+
  then show ?thesis
    unfolding ensureCredentialSecretCopy_def Let_def by (intro go_rules) simp_all
qed

lemma secret_writes_at:
  assumes server: "answersKey E" and fetch: "e_cluster E [] (KGetCluster req) = Inr c"
    and k: "k \<in> set (clusterCalls E req)"
  shows "secretWriteAt (credentialSecretCopyKey c) k"
proof -
  let ?P = "secretWriteAt (credentialSecretCopyKey c)"
  have stage: "stageCall k \<Longrightarrow> ?P k" for k
    by (cases k) simp_all
  have "emitRel ?P s (snd (run_state (reconcileClusterBody E) s))" if "cur s = c" for s
  proof -
    obtain y where y: "calls y = calls s" "cl_Meta (cur y) = cl_Meta (cur s)"
        "run_state (reconcileClusterBody E) s =
          run_state (do { copyErr \<leftarrow> ensureCredentialSecretCopy E (cur y); afterCopy E }) y"
      by (rule run_body_after_paused [of s E])
    have "credentialSecretCopyKey (cur y) = credentialSecretCopyKey c"
      using y(2) that by (simp add: credentialSecretCopyKey_def)
    then have "emits ?P (do { copyErr \<leftarrow> ensureCredentialSecretCopy E (cur y); afterCopy E })"
      using emits_copy_key [OF server, of "cur y"] by (intro emit.keeps_bind emits_afterCopy stage) simp_all
    then have "emitRel ?P y (snd (run_state (do { copyErr \<leftarrow> ensureCredentialSecretCopy E (cur y); afterCopy E }) y))"
      unfolding state_io_rel_def by (rule spec)
    then show ?thesis
      unfolding y(3) emitRel_def y(1) .
  qed
  then have "state_io_rel (fromRel c (emitRel ?P)) (reconcileClusterBody E)"
    by (simp add: state_io_rel_def fromRel_def)
  then have normal: "state_io_rel (fromRel c (emitRel ?P)) (Cluster_reconcileNormal E)"
    unfolding Cluster_reconcileNormal_def
    by (intro emit.from_getCur emit.from_case_option emit.from_return emit.from_then go_rules) simp_all
  have "state_io_rel (fromRel c (emitRel ?P)) (cleanupResources E)"
    by (intro emit.from_keeps emits_cleanupResources) simp_all
  then have "state_io_rel (fromRel c (emitRel ?P)) (Cluster_dispatch E)"
    by (intro cluster_dispatch_emits normal) simp_all
  then have "state_io_rel (fromRel c (emitRel ?P)) (Cluster_afterFetch E)"
    by (rule cluster_afterFetch_emits [rotated]) (auto elim: clusterPrelude.elims)
  then show ?thesis
    by (rule cluster_emitted [OF fetch _ _ k]) simp
qed

end
