(* ===== verification/ClusterProgress.thy ===== *)
theory ClusterProgress
  imports ClusterStatus
begin

text \<open>
  Progress of a cluster's deletion: in a cloud in which nothing of the cluster is left, one
  reconcile drops the finalizer.
\<close>

section \<open>An emptied cloud\<close>

definition allGone :: "'a reply \<Rightarrow> SdkKind \<Rightarrow> bool" where
  "allGone reply k \<longleftrightarrow> (\<forall>h n. \<exists>e. reply h (SdkGet k n) = Inl e \<and> errIs e NotFoundM)"

definition emptied :: "Env \<Rightarrow> bool" where
  "emptied E \<longleftrightarrow> (\<forall>h k sel. e_items E h (SdkList k sel) = Inr []) \<and>
     (\<forall>h k n e. e_err E h (SdkDelete k n) = Some e \<longrightarrow> errIs e NotFoundM) \<and>
     allGone (e_lb E) LoadBalancerK \<and> allGone (e_route E) L4RouteK \<and> allGone (e_svc E) BackendServiceK \<and>
     allGone (e_pool E) BackendPoolK \<and> allGone (e_ip E) PublicIPK \<and>
     (\<forall>h x. \<exists>y. e_cluster E h (KUpdateCluster x) = Inr y)"

lemma emptied_items: "emptied E \<Longrightarrow> e_items E h (SdkList k sel) = Inr []"
  by (simp add: emptied_def)

lemma deleteOwned_empty: "emptied E \<Longrightarrow> resultOf (deleteOwned E i k) s = Inr False"
  by (simp add: deleteOwned_def resultOf_def emptied_items)

lemma run_deleteOwned_empty:
  "emptied E \<Longrightarrow> run_state (deleteOwned E i k) s =
     (Inr False, s\<lparr>calls := calls s @ [SdkList (snd k) (driverSelector i)]\<rparr>)"
  by (simp add: deleteOwned_def emptied_items)

lemma deleteKinds_empty: "emptied E \<Longrightarrow> fst (run_state (deleteKinds E i p ks) s) = Inr p"
  by (induction ks arbitrary: s) (simp_all add: run_deleteOwned_empty)

lemma cleanupDrivers_empty:
  assumes "emptied E"
  shows "fst (run_state (cleanupDrivers E i dd) s) = ([], None)"
proof -
  obtain t where "run_state (deleteKinds E i False driverKinds)
      (s\<lparr>calls := calls s @ [SdkList VirtualMachineK (ownerSelector LabelClusterID i)]\<rparr>) = (Inr False, t)"
    using deleteKinds_empty [OF assms] by (metis prod.collapse)
  then show ?thesis
    using assms
    by (simp add: cleanupDrivers_def Cleanup_def cleanupDisks_def emptied_items run_deleteOwned_empty)
qed

lemma lbDel_empty: "emptied E \<Longrightarrow> run_state (lbDel E kn k n) s = (None, s\<lparr>calls := calls s @ [SdkDelete k n]\<rparr>)"
  by (auto simp: lbDel_def emptied_def IsNotFoundError_def split: option.split)

lemma LoadBalancerService_Delete_empty:
  "emptied E \<Longrightarrow> fst (run_state (LoadBalancerService_Delete E lb i ip) s) = None"
  by (simp add: LoadBalancerService_Delete_def lbResourceKinds_def lbDelKind_def lbListByOwner_def
      lbDel_empty emptied_items)

lemma anyPresent_empty:
  assumes "\<And>x h. x \<in> set checks \<Longrightarrow> \<exists>e. fst (snd x) h (snd (snd x)) = Some e \<and> errIs e NotFoundM"
  shows "fst (run_state (anyPresent checks) s) = Inr False"
  using assms
proof (induction checks arbitrary: s)
  case (Cons x checks)
  obtain name fn c where x: "x = (name, fn, c)"
    by (cases x)
  obtain e where "fn (calls s) c = Some e" "errIs e NotFoundM"
    using Cons.prems [of x "calls s"] x by auto
  then show ?case
    using Cons.IH [of "s\<lparr>calls := calls s @ [c]\<rparr>"] Cons.prems x by (auto simp: IsNotFoundError_def)
qed simp

lemma noneOwned_empty: "emptied E \<Longrightarrow> fst (run_state (noneOwned E i ks) s) = Inr True"
  by (induction ks arbitrary: s) (simp_all add: lbListByOwner_def emptied_items)

lemma probe_gone_all: "allGone reply k \<Longrightarrow> \<exists>e. fst (snd (probe reply k n)) h (snd (snd (probe reply k n))) =
    Some e \<and> errIs e NotFoundM"
  unfolding allGone_def probe_def by (drule spec [of _ h], drule spec [of _ n]) auto

lemma DeletionComplete_empty:
  assumes "emptied E"
  shows "fst (run_state (LoadBalancerService_DeletionComplete E lb i ip) s) = Inr True"
proof -
  have "fst (run_state (lbExists E lb ip) s) = Inr False"
    unfolding lbExists_def using assms
    by (intro anyPresent_empty) (auto simp: lbChecks_def emptied_def intro!: probe_gone_all split: if_splits)
  then obtain t where "run_state (lbExists E lb ip) s = (Inr False, t)"
    by (metis prod.collapse)
  then show ?thesis
    using noneOwned_empty [OF assms] by (simp add: LoadBalancerService_DeletionComplete_def)
qed

lemma tearDownLB_empty:
  assumes "emptied E"
  shows "fst (run_state (tearDownLB E c i lb) s) = ([], None)"
proof -
  obtain t where del: "run_state (LoadBalancerService_Delete E lb i (ownsLBPublicIP c)) s = (None, t)"
    using LoadBalancerService_Delete_empty [OF assms] by (metis prod.collapse)
  obtain u where "run_state (LoadBalancerService_DeletionComplete E lb i (ownsLBPublicIP c)) t = (Inr True, u)"
    using DeletionComplete_empty [OF assms] by (metis prod.collapse)
  then show ?thesis
    using del by (simp add: tearDownLB_def deleteTolerant_def joinErrs_def Let_def)
qed

lemma cleanupLB_empty:
  assumes "emptied E" and "lbNameOf (cur s) = Some n"
  shows "fst (run_state (cleanupLB E i) s) = ([], None)"
  using assms tearDownLB_empty [OF assms(1)]
  by (auto simp: cleanupLB_def lbNameOf_def split: sum.splits)

lemma cleanupSGs_empty: "emptied E \<Longrightarrow> fst (run_state (cleanupSGs E i) s) = ([], None)"
  by (simp add: cleanupSGs_def SecurityGroupService_ListByOwner_def
      SecurityGroupService_listNamesBySelector_def emptied_items joinErrs_def)

section \<open>The deletion of the cluster\<close>

lemma cleanupResources_empty:
  assumes E: "emptied E" and owned: "clusterOwned (cur s)"
    and name: "ShouldManageControlPlaneEndpoint (Some (cur s)) \<Longrightarrow> lbNameOf (cur s) \<noteq> None"
  shows "fst (run_state (cleanupResources E) s) = None"
proof -
  let ?i = "clusterOwnershipID (Some (cur s))"
  let ?dd = "mget (om_Annotations (cl_Meta (cur s))) DeleteCSIDisksAnnotation = ''true''"
  obtain t where drivers: "run_state (cleanupDrivers E ?i ?dd) s = (([], None), t)"
    using cleanupDrivers_empty [OF E] by (metis prod.collapse)
  have t: "cur t = cur s"
    by (rule run_frames [OF frames_cleanupDrivers drivers, of "\<lambda>x. x", simplified])
  obtain u where lb: "run_state (if ShouldManageControlPlaneEndpoint (Some (cur s))
      then cleanupLB E ?i else ret ([], None)) t = (([], None), u)"
  proof (cases "ShouldManageControlPlaneEndpoint (Some (cur s))")
    case True
    then have "fst (run_state (cleanupLB E ?i) t) = ([], None)"
      using cleanupLB_empty [OF E, of t] name t by auto
    then obtain u where "run_state (cleanupLB E ?i) t = (([], None), u)"
      by (cases "run_state (cleanupLB E ?i) t") simp
    then show ?thesis
      using True that by simp
  qed (use that in simp)
  obtain v where "run_state (cleanupSGs E ?i) u = (([], None), v)"
    using cleanupSGs_empty [OF E] by (metis prod.collapse)
  then show ?thesis
    using owned drivers lb by (simp add: cleanupResources_def Let_def cleanupVerdict_None)
qed

text \<open>The cleanup changes nothing of the object but its prefix annotation.\<close>

lemma frames_lbDelKind: "frames v (lbDelKind E i k)"
  unfolding lbDelKind_def lbDel_def lbListByOwner_def by (intro frames_rules)

lemma frames_concatErrs: "frames v (concatErrs (lbDelKind E i) ks)"
  by (induction ks) (auto intro!: frames_rules frames_lbDelKind)

lemma frames_anyPresent: "frames v (anyPresent checks)"
  by (induction checks rule: anyPresent.induct) (auto intro!: frames_rules)

lemma frames_noneOwned: "frames v (noneOwned E i ks)"
  by (induction ks) (auto simp: lbListByOwner_def intro!: frames_rules)

lemma frames_tearDownLB: "frames v (tearDownLB E c i lb)"
  unfolding tearDownLB_def LoadBalancerService_Delete_def LoadBalancerService_DeletionComplete_def
    lbExists_def lbDel_def Let_def
  by (intro frames_rules frames_deleteTolerant frames_concatErrs frames_anyPresent frames_noneOwned)

lemma frames_cleanupSGs: "frames v (cleanupSGs E i)"
  unfolding cleanupSGs_def by (intro frames_rules frames_deleteTolerant frames_ops)

lemma grow_cleanupResources: "follows (clusterGrows E) (cleanupResources E')"
proof -
  have "follows (clusterGrows E) (cleanupLB E' i)" for i
    unfolding cleanupLB_def
    by (intro grow.read grow.from_case_sum grow.from_return grow.from_case_prod grow.from_modCur
        grow_frames frames_tearDownLB) (simp add: grows_lbName)
  then show ?thesis
    unfolding cleanupResources_def Let_def
    by (intro grow.keeps_rules grow_frames [OF frames_getCur] grow_frames [OF frames_cleanupDrivers]
        grow_frames [OF frames_cleanupSGs])
qed

lemma cleanupResources_kept:
  assumes "run_state (cleanupResources E) s = (r, t)"
  shows "clusterProtected (cur t) = clusterProtected (cur s)"
proof -
  have "(cl_Meta (cur t))\<lparr>om_Annotations := []\<rparr> = (cl_Meta (cur s))\<lparr>om_Annotations := []\<rparr>"
    using grow.follows_run [OF grow_cleanupResources assms] by (simp add: clusterGrows_def)
  then have "om_Finalizers ((cl_Meta (cur t))\<lparr>om_Annotations := []\<rparr>) =
      om_Finalizers ((cl_Meta (cur s))\<lparr>om_Annotations := []\<rparr>)"
    by (rule arg_cong)
  then show ?thesis
    by (simp add: hasFinalizer_def)
qed

text \<open>The last call is the update without the finalizer, and the result is final.\<close>

lemma dispatch_empty:
  assumes E: "emptied E" and deleting: "\<not> clusterLive (cur s)" and prot: "clusterProtected (cur s)"
    and owned: "clusterOwned (cur s)"
    and name: "ShouldManageControlPlaneEndpoint (Some (cur s)) \<Longrightarrow> lbNameOf (cur s) \<noteq> None"
  obtains x where "resultOf (Cluster_dispatch E) s = finished"
    and "last (emitted (Cluster_dispatch E) s) = KUpdateCluster x" and "\<not> clusterProtected x"
proof -
  obtain t where clean: "run_state (cleanupResources E) s = (None, t)"
    using cleanupResources_empty [OF E owned name] by (metis prod.collapse)
  have kept: "clusterProtected (cur t)" and t: "prefix (calls s) (calls t)"
    using clean prot cleanupResources_kept [OF clean]
      run_emits [OF emits_cleanupResources [of "\<lambda>_. True"] clean] by simp_all
  let ?x = "(cur t)\<lparr>cl_Meta := withoutFinalizer clusterFinalizer (cl_Meta (cur t))\<rparr>"
  obtain y where "e_cluster E (calls t) (KUpdateCluster ?x) = Inr y"
    using E unfolding emptied_def by blast
  then have "run_state (RemoveFinalizer clusterOps (k8sUpdateCluster E) clusterFinalizer) t =
      (None, t\<lparr>calls := calls t @ [KUpdateCluster ?x], cur := y\<rparr>)"
    using kept by (simp add: RemoveFinalizer_def modMeta_def k8sUpdateCluster_def)
  then have run: "run_state (Cluster_dispatch E) s = (finished, t\<lparr>calls := calls t @ [KUpdateCluster ?x], cur := y\<rparr>)"
    using deleting prot clean HandleDeletion_cleaned [of clusterOps s clusterFinalizer "cleanupResources E" t]
    by (simp add: cluster_dispatch_deleting)
  show ?thesis
  proof (rule that)
    show "resultOf (Cluster_dispatch E) s = finished"
      using run by (simp add: resultOf_def)
    show "last (emitted (Cluster_dispatch E) s) = KUpdateCluster ?x"
      using run t by (auto simp: emitted_def prefix_def)
    show "\<not> clusterProtected ?x"
      by (simp add: withoutFinalizer_def hasFinalizer_def)
  qed
qed

end
