(* ===== verification/ClusterProperties.thy ===== *)
theory ClusterProperties
  imports ClusterExamples ClusterProgress
begin

text \<open>
  The properties of the cluster controller as a whole: what one \<open>Reconcile\<close> of a cluster does to
  the cloud, to the API server and to the object, for every environment.
\<close>

section \<open>Pause\<close>

text \<open>
  C34. A paused cluster, by its annotation or by its CAPI cluster, is left alone: no call to the
  cloud and no change of the object other than its status.
\<close>

theorem cluster_paused:
  assumes fetch: "e_cluster E [] (KGetCluster req) = Inr c"
    and paused: "HasPausedAnnotation (cl_Meta c) \<or>
      map_of (om_Labels (cl_Meta c)) ClusterNameLabel = Some cn \<and> cn \<noteq> '''' \<and>
      e_capiCluster E [KGetCluster req]
        (KGetCapiCluster \<lparr>k_Namespace = om_Namespace (cl_Meta c), k_Name = cn\<rparr>) = Inr cc \<and>
      cc_Paused cc = Some True"
  shows "set (clusterCalls E req) \<subseteq> {KGetCluster req} \<union> range KGetCapiCluster \<union> range KStatusCluster"
proof -
  let ?s = "\<lparr>cur = c, calls = [KGetCluster req]\<rparr>"
  obtain t where run: "run_state (IsPaused clusterOps E) ?s = (True, t)"
      and t: "\<exists>xs. calls t = [KGetCluster req] @ xs \<and> set xs \<subseteq> range KGetCapiCluster"
  proof (cases "HasPausedAnnotation (cl_Meta c)")
    case True
    then show ?thesis by (intro that [of ?s]) (simp_all add: IsPaused_def Let_def)
  next
    case False
    let ?k = "KGetCapiCluster \<lparr>k_Namespace = om_Namespace (cl_Meta c), k_Name = cn\<rparr>"
    show ?thesis
      using paused False
      by (intro that [of "?s\<lparr>calls := [KGetCluster req, ?k]\<rparr>"]) (simp_all add: IsPaused_def Let_def)
  qed
  have "emits (\<lambda>c. c \<in> range KStatusCluster) (Cluster_pausedBranch E)"
    unfolding Cluster_pausedBranch_def k8s_defs by (intro go_rules emits_ops) simp
  then obtain ys where ys: "calls (snd (run_state (Cluster_pausedBranch E) t)) = calls t @ ys"
      "set ys \<subseteq> range KStatusCluster"
    using emits_calls [of "\<lambda>c. c \<in> range KStatusCluster" "Cluster_pausedBranch E" t] by blast
  obtain xs where xs: "calls t = [KGetCluster req] @ xs" "set xs \<subseteq> range KGetCapiCluster"
    using t by blast
  have "clusterCalls E req = [KGetCluster req] @ xs @ ys"
    by (simp add: emitted_def cluster_reconcile_fetched [OF fetch] Cluster_afterFetch_def run ys(1) xs(1))
  then show ?thesis
    using xs(2) ys(2) by auto
qed

theorem cluster_paused_witness:
  "set (clusterCalls pausedClusterWorld exampleKey) \<subseteq>
    {KGetCluster exampleKey} \<union> range KGetCapiCluster \<union> range KStatusCluster"
  by (rule cluster_paused [OF pausedCluster_facts(1) disjI1 [OF pausedCluster_facts(2)]])

section \<open>Writes\<close>

text \<open>What any write of a reconcile has to satisfy.\<close>

definition clusterGuard :: "Env \<Rightarrow> EvrocCluster \<Rightarrow> Call \<Rightarrow> bool" where
  "clusterGuard E c k \<longleftrightarrow> (isCloudWrite k \<longrightarrow>
     \<not> HasPausedAnnotation (cl_Meta c) \<and> clusterOwned c \<and> clusterProtected c \<and>
     (if clusterLive c then clusterWrite E c k else \<exists>kind n. k = SdkDelete kind n))"

lemma cluster_guarded:
  assumes fetch: "e_cluster E [] (KGetCluster req) = Inr c" and k: "k \<in> set (clusterCalls E req)"
  shows "clusterGuard E c k"
proof -
  have cleanup: "state_io_rel (fromRel c (emitRel (clusterGuard E c))) (cleanupResources E)"
    if "\<not> clusterLive c" "clusterProtected c" "\<not> HasPausedAnnotation (cl_Meta c)"
  proof (cases "clusterOwned c")
    case True
    then show ?thesis
      using that by (intro emit.from_keeps emits_cleanupResources) (auto simp: clusterGuard_def)
  next
    case False \<comment> \<open>then nothing is called\<close>
    then have "stateAfter (cleanupResources E) s = s" if "cur s = c" for s
      using that by (simp add: cleanupResources_unowned)
    then show ?thesis
      by (simp add: state_io_rel_def fromRel_def stateAfter_def emitRel_refl)
  qed
  have normal: "state_io_rel (fromRel c (emitRel (clusterGuard E c))) (Cluster_reconcileNormal E)"
    if "clusterLive c" "clusterOwned c" "clusterProtected c" "\<not> HasPausedAnnotation (cl_Meta c)"
  proof -
    have "emitRel (clusterGuard E c) s t" if "emitRel (sanctioned E c) s t" for s t :: "EvrocCluster cst"
      using that \<open>clusterLive c\<close> \<open>clusterOwned c\<close> \<open>clusterProtected c\<close> \<open>\<not> HasPausedAnnotation (cl_Meta c)\<close>
      by (auto simp: emitRel_def sanctioned_def clusterGuard_def)
    then show ?thesis
      using from_reconcileNormal [of c E] by (simp add: state_io_rel_def fromRel_def)
  qed
  have "state_io_rel (fromRel c (emitRel (clusterGuard E c))) (Cluster_dispatch E)"
    if "\<not> HasPausedAnnotation (cl_Meta c)"
    using that cleanup normal by (intro cluster_dispatch_emits) (simp_all add: clusterGuard_def)
  then have "state_io_rel (fromRel c (emitRel (clusterGuard E c))) (Cluster_afterFetch E)"
    by (rule cluster_afterFetch_emits [rotated]) (auto simp: clusterGuard_def elim: clusterPrelude.elims)
  then show ?thesis
    by (rule cluster_emitted [OF fetch _ _ k]) (simp add: clusterGuard_def)
qed

text \<open>The calls of the example, evaluated once.\<close>

definition exampleSeen :: "Call list \<Rightarrow> bool" where
  "exampleSeen xs \<longleftrightarrow>
     list_ex (\<lambda>k. case k of SdkDelete kind n \<Rightarrow> kind = SecurityGroupK \<and> n = ''old'' | _ \<Rightarrow> False) xs \<and>
     list_ex (\<lambda>k. case k of SdkCreate (CreateLB r) \<Rightarrow> lbq_Name r = ''m-uid-cp-lb'' | _ \<Rightarrow> False) xs \<and>
     list_ex (\<lambda>k. case k of KPatchCluster b a \<Rightarrow> cst_Ready (cl_Status a) | _ \<Rightarrow> False) xs \<and>
     list_ex (\<lambda>k. case k of KCreateSecret _ \<Rightarrow> True | _ \<Rightarrow> False) xs"

lemma exampleSeen: "exampleSeen (clusterCalls (clusterWorld None) exampleKey)"
  by code_simp

lemma staleDelete: "SdkDelete SecurityGroupK ''old'' \<in> set (clusterCalls (clusterWorld None) exampleKey)"
proof -
  obtain k where "k \<in> set (clusterCalls (clusterWorld None) exampleKey)"
      "case k of SdkDelete kind n \<Rightarrow> kind = SecurityGroupK \<and> n = ''old'' | _ \<Rightarrow> False"
    using exampleSeen unfolding exampleSeen_def list_ex_iff by blast
  then show ?thesis
    by (auto split: Call.splits)
qed

lemma exampleLB:
  "\<exists>r. SdkCreate (CreateLB r) \<in> set (clusterCalls (clusterWorld None) exampleKey) \<and>
    lbq_Name r = ''m-uid-cp-lb''"
proof -
  obtain k where "k \<in> set (clusterCalls (clusterWorld None) exampleKey)"
      "case k of SdkCreate (CreateLB r) \<Rightarrow> lbq_Name r = ''m-uid-cp-lb'' | _ \<Rightarrow> False"
    using exampleSeen unfolding exampleSeen_def list_ex_iff by blast
  then show ?thesis
    by (auto split: Call.splits SdkRequest.splits)
qed

lemma exampleCopy: "\<exists>s. KCreateSecret s \<in> set (clusterCalls (clusterWorld None) exampleKey)"
proof -
  obtain k where "k \<in> set (clusterCalls (clusterWorld None) exampleKey)"
      "case k of KCreateSecret _ \<Rightarrow> True | _ \<Rightarrow> False"
    using exampleSeen unfolding exampleSeen_def list_ex_iff by blast
  then show ?thesis
    by (auto split: Call.splits)
qed

lemma examplePatch:
  "\<exists>b a. KPatchCluster b a \<in> set (clusterCalls (clusterWorld None) exampleKey) \<and> cst_Ready (cl_Status a)"
proof -
  obtain k where "k \<in> set (clusterCalls (clusterWorld None) exampleKey)"
      "case k of KPatchCluster b a \<Rightarrow> cst_Ready (cl_Status a) | _ \<Rightarrow> False"
    using exampleSeen unfolding exampleSeen_def list_ex_iff by blast
  then show ?thesis
    by (auto split: Call.splits)
qed

text \<open>
  C17. The controller writes to the cloud only for a cluster that it fetched unpaused, with its
  finalizer and its ownership ID already persisted; for a cluster that is being deleted every
  write is a delete, and a live one loses nothing but security groups it tracked as managed.
\<close>

theorem cluster_write_guard:
  assumes fetch: "e_cluster E [] (KGetCluster req) = Inr c"
    and k: "k \<in> set (clusterCalls E req)" and wr: "isCloudWrite k"
  shows "\<not> HasPausedAnnotation (cl_Meta c) \<and> clusterOwnershipID (Some c) \<noteq> '''' \<and>
    hasFinalizer (cl_Meta c) clusterFinalizer \<and>
    (om_DeletionTimestamp (cl_Meta c) \<noteq> None \<longrightarrow> (\<exists>kind n. k = SdkDelete kind n)) \<and>
    (\<forall>kind n. om_DeletionTimestamp (cl_Meta c) = None \<and> k = SdkDelete kind n \<longrightarrow> kind = SecurityGroupK \<and>
       (\<exists>g \<in> set (trackedClusterSGs c). msg_Managed g \<and> msg_ID g = n))"
  using cluster_guarded [OF fetch k] wr
  by (auto simp: clusterGuard_def managedSGNames_def split: if_splits)

theorem cluster_write_guard_witness:
  "\<exists>g \<in> set (trackedClusterSGs (liveCluster None)). msg_Managed g \<and> msg_ID g = ''old''"
  using cluster_write_guard [OF clusterWorld_fetch staleDelete] by (simp add: liveCluster_simps)

text \<open>
  C18. The normal reconcile refines its specification: every write to the cloud for a live cluster
  is one that \<open>clusterWrite\<close> derives from the cluster as it was fetched.
\<close>

theorem cluster_writes_specified:
  assumes fetch: "e_cluster E [] (KGetCluster req) = Inr c"
    and live: "om_DeletionTimestamp (cl_Meta c) = None"
    and k: "k \<in> set (clusterCalls E req)" and wr: "isCloudWrite k"
  shows "clusterWrite E c k"
  using cluster_guarded [OF fetch k] live wr by (simp add: clusterGuard_def)

theorem cluster_writes_specified_witness:
  "clusterWrite (clusterWorld None) (liveCluster None) (SdkDelete SecurityGroupK ''old'')"
  by (rule cluster_writes_specified [OF clusterWorld_fetch _ staleDelete]) (simp_all add: liveCluster_simps)

lemma settledPrefix_lbName: "settledPrefix c p \<Longrightarrow> lbNameOf c = Some (p @ ''-cp-lb'')"
  by (auto simp: settledPrefix_def prefixOf_def lbNameOf_def resolveLoadBalancerName_def split: sum.splits)

lemma clusterWrite_labels: "clusterWrite E c (SdkCreate r) \<Longrightarrow> requestLabels r = clusterResourceLabels c"
  by (cases r) (simp_all del: lbCreates.simps)

lemma clusterWrite_lb:
  "clusterWrite E c (SdkCreate r) \<Longrightarrow> \<nexists>g. r = CreateSecurityGroup g \<Longrightarrow> settledPrefix c p \<Longrightarrow>
     lbCreates E (buildLoadBalancerCreateRequest c (p @ ''-cp-lb'')) r"
  by (cases r) (simp_all del: lbCreates.simps)

text \<open>What is created is what the teardown looks for.\<close>

lemma clusterWrite_found:
  assumes w: "clusterWrite E c (SdkCreate r)" and owner: "CHR '','' \<notin> set (clusterOwnershipID (Some c))"
  shows "selectorMatches (ownerSelector LabelClusterID (clusterOwnershipID (Some c))) (requestLabels r) \<and>
    (\<forall>p. settledPrefix c p \<longrightarrow> lbNameOf c = Some (p @ ''-cp-lb'') \<and> (case r of
        CreateLB q \<Rightarrow> lbq_Name q = p @ ''-cp-lb''
      | CreatePublicIP n _ \<Rightarrow> n = ipName (p @ ''-cp-lb'') \<and> ownsLBPublicIP c
      | CreateBackendPool n _ \<Rightarrow> n = poolName (p @ ''-cp-lb'')
      | _ \<Rightarrow> True))"
proof -
  let ?Q = "\<lambda>p. buildLoadBalancerCreateRequest c (p @ ''-cp-lb'')"
  have "lcr_ExistingPublicIPID (?Q p) = '''' \<Longrightarrow> ownsLBPublicIP c" "lcr_Name (?Q p) = p @ ''-cp-lb''" for p
    by (simp_all add: ownsLBPublicIP_def buildLoadBalancerCreateRequest_def Let_def split: option.splits)
  then have "lbCreates E (?Q p) r \<Longrightarrow> case r of
        CreateLB q \<Rightarrow> lbq_Name q = p @ ''-cp-lb''
      | CreatePublicIP n _ \<Rightarrow> n = ipName (p @ ''-cp-lb'') \<and> ownsLBPublicIP c
      | CreateBackendPool n _ \<Rightarrow> n = poolName (p @ ''-cp-lb'')
      | _ \<Rightarrow> True" for p
    by (cases r) simp_all
  then show ?thesis
    using clusterWrite_labels [OF w] clusterWrite_lb [OF w] selects_clusterResourceLabels [OF owner]
      settledPrefix_lbName [of c] by (cases "\<exists>g. r = CreateSecurityGroup g") auto
qed

text \<open>
  What a reconcile creates for a cluster is found by its teardown: the selector over the
  ownership ID matches the labels, and the load balancer, its public IP and its backend pool have
  the names that the teardown derives.
\<close>

theorem cluster_created_is_selected:
  assumes fetch: "e_cluster E [] (KGetCluster req) = Inr c"
    and owner: "CHR '','' \<notin> set (clusterOwnershipID (Some c))"
    and k: "SdkCreate r \<in> set (clusterCalls E req)"
  shows "selectorMatches (ownerSelector LabelClusterID (clusterOwnershipID (Some c))) (requestLabels r) \<and>
    (\<forall>p. settledPrefix c p \<longrightarrow> lbNameOf c = Some (p @ ''-cp-lb'') \<and> (case r of
        CreateLB q \<Rightarrow> lbq_Name q = p @ ''-cp-lb''
      | CreatePublicIP n _ \<Rightarrow> n = ipName (p @ ''-cp-lb'') \<and> ownsLBPublicIP c
      | CreateBackendPool n _ \<Rightarrow> n = poolName (p @ ''-cp-lb'')
      | _ \<Rightarrow> True))"
proof -
  have "clusterWrite E c (SdkCreate r)"
    using cluster_guarded [OF fetch k] by (simp add: clusterGuard_def split: if_splits)
  then show ?thesis
    by (rule clusterWrite_found [OF _ owner])
qed

theorem cluster_created_is_selected_witness:
  "\<exists>r. SdkCreate r \<in> set (clusterCalls (clusterWorld None) exampleKey) \<and>
    selectorMatches (ownerSelector LabelClusterID ''y'') (requestLabels r)"
proof -
  obtain r where "SdkCreate (CreateLB r) \<in> set (clusterCalls (clusterWorld None) exampleKey)"
    using exampleLB by blast
  then show ?thesis
    using cluster_created_is_selected [OF clusterWorld_fetch, of None "CreateLB r" exampleKey]
    by (auto simp: liveCluster_simps)
qed

section \<open>Deleting\<close>

text \<open>
  C19. While a cluster is being deleted, every delete has its reason: a resource that the drivers'
  label selects, after the virtual machines of the cluster were found gone; the load balancer of
  the cluster, its public IP, or a part of it that the ownership label selects, when the
  controller manages the endpoint; or a security group that the ownership label selects.
\<close>

theorem cluster_deletion_justified:
  assumes fetch: "e_cluster E [] (KGetCluster req) = Inr c"
    and deleting: "om_DeletionTimestamp (cl_Meta c) \<noteq> None"
    and split: "clusterCalls E req = ys @ SdkDelete k n # zs"
  shows "cleanupJudge E (clusterOwnershipID (Some c)) (csiDisksRequested c) ys (SdkDelete k n) \<or>
    (ShouldManageControlPlaneEndpoint (Some c) \<and> (\<exists>lb. lbNameOf c = Some lb \<and>
       (k = LoadBalancerK \<and> n = lb \<or> k = PublicIPK \<and> ownsLBPublicIP c \<and> n = ipName lb \<or>
        k \<in> snd ` set lbResourceKinds \<and> listedByCluster E (clusterOwnershipID (Some c)) ys k n))) \<or>
    k = SecurityGroupK \<and> listedByCluster E (clusterOwnershipID (Some c)) ys k n"
  using cluster_judged [OF fetch deleting split] by (simp add: clusterReleaseJudge_def lbDeleteJudge_def)

text \<open>The calls of the two example deletions, evaluated once each.\<close>

lemma groupDelete:
  "clusterCalls groupWorld exampleKey = butlast (butlast (clusterCalls groupWorld exampleKey)) @
     SdkDelete SecurityGroupK ''m-uid-g'' # [last (clusterCalls groupWorld exampleKey)]"
  by code_simp

theorem cluster_deletion_justified_witness:
  "let ys = butlast (butlast (clusterCalls groupWorld exampleKey)) in
     listedByDriver groupWorld ''y'' ys SecurityGroupK ''m-uid-g'' \<or>
     listedByCluster groupWorld ''y'' ys SecurityGroupK ''m-uid-g''"
proof -
  have "om_DeletionTimestamp (cl_Meta leanCluster) \<noteq> None"
    by (simp add: leanCluster_simps)
  from cluster_deletion_justified [OF leanWorlds_fetch(1) this groupDelete] show ?thesis
    by (auto simp: leanCluster_simps Let_def)
qed

text \<open>
  C20. The object of a cluster that is being deleted is updated, which drops its finalizer, only
  after the cloud listed nothing of the drivers, answered every lookup of the load balancer chain
  by not found when the controller manages the endpoint, and listed no security group.
\<close>

theorem cluster_finalizer_released:
  assumes fetch: "e_cluster E [] (KGetCluster req) = Inr c"
    and deleting: "om_DeletionTimestamp (cl_Meta c) \<noteq> None"
    and split: "clusterCalls E req = ys @ KUpdateCluster x # zs"
  shows "clusterOwnershipID (Some c) \<noteq> '''' \<and>
    driversGone E (clusterOwnershipID (Some c)) (csiDisksRequested c) ys \<and>
    (ShouldManageControlPlaneEndpoint (Some c) \<longrightarrow> (\<exists>lb. lbNameOf c = Some lb \<and>
       lbChainGone E (clusterOwnershipID (Some c)) lb (ownsLBPublicIP c) ys)) \<and>
    noneListed E (ownerSelector LabelClusterID (clusterOwnershipID (Some c))) ys SecurityGroupK"
  using cluster_judged [OF fetch deleting split] by (simp add: clusterReleaseJudge_def clusterGone_def Let_def)

lemma goneRelease:
  "clusterCalls goneWorld exampleKey = butlast (clusterCalls goneWorld exampleKey) @
     KUpdateCluster (leanCluster\<lparr>cl_Meta := withoutFinalizer clusterFinalizer (cl_Meta leanCluster)\<rparr>) # []"
  by code_simp

theorem cluster_finalizer_released_witness:
  "noneListed goneWorld (ownerSelector LabelClusterID ''y'')
     (butlast (clusterCalls goneWorld exampleKey)) SecurityGroupK"
proof -
  have "om_DeletionTimestamp (cl_Meta leanCluster) \<noteq> None"
    by (simp add: leanCluster_simps)
  from cluster_finalizer_released [OF leanWorlds_fetch(2) this goneRelease] show ?thesis
    by (simp add: leanCluster_simps)
qed

section \<open>The object\<close>

text \<open>
  C21. The patch at the end of a reconcile is against the cluster as it was fetched, and changes
  outside the status only two things: the annotation with the resource prefix, and an endpoint
  that was not set, which gets a host and the port 6443.
\<close>

theorem cluster_patch_frame:
  assumes fetch: "e_cluster E [] (KGetCluster req) = Inr c"
    and k: "KPatchCluster b a \<in> set (clusterCalls E req)"
  shows "b = c \<and> (cl_Meta a)\<lparr>om_Annotations := []\<rparr> = (cl_Meta c)\<lparr>om_Annotations := []\<rparr> \<and>
    (\<forall>x. x \<noteq> clusterResourcePrefixAnnotation \<longrightarrow>
       map_of (om_Annotations (cl_Meta a)) x = map_of (om_Annotations (cl_Meta c)) x) \<and>
    (mget (om_Annotations (cl_Meta c)) clusterResourcePrefixAnnotation \<noteq> '''' \<longrightarrow>
       mget (om_Annotations (cl_Meta a)) clusterResourcePrefixAnnotation =
       mget (om_Annotations (cl_Meta c)) clusterResourcePrefixAnnotation) \<and>
    (cl_Spec a)\<lparr>cs_ControlPlaneEndpoint := cs_ControlPlaneEndpoint (cl_Spec c)\<rparr> = cl_Spec c \<and>
    (cs_ControlPlaneEndpoint (cl_Spec a) \<noteq> cs_ControlPlaneEndpoint (cl_Spec c) \<longrightarrow>
       s_endpointIsZero E (cs_ControlPlaneEndpoint (cl_Spec c)) \<and>
       ae_Host (cs_ControlPlaneEndpoint (cl_Spec a)) \<noteq> [] \<and>
       ae_Port (cs_ControlPlaneEndpoint (cl_Spec a)) = 6443)"
  using patch_grows [OF fetch k] unfolding clusterGrows_def .

theorem cluster_patch_frame_witness:
  "\<exists>b a. KPatchCluster b a \<in> set (clusterCalls (clusterWorld None) exampleKey) \<and> b = liveCluster None"
  using examplePatch cluster_patch_frame [OF clusterWorld_fetch] by blast

text \<open>
  C22. Whoever patches a cluster to ready has its active load balancer: when the controller
  manages the endpoint, the cloud answered, before the patch and in this reconcile, that the load
  balancer of the cluster's name is there and ready, and the status records it under the identity
  and with the (non-empty) address that the cloud answered, reports it ready, and an endpoint that
  the specification leaves open is that address at port 6443.
\<close>

theorem cluster_ready_after_lb:
  assumes fetch: "e_cluster E [] (KGetCluster req) = Inr c"
    and calls: "clusterCalls E req = ys @ KPatchCluster b a # zs"
    and managed: "ShouldManageControlPlaneEndpoint (Some c)"
    and old: "\<not> cst_Ready (cl_Status c)" and new: "cst_Ready (cl_Status a)"
  shows "\<exists>n. lbNameOf c = Some n \<and>
    (\<exists>r l. cst_Resources (cl_Status a) = Some r \<and> cr_LoadBalancer r = Some l \<and>
       (\<exists>h sdk i rest. let ip = s_nameFromRef E (lb_PublicIPRef sdk) in
          ys = h @ [SdkGet LoadBalancerK n, SdkGet PublicIPK ip] @ rest \<and>
          e_lb E h (SdkGet LoadBalancerK n) = Inr sdk \<and> s_lbReady E sdk \<and>
          mlb_ID l = md_Id (lb_Meta sdk) \<and> mlb_UID l = md_Uid (lb_Meta sdk) \<and>
          e_ip E (h @ [SdkGet LoadBalancerK n]) (SdkGet PublicIPK ip) = Inr i \<and>
          mlb_Address l = s_publicIPAddress E i) \<and>
       mlb_Address l \<noteq> '''' \<and>
       (s_endpointIsZero E (cs_ControlPlaneEndpoint (cl_Spec a)) \<longrightarrow>
          cs_ControlPlaneEndpoint (cl_Spec a) = \<lparr>ae_Host = mlb_Address l, ae_Port = 6443\<rparr>)) \<and>
    (\<exists>d. conditionOf LoadBalancerReadyCondition (Cluster_GetConditions a) = Some d \<and>
       c_Status d = ConditionTrue)"
proof -
  obtain s res t where run: "cur s = c" "run_state (reconcileClusterBody E) s = (res, t)" "a = cur t" "ys = calls t"
    by (rule patch_at [OF fetch calls])
  obtain n where "lbNameOf (cur s) = Some n" "lbSettledBy E (\<lambda>l. lbAnswered E n l (calls t)) (cur t)"
    by (rule ready_needs_lb [OF run(2)]) (use run managed old new in simp_all)
  then show ?thesis
    unfolding run(1,3,4) lbSettledBy_def lbAnswered_def by blast
qed

theorem cluster_ready_after_lb_witness:
  "\<exists>ys b a zs n. clusterCalls (clusterWorld None) exampleKey = ys @ KPatchCluster b a # zs \<and>
     SdkGet LoadBalancerK n \<in> set ys \<and>
     (\<exists>r l. cst_Resources (cl_Status a) = Some r \<and> cr_LoadBalancer r = Some l \<and> mlb_Address l \<noteq> '''')"
proof -
  obtain b a where ba: "KPatchCluster b a \<in> set (clusterCalls (clusterWorld None) exampleKey)"
      "cst_Ready (cl_Status a)"
    using examplePatch by blast
  then obtain ys zs where split: "clusterCalls (clusterWorld None) exampleKey = ys @ KPatchCluster b a # zs"
    by (meson split_list)
  show ?thesis
    using cluster_ready_after_lb [OF clusterWorld_fetch split liveCluster_simps(5) liveCluster_simps(4) ba(2)] split
    unfolding Let_def by (metis append_Cons in_set_conv_decomp)
qed

text \<open>
  Errors of the cloud and the retry: the cluster is marked not ready with a false Ready
  condition that carries the error's reason; a quota or permission error is returned for backoff,
  a bad request as terminal, and anything else comes back after thirty seconds.
\<close>

theorem cluster_error_policy:
  "resultOf (handleClusterError E err) s =
     (if errIs err QuotaM \<or> errIs err ForbiddenM then failWith err
      else if errIs err BadRequestM then failWith (terminalError err)
      else requeueAfter transientRequeue) \<and>
   \<not> cst_Ready (cl_Status (finalCur (handleClusterError E err) s)) \<and>
   (\<exists>c. conditionOf ReadyCondition (Cluster_GetConditions (finalCur (handleClusterError E err) s)) = Some c \<and>
      c_Status c = ConditionFalse \<and> c_Severity c = SeverityError \<and>
      c_Reason c = (if errIs err QuotaM then QuotaExceededReason
        else if errIs err ForbiddenM then InsufficientPermissionsReason
        else if errIs err BadRequestM then InvalidConfigurationReason else ClusterReconciliationFailedReason))"
proof -
  let ?c = "classifyCloudError err ClusterReconciliationFailedReason (''Failed to reconcile cluster: '' @ errMsg err)"
  let ?new = "\<lparr>c_Type = ReadyCondition, c_Status = ConditionFalse, c_Severity = SeverityError,
      c_LastTransitionTime = e_now E (calls s), c_Reason = cec_Reason ?c, c_Message = cec_Message ?c\<rparr>"
  let ?x = "(cur s)\<lparr>cl_Status := (cl_Status (cur s))\<lparr>cst_Ready := False\<rparr>\<rparr>"
  have final: "finalCur (handleClusterError E err) s =
      Cluster_SetConditions ?x (setConditionList ?new (Cluster_GetConditions ?x))"
    by (simp add: finalCur_def handleClusterError_def HandleCloudError_def Let_def setClusterCondition_def)
  have "\<exists>c. conditionOf ReadyCondition (Cluster_GetConditions (finalCur (handleClusterError E err) s)) = Some c \<and>
      c_Status c = ConditionFalse \<and> c_Severity c = SeverityError \<and> c_Reason c = cec_Reason ?c"
    unfolding final using clusterConds.condition_after_set [of ?new ?x] by (auto split: option.splits)
  moreover have "\<not> cst_Ready (cl_Status (finalCur (handleClusterError E err) s))"
    using finalCur_error by (simp add: finalCur_def)
  ultimately show ?thesis
    using resultOf_handleClusterError [of E err s] unfolding errorOutcome_def classifyCloudError_def
    by (simp split: if_splits)
qed

text \<open>
  C26. The user's credential secret is only read: every secret that a reconcile creates or updates
  is the copy that belongs to the cluster.
\<close>

theorem user_secret_untouched:
  assumes server: "answersKey E" and fetch: "e_cluster E [] (KGetCluster req) = Inr c"
    and k: "k = KCreateSecret s \<or> k = KUpdateSecret s" and called: "k \<in> set (clusterCalls E req)"
  shows "k_Name (sec_Key s) = om_Name (cl_Meta c) @ ''-evroc-credentials'' \<and>
    k_Namespace (sec_Key s) = om_Namespace (cl_Meta c)"
  using secret_writes_at [OF server fetch called] k by (auto simp: credentialSecretCopyKey_def)

theorem user_secret_untouched_witness:
  "\<exists>s. KCreateSecret s \<in> set (clusterCalls (clusterWorld None) exampleKey) \<and>
     k_Name (sec_Key s) = ''m-evroc-credentials''"
proof -
  obtain s where s: "KCreateSecret s \<in> set (clusterCalls (clusterWorld None) exampleKey)"
    using exampleCopy by blast
  have "answersKey (clusterWorld None)"
    by (simp add: answersKey_def clusterWorld_def)
  from user_secret_untouched [OF this clusterWorld_fetch _ s] show ?thesis
    using s by (auto simp: liveCluster_simps)
qed

section \<open>Progress\<close>

text \<open>
  C27. A deletion ends: in a cloud in which nothing of the cluster is left, a reconcile of a
  cluster that is being deleted finishes without requeue, and its last call is the update that
  drops the finalizer.
\<close>

theorem cluster_deletion_finishes:
  assumes gone: "emptied E" and s: "cur s = c" and deleting: "om_DeletionTimestamp (cl_Meta c) \<noteq> None"
    and prot: "hasFinalizer (cl_Meta c) clusterFinalizer" and owned: "clusterOwnershipID (Some c) \<noteq> ''''"
    and name: "ShouldManageControlPlaneEndpoint (Some c) \<Longrightarrow> lbNameOf c \<noteq> None"
  shows "resultOf (Cluster_dispatch E) s = finished \<and>
    (\<exists>x. last (emitted (Cluster_dispatch E) s) = KUpdateCluster x \<and>
       \<not> hasFinalizer (cl_Meta x) clusterFinalizer)"
  using dispatch_empty [of E s] assms by blast

theorem cluster_deletion_finishes_witness:
  "resultOf (Cluster_dispatch goneWorld) (startOf (liveCluster (Some 1))) = finished"
proof -
  have "emptied goneWorld"
    by (simp add: emptied_def allGone_def goneWorld_def groupWorld_def emptyWorld_def notFound_def)
  moreover have "hasFinalizer (cl_Meta (liveCluster (Some 1))) clusterFinalizer"
    by (simp add: liveCluster_def exampleMeta_def hasFinalizer_def)
  moreover have "lbNameOf (liveCluster (Some 1)) \<noteq> None"
    by code_simp
  ultimately show ?thesis
    using cluster_deletion_finishes [of goneWorld "startOf (liveCluster (Some 1))" "liveCluster (Some 1)"]
    by (simp add: liveCluster_simps)
qed

end
