(* ===== verification/ClusterStore.thy ===== *)
theory ClusterStore
  imports ClusterProgress
begin

text \<open>
  What a reconcile of a cluster stores through the API server, next to the cluster it fetched: a
  status with other conditions, the patch at the end of the normal case, and the updates of the
  setup and of the release.
\<close>

section \<open>The prefix over the normal reconcile\<close>

definition samePrefix :: "EvrocCluster \<Rightarrow> EvrocCluster \<Rightarrow> bool" where
  "samePrefix x y \<longleftrightarrow> (\<forall>p. settledPrefix x p \<longrightarrow> settledPrefix y p)"

interpretation steady: object_preorder samePrefix
  by unfold_locales (simp_all add: samePrefix_def)

lemma samePrefix_given:
  assumes "cl_Meta y = cl_Meta x" and "recoveredPrefix y = recoveredPrefix x"
  shows "samePrefix x y"
  using assms by (auto simp: samePrefix_def settledPrefix_def prefixOf_def clusterResourcePrefix_def Let_def
      split: option.splits if_splits)

lemma samePrefix_status:
  "cl_Meta y = cl_Meta x \<Longrightarrow> cst_Resources (cl_Status y) = cst_Resources (cl_Status x) \<Longrightarrow> samePrefix x y"
  by (rule samePrefix_given) (simp_all add: recoveredPrefix_def)

lemma samePrefix_groups: "samePrefix x (setClusterResources (\<lambda>r. r\<lparr>cr_SecurityGroups := g\<rparr>) x)"
  by (rule samePrefix_given)
     (simp_all add: setClusterResources_def recoveredPrefix_def zeroClusterResources_def split: option.split)

lemma samePrefix_noted:
  assumes "clusterResourcePrefix x = Inr (p, x')"
  shows "samePrefix x x'"
proof -
  have "settledPrefix x' q" if "settledPrefix x q" for q
  proof -
    have "p = q" "p \<noteq> ''''"
      using that assms by (simp_all add: settledPrefix_def prefixOf_def)
    moreover have "clusterResourcePrefix x' = Inr (p, x')"
      using clusterResourcePrefix_stable [OF assms] calculation by blast
    ultimately show ?thesis
      by (simp add: settledPrefix_def prefixOf_def)
  qed
  then show ?thesis
    by (simp add: samePrefix_def)
qed

lemma steady_frames: "frames (\<lambda>c. (cl_Meta c, cl_Status c)) m \<Longrightarrow> follows samePrefix m"
  by (erule steady.follows_frames) (simp add: samePrefix_status)

lemma steady_condition: "follows samePrefix (setClusterCondition E t st sv r msg)"
  unfolding setClusterCondition_def
  by (intro steady.keeps_rules steady_frames [OF frames_ask] steady.follows_modCur samePrefix_status)
     (simp_all add: Cluster_SetConditions_def)

lemma steady_error: "follows samePrefix (handleClusterError E err)"
  unfolding handleClusterError_def HandleCloudError_def Let_def
  by (intro steady.keeps_rules steady_condition steady.follows_modCur steady_frames [OF frames_invoke]
      samePrefix_status) simp_all

lemma steady_ensureEndpoint: "follows samePrefix (ensureEndpoint E)"
  unfolding state_io_rel_def objRel_def samePrefix_def
proof (intro allI impI)
  fix s :: "EvrocCluster cst" and p
  assume p: "settledPrefix (cur s) p"
  have "invRel (prefixKept (cur s)) (sanctioned E (cur s)) s (snd (run_state (ensureEndpoint E) s))"
    using maintains_ensureEndpoint [of "cur s" E] unfolding state_io_rel_def by (rule spec)
  then have "prefixKept (cur s) (cur (snd (run_state (ensureEndpoint E) s)))"
    by (simp add: invRel_def prefixKept_refl)
  then show "settledPrefix (cur (snd (run_state (ensureEndpoint E) s))) p"
    using p by (auto simp: prefixKept_def settledPrefix_def)
qed

lemma steady_securityGroups: "follows samePrefix (reconcileSecurityGroups E)"
proof -
  have "follows samePrefix (removeAllSGs E)"
    unfolding removeAllSGs_def
    by (intro steady.keeps_rules steady_frames [OF frames_getCur] steady_frames [OF frames_sgs(4)]
        steady_frames [OF frames_sgs(5)] steady.follows_modCur samePrefix_groups)
  moreover have "follows samePrefix (reconcileWantedSGs E cfg p)" for cfg p
    unfolding reconcileWantedSGs_def
    by (intro steady.keeps_rules steady_frames [OF frames_getCur] steady_frames [OF frames_sections]
        steady_frames [OF frames_sgs(4)] steady_frames [OF frames_sgs(5)] steady.follows_modCur samePrefix_groups)
  moreover have "follows samePrefix (securityGroupPrefix cfg)" for cfg
    unfolding securityGroupPrefix_def
    by (intro steady.keeps_if steady.read steady.from_case_sum steady.from_return steady.from_case_prod
        steady.from_modCur steady.keeps_return) (auto intro: samePrefix_noted)
  ultimately show ?thesis
    unfolding reconcileSecurityGroups_def
    by (intro steady.keeps_rules steady_frames [OF frames_getCur])
qed

lemma steady_body: "follows samePrefix (reconcileClusterBody E)"
  unfolding reconcileClusterBody_def
  by (intro steady_condition steady_ensureEndpoint steady_securityGroups steady_error steady.keeps_bind
      steady.keeps_onError steady_frames [OF frames_getCur]
      steady_frames [OF frames_ensureCredentialSecretCopy] steady.follows_modCur steady.keeps_return
      samePrefix_status)
     (simp_all add: reconcileFailureDomains_def storeNetworkStatus_def markProvisioned_def)

section \<open>What is stored\<close>

text \<open>The marks of a cluster by which its resources are found again.\<close>

definition sameMarks :: "EvrocCluster \<Rightarrow> EvrocCluster \<Rightarrow> bool" where
  "sameMarks c x \<longleftrightarrow> clusterOwnershipID (Some x) = clusterOwnershipID (Some c) \<and>
     hasFinalizer (cl_Meta x) clusterFinalizer = hasFinalizer (cl_Meta c) clusterFinalizer \<and>
     samePrefix c x \<and>
     ShouldManageControlPlaneEndpoint (Some x) = ShouldManageControlPlaneEndpoint (Some c) \<and>
     ownsLBPublicIP x = ownsLBPublicIP c"

lemma withConditions_marks: "withConditions c x \<Longrightarrow> sameMarks c x"
  by (auto simp: withConditions_def sameMarks_def Cluster_SetConditions_def clusterOwnershipID_def
      ShouldManageControlPlaneEndpoint_def ownsLBPublicIP_def intro: samePrefix_status)

lemma grows_owner:
  assumes "clusterGrows E c x"
  shows "clusterOwnershipID (Some x) = clusterOwnershipID (Some c)"
  using assms unfolding clusterGrows_def
  by (simp add: clusterOwnershipID_def mget_def clusterOwnershipIDAnnotation_def clusterResourcePrefixAnnotation_def)

lemma grows_marks:
  assumes "clusterGrows E c x" and "samePrefix c x"
  shows "sameMarks c x"
proof -
  note grows = assms(1) [unfolded clusterGrows_def]
  have "om_Finalizers ((cl_Meta x)\<lparr>om_Annotations := []\<rparr>) = om_Finalizers ((cl_Meta c)\<lparr>om_Annotations := []\<rparr>)"
    using grows by simp
  then have finalizer: "hasFinalizer (cl_Meta x) f = hasFinalizer (cl_Meta c) f" for f
    by (simp add: hasFinalizer_def)
  have spec: "(cl_Spec x)\<lparr>cs_ControlPlaneEndpoint := cs_ControlPlaneEndpoint (cl_Spec c)\<rparr> = cl_Spec c"
    using grows by blast
  have "cs_ControlPlaneEndpointPolicy (cl_Spec x) = cs_ControlPlaneEndpointPolicy (cl_Spec c)"
      "cs_ControlPlaneConfig (cl_Spec x) = cs_ControlPlaneConfig (cl_Spec c)"
    using arg_cong [OF spec, of cs_ControlPlaneEndpointPolicy] arg_cong [OF spec, of cs_ControlPlaneConfig]
    by simp_all
  then show ?thesis
    using grows_owner [OF assms(1)] finalizer assms(2)
    by (simp add: sameMarks_def ShouldManageControlPlaneEndpoint_def ownsLBPublicIP_def)
qed

lemma patched_marks:
  assumes "e_cluster E [] (KGetCluster req) = Inr c" and "KPatchCluster b x \<in> set (clusterCalls E req)"
  shows "sameMarks c x"
proof -
  obtain s res t where "cur s = c" "run_state (reconcileClusterBody E) s = (res, t)" "x = cur t"
    using patch_is [OF assms] by (auto simp: patchOf_def)
  then have "samePrefix c x"
    using steady.follows_run [OF steady_body] by blast
  then show ?thesis
    by (rule grows_marks [OF patch_grows [OF assms, THEN conjunct2]])
qed

text \<open>The normal case writes the cluster only by its patch.\<close>

lemma emits_reconcileNormal_stored:
  assumes "\<And>k. stageCall k \<Longrightarrow> P k" and "\<And>s. P (KCreateSecret s)" and "\<And>s. P (KUpdateSecret s)"
    and "\<And>b a. P (KPatchCluster b a)"
  shows "emits P (Cluster_reconcileNormal E)"
  unfolding Cluster_reconcileNormal_def by (intro go_rules emits_body assms)

lemma status_marks:
  assumes fetch: "e_cluster E [] (KGetCluster req) = Inr c" and k: "KStatusCluster x \<in> set (clusterCalls E req)"
  shows "sameMarks c x"
proof -
  let ?P = "\<lambda>k. \<forall>x. k = KStatusCluster x \<longrightarrow> withConditions c x"
  have "state_io_rel (fromRel c (emitRel ?P)) (cleanupResources E)"
    by (intro emit.from_keeps emits_cleanupResources) simp_all
  moreover have "state_io_rel (fromRel c (emitRel ?P)) (Cluster_reconcileNormal E)"
    by (intro emit.from_keeps emits_reconcileNormal_stored) auto
  ultimately have "state_io_rel (fromRel c (emitRel ?P)) (Cluster_dispatch E)"
    by (intro cluster_dispatch_emits) simp_all
  then have "state_io_rel (fromRel c (emitRel ?P)) (Cluster_afterFetch E)"
    by (rule cluster_afterFetch_emits [rotated]) blast
  then have "?P (KStatusCluster x)"
    by (rule cluster_emitted [OF fetch _ _ k]) simp
  then show ?thesis
    by (simp add: withConditions_marks)
qed

text \<open>
  Updates: of a live cluster only until it has its finalizer and owner ID, of a cluster that is
  being deleted only with the owner ID that it has.
\<close>

definition updateOf :: "Env \<Rightarrow> EvrocCluster \<Rightarrow> EvrocCluster \<Rightarrow> bool" where
  "updateOf E c x \<longleftrightarrow>
     (clusterLive c \<longrightarrow> \<not> (clusterOwned c \<and> clusterProtected c)) \<and>
     (clusterOwnershipID (Some x) = clusterOwnershipID (Some c) \<or>
      \<not> clusterOwned c \<and> (\<exists>h. clusterOwnershipID (Some x) = e_uuid E h))"

abbreviation updatesOnly :: "Env \<Rightarrow> EvrocCluster \<Rightarrow> Call \<Rightarrow> bool" where
  "updatesOnly E c k \<equiv> \<forall>x. k = KUpdateCluster x \<longrightarrow> updateOf E c x"

lemma emits_runs: "emits P m \<Longrightarrow> run_state m s = (r, t) \<Longrightarrow> emitRel P s t"
  by (auto simp: state_io_rel_def dest: spec [of _ s])

lemma updates_deleting:
  assumes deleting: "\<not> clusterLive c"
  shows "state_io_rel (fromRel c (emitRel (updatesOnly E c)))
    (HandleDeletion clusterOps (k8sUpdateCluster E) clusterFinalizer (cleanupResources E))"
  unfolding state_io_rel_def fromRel_def
proof (intro allI impI)
  fix s :: "EvrocCluster cst"
  assume c: "cur s = c"
  obtain r t where run: "run_state (cleanupResources E) s = (r, t)"
    by fastforce
  have clean: "emitRel (updatesOnly E c) s t"
    by (rule emits_runs [OF emits_cleanupResources run]) simp_all
  have "clusterOwnershipID (Some (cur t)) = clusterOwnershipID (Some c)"
    using grow.follows_run [OF grow_cleanupResources run] c grows_owner by blast
  then have "updateOf E c ((cur t)\<lparr>cl_Meta := withoutFinalizer clusterFinalizer (cl_Meta (cur t))\<rparr>)"
    using deleting by (auto simp: updateOf_def clusterOwnershipID_def withoutFinalizer_def)
  then have "emitRel (updatesOnly E c) t
      (snd (run_state (RemoveFinalizer clusterOps (k8sUpdateCluster E) clusterFinalizer) t))"
    by (auto simp: RemoveFinalizer_def modMeta_def k8sUpdateCluster_def emitRel_def split: option.split sum.split)
  then show "emitRel (updatesOnly E c) s (snd (run_state (HandleDeletion clusterOps (k8sUpdateCluster E)
      clusterFinalizer (cleanupResources E)) s))"
    using clean run c
    by (cases r) (auto simp: HandleDeletion_def emitRel_refl intro: emitRel_trans split: option.split prod.split)
qed

lemma update_is:
  assumes fetch: "e_cluster E [] (KGetCluster req) = Inr c" and k: "KUpdateCluster x \<in> set (clusterCalls E req)"
  shows "updateOf E c x"
proof -
  have "emitRel (updatesOnly E c) s (snd (run_state (Cluster_dispatch E) s))" if c: "cur s = c" for s
  proof -
    consider (ready) "clusterLive c" "clusterOwned c" "clusterProtected c"
      | (unready) "clusterLive c" "\<not> (clusterOwned c \<and> clusterProtected c)" | (deleting) "\<not> clusterLive c"
      by blast
    then show ?thesis
    proof cases
      case ready
      have "emits (updatesOnly E c) (Cluster_reconcileNormal E)"
        by (rule emits_reconcileNormal_stored) auto
      then show ?thesis
        using c ready cluster_dispatch_ready [of s E] by (simp add: state_io_rel_def)
    next
      case unready
      with c obtain x where "calls (stateAfter (Cluster_dispatch E) s) = calls s @ [KUpdateCluster x]"
          "clusterOwnershipID (Some x) =
            (if clusterOwned c then clusterOwnershipID (Some c) else e_uuid E (calls s))"
        using cluster_dispatch_unready [of s E thesis for thesis] by blast
      moreover from this have "updateOf E c x"
        using unready by (auto simp: updateOf_def)
      ultimately show ?thesis
        by (simp add: emitRel_def stateAfter_def)
    next
      case deleting
      then show ?thesis
        using c updates_deleting [OF deleting, of E] cluster_dispatch_deleting_state [of s E]
        by (simp add: state_io_rel_def fromRel_def stateAfter_def)
    qed
  qed
  then have "state_io_rel (fromRel c (emitRel (updatesOnly E c))) (Cluster_dispatch E)"
    by (simp add: state_io_rel_def fromRel_def)
  then have "state_io_rel (fromRel c (emitRel (updatesOnly E c))) (Cluster_afterFetch E)"
    by (rule cluster_afterFetch_emits [rotated]) auto
  then have "updatesOnly E c (KUpdateCluster x)"
    by (rule cluster_emitted [OF fetch _ _ k]) simp
  then show ?thesis
    by simp
qed

end
