(* ===== verification/WebhookProperties.thy ===== *)
theory WebhookProperties
  imports MachineWebhook ClusterWebhook MachineProperties ClusterProperties ClusterStore
begin

text \<open>
  The properties of the admission webhooks, and how they fit the controllers: what is accepted,
  that the names derived from an accepted object fit, and that the controllers' own writes of
  accepted objects are accepted again.
\<close>

section \<open>Examples\<close>

text \<open>A cluster that the webhook accepts; every \<open>https\<close> URL parses to a host.\<close>

definition acceptedCluster :: EvrocCluster where
  "acceptedCluster = (liveCluster None)\<lparr>cl_Spec := (cl_Spec (liveCluster None))
     \<lparr>cs_Project := ''p'', cs_Region := ''se-sto''\<rparr>\<rparr>"

definition acceptedWorld :: Env where
  "acceptedWorld = (clusterWorld None)\<lparr>e_cluster := (\<lambda>_ c. case c of KGetCluster _ \<Rightarrow> Inr acceptedCluster
     | KUpdateCluster x \<Rightarrow> Inr x | KStatusCluster x \<Rightarrow> Inr x | _ \<Rightarrow> Inl notFound)\<rparr>"

lemma acceptedPatch: "\<exists>b a. KPatchCluster b a \<in> set (clusterCalls acceptedWorld exampleKey)"
proof -
  have "list_ex (\<lambda>k. case k of KPatchCluster _ _ \<Rightarrow> True | _ \<Rightarrow> False) (clusterCalls acceptedWorld exampleKey)"
    by code_simp
  then obtain k where "k \<in> set (clusterCalls acceptedWorld exampleKey)"
      "case k of KPatchCluster _ _ \<Rightarrow> True | _ \<Rightarrow> False"
    unfolding list_ex_iff by blast
  then show ?thesis
    by (auto split: Call.splits)
qed

definition exampleParser :: urlParser where
  "exampleParser u = (if hasPrefix u ''https://'' then Inr (''https'', drop 8 u) else Inl notFound)"

text \<open>The machine with everything the controller needs, in a world that always answers with it.\<close>

definition admittedMachine :: EvrocMachine where
  "admittedMachine = fixedMachine\<lparr>m_Spec := (m_Spec fixedMachine)\<lparr>ms_Project := ''p'', ms_Region := ''se-sto'',
     ms_ComputeProfile := ''c1'', ms_Image := ''ubuntu'', ms_RootDiskSize := 50\<rparr>\<rparr>"

definition admittedWorld :: Env where
  "admittedWorld = fixedWorld\<lparr>e_machine := (\<lambda>_ _. Inr admittedMachine)\<rparr>"

definition admittedSeen :: "Call list \<Rightarrow> bool" where
  "admittedSeen xs \<longleftrightarrow>
     list_ex (\<lambda>k. case k of SdkCreate (CreateDisk d) \<Rightarrow> dr_Name d = ''m-boot-disk'' | _ \<Rightarrow> False) xs \<and>
     list_ex (\<lambda>k. case k of KStatusMachine _ \<Rightarrow> True | _ \<Rightarrow> False) xs"

lemma admittedSeen: "admittedSeen (machineCalls admittedWorld exampleKey)"
  by code_simp

lemma admittedDisk:
  "\<exists>d. SdkCreate (CreateDisk d) \<in> set (machineCalls admittedWorld exampleKey) \<and> dr_Name d = ''m-boot-disk''"
proof -
  obtain k where "k \<in> set (machineCalls admittedWorld exampleKey)"
      "case k of SdkCreate (CreateDisk d) \<Rightarrow> dr_Name d = ''m-boot-disk'' | _ \<Rightarrow> False"
    using admittedSeen unfolding admittedSeen_def list_ex_iff by blast
  then show ?thesis
    by (auto split: Call.splits SdkRequest.splits)
qed

lemma admittedStatus: "\<exists>x. KStatusMachine x \<in> set (machineCalls admittedWorld exampleKey)"
proof -
  obtain k where "k \<in> set (machineCalls admittedWorld exampleKey)" "case k of KStatusMachine _ \<Rightarrow> True | _ \<Rightarrow> False"
    using admittedSeen unfolding admittedSeen_def list_ex_iff by blast
  then show ?thesis
    by (auto split: Call.splits)
qed

lemma admittedMachine_accepted: "snd (MachineValidator_ValidateCreate (MachineObject admittedMachine)) = None"
  by code_simp

lemma admittedMachine_name: "om_Name (m_Meta admittedMachine) = ''m''"
  by (simp add: admittedMachine_def fixedMachine_simps)

section \<open>Machines\<close>

lemma rejectErrs_None [simp]: "snd (rejectErrs w errs) = None \<longleftrightarrow> errs = []"
  by (simp add: rejectErrs_def)

text \<open>
  C28. Admission of machines decides the declarative predicate: a machine is created exactly when
  it is valid, and updated exactly when project, region, compute profile, image and root disk
  size are the old ones and the new machine is valid.
\<close>

theorem machine_admission:
  "(snd (MachineValidator_ValidateCreate (MachineObject m)) = None \<longleftrightarrow> validMachine m) \<and>
   (snd (MachineValidator_ValidateUpdate (MachineObject old) (MachineObject m)) = None \<longleftrightarrow>
      validMachine m \<and> ms_Project (m_Spec m) = ms_Project (m_Spec old) \<and>
      ms_Region (m_Spec m) = ms_Region (m_Spec old) \<and>
      ms_ComputeProfile (m_Spec m) = ms_ComputeProfile (m_Spec old) \<and>
      ms_Image (m_Spec m) = ms_Image (m_Spec old) \<and>
      ms_RootDiskSize (m_Spec m) = ms_RootDiskSize (m_Spec old))"
  by (auto simp: MachineValidator_ValidateCreate_def MachineValidator_ValidateUpdate_def
      validateEvrocMachine_def machineErrs_iff machineImmutableErrs_def)

text \<open>Validity is kept by every change the controller makes to a machine.\<close>

lemma validMachine_spec:
  assumes "om_Name (m_Meta x) = om_Name (m_Meta m)"
    and "(m_Spec x)\<lparr>ms_ProviderID := None\<rparr> = (m_Spec m)\<lparr>ms_ProviderID := None\<rparr>"
  shows "validMachine x = validMachine m"
proof -
  have f: "f ((m_Spec x)\<lparr>ms_ProviderID := None\<rparr>) = f ((m_Spec m)\<lparr>ms_ProviderID := None\<rparr>)"
    for f :: "EvrocMachineSpec \<Rightarrow> 'a"
    using assms(2) by simp
  have image: "validImage (m_Spec x) = validImage (m_Spec m)"
    using f [of ms_Project] f [of ms_Region] by (simp add: validImage_def [abs_def])
  have fits: "derivedFits x = derivedFits m"
    by (simp add: derivedFits_def [abs_def] assms(1))
  have "diskOk x = diskOk m" "inlineOk x = inlineOk m"
    by (simp_all add: diskOk_def [abs_def] inlineOk_def [abs_def] image fits)
  moreover have "machineSGConfig x = machineSGConfig m"
    using f [of ms_NetworkingConfig] by (simp add: machineSGConfig_def)
  ultimately show ?thesis
    using f [of ms_Project] f [of ms_Region] f [of ms_ComputeProfile] f [of ms_Image] f [of ms_RootDiskSize]
      f [of ms_AdditionalLabels] f [of ms_NetworkingConfig] f [of ms_AdditionalDisks] assms(1) image
    by (simp add: validMachine_def Let_def)
qed

definition admitted :: "EvrocMachine \<Rightarrow> EvrocMachine \<Rightarrow> bool" where
  "admitted m x \<longleftrightarrow> validMachine x \<and> om_Name (m_Meta x) = om_Name (m_Meta m) \<and>
     (m_Spec x)\<lparr>ms_ProviderID := None\<rparr> = (m_Spec m)\<lparr>ms_ProviderID := None\<rparr>"

lemma admitted_change:
  assumes "admitted m x" and "om_Name (m_Meta y) = om_Name (m_Meta x)"
    and "(m_Spec y)\<lparr>ms_ProviderID := None\<rparr> = (m_Spec x)\<lparr>ms_ProviderID := None\<rparr>"
  shows "admitted m y"
  using assms validMachine_spec [of y x] by (simp add: admitted_def)

lemma admitted_stable:
  assumes "serverKeeps E (admitted m)"
  shows "stableInv E (admitted m)" "metaInv E (admitted m)"
  using assms unfolding stableInv_def metaInv_def
  by (auto intro: admitted_change simp: setProviderID_def)

lemma admittedWorld_keeps: "serverKeeps admittedWorld (admitted admittedMachine)"
proof -
  have "validMachine admittedMachine"
    using admittedMachine_accepted
    by (simp add: MachineValidator_ValidateCreate_def validateEvrocMachine_def machineErrs_iff)
  then show ?thesis
    by (simp add: admittedWorld_def admitted_def)
qed

lemma admitted_fields:
  assumes "admitted m x"
  shows "ms_Project (m_Spec x) = ms_Project (m_Spec m)" "ms_Region (m_Spec x) = ms_Region (m_Spec m)"
    "ms_ComputeProfile (m_Spec x) = ms_ComputeProfile (m_Spec m)" "ms_Image (m_Spec x) = ms_Image (m_Spec m)"
    "ms_RootDiskSize (m_Spec x) = ms_RootDiskSize (m_Spec m)"
proof -
  have f: "f ((m_Spec x)\<lparr>ms_ProviderID := None\<rparr>) = f ((m_Spec m)\<lparr>ms_ProviderID := None\<rparr>)"
    for f :: "EvrocMachineSpec \<Rightarrow> 'a"
    using assms by (simp add: admitted_def)
  show "ms_Project (m_Spec x) = ms_Project (m_Spec m)" "ms_Region (m_Spec x) = ms_Region (m_Spec m)"
    "ms_ComputeProfile (m_Spec x) = ms_ComputeProfile (m_Spec m)" "ms_Image (m_Spec x) = ms_Image (m_Spec m)"
    "ms_RootDiskSize (m_Spec x) = ms_RootDiskSize (m_Spec m)"
    using f [of ms_Project] f [of ms_Region] f [of ms_ComputeProfile] f [of ms_Image] f [of ms_RootDiskSize]
    by simp_all
qed

lemma valid_names:
  assumes "validMachine m" and "om_Name (m_Meta m) \<noteq> ''''"
  shows "length (om_Name (m_Meta m)) \<le> 53"
    and "d \<in> set (desiredDiskNames m) \<Longrightarrow> length d \<le> 63"
    and "i \<in> set (inlineGroupsOf m) \<Longrightarrow> length (inlineSGName (om_Name (m_Meta m)) i) \<le> 63"
proof -
  show name: "length (om_Name (m_Meta m)) \<le> 53"
    using assms(1) by (simp add: validMachine_def Let_def)
  show "length d \<le> 63" if "d \<in> set (desiredDiskNames m)"
    using that assms name
    by (auto simp: desiredDiskNames_def bootDiskName_def additionalDiskName_def validMachine_def Let_def
        list_all_iff diskOk_def derivedFits_def split: if_splits)
  show "length (inlineSGName (om_Name (m_Meta m)) i) \<le> 63" if "i \<in> set (inlineGroupsOf m)"
    using that assms
    by (cases "machineSGConfig m") (auto simp: inlineSGName_def validMachine_def Let_def list_all_iff
        inlineOk_def derivedFits_def inlineGroupsOf_def)
qed

fun requestName :: "SdkRequest \<Rightarrow> string" where
  "requestName (CreateDisk r) = dr_Name r"
| "requestName (CreatePublicIP n _) = n"
| "requestName (CreateSecurityGroup r) = sgq_Name r"
| "requestName (CreatePlacementGroup n _ _ _) = n"
| "requestName (CreateVM r) = vr_Name r"
| "requestName (CreateBackendPool n _) = n"
| "requestName (CreateBackendService n _ _ _ _) = n"
| "requestName (CreateL4Route n _ _) = n"
| "requestName (CreateLB r) = lbq_Name r"

text \<open>
  C29. Names fit: as long as the API server keeps what the webhook admitted, every resource that a
  reconcile of the machine creates has a name of at most 63 bytes.
\<close>

theorem machine_names_fit:
  assumes accepted: "snd (MachineValidator_ValidateCreate (MachineObject m)) = None"
    and name: "om_Name (m_Meta m) \<noteq> ''''" and server: "serverKeeps E (admitted m)"
    and c: "SdkCreate r \<in> set (machineCalls E req)"
  shows "length (requestName r) \<le> 63"
proof -
  have "granted E (admitted m) (SdkCreate r)"
    using admitted_stable [OF server] c by (rule reconcile_granted)
  then obtain cl x where x: "admitted m x" and w: "normalWrite E cl x (SdkCreate r)"
    using granted_write [of E "admitted m" "SdkCreate r"] by auto
  have "validMachine x" "om_Name (m_Meta x) \<noteq> ''''"
    using x name by (simp_all add: admitted_def)
  note names = valid_names [OF this]
  show ?thesis
    using w names by (cases r) (auto simp: managedPublicIPName_def dest: buildVMRequest_fields(1))
qed

theorem machine_names_fit_witness:
  "\<exists>d. SdkCreate (CreateDisk d) \<in> set (machineCalls admittedWorld exampleKey) \<and> length (dr_Name d) \<le> 63"
proof -
  obtain d where d: "SdkCreate (CreateDisk d) \<in> set (machineCalls admittedWorld exampleKey)"
    using admittedDisk by blast
  then show ?thesis
    using machine_names_fit [OF admittedMachine_accepted _ admittedWorld_keeps d]
    by (auto simp: admittedMachine_name)
qed

text \<open>
  C30. The controller never locks itself out: every update, status update and patch that a
  reconcile of an admitted machine sends is admitted by the update webhook.
\<close>

theorem machine_updates_admitted:
  assumes accepted: "snd (MachineValidator_ValidateCreate (MachineObject m)) = None"
    and server: "serverKeeps E (admitted m)" and c: "c \<in> set (machineCalls E req)"
  shows "case c of
      KUpdateMachine x \<Rightarrow> snd (MachineValidator_ValidateUpdate (MachineObject m) (MachineObject x)) = None
    | KStatusMachine x \<Rightarrow> snd (MachineValidator_ValidateUpdate (MachineObject m) (MachineObject x)) = None
    | KPatchMachine _ x \<Rightarrow> snd (MachineValidator_ValidateUpdate (MachineObject m) (MachineObject x)) = None
    | _ \<Rightarrow> True"
proof -
  have "snd (MachineValidator_ValidateUpdate (MachineObject m) (MachineObject x)) = None" if "admitted m x" for x
    using that admitted_fields [OF that]
    by (simp add: MachineValidator_ValidateUpdate_def validateEvrocMachine_def machineErrs_iff
        machineImmutableErrs_def admitted_def)
  moreover have "granted E (admitted m) c"
    using admitted_stable [OF server] c by (rule reconcile_granted)
  ultimately show ?thesis
    by (auto split: Call.split)
qed

theorem machine_updates_admitted_witness:
  "\<exists>x. KStatusMachine x \<in> set (machineCalls admittedWorld exampleKey) \<and>
     snd (MachineValidator_ValidateUpdate (MachineObject admittedMachine) (MachineObject x)) = None"
proof -
  obtain x where x: "KStatusMachine x \<in> set (machineCalls admittedWorld exampleKey)"
    using admittedStatus by blast
  then show ?thesis
    using machine_updates_admitted [OF admittedMachine_accepted admittedWorld_keeps x] by auto
qed

section \<open>Clusters\<close>

text \<open>
  C31. Admission of clusters decides the declarative predicates: a cluster is created exactly when
  it is valid, and updated exactly when what is frozen is kept and the new cluster is valid.
\<close>

theorem cluster_admission:
  "(snd (ClusterValidator_ValidateCreate parseURL (ClusterObject c)) = None \<longleftrightarrow> validCluster parseURL c) \<and>
   (snd (ClusterValidator_ValidateUpdate parseURL errText (ClusterObject old) (ClusterObject c)) = None \<longleftrightarrow>
      validCluster parseURL c \<and> frozen old c)"
  by (auto simp: ClusterValidator_ValidateCreate_def ClusterValidator_ValidateUpdate_def
      validateEvrocCluster_def clusterErrs_iff clusterImmutableErrs_iff rejectErrs_def split: if_splits)

text \<open>Validity of a cluster whose specification differs in the endpoint only.\<close>

lemma spec_with_endpoint:
  "(cl_Spec a)\<lparr>cs_ControlPlaneEndpoint := cs_ControlPlaneEndpoint (cl_Spec c)\<rparr> = cl_Spec c \<Longrightarrow>
     cl_Spec a = (cl_Spec c)\<lparr>cs_ControlPlaneEndpoint := cs_ControlPlaneEndpoint (cl_Spec a)\<rparr>"
  by (metis EvrocClusterSpec.surjective EvrocClusterSpec.update_convs(4))

lemma spec_fields:
  assumes "x = y\<lparr>cs_ControlPlaneEndpoint := e\<rparr>"
  shows "cs_Project x = cs_Project y" "cs_Region x = cs_Region y" "cs_CredentialsRef x = cs_CredentialsRef y"
    "cs_ControlPlaneEndpointPolicy x = cs_ControlPlaneEndpointPolicy y" "cs_FailureDomains x = cs_FailureDomains y"
    "cs_Network x = cs_Network y" "cs_AdditionalLabels x = cs_AdditionalLabels y"
    "cs_SecurityGroups x = cs_SecurityGroups y" "cs_Endpoints x = cs_Endpoints y"
  by (simp_all add: assms)

lemma validCluster_patched:
  assumes grows: "clusterGrows E c a" and valid: "validCluster parseURL c"
  shows "validCluster parseURL a"
proof -
  let ?ep = "cs_ControlPlaneEndpoint (cl_Spec a)"
  have spec: "cl_Spec a = (cl_Spec c)\<lparr>cs_ControlPlaneEndpoint := ?ep\<rparr>"
    using grows by (intro spec_with_endpoint) (simp add: clusterGrows_def)
  have "om_Name ((cl_Meta a)\<lparr>om_Annotations := []\<rparr>) = om_Name ((cl_Meta c)\<lparr>om_Annotations := []\<rparr>)"
    using grows by (simp only: clusterGrows_def)
  then have name: "om_Name (cl_Meta a) = om_Name (cl_Meta c)"
    by simp
  have csi: "mget (om_Annotations (cl_Meta a)) DeleteCSIDisksAnnotation =
      mget (om_Annotations (cl_Meta c)) DeleteCSIDisksAnnotation"
    using grows by (simp add: clusterGrows_def mget_def DeleteCSIDisksAnnotation_def
        clusterResourcePrefixAnnotation_def)
  have ep: "ae_Host ?ep = '''' \<longleftrightarrow> ae_Port ?ep = 0"
    using grows valid unfolding clusterGrows_def validCluster_def Let_def by force
  have "clusterGroupOk a = clusterGroupOk c"
    by (simp add: clusterGroupOk_def [abs_def] name)
  then show ?thesis
    using valid ep spec_fields [OF spec] by (simp add: validCluster_def Let_def name csi)
qed

lemma frozen_patched:
  assumes grows: "clusterGrows E c a"
    and zero: "\<forall>ep. s_endpointIsZero E ep \<longleftrightarrow> ae_Host ep = '''' \<and> ae_Port ep = 0"
  shows "frozen c a"
proof -
  have "(cl_Spec a)\<lparr>cs_ControlPlaneEndpoint := cs_ControlPlaneEndpoint (cl_Spec c)\<rparr> = cl_Spec c"
    using grows by (simp add: clusterGrows_def)
  note fields = spec_fields [OF spec_with_endpoint [OF this]]
  have "cs_ControlPlaneEndpoint (cl_Spec c) \<noteq> \<lparr>ae_Host = '''', ae_Port = 0\<rparr> \<longrightarrow>
      cs_ControlPlaneEndpoint (cl_Spec a) = cs_ControlPlaneEndpoint (cl_Spec c)"
    using grows zero unfolding clusterGrows_def by (metis APIEndpoint.surjective old.unit.exhaust)
  then show ?thesis
    by (simp add: frozen_def Let_def fields ShouldManageControlPlaneEndpoint_def)
qed

text \<open>
  C32. The controller never locks itself out of a cluster either: the patch at the end of a
  reconcile of a valid cluster is admitted by the update webhook.
\<close>

theorem cluster_patch_admitted:
  assumes fetch: "e_cluster E [] (KGetCluster req) = Inr c"
    and accepted: "snd (ClusterValidator_ValidateCreate parseURL (ClusterObject c)) = None"
    and zero: "\<forall>ep. s_endpointIsZero E ep \<longleftrightarrow> ae_Host ep = '''' \<and> ae_Port ep = 0"
    and k: "KPatchCluster b a \<in> set (clusterCalls E req)"
  shows "snd (ClusterValidator_ValidateUpdate parseURL errText (ClusterObject b) (ClusterObject a)) = None"
proof -
  obtain s res t where run: "b = c" "cur s = c" "run_state (reconcileClusterBody E) s = (res, t)" "a = cur t"
    using patch_is [OF fetch k] by (auto simp: patchOf_def)
  then have grows: "clusterGrows E c a"
    using grow.follows_run [OF grow_body] by blast
  have "validCluster parseURL c"
    using accepted by (simp add: ClusterValidator_ValidateCreate_def validateEvrocCluster_def clusterErrs_iff)
  then have "clusterErrs parseURL a = []" "clusterImmutableErrs b a = []"
    using validCluster_patched [OF grows] frozen_patched [OF grows zero] run(1)
    by (simp_all add: clusterErrs_iff clusterImmutableErrs_iff)
  then show ?thesis
    by (simp add: ClusterValidator_ValidateUpdate_def validateEvrocCluster_def rejectErrs_def)
qed

lemma acceptedCluster_accepted:
  "snd (ClusterValidator_ValidateCreate exampleParser (ClusterObject acceptedCluster)) = None"
  by code_simp

theorem cluster_patch_admitted_witness:
  "\<exists>b a. KPatchCluster b a \<in> set (clusterCalls acceptedWorld exampleKey) \<and>
     snd (ClusterValidator_ValidateUpdate exampleParser (\<lambda>_. '''') (ClusterObject b) (ClusterObject a)) = None"
proof -
  obtain b a where k: "KPatchCluster b a \<in> set (clusterCalls acceptedWorld exampleKey)"
    using acceptedPatch by blast
  have "e_cluster acceptedWorld [] (KGetCluster exampleKey) = Inr acceptedCluster"
    "\<forall>ep. s_endpointIsZero acceptedWorld ep \<longleftrightarrow> ae_Host ep = '''' \<and> ae_Port ep = 0"
    by (simp_all add: acceptedWorld_def clusterWorld_def emptyWorld_def)
  then show ?thesis
    using cluster_patch_admitted [OF _ acceptedCluster_accepted _ k] k by blast
qed

definition derivedPrefix :: "EvrocCluster \<Rightarrow> string \<Rightarrow> string" where
  "derivedPrefix c uid = om_Name (cl_Meta c) @ ''-'' @ take 8 uid"

lemma derivedPrefix_fresh:
  assumes "mget (om_Annotations (cl_Meta c)) clusterResourcePrefixAnnotation = ''''"
    and "recoveredPrefix c = None" and "om_UID (cl_Meta c) \<noteq> ''''"
  shows "settledPrefix c (derivedPrefix c (om_UID (cl_Meta c)))"
  using clusterResourcePrefix_fresh [OF assms]
  by (simp add: settledPrefix_def prefixOf_def derivedPrefix_def Let_def)

lemma derivedPrefix_annotated:
  "mget (om_Annotations (cl_Meta c)) clusterResourcePrefixAnnotation = derivedPrefix c uid \<Longrightarrow>
     settledPrefix c (derivedPrefix c uid)"
  by (simp add: settledPrefix_def prefixOf_def clusterResourcePrefix_def derivedPrefix_def Let_def)

definition extraPorts :: "EvrocCluster \<Rightarrow> int list" where
  "extraPorts c = (case GetLoadBalancer (cs_ControlPlaneConfig (cl_Spec c)) of None \<Rightarrow> []
     | Some cfg \<Rightarrow> lbc_AdditionalPorts cfg)"

lemma chain_names:
  assumes "lbCreates E (buildLoadBalancerCreateRequest c n) r"
  shows "(\<forall>q. r = CreateLB q \<longrightarrow> lbq_Name q = n) \<and>
    (extraPorts c = [] \<longrightarrow> length (requestName r) \<le> length n + 6)"
proof -
  have "lcr_Name (buildLoadBalancerCreateRequest c n) = n"
    "lcr_AdditionalPorts (buildLoadBalancerCreateRequest c n) = extraPorts c"
    by (simp_all add: buildLoadBalancerCreateRequest_def extraPorts_def Let_def)
  then show ?thesis
    using assms by (cases r) (auto simp: ipName_def poolName_def svcName_def routeName_def)
qed

lemma valid_group_names:
  assumes "validCluster parseURL c" and "i \<in> set (inlineClusterSGs c)"
  shows "length (inlineSGName (derivedPrefix c uid) i) \<le> 63"
proof -
  obtain cfg where cfg: "cs_SecurityGroups (cl_Spec c) = Some cfg"
    using assms(2) by (cases "cs_SecurityGroups (cl_Spec c)") (simp_all add: inlineClusterSGs_def wantedSections_def)
  then have "\<exists>s \<in> set (sgSections cfg). i \<in> set (sgc_InlineSecurityGroups (snd s))"
    using assms(2) by (simp add: inlineClusterSGs_def wantedSections_def)
  with cfg have "clusterGroupOk c i"
    using assms(1) by (auto simp: validCluster_def Let_def list_all_iff)
  then show ?thesis
    by (auto simp: clusterGroupOk_def inlineSGName_def derivedPrefix_def min_def)
qed

text \<open>
  C33. Names fit, as far as the check goes.  The prefix of a cluster's names is the one that the
  controller makes of the name and (eight bytes of) a UID: for a cluster without an annotation and
  a recorded load balancer that is its own UID, later the one the annotation or the record keeps.
  For such an admitted cluster, the load balancer and the security groups that a reconcile creates
  have names of at most 63 bytes, and all that it creates has when the cluster's name has at most
  42 bytes and no additional port is asked for; every patch leaves the prefix as it is, so this
  goes on to hold.  A prefix annotation that the user wrote is outside of it: the webhook does not
  look at it (\<open>prefix_annotation_unchecked\<close>).
\<close>

theorem cluster_names_fit:
  assumes fetch: "e_cluster E [] (KGetCluster req) = Inr c"
    and accepted: "snd (ClusterValidator_ValidateCreate parseURL (ClusterObject c)) = None"
    and p: "settledPrefix c (derivedPrefix c uid)" and r: "SdkCreate r \<in> set (clusterCalls E req)"
  shows "(\<forall>q. r = CreateLB q \<longrightarrow> length (lbq_Name q) \<le> 63) \<and>
    (\<forall>g. r = CreateSecurityGroup g \<longrightarrow> length (sgq_Name g) \<le> 63) \<and>
    (length (om_Name (cl_Meta c)) \<le> 42 \<and> extraPorts c = [] \<longrightarrow> length (requestName r) \<le> 63) \<and>
    (\<forall>b a. KPatchCluster b a \<in> set (clusterCalls E req) \<longrightarrow> settledPrefix a (derivedPrefix a uid))"
proof -
  let ?p = "derivedPrefix c uid"
  have valid: "validCluster parseURL c"
    using accepted by (simp add: ClusterValidator_ValidateCreate_def validateEvrocCluster_def clusterErrs_iff)
  have len: "length ?p \<le> length (om_Name (cl_Meta c)) + 9" "length (om_Name (cl_Meta c)) \<le> 48"
    using valid by (simp_all add: validCluster_def Let_def derivedPrefix_def)
  have w: "clusterWrite E c (SdkCreate r)"
    using cluster_guarded [OF fetch r] by (simp add: clusterGuard_def split: if_splits)
  have group: "length (sgq_Name g) \<le> 63" if g: "r = CreateSecurityGroup g" for g
  proof -
    obtain i where "i \<in> set (inlineClusterSGs c)" "\<forall>q. settledPrefix c q \<longrightarrow> sgq_Name g = inlineSGName q i"
      using w unfolding g by auto
    then show ?thesis
      using valid_group_names [OF valid] p by simp
  qed
  have chain: "(\<forall>q. r = CreateLB q \<longrightarrow> lbq_Name q = ?p @ ''-cp-lb'') \<and>
      (extraPorts c = [] \<longrightarrow> length (requestName r) \<le> length ?p + 12)" if "\<nexists>g. r = CreateSecurityGroup g"
    using chain_names [OF clusterWrite_lb [OF w that p]] by auto
  have "settledPrefix a (derivedPrefix a uid)" if k: "KPatchCluster b a \<in> set (clusterCalls E req)" for a b
  proof -
    obtain s res t where run: "cur s = c" "run_state (reconcileClusterBody E) s = (res, t)" "a = cur t"
      using patch_is [OF fetch k] by (auto simp: patchOf_def)
    have same: "samePrefix c a" and grows: "clusterGrows E c a"
      using steady.follows_run [OF steady_body run(2)] grow.follows_run [OF grow_body run(2)] run(1,3) by simp_all
    have "(cl_Meta a)\<lparr>om_Annotations := []\<rparr> = (cl_Meta c)\<lparr>om_Annotations := []\<rparr>"
      using grows unfolding clusterGrows_def by blast
    from arg_cong [OF this, of om_Name] have "om_Name (cl_Meta a) = om_Name (cl_Meta c)"
      by simp
    then show ?thesis
      using p same by (simp add: samePrefix_def derivedPrefix_def)
  qed
  then show ?thesis
    using group chain len by (cases "\<exists>g. r = CreateSecurityGroup g") auto
qed

lemma acceptedLB: "\<exists>q. SdkCreate (CreateLB q) \<in> set (clusterCalls acceptedWorld exampleKey)"
proof -
  have "list_ex (\<lambda>k. case k of SdkCreate (CreateLB _) \<Rightarrow> True | _ \<Rightarrow> False) (clusterCalls acceptedWorld exampleKey)"
    by code_simp
  then obtain k where "k \<in> set (clusterCalls acceptedWorld exampleKey)"
      "case k of SdkCreate (CreateLB _) \<Rightarrow> True | _ \<Rightarrow> False"
    unfolding list_ex_iff by blast
  then show ?thesis
    by (auto split: Call.splits SdkRequest.splits)
qed

lemma acceptedCluster_prefix: "settledPrefix acceptedCluster (derivedPrefix acceptedCluster ''uid'')"
proof -
  have "mget (om_Annotations (cl_Meta acceptedCluster)) clusterResourcePrefixAnnotation = ''''"
    "recoveredPrefix acceptedCluster = None" "om_UID (cl_Meta acceptedCluster) = ''uid''"
    by code_simp+
  then show ?thesis
    using derivedPrefix_fresh [of acceptedCluster] by simp
qed

theorem cluster_names_fit_witness:
  "\<exists>q. SdkCreate (CreateLB q) \<in> set (clusterCalls acceptedWorld exampleKey) \<and> length (lbq_Name q) \<le> 63"
proof -
  obtain q where q: "SdkCreate (CreateLB q) \<in> set (clusterCalls acceptedWorld exampleKey)"
    using acceptedLB by blast
  have "e_cluster acceptedWorld [] (KGetCluster exampleKey) = Inr acceptedCluster"
    by (simp add: acceptedWorld_def)
  then show ?thesis
    using cluster_names_fit [OF _ acceptedCluster_accepted acceptedCluster_prefix q] q by blast
qed

text \<open>
  And no further: the webhook admits a cluster with a name of 48 bytes, whose public IP and
  backend pool then have names of 66 and 68 bytes, over the limit of 63 that the check is about.
\<close>

definition longCluster :: EvrocCluster where
  "longCluster = acceptedCluster\<lparr>cl_Meta := (cl_Meta acceptedCluster)
     \<lparr>om_Name := replicate 48 (CHR ''n''), om_UID := ''12345678-9abc''\<rparr>, 
     cl_Spec := (cl_Spec acceptedCluster)\<lparr>cs_SecurityGroups := None\<rparr>\<rparr>"

theorem cluster_name_limit_too_weak:
  "snd (ClusterValidator_ValidateCreate exampleParser (ClusterObject longCluster)) = None \<and>
   (case resolveLoadBalancerName longCluster of Inl _ \<Rightarrow> False
    | Inr (lb, _) \<Rightarrow> length (ipName lb) = 66 \<and> length (poolName lb) = 68) \<and> evrocMaxResourceNameLen = 63"
  by code_simp

text \<open>Nor is the prefix annotation checked: one of 100 bytes is admitted, and a load balancer name of 106 bytes follows.\<close>

definition prefixedCluster :: EvrocCluster where
  "prefixedCluster = setClusterResourcePrefixAnnotation (replicate 100 (CHR ''x'')) acceptedCluster"

theorem prefix_annotation_unchecked:
  "snd (ClusterValidator_ValidateCreate exampleParser (ClusterObject prefixedCluster)) = None \<and>
   (case resolveLoadBalancerName prefixedCluster of Inl _ \<Rightarrow> False | Inr (lb, _) \<Rightarrow> length lb = 106)"
  by code_simp

section \<open>Rules, images and defaults\<close>

text \<open>
  Ports of an admitted rule reach the cloud in range and in order: in every rule that the
  create request of its security group carries.
\<close>

fun rulePorts :: "SgRuleRequest \<Rightarrow> int \<times> int" where
  "rulePorts (AllowIngressRule _ _ p e _) = (p, e)"
| "rulePorts (AllowIngressFromSecurityGroup _ _ p e _) = (p, e)"
| "rulePorts (AllowEgressRule _ _ p e _) = (p, e)"

theorem admitted_rule_ports:
  assumes ok: "validateSecurityGroupRule rule path = []" and q: "q \<in> set (builderRule (convertRule rule))"
  shows "case rulePorts q of (p, e) \<Rightarrow> 0 \<le> p \<and> p \<le> 65535 \<and> 0 \<le> e \<and> e \<le> 65535 \<and> (r_EndPort rule = None \<or> p \<le> e)"
proof -
  have "ruleOk rule"
    using ok by (simp add: ruleCheck.check_iff)
  then show ?thesis
    using q by (auto simp: ruleOk_def builderRule_def convertRule_def Let_def split: if_splits option.splits)
qed

definition exampleRule :: SecurityGroupRule where
  "exampleRule = \<lparr>r_Name = ''r'', r_Direction = ''Ingress'', r_Protocol = ''TCP'', r_Port = Some 80,
     r_EndPort = Some 90, r_RemoteCIDR = ''0.0.0.0/0'', r_RemoteSecurityGroup = ''''\<rparr>"

theorem admitted_rule_ports_witness:
  "\<exists>q. builderRule (convertRule exampleRule) = [q] \<and> (case rulePorts q of (p, e) \<Rightarrow> p \<le> e)"
proof -
  have q: "builderRule (convertRule exampleRule) = [AllowIngressRule ''r'' ''TCP'' 80 90 ''0.0.0.0/0'']"
    by (simp add: exampleRule_def convertRule_def builderRule_def)
  have "validateSecurityGroupRule exampleRule (NewPath []) = []"
    by (simp add: exampleRule_def validateSecurityGroupRule_def)
  from admitted_rule_ports [OF this] show ?thesis
    unfolding q by simp
qed

text \<open>
  Defaulting is idempotent, and never leaves a machine without security groups: it inherits
  those of its cluster or names some; what the user set is kept.
\<close>

theorem machine_defaults:
  "defaultMachine E (defaultMachine E m) = defaultMachine E m \<and>
   (\<exists>g. machineSGConfig (defaultMachine E m) = Some g \<and>
      (msgc_InheritFromCluster g \<or> msgc_InlineSecurityGroups g \<noteq> [] \<or> msgc_ExistingIDs g \<noteq> [])) \<and>
   ms_Region (m_Spec (defaultMachine E m)) =
     (if ms_Region (m_Spec m) = '''' then ''se-sto'' else ms_Region (m_Spec m)) \<and>
   ms_Image (m_Spec (defaultMachine E m)) =
     (if ms_Image (m_Spec m) = '''' then s_defaultImage E else ms_Image (m_Spec m)) \<and>
   m_Meta (defaultMachine E m) = m_Meta m \<and> m_Status (defaultMachine E m) = m_Status m"
  by (auto simp: defaultMachine_def defaultNetworking_def defaultSGs_def machineSGConfig_def Let_def
      split: option.splits)

theorem machine_defaults_witness:
  "defaultMachine emptyWorld (defaultMachine emptyWorld zeroMachine) = defaultMachine emptyWorld zeroMachine \<and>
   ms_Region (m_Spec (defaultMachine emptyWorld zeroMachine)) = ''se-sto''"
  using machine_defaults [of emptyWorld zeroMachine] by (simp add: zeroMachine_def)

end
