(* ===== verification/HelperProperties.thy ===== *)
theory HelperProperties
  imports MachineProperties ClusterProperties
begin

text \<open>
  The properties of the parts that both controllers use: the shape of the objects they write,
  the choice of a zone, the user data of a virtual machine, the security groups of an existing
  one, the set-up and the naming of a cluster, and the copy of its credentials.
\<close>

section \<open>The shape of an object\<close>

text \<open>
  Conditions, finalizers and annotations are lists in the API, with a key each: a type, a
  name, a key.  Each key occurs once.
\<close>

definition keyedMachine :: "EvrocMachine \<Rightarrow> bool" where
  "keyedMachine m \<longleftrightarrow> distinct (map c_Type (Machine_GetConditions m)) \<and>
     distinct (om_Finalizers (m_Meta m)) \<and> distinct (map fst (om_Annotations (m_Meta m)))"

lemma keyedMachine_simps:
  "om_Finalizers (withFinalizer f meta) = om_Finalizers meta @ [f]"
  "om_Finalizers (withoutFinalizer f meta) = removeAll f (om_Finalizers meta)"
  "Machine_GetConditions (m\<lparr>m_Meta := meta\<rparr>) = Machine_GetConditions m"
  "Machine_GetConditions (m\<lparr>m_Status := (m_Status m)\<lparr>mst_Resources := r\<rparr>\<rparr>) = Machine_GetConditions m"
  "Machine_GetConditions (m\<lparr>m_Status := (m_Status m)\<lparr>mst_Ready := b\<rparr>\<rparr>) = Machine_GetConditions m"
  "Machine_GetConditions (m\<lparr>m_Status := (m_Status m)\<lparr>mst_AvailabilityZone := z\<rparr>\<rparr>) = Machine_GetConditions m"
  "Machine_GetConditions (statusFromVM E vm m) = Machine_GetConditions m"
  "Machine_GetConditions (setProvisioned m) = Machine_GetConditions m"
  "Machine_GetConditions (setProviderID p m) = Machine_GetConditions m"
  by (simp_all add: withFinalizer_def withoutFinalizer_def Machine_GetConditions_def
      statusFromVM_def setProvisioned_def setProviderID_def)

lemma keyedMachine_kept:
  assumes "serverKeeps E keyedMachine"
  shows "stableInv E keyedMachine" and "metaInv E keyedMachine"
proof -
  have "distinct (map c_Type (Machine_GetConditions (Machine_SetConditions m
      (setConditionList new (Machine_GetConditions m)))))"
    if "distinct (map c_Type (Machine_GetConditions m))" for m new
    using that by (rule machineConds.distinct_after_set)
  then show "stableInv E keyedMachine"
    using assms by (simp add: stableInv_def keyedMachine_def keyedMachine_simps)
  show "metaInv E keyedMachine"
    by (simp add: metaInv_def keyedMachine_def keyedMachine_simps hasFinalizer_def distinct_removeAll)
qed

text \<open>
  C35. Every machine that a reconcile writes, as an update, a status update or a patch, has one
  condition of each type, each finalizer once and each annotation once, when the objects that the
  API server gave it do.
\<close>

theorem machine_objects_keyed:
  assumes server: "serverKeeps E keyedMachine" and c: "c \<in> set (machineCalls E req)"
  shows "case c of
      KUpdateMachine x \<Rightarrow> keyedMachine x
    | KStatusMachine x \<Rightarrow> keyedMachine x
    | KPatchMachine x y \<Rightarrow> keyedMachine x \<and> keyedMachine y
    | _ \<Rightarrow> True"
proof -
  have "granted E keyedMachine c"
    using keyedMachine_kept [OF server] c by (rule reconcile_granted)
  then show ?thesis
    by (auto split: Call.split)
qed

theorem machine_objects_keyed_witness:
  "\<exists>x. KStatusMachine x \<in> set (machineCalls fixedWorld exampleKey) \<and> keyedMachine x"
proof -
  have server: "serverKeeps fixedWorld keyedMachine"
    by (simp add: fixedWorld_machine keyedMachine_def fixedMachine_def keyedMachine_simps setProviderID_def
        exampleMachine_def exampleMeta_def Machine_GetConditions_def zeroMachine_def)
  obtain c where c: "c \<in> set (machineCalls fixedWorld exampleKey)"
      "case c of KStatusMachine _ \<Rightarrow> True | _ \<Rightarrow> False"
    using fixedStatus unfolding list_ex_iff by blast
  then show ?thesis
    using machine_objects_keyed [OF server c(1)] by (auto split: Call.splits)
qed

section \<open>Zones\<close>

text \<open>The reference: the first of the failure domains that no other undercuts.\<close>

definition firstLeast :: "string list \<Rightarrow> (string \<Rightarrow> nat) \<Rightarrow> string" where
  "firstLeast zones load = hd (filter (\<lambda>z. list_all (\<lambda>y. load z \<le> load y) zones) zones)"

definition machinesIn :: "string \<Rightarrow> EvrocMachine list \<Rightarrow> string \<Rightarrow> nat" where
  "machinesIn self machines z =
     length (filter (\<lambda>m. om_Name (m_Meta m) \<noteq> self \<and> mst_AvailabilityZone (m_Status m) = z) machines)"

lemma leastUsedZone_firstLeast:
  assumes "zones \<noteq> []"
  shows "leastUsedZone zones load = firstLeast zones load"
proof -
  let ?P = "\<lambda>z. list_all (\<lambda>y. load z \<le> load y) zones"
  have "?P (leastUsedZone zones load)" "leastUsedZone zones load \<in> set zones"
    using assms by (auto simp: list_all_iff leastUsedZone_in leastUsedZone_least)
  then obtain xs b ys where z: "zones = xs @ b # ys" and b: "?P b" and xs: "\<forall>x\<in>set xs. \<not> ?P x"
    using split_list_first_prop [of zones ?P] by blast
  have "load b < load x" if x: "x \<in> set xs" for x
  proof -
    obtain y where "y \<in> set zones" "load y < load x"
      using xs x by (force simp: list_all_iff not_le)
    then show ?thesis
      using b by (auto simp: list_all_iff dest: bspec intro: order.strict_trans1)
  qed
  then have "leastUsedZone zones load = b"
    unfolding z using b z by (intro leastUsedZone_first) (auto simp: list_all_iff)
  moreover have "firstLeast zones load = b"
    using b xs by (simp add: firstLeast_def z filter_False)
  ultimately show ?thesis by simp
qed

lemma firstLeast_cong:
  assumes "\<And>z. z \<in> set zones \<Longrightarrow> f z = g z"
  shows "firstLeast zones f = firstLeast zones g"
proof -
  have "filter (\<lambda>z. list_all (\<lambda>y. f z \<le> f y) zones) zones =
      filter (\<lambda>z. list_all (\<lambda>y. g z \<le> g y) zones) zones"
    using assms by (intro filter_cong refl) (auto simp: list_all_iff)
  then show ?thesis by (simp add: firstLeast_def)
qed

lemma pickZone_least:
  assumes zones: "cs_FailureDomains (cl_Spec c) = zones" "zones \<noteq> []" "'''' \<notin> set zones"
    and name: "mget (om_Labels (m_Meta m)) ClusterNameLabel = cn" "cn \<noteq> ''''"
    and answer: "e_machines E (calls s) (KListMachines (om_Namespace (m_Meta m)) cn) = Inr items"
  shows "run_state (pickZoneForMachine E m (Some c)) s =
    (Inr (firstLeast zones (machinesIn (om_Name (m_Meta m)) items)),
     s\<lparr>calls := calls s @ [KListMachines (om_Namespace (m_Meta m)) cn]\<rparr>)"
proof -
  have "leastUsedZone zones (countZones (om_Name (m_Meta m)) items) =
      firstLeast zones (machinesIn (om_Name (m_Meta m)) items)"
    unfolding leastUsedZone_firstLeast [OF zones(2)]
    using zones(3) by (intro firstLeast_cong) (metis countZones_eq machinesIn_def)
  then show ?thesis
    using assms by (simp add: pickZoneForMachine_def Let_def)
qed

lemma firstLeast_in: "zones \<noteq> [] \<Longrightarrow> firstLeast zones f \<in> set zones"
  by (metis leastUsedZone_firstLeast leastUsedZone_in)

lemma prefix_emitted: "prefix (calls s @ xs) (calls (snd (run_state m s))) \<Longrightarrow> prefix xs (emitted m s)"
  by (auto simp: emitted_def prefix_def)

text \<open>The machine with its zone, and the first write that a zone leads to.\<close>

abbreviation withZone :: "string \<Rightarrow> EvrocMachine \<Rightarrow> EvrocMachine" where
  "withZone z m \<equiv> m\<lparr>m_Status := (m_Status m)\<lparr>mst_AvailabilityZone := z\<rparr>\<rparr>"

definition persistZone :: "Env \<Rightarrow> string \<Rightarrow> (EvrocMachine, goerr option) go" where
  "persistZone E z = do { modCur (withZone z);
     onError (k8sStatusMachine E) (\<lambda>err. ret (Some (wrapErr ''persisting availability zone'' err))) (ret None) }"

lemma persistZone_calls:
  "calls (snd (run_state (persistZone E z) u)) = calls u @ [KStatusMachine (withZone z (cur u))]"
  by (simp add: persistZone_def k8sStatusMachine_def storeReply_def split: sum.split)

lemma owned_rest_extends:
  assumes "run_state (pickAndUpdateZoneForMachine E ow cl) s = (r, u)" and "mst_AvailabilityZone (m_Status (cur s)) = ''''"
  shows "prefix (calls u) (calls (snd (run_state (reconcileOwned E ow cl) s)))"
proof (cases r)
  case None
  let ?rest = "do {
          machine \<leftarrow> getCur;
          onResult (VirtualMachineService_Get E (om_Name (m_Meta machine)))
            (\<lambda>err. if \<not> IsNotFoundError err then
                 handleMachineError E (wrapErr ''failed to get VM from cloud'' err)
               else onResult (bootstrapData E ow) ret
                 (\<lambda>bootstrapUserData. do {
                    machine \<leftarrow> getCur;
                    createVM E (mergeUserData (s_mimeBoundary E) bootstrapUserData
                        (ms_UserData (m_Spec machine)))
                      (clusterLabelInfoFrom cl) cl }))
            (\<lambda>evrocVM. reconcileExistingVM E evrocVM cl) }"
  have "justifies (createJudge E) [] ?rest"
    by (intro just_rules justifies_createVM justifies_noCreate createsNothing_noVM createsNothing_existing
        createsNothing_status createsNothing_steps virtualMachineR.emits_get) simp
  then have "justRel (createJudge E) [] u (snd (run_state ?rest u))"
    unfolding state_io_rel_def by (rule spec)
  then have "prefix (calls u) (calls (snd (run_state ?rest u)))"
    by (auto simp: justRel_def)
  then show ?thesis
    using assms None by (simp add: reconcileOwned_def assignZone_def)
next
  case (Some err)
  have "emits (\<lambda>_. True) (handleMachineError E err)"
    by (intro emits_handleMachineError TrueI)
  then have "prefix (calls u) (calls (snd (run_state (handleMachineError E err) u)))"
    by (rule emits_any)
  then show ?thesis
    using assms Some by (auto simp: reconcileOwned_def assignZone_def early_def split: prod.split)
qed

text \<open>A machine for which no zone is found asks nothing of the cloud.\<close>

lemma owned_without_zone:
  assumes pick: "run_state (pickAndUpdateZoneForMachine E ow cl) s = (Some err, s\<lparr>calls := calls s @ xs\<rparr>)"
    and new: "mst_AvailabilityZone (m_Status (cur s)) = ''''" and xs: "\<forall>k \<in> set xs. \<not> isCloudCall k"
    and k: "k \<in> set (emitted (reconcileOwned E ow cl) s)"
  shows "\<not> isCloudCall k"
proof -
  let ?u = "s\<lparr>calls := calls s @ xs\<rparr>"
  have "emits (\<lambda>k. \<not> isCloudCall k) (handleMachineError E err)"
    by (intro emits_handleMachineError) simp_all
  then obtain ys where ys: "calls (snd (run_state (handleMachineError E err) ?u)) = calls ?u @ ys"
      "\<forall>k \<in> set ys. \<not> isCloudCall k"
    using emits_calls by blast
  have "calls (snd (run_state (reconcileOwned E ow cl) s)) = calls (snd (run_state (handleMachineError E err) ?u))"
    using pick new by (simp add: reconcileOwned_def assignZone_def early_def split: prod.split)
  then have "emitted (reconcileOwned E ow cl) s = xs @ ys"
    using ys(1) by (simp add: emitted_def)
  then show ?thesis
    using k xs ys(2) by auto
qed

text \<open>
  C36. A machine without a zone gets one before anything else is done for it once its owner is
  read, and the choice is written to its status at once: the failure domain of its owner Machine
  when there is one; else, when the cluster has failure domains (none of them empty) and the
  machine has the label of its cluster, the first of them that has the fewest of the cluster's
  other machines, from one listing.  When neither gives a zone (a failure domain that is no
  string, no cluster, no failure domains, no label, or a listing that fails), nothing is asked of
  the cloud.
\<close>

theorem zone_choice:
  assumes new: "mst_AvailabilityZone (m_Status (cur s)) = ''''"
  shows "let fd = ow_FailureDomain ow; cn = mget (om_Labels (m_Meta (cur s))) ClusterNameLabel;
      listing = KListMachines (om_Namespace (m_Meta (cur s))) cn;
      made = emitted (reconcileOwned E ow cl) s
    in (\<forall>z. fd = NestedFound z \<and> z \<noteq> '''' \<longrightarrow> prefix [KStatusMachine (withZone z (cur s))] made) \<and>
      (\<forall>c items. (fd = NestedAbsent \<or> fd = NestedFound '''') \<and> cl = Some c \<and> cn \<noteq> '''' \<and>
         cs_FailureDomains (cl_Spec c) \<noteq> [] \<and> '''' \<notin> set (cs_FailureDomains (cl_Spec c)) \<and>
         e_machines E (calls s) listing = Inr items \<longrightarrow>
           prefix [listing, KStatusMachine (withZone (firstLeast (cs_FailureDomains (cl_Spec c))
             (machinesIn (om_Name (m_Meta (cur s))) items)) (cur s))] made) \<and>
      ((\<exists>err. fd = NestedBadType err) \<or> (fd = NestedAbsent \<or> fd = NestedFound '''') \<and>
         (cl = None \<or> (\<exists>c. cl = Some c \<and> cs_FailureDomains (cl_Spec c) = []) \<or> cn = '''' \<or>
          (\<exists>err. e_machines E (calls s) listing = Inl err)) \<longrightarrow> (\<forall>k \<in> set made. \<not> isCloudCall k))"
proof -
  let ?m = "cur s"
  let ?cn = "mget (om_Labels (m_Meta ?m)) ClusterNameLabel"
  let ?list = "KListMachines (om_Namespace (m_Meta ?m)) ?cn"
  let ?all = "emitted (reconcileOwned E ow cl) s"
  have first: "prefix (xs @ [KStatusMachine (withZone z ?m)]) ?all"
    if pick: "run_state (pickAndUpdateZoneForMachine E ow cl) s = run_state (persistZone E z) (s\<lparr>calls := calls s @ xs\<rparr>)"
    for xs z
  proof -
    obtain r u where u: "run_state (pickAndUpdateZoneForMachine E ow cl) s = (r, u)"
      by fastforce
    then have "calls u = calls s @ xs @ [KStatusMachine (withZone z ?m)]"
      using persistZone_calls [of E z "s\<lparr>calls := calls s @ xs\<rparr>"] unfolding pick by simp
    then show ?thesis
      using owned_rest_extends [OF u new] by (intro prefix_emitted) simp
  qed
  have owner: "prefix [KStatusMachine (withZone z ?m)] ?all"
    if "ow_FailureDomain ow = NestedFound z" "z \<noteq> ''''" for z
    using first [of z "[]"] that by (simp add: persistZone_def pickAndUpdateZoneForMachine_def nestedString_def)
  have least: "prefix [?list, KStatusMachine (withZone (firstLeast (cs_FailureDomains (cl_Spec c))
        (machinesIn (om_Name (m_Meta ?m)) items)) ?m)] ?all"
    if fd: "ow_FailureDomain ow = NestedAbsent \<or> ow_FailureDomain ow = NestedFound ''''" and c: "cl = Some c" "?cn \<noteq> ''''"
      and fds: "cs_FailureDomains (cl_Spec c) \<noteq> []" "'''' \<notin> set (cs_FailureDomains (cl_Spec c))"
      and items: "e_machines E (calls s) ?list = Inr items" for c items
  proof -
    let ?z = "firstLeast (cs_FailureDomains (cl_Spec c)) (machinesIn (om_Name (m_Meta ?m)) items)"
    have "?z \<noteq> ''''"
      using firstLeast_in [OF fds(1)] fds(2) by metis
    then show ?thesis
      using first [of ?z "[?list]"] fd pickZone_least [OF refl fds refl c(2) items]
      by (auto simp: c(1) persistZone_def pickAndUpdateZoneForMachine_def nestedString_def)
  qed
  have none: "\<not> isCloudCall k"
    if "(\<exists>err. ow_FailureDomain ow = NestedBadType err) \<or>
        (ow_FailureDomain ow = NestedAbsent \<or> ow_FailureDomain ow = NestedFound '''') \<and>
         (cl = None \<or> (\<exists>c. cl = Some c \<and> cs_FailureDomains (cl_Spec c) = []) \<or> ?cn = '''' \<or>
          (\<exists>err. e_machines E (calls s) ?list = Inl err))" and k: "k \<in> set ?all" for k
  proof -
    have "\<exists>err. run_state (pickAndUpdateZoneForMachine E ow cl) s = (Some err, s) \<or>
        run_state (pickAndUpdateZoneForMachine E ow cl) s = (Some err, s\<lparr>calls := calls s @ [?list]\<rparr>)"
      using that(1)
      by (cases "ow_FailureDomain ow"; cases cl)
        (auto simp: pickAndUpdateZoneForMachine_def pickZoneForMachine_def nestedString_def Let_def)
    then show ?thesis
      using owned_without_zone [where xs = "[]", OF _ new _ k] owned_without_zone [where xs = "[?list]", OF _ new _ k]
      by auto
  qed
  show ?thesis
    unfolding Let_def using owner least none by blast
qed

definition zonedCluster :: EvrocCluster where
  "zonedCluster = exampleCluster\<lparr>cl_Spec := (cl_Spec exampleCluster)
     \<lparr>cs_FailureDomains := [''a'', ''b'', ''c'']\<rparr>\<rparr>"

text \<open>A machine without a zone, and another machine of the cluster, in zone \<open>a\<close>.\<close>

definition unzonedMachine :: EvrocMachine where
  "unzonedMachine = withZone '''' (exampleMachine None)"

definition otherMachine :: EvrocMachine where
  "otherMachine = (exampleMachine None)\<lparr>m_Meta := (m_Meta (exampleMachine None))\<lparr>om_Name := ''o''\<rparr>\<rparr>"

definition zoneWorld :: Env where
  "zoneWorld = emptyWorld\<lparr>e_machines := (\<lambda>_ _. Inr [otherMachine, unzonedMachine])\<rparr>"

theorem zone_choice_witness:
  "KStatusMachine (withZone ''c'' unzonedMachine) \<in> set (emitted (reconcileOwned zoneWorld
     \<lparr>ow_FailureDomain = NestedFound ''c'', ow_DataSecretName = NestedAbsent\<rparr> (Some zonedCluster)) (startOf unzonedMachine)) \<and>
   KStatusMachine (withZone ''b'' unzonedMachine) \<in> set (emitted (reconcileOwned zoneWorld
     \<lparr>ow_FailureDomain = NestedAbsent, ow_DataSecretName = NestedAbsent\<rparr> (Some zonedCluster)) (startOf unzonedMachine))"
proof -
  have least: "firstLeast [''a'', ''b'', ''c''] (machinesIn ''m'' [otherMachine, unzonedMachine]) = ''b''"
    by code_simp
  have m: "mst_AvailabilityZone (m_Status (cur (startOf unzonedMachine))) = ''''"
    "mget (om_Labels (m_Meta unzonedMachine)) ClusterNameLabel = ''c''" "om_Name (m_Meta unzonedMachine) = ''m''"
    by code_simp+
  note choice = zone_choice [OF m(1), unfolded Let_def]
  have "prefix [KStatusMachine (withZone ''c'' unzonedMachine)] (emitted (reconcileOwned zoneWorld
     \<lparr>ow_FailureDomain = NestedFound ''c'', ow_DataSecretName = NestedAbsent\<rparr> (Some zonedCluster)) (startOf unzonedMachine))"
    using choice [of "\<lparr>ow_FailureDomain = NestedFound ''c'', ow_DataSecretName = NestedAbsent\<rparr>" zoneWorld "Some zonedCluster"]
    by (simp add: startOf_def)
  moreover have "prefix [KListMachines (om_Namespace (m_Meta unzonedMachine)) ''c'',
      KStatusMachine (withZone ''b'' unzonedMachine)] (emitted (reconcileOwned zoneWorld
     \<lparr>ow_FailureDomain = NestedAbsent, ow_DataSecretName = NestedAbsent\<rparr> (Some zonedCluster)) (startOf unzonedMachine))"
    using choice [of "\<lparr>ow_FailureDomain = NestedAbsent, ow_DataSecretName = NestedAbsent\<rparr>" zoneWorld "Some zonedCluster"] least m
    by (simp add: startOf_def zonedCluster_def zoneWorld_def)
  ultimately show ?thesis
    by (auto dest!: set_mono_prefix)
qed

section \<open>User data\<close>

text \<open>
  What the merged document has of the machine's own data: all of it, or, when both documents are
  cloud-configs, all but the header line that the bootstrap data already has.
\<close>

definition machinePart :: "string \<Rightarrow> string \<Rightarrow> string" where
  "machinePart bootstrap machine =
     (if hasPrefix (trimSpace bootstrap) ''#cloud-config'' \<and> hasPrefix (trimSpace machine) ''#cloud-config''
      then trimLeftNewlines (trimPrefix (trimSpace machine) ''#cloud-config'') else trimSpace machine)"

lemma mergeUserData_machinePart:
  "containsStr (mergeUserData b bootstrap machine) (machinePart bootstrap machine)"
proof (cases "hasPrefix (trimSpace bootstrap) ''#cloud-config'' \<and>
    hasPrefix (trimSpace machine) ''#cloud-config''")
  case False
  then show ?thesis
    using mergeUserData_keeps_machine [of bootstrap machine b] by (auto simp: machinePart_def)
next
  case True
  let ?body = "trimLeftNewlines (trimPrefix (trimSpace machine) ''#cloud-config'')"
  have filled: "trimSpace bootstrap \<noteq> ''''" "trimSpace machine \<noteq> ''''"
    using True by (auto simp: hasPrefix_def)
  have "containsStr (mergeUserData b bootstrap machine) ?body"
  proof (cases "?body = ''''")
    case False
    then have "mergeUserData b bootstrap machine = (trimSpace bootstrap @ newline @ newline @
        ''# merged machine userData'' @ newline) @ ?body"
      using True filled by (simp add: mergeUserData_def Let_def)
    moreover have "containsStr (x @ ?body) ?body" for x
      by (rule containsStr_append2) (rule containsStr_self)
    ultimately show ?thesis by metis
  qed simp
  then show ?thesis
    using True by (simp add: machinePart_def)
qed

lemma injectSSHKey_key:
  assumes "injectSSHKeyIntoCloudInit u k = Inr r" and "k \<noteq> ''''"
    and "\<not> containsStr u ''ssh_authorized_keys:''"
  shows "containsStr r (quoted k)"
proof -
  have "containsStr (sshKeysSection k) (quoted k)"
    unfolding sshKeysSection_def by (intro containsStr_append2 containsStr_append1 containsStr_self)
  then have "containsStr (sshConfigFor u k) (quoted k)"
    using assms(3) by (simp add: sshConfigFor_def containsStr_append1)
  moreover have "\<exists>x. r = x @ sshConfigFor u k"
    using assms by (auto simp: injectSSHKeyIntoCloudInit_def Let_def sshConfigFor_def split: if_splits)
  ultimately show ?thesis
    by (auto intro: containsStr_append2)
qed

lemma hasPrefix_contains: "hasPrefix r u \<Longrightarrow> containsStr u p \<Longrightarrow> containsStr r p"
  by (auto elim!: hasPrefixE intro: containsStr_append1)

text \<open>
  C37. The user data of a virtual machine loses nothing: the bootstrap data and the machine's own
  data are in it, and with an SSH key on the machine also a key section and a user section; the
  key itself is there when the documents bring no key section of their own.  There is no user
  data only when there is nothing to put in it.
\<close>

theorem user_data_carried:
  assumes request: "buildVMRequest E m (mergeUserData b bootstrap (ms_UserData (m_Spec m))) cl = Inr r"
    and key: "ms_SSHKey (m_Spec m) = k"
  shows "case vr_CloudInitUserData r of
      None \<Rightarrow> trimSpace bootstrap = '''' \<and> trimSpace (ms_UserData (m_Spec m)) = '''' \<and> k = ''''
    | Some u \<Rightarrow> containsStr u (trimSpace bootstrap) \<and>
        containsStr u (machinePart bootstrap (ms_UserData (m_Spec m))) \<and>
        (k \<noteq> '''' \<longrightarrow> containsStr u ''ssh_authorized_keys:'' \<and> containsStr u ''users:'' \<and>
          (\<not> containsStr (mergeUserData b bootstrap (ms_UserData (m_Spec m))) ''ssh_authorized_keys:'' \<longrightarrow>
             containsStr u (quoted k)))"
proof -
  let ?D = "mergeUserData b bootstrap (ms_UserData (m_Spec m))"
  have os: "buildOSSettings m ?D = Inr (vr_CloudInitUserData r)"
    using request by (auto simp: buildVMRequest_def Let_def split: sum.splits)
  show ?thesis
  proof (cases "vr_CloudInitUserData r")
    case None
    then have "?D = ''''" "k = ''''"
      using os key by (auto simp: buildOSSettings_def split: if_splits sum.splits)
    then show ?thesis
      using None by (auto simp: mergeUserData_def buildMultipartUserData_def Let_def split: if_splits)
  next
    case (Some u)
    then have u: "injectSSHKeyIntoCloudInit ?D k = Inr u"
      using os key by (auto simp: buildOSSettings_def split: if_splits sum.splits)
    then have "hasPrefix u ?D"
      by (rule injectSSHKey_keeps)
    then show ?thesis
      using Some hasPrefix_contains mergeUserData_keeps_bootstrap mergeUserData_machinePart
        injectSSHKey_sections [OF u] injectSSHKey_key [OF u] by fastforce
  qed
qed

definition keyMachine :: EvrocMachine where
  "keyMachine = (exampleMachine None)\<lparr>m_Spec := (m_Spec (exampleMachine None))\<lparr>ms_SSHKey := ''k''\<rparr>\<rparr>"

theorem user_data_carried_witness:
  "\<exists>r u. buildVMRequest emptyWorld keyMachine (mergeUserData ''b'' ''#cloud-config'' '''') None = Inr r \<and>
     vr_CloudInitUserData r = Some u \<and> containsStr u (quoted ''k'')"
proof -
  have data: "ms_UserData (m_Spec keyMachine) = ''''" "ms_SSHKey (m_Spec keyMachine) = ''k''"
    by (simp_all add: keyMachine_def exampleMachine_def zeroMachine_def)
  have merged: "mergeUserData ''b'' ''#cloud-config'' '''' = ''#cloud-config''"
    by code_simp
  have "case buildVMRequest emptyWorld keyMachine ''#cloud-config'' None of
      Inl _ \<Rightarrow> False | Inr r \<Rightarrow> vr_CloudInitUserData r \<noteq> None"
    by code_simp
  then obtain r u where r: "buildVMRequest emptyWorld keyMachine ''#cloud-config'' None = Inr r"
      "vr_CloudInitUserData r = Some u"
    by (auto split: sum.splits)
  then show ?thesis
    using user_data_carried [of emptyWorld keyMachine "''b''" "''#cloud-config''" None r "''k''"]
    by (simp add: data merged)
qed

text \<open>
  The limit of that: when the bootstrap data is a cloud-config and the machine's own data is
  not, the two become a MIME document, and the sections for the SSH key are appended after its
  closing boundary, where a MIME reader sees no part any more.
\<close>

theorem ssh_key_after_boundary:
  assumes cloud: "hasPrefix (trimSpace bootstrap) ''#cloud-config''"
    and own: "trimSpace machine \<noteq> ''''" "\<not> hasPrefix (trimSpace machine) ''#cloud-config''"
    and key: "k \<noteq> ''''" "sshConfigFor (mergeUserData b bootstrap machine) k \<noteq> ''''"
  shows "\<exists>body. injectSSHKeyIntoCloudInit (mergeUserData b bootstrap machine) k =
    Inr (body @ closingBoundary b @ newline @ sshConfigFor (mergeUserData b bootstrap machine) k)"
proof -
  have "trimSpace bootstrap \<noteq> ''''"
    using cloud by (auto simp: hasPrefix_def)
  then have "mergeUserData b bootstrap machine =
      buildMultipartUserData b [trimSpace bootstrap, trimSpace machine]"
    using own by (simp add: mergeUserData_def Let_def)
  then show ?thesis
    using injectSSHKey_after_boundary [OF key(1), of "trimSpace bootstrap"] cloud key(2) by simp
qed

theorem ssh_key_after_boundary_witness:
  "\<exists>body. injectSSHKeyIntoCloudInit (mergeUserData ''b'' ''#cloud-config'' ''#!/bin/sh'') ''k'' =
    Inr (body @ closingBoundary ''b'' @ newline @
      sshConfigFor (mergeUserData ''b'' ''#cloud-config'' ''#!/bin/sh'') ''k'')"
  by (rule ssh_key_after_boundary; code_simp)

section \<open>Security groups of an existing machine\<close>

text \<open>
  C38. The groups of a virtual machine are patched exactly when they differ: for a list of
  distinct desired names there is one read, and one patch with all of them unless the machine
  has exactly those.  With a name twice among the desired ones the comparison fails: a machine
  that has one of them and another group instead is left as it is.
\<close>

theorem security_groups_patched:
  assumes answer: "e_vm E (calls s) (SdkGet VirtualMachineK n) = Inr vm"
    and current: "currentSecurityGroups vm = current"
  shows "(distinct desired \<longrightarrow> emitted (VirtualMachineService_UpdateSecurityGroups E n desired) s =
      SdkGet VirtualMachineK n #
      (if distinct current \<and> set current = set desired then []
       else [SdkPatchVM n (PatchSecurityGroups (map (s_ref E SecurityGroupRefK) desired))])) \<and>
    (current = [g, h] \<longrightarrow>
      emitted (VirtualMachineService_UpdateSecurityGroups E n [g, g]) s = [SdkGet VirtualMachineK n])"
proof -
  have run: "emitted (VirtualMachineService_UpdateSecurityGroups E n gs) s =
      SdkGet VirtualMachineK n # (if securityGroupsEqual current gs then []
       else [SdkPatchVM n (PatchSecurityGroups (map (s_ref E SecurityGroupRefK) gs))])" for gs
    using answer current
    by (auto simp: VirtualMachineService_UpdateSecurityGroups_def VirtualMachineService_Get_def emitted_def
        split: sum.splits)
  moreover have "securityGroupsEqual [g, h] [g, g]"
    by (simp add: securityGroupsEqual_def)
  ultimately show ?thesis
    by (simp add: securityGroupsEqual_set)
qed

text \<open>A machine in the groups \<open>g\<close> and \<open>h\<close>.\<close>

definition groupVM :: VirtualMachine where
  "groupVM = \<lparr>vm_Meta = \<lparr>md_Id = ''m'', md_Uid = ''1''\<rparr>, vm_PlacementGroupRef = None, vm_PublicIPRef = None,
     vm_Networking = Some \<lparr>vn_PrivateIPv4Address = None, vn_PublicIPv4Address = None,
       vn_Ipv6Address = None, vn_SecurityGroupActiveMembershipRefs = Some [''/p/g'', ''/p/h'']\<rparr>,
     vm_State = ''''\<rparr>"

definition vmWorld :: Env where
  "vmWorld = emptyWorld\<lparr>e_vm := (\<lambda>_ _. Inr groupVM)\<rparr>"

theorem security_groups_patched_witness:
  "emitted (VirtualMachineService_UpdateSecurityGroups vmWorld ''m'' [''h'', ''g'']) (startOf zeroMachine) =
     [SdkGet VirtualMachineK ''m''] \<and>
   emitted (VirtualMachineService_UpdateSecurityGroups vmWorld ''m'' [''h'', ''i'']) (startOf zeroMachine) =
     [SdkGet VirtualMachineK ''m'', SdkPatchVM ''m'' (PatchSecurityGroups [''/h'', ''/i''])]"
proof -
  have vm: "e_vm vmWorld h k = Inr groupVM" "s_ref vmWorld = (\<lambda>_ n. ''/'' @ n)" for h k
    by (simp_all add: vmWorld_def emptyWorld_def)
  have "currentSecurityGroups groupVM = [''g'', ''h'']"
    by code_simp
  then have run: "emitted (VirtualMachineService_UpdateSecurityGroups vmWorld ''m'' gs) (startOf zeroMachine) =
      SdkGet VirtualMachineK ''m'' # (if {''g'', ''h''} = set gs then []
       else [SdkPatchVM ''m'' (PatchSecurityGroups (map (s_ref vmWorld SecurityGroupRefK) gs))])"
    if "distinct gs" for gs
    using security_groups_patched [OF vm(1), where n = "''m''" and desired = gs and s = "startOf zeroMachine"]
      that by simp
  have same: "({''g'', ''h''} = set [''h'', ''g'']) = True"
    by (simp only: list.set insert_commute simp_thms)
  have "''g'' \<notin> set [''h'', ''i'']"
    by simp
  then have other: "({''g'', ''h''} = set [''h'', ''i'']) = False"
    by (metis insertI1)
  have "distinct [''h'', ''g'']" and "distinct [''h'', ''i'']"
    by simp_all
  from this [THEN run] show ?thesis
    unfolding same other by (simp add: vm(2))
qed

section \<open>Setting a cluster up\<close>

text \<open>
  C39. Setting a cluster up ends after one round: a live cluster is either reconciled at once, or
  updated once and taken up again after a second, and the next dispatch of the object that the
  API server stored reconciles it.
\<close>

theorem cluster_setup_ends:
  assumes live: "om_DeletionTimestamp (cl_Meta (cur s)) = None"
    and uuid: "e_uuid E (calls s) \<noteq> ''''"
    and server: "\<And>x. \<exists>y. e_cluster E (calls s) (KUpdateCluster x) = Inr y \<and>
      (cl_Meta y)\<lparr>om_ResourceVersion := ''''\<rparr> = (cl_Meta x)\<lparr>om_ResourceVersion := ''''\<rparr>"
  shows "if clusterOwnershipID (Some (cur s)) \<noteq> '''' \<and> hasFinalizer (cl_Meta (cur s)) clusterFinalizer
    then run_state (Cluster_dispatch E) s = run_state (Cluster_reconcileNormal E) s
    else resultOf (Cluster_dispatch E) s = requeueAfter 1 \<and>
      (\<exists>x. emitted (Cluster_dispatch E) s = [KUpdateCluster x]) \<and>
      (\<forall>E' t. cur t = finalCur (Cluster_dispatch E) s \<longrightarrow>
         run_state (Cluster_dispatch E') t = run_state (Cluster_reconcileNormal E') t)"
proof (cases "clusterOwned (cur s) \<and> clusterProtected (cur s)")
  case True
  then show ?thesis
    using live cluster_dispatch_ready by simp
next
  case False
  obtain x where x: "clusterLive x" "clusterProtected x" "clusterOwned x"
    and run: "\<And>y. e_cluster E (calls s) (KUpdateCluster x) = Inr y \<Longrightarrow>
      run_state (Cluster_dispatch E) s = (requeueAfter 1, s\<lparr>calls := calls s @ [KUpdateCluster x], cur := y\<rparr>)"
    by (rule cluster_dispatch_unready [OF live False, of E]) (use uuid in \<open>auto split: if_splits\<close>)
  obtain y where y: "e_cluster E (calls s) (KUpdateCluster x) = Inr y"
      "(cl_Meta y)\<lparr>om_ResourceVersion := ''''\<rparr> = (cl_Meta x)\<lparr>om_ResourceVersion := ''''\<rparr>"
    using server by blast
  have "clusterLive y" "clusterProtected y" "clusterOwned y"
    using x arg_cong [OF y(2), of om_DeletionTimestamp] arg_cong [OF y(2), of om_Finalizers]
      arg_cong [OF y(2), of om_Annotations]
    by (simp_all add: hasFinalizer_def clusterOwnershipID_def)
  then show ?thesis
    using run [OF y(1)] False cluster_dispatch_ready
    by (auto simp: resultOf_def emitted_def finalCur_def)
qed

theorem cluster_setup_ends_witness:
  "resultOf (Cluster_dispatch (clusterWorld None)) (startOf exampleCluster) = requeueAfter 1"
proof -
  have "om_DeletionTimestamp (cl_Meta exampleCluster) = None"
      "\<not> hasFinalizer (cl_Meta exampleCluster) clusterFinalizer"
    by (simp_all add: exampleCluster_def exampleMeta_def hasFinalizer_def)
  moreover have "e_uuid (clusterWorld None) h \<noteq> ''''"
    and "e_cluster (clusterWorld None) h (KUpdateCluster x) = Inr x" for h x
    by (simp_all add: clusterWorld_def emptyWorld_def)
  ultimately show ?thesis
    using cluster_setup_ends [of "startOf exampleCluster" "clusterWorld None"] by auto
qed

section \<open>The names of a cluster\<close>

text \<open>
  C40. The names of a cluster's resources survive a move: the prefix that was handed out once is
  in an annotation, and a cluster that comes back with it, under whatever UID and without its
  status, gets the same prefix and the same load balancer name, and keeps them in every patch.
\<close>

theorem cluster_prefix_survives_move:
  assumes handed: "clusterResourcePrefix c = Inr (p, c')" "p \<noteq> ''''"
    and moved: "mget (om_Annotations (cl_Meta d)) clusterResourcePrefixAnnotation =
      mget (om_Annotations (cl_Meta c')) clusterResourcePrefixAnnotation"
    and fetch: "e_cluster E [] (KGetCluster req) = Inr d"
    and k: "KPatchCluster b a \<in> set (clusterCalls E req)"
  shows "clusterResourcePrefix d = Inr (p, d) \<and> resolveLoadBalancerName d = Inr (p @ ''-cp-lb'', d) \<and>
    clusterResourcePrefix a = Inr (p, a)"
proof -
  have p: "mget (om_Annotations (cl_Meta c')) clusterResourcePrefixAnnotation = p"
    using clusterResourcePrefix_cases [OF handed(1)] mget_setPrefix by blast
  have "clusterResourcePrefix d = Inr (p, d)"
    by (rule clusterResourcePrefix_stable [OF handed moved])
  moreover have "clusterGrows E d a"
    using patch_grows [OF fetch k] ..
  then have "mget (om_Annotations (cl_Meta a)) clusterResourcePrefixAnnotation = p"
    using moved p handed(2) unfolding clusterGrows_def by simp
  then have "clusterResourcePrefix a = Inr (p, a)"
    using p by (intro clusterResourcePrefix_stable [OF handed]) simp
  ultimately show ?thesis
    by (simp add: resolveLoadBalancerName_def)
qed

text \<open>The example cluster, moved from where its UID was another.\<close>

definition movedCluster :: EvrocCluster where
  "movedCluster = setClusterResourcePrefixAnnotation ''m-01234567'' (liveCluster None)"

definition originalCluster :: EvrocCluster where
  "originalCluster = (liveCluster None)\<lparr>cl_Meta := (cl_Meta (liveCluster None))\<lparr>om_UID := ''0123456789''\<rparr>\<rparr>"

definition movedWorld :: Env where
  "movedWorld = (clusterWorld None)\<lparr>e_cluster := (\<lambda>_ c. case c of KGetCluster _ \<Rightarrow> Inr movedCluster
     | _ \<Rightarrow> Inl notFound)\<rparr>"

lemma movedPatch:
  "list_ex (\<lambda>k. case k of KPatchCluster _ _ \<Rightarrow> True | _ \<Rightarrow> False) (clusterCalls movedWorld exampleKey)"
  by code_simp

theorem cluster_prefix_survives_move_witness:
  "\<exists>b a. KPatchCluster b a \<in> set (clusterCalls movedWorld exampleKey) \<and>
     clusterResourcePrefix a = Inr (''m-01234567'', a)"
proof -
  obtain k where k: "k \<in> set (clusterCalls movedWorld exampleKey)"
      "case k of KPatchCluster _ _ \<Rightarrow> True | _ \<Rightarrow> False"
    using movedPatch unfolding list_ex_iff by blast
  then obtain b a where "k = KPatchCluster b a"
    by (auto split: Call.splits)
  then have patch: "KPatchCluster b a \<in> set (clusterCalls movedWorld exampleKey)"
    using k(1) by simp
  have handed: "clusterResourcePrefix originalCluster =
      Inr (''m-01234567'', setClusterResourcePrefixAnnotation ''m-01234567'' originalCluster)"
    by (rule trans [OF clusterResourcePrefix_fresh])
       (simp_all add: originalCluster_def liveCluster_def exampleMeta_def mget_def recoveredPrefix_def
         clusterOwnershipIDAnnotation_def clusterResourcePrefixAnnotation_def zeroClusterResources_def Let_def)
  have fetch: "e_cluster movedWorld [] (KGetCluster exampleKey) = Inr movedCluster"
    by (simp add: movedWorld_def)
  have "clusterResourcePrefix a = Inr (''m-01234567'', a)"
    using cluster_prefix_survives_move [OF handed _ _ fetch patch] by (simp add: movedCluster_def mget_setPrefix)
  then show ?thesis
    using patch by blast
qed

section \<open>Credentials\<close>

text \<open>
  After \<open>ensureCredentialSecretCopy\<close> succeeded with the user's secret at hand, the last call
  was about the copy, and the copy has the user's data: it was created with it, updated to it, or
  read with the same values.
\<close>

theorem credential_copy_current:
  assumes ok: "resultOf (ensureCredentialSecretCopy E c) s = None"
    and ref: "cs_CredentialsRef (cl_Spec c) = Some r"
    and user: "e_secret E (calls s) (KGetSecret \<lparr>k_Namespace = om_Namespace (cl_Meta c), k_Name = sref_Name r\<rparr>) =
      Inr src"
  shows "\<exists>copy k. last (emitted (ensureCredentialSecretCopy E c) s) = k \<and>
    map_of (sec_Data copy) = map_of (sec_Data src) \<and>
    (k = KCreateSecret copy \<and> sec_Key copy = credentialSecretCopyKey c \<or> k = KUpdateSecret copy \<or>
     k = KGetSecret (credentialSecretCopyKey c) \<and>
       e_secret E (calls s @ [KGetSecret \<lparr>k_Namespace = om_Namespace (cl_Meta c), k_Name = sref_Name r\<rparr>]) k =
         Inr copy)"
proof -
  let ?src = "KGetSecret \<lparr>k_Namespace = om_Namespace (cl_Meta c), k_Name = sref_Name r\<rparr>"
  let ?copy = "KGetSecret (credentialSecretCopyKey c)"
  let ?h = "calls s @ [?src]"
  show ?thesis
  proof (cases "e_secret E ?h ?copy")
    case (Inl err)
    then have "last (emitted (ensureCredentialSecretCopy E c) s) = KCreateSecret (desiredCopy c src)"
      using ok ref user
      by (auto simp: ensureCredentialSecretCopy_def syncCopy_def Let_def emitted_def resultOf_def
          split: sum.splits if_splits)
    then show ?thesis
      by (intro exI [of _ "desiredCopy c src"]) (simp add: desiredCopy_def)
  next
    case (Inr x)
    show ?thesis
    proof (cases "sameData (sec_Data x) (sec_Data src)")
      case True
      then have "last (emitted (ensureCredentialSecretCopy E c) s) = ?copy"
        using ref user Inr
        by (simp add: ensureCredentialSecretCopy_def syncCopy_def Let_def emitted_def desiredCopy_def)
      then show ?thesis
        using True Inr by (intro exI [of _ x]) (auto simp: sameData_iff)
    next
      case False
      then have "last (emitted (ensureCredentialSecretCopy E c) s) =
          KUpdateSecret (x\<lparr>sec_Data := sec_Data src\<rparr>)"
        using ref user Inr
        by (simp add: ensureCredentialSecretCopy_def syncCopy_def Let_def emitted_def desiredCopy_def
            split: sum.splits)
      then show ?thesis
        by (intro exI [of _ "x\<lparr>sec_Data := sec_Data src\<rparr>"]) simp
    qed
  qed
qed

theorem credential_copy_current_witness:
  "\<exists>copy. last (emitted (ensureCredentialSecretCopy (clusterWorld None) exampleCluster) (startOf exampleCluster)) =
     KCreateSecret copy \<and> map_of (sec_Data copy) = map_of (sec_Data exampleSecret)"
proof -
  let ?m = "ensureCredentialSecretCopy (clusterWorld None) exampleCluster"
  have ref: "cs_CredentialsRef (cl_Spec exampleCluster) = Some \<lparr>sref_Name = ''s''\<rparr>"
    by (simp add: exampleCluster_def)
  let ?k = "\<lparr>k_Namespace = om_Namespace (cl_Meta exampleCluster), k_Name = sref_Name \<lparr>sref_Name = ''s''\<rparr>\<rparr>"
  have user: "e_secret (clusterWorld None) (calls (startOf exampleCluster)) (KGetSecret ?k) =
      Inr (exampleSecret\<lparr>sec_Key := ?k\<rparr>)"
    by (simp add: clusterWorld_def)
  have ok: "resultOf ?m (startOf exampleCluster) = None"
    by code_simp
  have "case last (emitted ?m (startOf exampleCluster)) of KCreateSecret _ \<Rightarrow> True | _ \<Rightarrow> False"
    by code_simp
  moreover obtain copy k where k: "last (emitted ?m (startOf exampleCluster)) = k"
      "map_of (sec_Data copy) = map_of (sec_Data (exampleSecret\<lparr>sec_Key := ?k\<rparr>))"
      "k = KCreateSecret copy \<or> k = KUpdateSecret copy \<or> k = KGetSecret (credentialSecretCopyKey exampleCluster)"
    using credential_copy_current [OF ok ref user] by blast
  ultimately have "k = KCreateSecret copy"
    by auto
  with k show ?thesis by auto
qed

end
