(* ===== verification/CloudTrack.thy ===== *)
theory CloudTrack
  imports Labels Provenance
begin

text \<open>
  What is in the cloud over the calls of a reconcile, and the shape of a life cycle: a component
  that makes resources, and releases its object only when a teardown finds none of them.
\<close>

section \<open>The cloud during a reconcile\<close>

text \<open>A resource by kind, name and labels.\<close>

type_synonym resource = "SdkKind \<times> string \<times> gomap"

fun requestName :: "SdkRequest \<Rightarrow> string" where
  "requestName (CreateDisk r) = dr_Name r"
| "requestName (CreatePublicIP n _) = n"
| "requestName (CreateSecurityGroup r) = sgq_Name r"
| "requestName (CreatePlacementGroup n _ _ _) = n"
| "requestName (CreateVM r) = vr_Name r"
| "requestName (CreateBackendPool n _) = n"
| "requestName (CreateBackendService n _ _ _ _) = n"
| "requestName (CreateL4Route n _ _) = n"
| "requestName (CreateLB r) = lbq_Name r"

fun madeBy :: "Call \<Rightarrow> resource list" where
  "madeBy (SdkCreate r) = [(requestKind r, requestName r, requestLabels r)]"
| "madeBy _ = []"

text \<open>
  \<open>present h\<close> is what is in the cloud after the calls \<open>h\<close> and whose deletion was not accepted.  A
  create may have taken effect whatever its answer was; other changes only remove.  The answers
  of the cloud are true: nothing that is there is answered by not found, and a list has every
  resource that its selector matches.
\<close>

definition lookupError :: "Env \<Rightarrow> Call list \<Rightarrow> SdkKind \<Rightarrow> string \<Rightarrow> goerr option" where
  "lookupError E h k n =
     (case k of
        VirtualMachineK \<Rightarrow> (case e_vm E h (SdkGet k n) of Inl e \<Rightarrow> Some e | Inr _ \<Rightarrow> None)
      | LoadBalancerK \<Rightarrow> (case e_lb E h (SdkGet k n) of Inl e \<Rightarrow> Some e | Inr _ \<Rightarrow> None)
      | L4RouteK \<Rightarrow> (case e_route E h (SdkGet k n) of Inl e \<Rightarrow> Some e | Inr _ \<Rightarrow> None)
      | BackendServiceK \<Rightarrow> (case e_svc E h (SdkGet k n) of Inl e \<Rightarrow> Some e | Inr _ \<Rightarrow> None)
      | BackendPoolK \<Rightarrow> (case e_pool E h (SdkGet k n) of Inl e \<Rightarrow> Some e | Inr _ \<Rightarrow> None)
      | PublicIPK \<Rightarrow> (case e_ip E h (SdkGet k n) of Inl e \<Rightarrow> Some e | Inr _ \<Rightarrow> None)
      | DiskK \<Rightarrow> (case e_disk E h (SdkGet k n) of Inl e \<Rightarrow> Some e | Inr _ \<Rightarrow> None)
      | SecurityGroupK \<Rightarrow> (case e_sg E h (SdkGet k n) of Inl e \<Rightarrow> Some e | Inr _ \<Rightarrow> None)
      | PlacementGroupK \<Rightarrow> (case e_pg E h (SdkGet k n) of Inl e \<Rightarrow> Some e | Inr _ \<Rightarrow> None)
      | _ \<Rightarrow> None)"

definition tracks :: "Env \<Rightarrow> (Call list \<Rightarrow> resource set) \<Rightarrow> bool" where
  "tracks E present \<longleftrightarrow>
     (\<forall>h c. present (h @ [c]) \<subseteq> present h \<union> set (madeBy c)) \<and>
     (\<forall>h k n l. e_err E h (SdkDelete k n) = None \<longrightarrow> (k, n, l) \<notin> present (h @ [SdkDelete k n])) \<and>
     (\<forall>h k n l err. e_err E h (SdkDelete k n) = Some err \<longrightarrow> errIs err NotFoundM \<longrightarrow>
        (k, n, l) \<notin> present h) \<and>
     (\<forall>h k n l err. lookupError E h k n = Some err \<longrightarrow> errIs err NotFoundM \<longrightarrow> (k, n, l) \<notin> present h) \<and>
     (\<forall>h k sel items n l. e_items E h (SdkList k sel) = Inr items \<longrightarrow> (k, n, l) \<in> present h \<longrightarrow>
        selectorMatches sel l \<longrightarrow> n \<in> md_Id ` set items)"

lemma tracksD:
  assumes "tracks E present"
  shows "present (h @ [c]) \<subseteq> present h \<union> set (madeBy c)"
    and "e_err E h (SdkDelete k n) = None \<Longrightarrow> (k, n, l) \<notin> present (h @ [SdkDelete k n])"
    and "e_err E h (SdkDelete k n) = Some err \<Longrightarrow> errIs err NotFoundM \<Longrightarrow> (k, n, l) \<notin> present h"
    and "lookupError E h k n = Some err \<Longrightarrow> errIs err NotFoundM \<Longrightarrow> (k, n, l) \<notin> present h"
    and "e_items E h (SdkList k sel) = Inr items \<Longrightarrow> (k, n, l) \<in> present h \<Longrightarrow>
      selectorMatches sel l \<Longrightarrow> n \<in> md_Id ` set items"
proof -
  note t = assms [unfolded tracks_def]
  show "present (h @ [c]) \<subseteq> present h \<union> set (madeBy c)"
    by (rule t [THEN conjunct1, rule_format])
  show "e_err E h (SdkDelete k n) = None \<Longrightarrow> (k, n, l) \<notin> present (h @ [SdkDelete k n])"
    by (rule t [THEN conjunct2, THEN conjunct1, rule_format])
  show "e_err E h (SdkDelete k n) = Some err \<Longrightarrow> errIs err NotFoundM \<Longrightarrow> (k, n, l) \<notin> present h"
    by (rule t [THEN conjunct2, THEN conjunct2, THEN conjunct1, rule_format])
  show "lookupError E h k n = Some err \<Longrightarrow> errIs err NotFoundM \<Longrightarrow> (k, n, l) \<notin> present h"
    by (rule t [THEN conjunct2, THEN conjunct2, THEN conjunct2, THEN conjunct1, rule_format])
  show "e_items E h (SdkList k sel) = Inr items \<Longrightarrow> (k, n, l) \<in> present h \<Longrightarrow>
      selectorMatches sel l \<Longrightarrow> n \<in> md_Id ` set items"
    by (rule t [THEN conjunct2, THEN conjunct2, THEN conjunct2, THEN conjunct2, rule_format])
qed

lemma present_bound:
  assumes "tracks E present"
  shows "present (h @ g) \<subseteq> present h \<union> \<Union> (set ` set (map madeBy g))"
proof (induction g rule: rev_induct)
  case (snoc c g)
  then show ?case
    using tracksD(1) [OF assms, of "h @ g" c] by auto
qed simp

lemma no_creates: "\<not> list_ex isCreate g \<Longrightarrow> c \<in> set g \<Longrightarrow> madeBy c = []"
  by (cases c) (auto simp: list_ex_iff)

text \<open>Without a create nothing comes back.\<close>

lemma absent_stays:
  assumes "tracks E present" and "\<not> list_ex isCreate g"
  shows "present (h @ g) \<subseteq> present h"
  using present_bound [OF assms(1), of h g] no_creates [OF assms(2)] by fastforce

lemma lookup_absent:
  assumes tracks: "tracks E present" and none: "\<not> list_ex isCreate h"
    and gone: "answeredIn h (SdkGet k n) (\<lambda>h'. \<exists>err. lookupError E h' k n = Some err \<and> errIs err NotFoundM)"
  shows "(k, n, l) \<notin> present h"
proof -
  obtain h1 h2 err where h: "h = h1 @ SdkGet k n # h2" "lookupError E h1 k n = Some err" "errIs err NotFoundM"
    using gone by (auto simp: answeredIn_def)
  then have "(k, n, l) \<notin> present h1"
    using tracksD(4) [OF tracks] by blast
  moreover have "present h \<subseteq> present h1"
    unfolding h(1) using none h(1) by (intro absent_stays [OF tracks]) simp
  ultimately show ?thesis by blast
qed

section \<open>Life cycles\<close>

text \<open>
  The contract between what a component makes and its teardown.  A step may add to the cloud only
  for a guarded object and leaves it guarded; what it adds is found by the teardown; and while
  anything is left, the guard stays and what is found stays found.
\<close>

locale teardown_cycle =
  fixes step :: "'s \<Rightarrow> 's \<Rightarrow> bool"
    and cloud :: "'s \<Rightarrow> resource set"
    and sound :: "'s \<Rightarrow> bool"
    and guarded :: "'s \<Rightarrow> bool"
    and found :: "'s \<Rightarrow> resource \<Rightarrow> bool"
  assumes step_sound: "step S T \<Longrightarrow> sound S \<Longrightarrow> sound T"
    and step_adds: "step S T \<Longrightarrow> sound S \<Longrightarrow> \<not> cloud T \<subseteq> cloud S \<Longrightarrow> guarded S \<and> guarded T"
    and added_found: "step S T \<Longrightarrow> sound S \<Longrightarrow> r \<in> cloud T \<Longrightarrow> r \<notin> cloud S \<Longrightarrow> found S r"
    and step_keeps: "step S T \<Longrightarrow> sound S \<Longrightarrow> Ball (cloud S) (found S) \<Longrightarrow> guarded S \<Longrightarrow> cloud T \<noteq> {} \<Longrightarrow>
      guarded T \<and> (\<forall>r. found S r \<longrightarrow> found T r)"
begin

lemma step_tidy:
  assumes step: "step S T" and sound: "sound S" and tidy: "cloud S \<noteq> {} \<longrightarrow> guarded S" "Ball (cloud S) (found S)"
  shows "(cloud T \<noteq> {} \<longrightarrow> guarded T) \<and> Ball (cloud T) (found T)"
proof (cases "cloud T = {}")
  case False
  have S: "guarded S"
    using False tidy(1) step_adds [OF step sound] by blast
  have "found S r" if "r \<in> cloud T" for r
    using that tidy(2) added_found [OF step sound] by blast
  then show ?thesis
    using step_keeps [OF step sound tidy(2) S False] by blast
qed simp

text \<open>Nothing leaks: whatever there is is found, and the object waits for it.\<close>

lemma never_leaks:
  assumes "step\<^sup>*\<^sup>* S T" and "sound S" and "cloud S = {}"
  shows "sound T \<and> (cloud T \<noteq> {} \<longrightarrow> guarded T) \<and> Ball (cloud T) (found T)"
  using assms(1)
proof (induction rule: rtranclp_induct)
  case base
  show ?case using assms(2,3) by simp
next
  case (step T U)
  then show ?case
    using step_sound [OF step.hyps(2)] step_tidy [OF step.hyps(2)] by blast
qed

end

end
