(* ===== verification/CloudSim.thy ===== *)
theory CloudSim
  imports CloudTrack Examples
begin

text \<open>
  A cloud that is simulated from the calls, for the witnesses: creates add, deletes remove, and
  lookups and lists are answered from what is there.
\<close>

definition alive :: "Call list \<Rightarrow> resource list" where
  "alive h = foldl (\<lambda>rs c. case c of SdkDelete k n \<Rightarrow> filter (\<lambda>(k', n', _). k' \<noteq> k \<or> n' \<noteq> n) rs
     | _ \<Rightarrow> rs @ madeBy c) [] h"

text \<open>The answer of a world, except that a lookup says not found exactly when nothing is there.\<close>

definition honestly :: "'a reply \<Rightarrow> 'a reply" where
  "honestly f h c = (case c of
       SdkGet k n \<Rightarrow>
         if list_ex (\<lambda>(k', n', _). k' = k \<and> n' = n) (alive h)
         then (case f h c of Inl _ \<Rightarrow> Inl (newErr ''unavailable'') | Inr x \<Rightarrow> Inr x)
         else Inl notFound
     | _ \<Rightarrow> f h c)"

definition simCloud :: "Env \<Rightarrow> Env" where
  "simCloud E = E
     \<lparr>e_err := (\<lambda>_ _. None), e_vm := honestly (e_vm E), e_lb := honestly (e_lb E),
      e_route := honestly (e_route E), e_svc := honestly (e_svc E), e_pool := honestly (e_pool E),
      e_ip := honestly (e_ip E), e_disk := honestly (e_disk E), e_sg := honestly (e_sg E),
      e_pg := honestly (e_pg E),
      e_items := (\<lambda>h c. case c of
          SdkList k _ \<Rightarrow> Inr (map (\<lambda>(_, n, _). \<lparr>md_Id = n, md_Uid = ''1''\<rparr>) (filter (\<lambda>(k', _). k' = k) (alive h)))
        | _ \<Rightarrow> Inr [])\<rparr>"

lemma honestly_gone:
  "honestly f h (SdkGet k n) = Inl err \<Longrightarrow> errIs err NotFoundM \<Longrightarrow> (k, n, l) \<notin> set (alive h)"
  by (auto simp: honestly_def list_ex_iff newErr_def errIs_def split: if_splits sum.splits)

lemma simCloud_lookup:
  assumes "lookupError (simCloud E) h k n = Some err" and "errIs err NotFoundM"
  shows "(k, n, l) \<notin> set (alive h)"
  using assms by (cases k) (auto simp: lookupError_def simCloud_def split: sum.splits dest: honestly_gone)

lemma simCloud_tracks: "tracks (simCloud E) (\<lambda>h. set (alive h))"
proof -
  have "set (alive (h @ [c])) \<subseteq> set (alive h) \<union> set (madeBy c)" for h c
    by (auto simp: alive_def split: Call.split)
  moreover have "(k, n, l) \<notin> set (alive (h @ [SdkDelete k n]))" for h k n l
    by (simp add: alive_def)
  moreover have "n \<in> md_Id ` set items"
    if "(k, n, l) \<in> set (alive h)" "e_items (simCloud E) h (SdkList k sel) = Inr items" for k n l h sel items
    using that by (force simp: simCloud_def image_iff)
  moreover have "e_err (simCloud E) h c = None" for h c
    by (simp add: simCloud_def)
  ultimately show ?thesis
    unfolding tracks_def using simCloud_lookup by auto
qed

end
