(* ===== verification/MachineLife.thy ===== *)
theory MachineLife
  imports MachineProperties CloudSim
begin

text \<open>
  The life of a machine over many reconciles.  A step relation has one reconcile per step, cut
  short anywhere, in any environment that tells the truth about the object and about the cloud;
  its states keep what the API server stores and what the provider made and has not deleted.
  The invariant is that the teardown still finds all of it.
\<close>

section \<open>What a finished teardown leaves\<close>

lemma vm_absent:
  assumes "tracks E present" and "vmGone E n h" and "\<not> list_ex isCreate h"
  shows "(VirtualMachineK, n, l) \<notin> present h"
  by (rule lookup_absent [OF assms(1,3)])
     (use assms(2) in \<open>auto simp: vmGone_def answeredIn_def lookupError_def\<close>)

context owned_kind
begin

lemma owned_absent:
  assumes tracks: "tracks E present" and gone: "allDeleted E i h" and none: "\<not> list_ex isCreate h"
    and sel: "selectorMatches (ownerSelector LabelMachineID i) l"
  shows "(kind, n, l) \<notin> present h"
proof
  assume r: "(kind, n, l) \<in> present h"
  obtain h1 items h2 where h: "h = h1 @ SdkList kind (ownerSelector LabelMachineID i) # h2"
      "e_items E h1 (SdkList kind (ownerSelector LabelMachineID i)) = Inr items"
      "\<forall>n \<in> md_Id ` set items. answeredIn h (SdkDelete kind n)
        (\<lambda>h'. \<forall>err. e_err E h' (SdkDelete kind n) = Some err \<longrightarrow> errIs err NotFoundM)"
    using gone unfolding allDeleted_def by blast
  have before: "present h \<subseteq> present g" if "h = g @ g'" for g g'
    unfolding that using none that by (intro absent_stays [OF tracks]) simp
  have "n \<in> md_Id ` set items"
    using tracksD(5) [OF tracks h(2) _ sel] before [OF h(1)] r by blast
  then obtain g1 g2 where g: "h = g1 @ SdkDelete kind n # g2"
      "\<And>err. e_err E g1 (SdkDelete kind n) = Some err \<Longrightarrow> errIs err NotFoundM"
    using h(3) unfolding answeredIn_def by blast
  show False
  proof (cases "e_err E g1 (SdkDelete kind n)")
    case None
    have "present h \<subseteq> present (g1 @ [SdkDelete kind n])"
      by (rule before) (simp add: g(1))
    then show False
      using tracksD(2) [OF tracks None] r by blast
  next
    case (Some err)
    then show False
      using tracksD(3) [OF tracks Some g(2) [OF Some]] before [OF g(1)] r by blast
  qed
qed

end

lemma all_absent:
  assumes "tracks E present" and "vmGone E nm h" and "allOwnedDeleted E i h" and "\<not> list_ex isCreate h"
    and "k = VirtualMachineK \<and> n = nm \<or> k \<in> {DiskK, PublicIPK, SecurityGroupK} \<and>
      selectorMatches (ownerSelector LabelMachineID i) l"
  shows "(k, n, l) \<notin> present h"
proof -
  note gone = assms(3) [unfolded allOwnedDeleted_def]
  have "(k', n, l) \<notin> present h"
    if "k' \<in> {DiskK, PublicIPK, SecurityGroupK}" "selectorMatches (ownerSelector LabelMachineID i) l" for k'
    using that gone ownedSG.owned_absent [OF assms(1) _ assms(4)] ownedIP.owned_absent [OF assms(1) _ assms(4)]
      ownedDisk.owned_absent [OF assms(1) _ assms(4)] by auto
  then show ?thesis
    using assms(5) vm_absent [OF assms(1,2,4)] by blast
qed

section \<open>Steps\<close>

text \<open>
  What outlives a reconcile: of the stored object its name, owner ID and finalizer, and the cloud.
  The API server knows the object by these; an update stores those of the update, while a write
  of the status leaves them and the patches, of the provider ID, do not mention them.
\<close>

record life =
  lf_Name :: string
  lf_Owner :: string
  lf_Protected :: bool
  lf_Cloud :: "resource set"

definition describes :: "life \<Rightarrow> EvrocMachine \<Rightarrow> bool" where
  "describes S m \<longleftrightarrow> om_Name (m_Meta m) = lf_Name S \<and> machineOwnershipID (Some m) = lf_Owner S \<and>
     hasFinalizer (m_Meta m) machineFinalizer = lf_Protected S"

definition sameIdentity :: "EvrocMachine \<Rightarrow> EvrocMachine \<Rightarrow> bool" where
  "sameIdentity x y \<longleftrightarrow> om_Name (m_Meta x) = om_Name (m_Meta y) \<and>
     machineOwnershipID (Some x) = machineOwnershipID (Some y) \<and>
     hasFinalizer (m_Meta x) machineFinalizer = hasFinalizer (m_Meta y) machineFinalizer"

definition serves :: "Env \<Rightarrow> life \<Rightarrow> bool" where
  "serves E S \<longleftrightarrow> (\<forall>h c m. e_machine E h c = Inr m \<longrightarrow>
     (case c of KUpdateMachine x \<Rightarrow> sameIdentity m x | _ \<Rightarrow> describes S m))"

text \<open>
  One reconcile, stopped after any number of calls: everything else about the object, its
  deletion included, may have changed since the last one.  An update that was sent may have been
  stored or not, whatever its answer.
\<close>

inductive machineRound :: "Key \<Rightarrow> life \<Rightarrow> life \<Rightarrow> bool" for key where
  round: "machineRound key S T"
  if "serves E S" and "\<And>h. CHR '','' \<notin> set (e_uuid E h)"
    and "tracks E present" and "present [] = lf_Cloud S"
    and "h = take j (machineCalls E key)"
    and "(lf_Name T, lf_Owner T, lf_Protected T) = (lf_Name S, lf_Owner S, lf_Protected S) \<or>
         (\<exists>x. KUpdateMachine x \<in> set h \<and> describes T x)"
    and "lf_Cloud T = present h"


text \<open>What the teardown finds: the virtual machine by its name, the rest by the ownership label.\<close>

abbreviation awaited :: "life \<Rightarrow> bool" where
  "awaited S \<equiv> lf_Protected S \<and> lf_Owner S \<noteq> ''''"

abbreviation plainOwner :: "life \<Rightarrow> bool" where
  "plainOwner S \<equiv> CHR '','' \<notin> set (lf_Owner S)"

definition found :: "life \<Rightarrow> resource \<Rightarrow> bool" where
  "found S r \<longleftrightarrow> (case r of (k, n, l) \<Rightarrow> k = VirtualMachineK \<and> n = lf_Name S \<or>
     k \<in> {DiskK, PublicIPK, SecurityGroupK} \<and> selectorMatches (ownerSelector LabelMachineID (lf_Owner S)) l)"

section \<open>One reconcile\<close>

lemma serves_answer:
  assumes "serves E S" and "e_machine E h k = Inr y"
  shows "describes S y \<or> (\<exists>x. k = KUpdateMachine x \<and> sameIdentity y x)"
proof -
  have "case k of KUpdateMachine x \<Rightarrow> sameIdentity y x | _ \<Rightarrow> describes S y"
    using assms unfolding serves_def by blast
  then show ?thesis
    by (cases k) auto
qed

lemma serves_fetch: "serves E S \<Longrightarrow> e_machine E [] (KGetMachine req) = Inr m \<Longrightarrow> describes S m"
  using serves_answer by blast

text \<open>What an update of the object says about its identity.\<close>

definition keepsIdentity :: "life \<Rightarrow> EvrocMachine \<Rightarrow> bool" where
  "keepsIdentity S x \<longleftrightarrow> om_Name (m_Meta x) = lf_Name S \<and> CHR '','' \<notin> set (machineOwnershipID (Some x)) \<and>
     (lf_Owner S \<noteq> '''' \<longrightarrow> machineOwnershipID (Some x) = lf_Owner S)"

lemma identity_granted:
  assumes "serves E S" and "\<And>h. CHR '','' \<notin> set (e_uuid E h)" and "CHR '','' \<notin> set (lf_Owner S)"
    and c: "c \<in> set (machineCalls E req)"
  shows "granted E (keepsIdentity S) c"
proof (rule reconcile_granted [OF _ _ c])
  have "keepsIdentity S m" if "e_machine E h k = Inr m" "carried (keepsIdentity S) k" for h k m
    using serves_answer [OF assms(1) that(1)] assms(3) that(2)
    by (auto simp: describes_def sameIdentity_def keepsIdentity_def)
  then show "stableInv E (keepsIdentity S)"
    by (auto simp: stableInv_def keepsIdentity_def machineOwnershipID_def)
  show "metaInv E (keepsIdentity S)"
    using assms(2) by (auto simp: metaInv_def keepsIdentity_def machineOwnershipID_def)
qed

lemma update_identity:
  assumes "serves E S" and "\<And>h. CHR '','' \<notin> set (e_uuid E h)" and "CHR '','' \<notin> set (lf_Owner S)"
    and "KUpdateMachine x \<in> set (machineCalls E req)"
  shows "keepsIdentity S x"
  using identity_granted [OF assms] by simp

lemma create_found:
  assumes "serves E S" and "\<And>h. CHR '','' \<notin> set (e_uuid E h)" and "CHR '','' \<notin> set (lf_Owner S)"
    and c: "c \<in> set (machineCalls E req)" and "lf_Owner S \<noteq> ''''" and "r \<in> set (madeBy c)"
  shows "found S r"
proof -
  obtain q where q: "c = SdkCreate q" "r = (requestKind q, requestName q, requestLabels q)"
    using assms(6) by (cases c) auto
  then obtain cl m where m: "keepsIdentity S m" and w: "normalWrite E cl m (SdkCreate q)"
    using granted_write [OF identity_granted [OF assms(1-4)]] by auto
  have owner: "machineOwnershipID (Some m) = lf_Owner S" "om_Name (m_Meta m) = lf_Name S"
    using m assms(5) by (simp_all add: keepsIdentity_def)
  show ?thesis
  proof (cases "\<exists>v. q = CreateVM v")
    case True
    then show ?thesis
      using q w owner by (auto simp: found_def dest!: buildVMRequest_fields(1))
  next
    case False
    then have "requestLabels q = machineResourceLabels m (ci_ID (clusterLabelInfoFrom cl))
        (ci_AdditionalLabels (clusterLabelInfoFrom cl))" "requestKind q \<in> {DiskK, PublicIPK, SecurityGroupK}"
      using w by (cases q; auto)+
    then show ?thesis
      using selects_machineResourceLabels [of m] owner assms(3) by (auto simp: found_def q)
  qed
qed

text \<open>While the machine is live, owned and protected, no update drops the finalizer.\<close>

lemma live_protected:
  assumes serves: "serves E S" and prot: "lf_Protected S"
    and fetch: "e_machine E [] (KGetMachine req) = Inr m"
    and ready: "machineLive m" "machineOwned m"
    and c: "KUpdateMachine x \<in> set (machineCalls E req)"
  shows "hasFinalizer (m_Meta x) machineFinalizer"
proof -
  let ?I = "\<lambda>m. hasFinalizer (m_Meta m) machineFinalizer"
  let ?P = "\<lambda>c. \<forall>x. c = KUpdateMachine x \<longrightarrow> ?I x"
  have m: "?I m"
    using serves_fetch [OF serves fetch] prot by (simp add: describes_def)
  have "?I y" if "e_machine E h k = Inr y" "carried ?I k" for h k y
    using serves_answer [OF serves that(1)] that(2) prot by (auto simp: describes_def sameIdentity_def)
  then have "stableInv E ?I"
    by (simp add: stableInv_def)
  then have "maintains ?I (allowed E cl ?I) (Machine_reconcileNormal E cl)" for cl
    by (rule maintains_reconcileNormal)
  then have "maintains ?I ?P (Machine_reconcileNormal E cl)" for cl
    by (rule maintains_mono) auto
  then have normal: "emitRel ?P s (snd (run_state (Machine_reconcileNormal E cl) s))" if "cur s = m" for s cl
    using that m by (simp add: state_io_rel_def invRel_def)
  then have "state_io_rel (fromRel m (emitRel ?P)) (Machine_dispatch E cl)" for cl
    using ready m by (auto simp: state_io_rel_def fromRel_def dispatch_ready)
  then have "state_io_rel (fromRel m (emitRel ?P)) (Machine_afterFetch E)"
    by (rule afterFetch_emits [rotated]) auto
  then have "?P (KUpdateMachine x)"
    by (rule reconcile_emitted [OF fetch _ _ c]) simp
  then show ?thesis by simp
qed

text \<open>No create is made for a machine that is not live, owned and protected.\<close>

lemma create_ready:
  assumes serves: "serves E S" and c: "c \<in> set (machineCalls E req)" and create: "isCreate c"
  obtains m where "e_machine E [] (KGetMachine req) = Inr m" "machineLive m" "machineOwned m"
    "lf_Protected S" "lf_Owner S \<noteq> ''''"
proof (cases "e_machine E [] (KGetMachine req)")
  case (Inl err)
  then have "c = KGetMachine req"
    using c by (simp add: emitted_def reconcile_unfetched)
  then show ?thesis
    using create by simp
next
  case (Inr m)
  have "isCloudWrite c"
    using create by (cases c) simp_all
  then show ?thesis
    using reconcile_guarded [OF Inr c] create serves_fetch [OF serves Inr]
    by (intro that [of m]) (auto simp: Inr describes_def)
qed

text \<open>The finalizer goes only when nothing is left.\<close>

lemma released_empty:
  assumes found: "Ball (lf_Cloud S) (found S)" and serves: "serves E S"
    and tracks: "tracks E present" "present [] = lf_Cloud S"
    and fetch: "e_machine E [] (KGetMachine req) = Inr m" and deleting: "\<not> machineLive m"
    and h: "h = take j (machineCalls E req)" and none: "\<not> list_ex isCreate h"
    and x: "KUpdateMachine x \<in> set h"
  shows "present h = {}"
proof -
  obtain ys zs where split: "h = ys @ KUpdateMachine x # zs"
    using x by (meson split_list)
  have "machineCalls E req = ys @ KUpdateMachine x # (zs @ drop j (machineCalls E req))"
    using append_take_drop_id [of j "machineCalls E req"] split h by (metis append.assoc append_Cons)
  then have "releaseJudge E m ys (KUpdateMachine x)"
    by (rule deletion_judged [OF fetch deleting])
  then have gone: "vmGone E (lf_Name S) ys" "allOwnedDeleted E (lf_Owner S) ys"
    using serves_fetch [OF serves fetch] by (simp_all add: releaseJudge_def describes_def)
  have before: "\<not> list_ex isCreate ys" "present h \<subseteq> present ys"
    using none absent_stays [OF tracks(1), of _ ys] split by auto
  then have start: "present ys \<subseteq> present []"
    using absent_stays [OF tracks(1), of ys "[]"] by simp
  have "r \<notin> present h" for r
  proof
    assume r: "r \<in> present h"
    then have "found S r"
      using before(2) start tracks(2) found by auto
    moreover obtain k n l where "r = (k, n, l)"
      by (cases r)
    ultimately have "r \<notin> present ys"
      using all_absent [OF tracks(1) gone before(1)] by (auto simp: found_def)
    with r before(2) show False by blast
  qed
  then show ?thesis by blast
qed

section \<open>Many reconciles\<close>

lemma round_facts:
  assumes "machineRound req S T"
  obtains E present h j where "serves E S" "\<And>h. CHR '','' \<notin> set (e_uuid E h)" "tracks E present"
    "present [] = lf_Cloud S" "lf_Cloud T = present h" "h = take j (machineCalls E req)"
    "set h \<subseteq> set (machineCalls E req)"
    "(lf_Name T, lf_Owner T, lf_Protected T) = (lf_Name S, lf_Owner S, lf_Protected S) \<or>
      (\<exists>x. KUpdateMachine x \<in> set h \<and> describes T x)"
  by (rule machineRound.cases [OF assms]) (blast dest: in_set_takeD)

text \<open>The name and, once there, the owner ID stay.\<close>

lemma round_identity:
  assumes "machineRound req S T" and "plainOwner S"
  shows "lf_Name T = lf_Name S \<and> plainOwner T \<and> (lf_Owner S \<noteq> '''' \<longrightarrow> lf_Owner T = lf_Owner S)"
proof -
  obtain E present h j where E: "serves E S" "\<And>h. CHR '','' \<notin> set (e_uuid E h)"
    and h: "set h \<subseteq> set (machineCalls E req)"
    and ident: "(lf_Name T, lf_Owner T, lf_Protected T) = (lf_Name S, lf_Owner S, lf_Protected S) \<or>
      (\<exists>x. KUpdateMachine x \<in> set h \<and> describes T x)"
    by (rule round_facts [OF assms(1)]) blast
  have "keepsIdentity S x" if "KUpdateMachine x \<in> set h" for x
    using update_identity [OF E assms(2)] that h by blast
  then show ?thesis
    using ident assms(2) by (fastforce simp: keepsIdentity_def describes_def)
qed

lemma round_found:
  assumes "machineRound req S T" and "plainOwner S" and "r \<in> lf_Cloud T" and "r \<notin> lf_Cloud S"
  shows "found S r"
proof -
  obtain E present h j where E: "serves E S" "\<And>h. CHR '','' \<notin> set (e_uuid E h)"
    and tracks: "tracks E present" "present [] = lf_Cloud S" and cloud: "lf_Cloud T = present h"
    and h: "set h \<subseteq> set (machineCalls E req)"
    by (rule round_facts [OF assms(1)]) blast
  obtain c where c: "c \<in> set (machineCalls E req)" "r \<in> set (madeBy c)"
    using present_bound [OF tracks(1), of "[]" h] assms(3,4) tracks(2) cloud h by fastforce
  have "isCreate c"
    using c(2) by (cases c) simp_all
  from create_ready [OF E(1) c(1) this] have "lf_Owner S \<noteq> ''''" .
  then show ?thesis
    by (rule create_found [OF E assms(2) c(1) _ c(2)])
qed

lemma round_adds:
  assumes "machineRound req S T" and "\<not> lf_Cloud T \<subseteq> lf_Cloud S" and "plainOwner S"
  shows "awaited S \<and> awaited T"
proof -
  obtain E present h j where serves: "serves E S"
    and tracks: "tracks E present" "present [] = lf_Cloud S" and cloud: "lf_Cloud T = present h"
    and h: "set h \<subseteq> set (machineCalls E req)"
    and ident: "(lf_Name T, lf_Owner T, lf_Protected T) = (lf_Name S, lf_Owner S, lf_Protected S) \<or>
      (\<exists>x. KUpdateMachine x \<in> set h \<and> describes T x)"
    by (rule round_facts [OF assms(1)]) blast
  have "list_ex isCreate h"
    using absent_stays [OF tracks(1), of h "[]"] assms(2) tracks(2) cloud by auto
  then obtain c where "c \<in> set (machineCalls E req)" "isCreate c"
    using h by (auto simp: list_ex_iff)
  then obtain m where m: "e_machine E [] (KGetMachine req) = Inr m" "machineLive m" "machineOwned m"
      and S: "lf_Protected S" "lf_Owner S \<noteq> ''''"
    using create_ready [OF serves] by blast
  have "lf_Protected T"
    using ident S live_protected [OF serves S(1) m] h by (auto simp: describes_def)
  then show ?thesis
    using S round_identity [OF assms(1,3)] by simp
qed

lemma round_release:
  assumes step: "machineRound req S T" and "plainOwner S" and found: "Ball (lf_Cloud S) (found S)"
    and S: "awaited S" and T: "\<not> awaited T"
  shows "lf_Cloud T = {}"
proof -
  obtain E present h j where serves: "serves E S"
    and tracks: "tracks E present" "present [] = lf_Cloud S" and cloud: "lf_Cloud T = present h"
    and h: "h = take j (machineCalls E req)" "set h \<subseteq> set (machineCalls E req)"
    and ident: "(lf_Name T, lf_Owner T, lf_Protected T) = (lf_Name S, lf_Owner S, lf_Protected S) \<or>
      (\<exists>x. KUpdateMachine x \<in> set h \<and> describes T x)"
    by (rule round_facts [OF step]) blast
  have none: "\<not> list_ex isCreate h"
  proof
    assume "list_ex isCreate h"
    then obtain c where c: "c \<in> set (machineCalls E req)" "isCreate c"
      using h(2) by (auto simp: list_ex_iff)
    then obtain m where m: "e_machine E [] (KGetMachine req) = Inr m" "machineLive m" "machineOwned m"
      using create_ready [OF serves] by blast
    show False
      using ident S T live_protected [OF serves _ m] h(2) round_identity [OF step assms(2)]
      by (auto simp: describes_def)
  qed
  obtain x where x: "KUpdateMachine x \<in> set h" "\<not> hasFinalizer (m_Meta x) machineFinalizer"
    using ident S T round_identity [OF step assms(2)] by (auto simp: describes_def)
  show ?thesis
  proof (cases "e_machine E [] (KGetMachine req)")
    case (Inl err)
    then show ?thesis
      using x(1) h(2) by (auto simp: emitted_def reconcile_unfetched)
  next
    case (Inr m)
    have "machineOwned m"
      using serves_fetch [OF serves Inr] S by (simp add: describes_def)
    then have "\<not> machineLive m"
      using live_protected [OF serves _ Inr] S x h(2) by blast
    then show ?thesis
      using released_empty [OF found serves tracks Inr _ h(1) none x(1)] cloud by simp
  qed
qed

interpretation machineCycle: teardown_cycle "machineRound req" lf_Cloud plainOwner awaited found for req
proof
  fix S T r
  assume step: "machineRound req S T" and S: "plainOwner S"
  show "plainOwner T"
    using round_identity [OF step S] by simp
  show "awaited S \<and> awaited T" if "\<not> lf_Cloud T \<subseteq> lf_Cloud S"
    by (rule round_adds [OF step that S])
  show "found S r" if "r \<in> lf_Cloud T" "r \<notin> lf_Cloud S"
    by (rule round_found [OF step S that])
  show "awaited T \<and> (\<forall>r. found S r \<longrightarrow> found T r)"
    if "Ball (lf_Cloud S) (found S)" "awaited S" "lf_Cloud T \<noteq> {}"
    using that round_release [OF step S that(1,2)] round_identity [OF step S]
    by (auto simp: found_def split: prod.splits)
qed

text \<open>
  C1. A machine never leaks: over any number of reconciles, each stopped anywhere, with creates
  that took effect without an answer and updates that were or were not stored, whatever the
  provider made for the machine and did not delete is a virtual machine with its name or carries
  its ownership label, so the teardown finds it, and the finalizer is there as long as anything is.
\<close>

theorem machine_never_leaks:
  assumes reach: "(machineRound req)\<^sup>*\<^sup>* S T"
    and start: "lf_Cloud S = {}" "CHR '','' \<notin> set (lf_Owner S)"
  shows "(lf_Cloud T \<noteq> {} \<longrightarrow> lf_Protected T \<and> lf_Owner T \<noteq> '''') \<and>
    (\<forall>(k, n, l) \<in> lf_Cloud T. k = VirtualMachineK \<and> n = lf_Name T \<or>
       k \<in> {DiskK, PublicIPK, SecurityGroupK} \<and>
       selectorMatches (ownerSelector LabelMachineID (lf_Owner T)) l)"
  using machineCycle.never_leaks [OF reach start(2,1)] by (auto simp: found_def)

text \<open>In the simulated cloud the example machine has its boot disk created.\<close>

definition lifeWorld :: Env where
  "lifeWorld = simCloud ((machineWorld None)
     \<lparr>e_machine := (\<lambda>_ c. case c of KUpdateMachine m \<Rightarrow> Inr m | _ \<Rightarrow> Inr (exampleMachine None))\<rparr>)"

definition newLife :: life where
  "newLife = \<lparr>lf_Name = ''m'', lf_Owner = ''x'', lf_Protected = True, lf_Cloud = {}\<rparr>"

definition diskLife :: life where
  "diskLife = newLife\<lparr>lf_Cloud := set (alive (machineCalls lifeWorld exampleKey))\<rparr>"

lemma diskLife_disk:
  "list_ex (\<lambda>(k, n, _). k = DiskK \<and> n = ''m-boot-disk'') (alive (machineCalls lifeWorld exampleKey))"
  by code_simp

theorem machine_never_leaks_witness:
  "\<exists>l. (DiskK, ''m-boot-disk'', l) \<in> lf_Cloud diskLife \<and>
     selectorMatches (ownerSelector LabelMachineID ''x'') l"
proof -
  have "tracks lifeWorld (\<lambda>h. set (alive h))"
    unfolding lifeWorld_def by (rule simCloud_tracks)
  moreover have "describes newLife (exampleMachine None)"
    by (simp add: describes_def newLife_def exampleMachine_def exampleMeta_def machineOwnershipID_def
        mget_def hasFinalizer_def)
  then have "serves lifeWorld newLife"
    by (auto simp: serves_def lifeWorld_def simCloud_def sameIdentity_def split: Call.split)
  ultimately have "machineRound exampleKey newLife diskLife"
    by (intro machineRound.round [where E = lifeWorld and present = "\<lambda>h. set (alive h)"
          and j = "length (machineCalls lifeWorld exampleKey)"])
       (simp_all add: diskLife_def newLife_def alive_def lifeWorld_def simCloud_def machineWorld_def emptyWorld_def)
  then have "(machineRound exampleKey)\<^sup>*\<^sup>* newLife diskLife"
    by (rule r_into_rtranclp)
  note found = machine_never_leaks [OF this]
  obtain l where "(DiskK, ''m-boot-disk'', l) \<in> lf_Cloud diskLife"
    using diskLife_disk by (auto simp: diskLife_def list_ex_iff)
  then show ?thesis
    using found by (auto simp: diskLife_def newLife_def)
qed

end
