(* ===== verification/ClusterLife.thy ===== *)
theory ClusterLife
  imports ClusterProperties ClusterStore CloudSim
begin

text \<open>
  The life of a cluster over many reconciles, like that of a machine: a step relation with one
  reconcile per step, cut short anywhere, and the invariant that the teardown finds all that was
  made.
\<close>

section \<open>What a finished teardown leaves\<close>

lemma none_absent:
  assumes tracks: "tracks E present" and none: "noneListed E sel h k" and "\<not> list_ex isCreate h"
    and sel: "selectorMatches sel l"
  shows "(k, n, l) \<notin> present h"
proof -
  obtain h1 h2 where h: "h = h1 @ SdkList k sel # h2" "e_items E h1 (SdkList k sel) = Inr []"
    using none by (auto simp: noneListed_def answeredIn_def)
  then have "(k, n, l) \<notin> present h1"
    using tracksD(5) [OF tracks h(2) _ sel] by auto
  moreover have "present h \<subseteq> present h1"
    unfolding h(1) using assms(3) h(1) by (intro absent_stays [OF tracks]) simp
  ultimately show ?thesis by blast
qed

lemma lb_absent:
  assumes "tracks E present" and "saidGone (e_lb E) h LoadBalancerK n" and "\<not> list_ex isCreate h"
  shows "(LoadBalancerK, n, l) \<notin> present h"
  by (rule lookup_absent [OF assms(1,3)])
     (use assms(2) in \<open>auto simp: saidGone_def answeredIn_def lookupError_def\<close>)

lemma ip_absent:
  assumes "tracks E present" and "saidGone (e_ip E) h PublicIPK n" and "\<not> list_ex isCreate h"
  shows "(PublicIPK, n, l) \<notin> present h"
  by (rule lookup_absent [OF assms(1,3)])
     (use assms(2) in \<open>auto simp: saidGone_def answeredIn_def lookupError_def\<close>)

section \<open>Steps\<close>

text \<open>
  Of the stored cluster: its owner ID and finalizer, the prefix of its names, whether the endpoint
  is managed and the public IP its own; and the cloud.
\<close>

record clusterLife =
  cf_Owner :: string
  cf_Protected :: bool
  cf_Prefix :: string
  cf_Managed :: bool
  cf_OwnsIP :: bool
  cf_Cloud :: "resource set"

definition portrays :: "clusterLife \<Rightarrow> EvrocCluster \<Rightarrow> bool" where
  "portrays S c \<longleftrightarrow> clusterOwnershipID (Some c) = cf_Owner S \<and>
     hasFinalizer (cl_Meta c) clusterFinalizer = cf_Protected S \<and>
     ShouldManageControlPlaneEndpoint (Some c) = cf_Managed S \<and> ownsLBPublicIP c = cf_OwnsIP S \<and>
     (\<forall>p. settledPrefix c p \<longrightarrow> cf_Prefix S = p)"

lemma portrays_marks:
  assumes "portrays S c"
  shows "clusterOwnershipID (Some c) = cf_Owner S" "hasFinalizer (cl_Meta c) clusterFinalizer = cf_Protected S"
    "ShouldManageControlPlaneEndpoint (Some c) = cf_Managed S" "ownsLBPublicIP c = cf_OwnsIP S"
  using assms unfolding portrays_def by blast+

text \<open>
  The API server answers with the stored cluster, which has a prefix.  Between reconciles everybody
  may change it, except for what \<open>clusterLife\<close> says of it.
\<close>

definition servesCluster :: "Env \<Rightarrow> clusterLife \<Rightarrow> bool" where
  "servesCluster E S \<longleftrightarrow> (\<forall>h k c. e_cluster E h (KGetCluster k) = Inr c \<longrightarrow>
     portrays S c \<and> settledPrefix c (cf_Prefix S))"

fun storedBy :: "Call \<Rightarrow> EvrocCluster option" where
  "storedBy (KUpdateCluster x) = Some x"
| "storedBy (KStatusCluster x) = Some x"
| "storedBy (KPatchCluster _ x) = Some x"
| "storedBy _ = None"

inductive clusterRound :: "Key \<Rightarrow> clusterLife \<Rightarrow> clusterLife \<Rightarrow> bool" for key where
  round: "clusterRound key S T"
  if "servesCluster E S" and "\<And>h. CHR '','' \<notin> set (e_uuid E h)"
    and "tracks E present" and "present [] = cf_Cloud S"
    and "h = take j (clusterCalls E key)"
    and "T\<lparr>cf_Cloud := {}\<rparr> = S\<lparr>cf_Cloud := {}\<rparr> \<or> (\<exists>k x. k \<in> set h \<and> storedBy k = Some x \<and> portrays T x)"
    and "cf_Cloud T = present h"

abbreviation awaitedCluster :: "clusterLife \<Rightarrow> bool" where
  "awaitedCluster S \<equiv> cf_Protected S \<and> cf_Owner S \<noteq> ''''"

abbreviation plainClusterOwner :: "clusterLife \<Rightarrow> bool" where
  "plainClusterOwner S \<equiv> CHR '','' \<notin> set (cf_Owner S)"

text \<open>
  What the teardown finds: groups and the parts of the load balancer by the ownership label, the
  load balancer and its public IP by the names that the prefix gives.
\<close>

fun foundCluster :: "clusterLife \<Rightarrow> resource \<Rightarrow> bool" where
  "foundCluster S (k, n, l) \<longleftrightarrow>
     k = SecurityGroupK \<and> selectorMatches (ownerSelector LabelClusterID (cf_Owner S)) l \<or>
     cf_Managed S \<and>
       (k \<in> snd ` set lbResourceKinds \<and> selectorMatches (ownerSelector LabelClusterID (cf_Owner S)) l \<or>
        k = LoadBalancerK \<and> n = cf_Prefix S @ ''-cp-lb'' \<or>
        cf_OwnsIP S \<and> k = PublicIPK \<and> n = ipName (cf_Prefix S @ ''-cp-lb''))"

lemma foundCluster_same:
  assumes "cf_Owner T = cf_Owner S \<and> cf_Protected T = cf_Protected S \<and> cf_Prefix T = cf_Prefix S \<and>
      cf_Managed T = cf_Managed S \<and> cf_OwnsIP T = cf_OwnsIP S"
  shows "foundCluster T r = foundCluster S r"
proof (cases r)
  case (fields k n l)
  show ?thesis
    unfolding fields foundCluster.simps using assms by (simp only:)
qed

section \<open>One reconcile\<close>

lemma cluster_round_facts:
  assumes "clusterRound req S T"
  obtains E present h j where "servesCluster E S" "\<And>h. CHR '','' \<notin> set (e_uuid E h)" "tracks E present"
    "present [] = cf_Cloud S" "cf_Cloud T = present h" "h = take j (clusterCalls E req)"
    "set h \<subseteq> set (clusterCalls E req)"
    "T\<lparr>cf_Cloud := {}\<rparr> = S\<lparr>cf_Cloud := {}\<rparr> \<or> (\<exists>k x. k \<in> set h \<and> storedBy k = Some x \<and> portrays T x)"
  by (rule clusterRound.cases [OF assms]) (blast dest: in_set_takeD)

lemma same_life:
  assumes "T\<lparr>cf_Cloud := {}\<rparr> = S\<lparr>cf_Cloud := {}\<rparr>"
  shows "cf_Owner T = cf_Owner S" "cf_Protected T = cf_Protected S" "cf_Prefix T = cf_Prefix S"
    "cf_Managed T = cf_Managed S" "cf_OwnsIP T = cf_OwnsIP S"
  using assms by (cases S, cases T, simp)+

text \<open>Nothing is stored and nothing made when the cluster could not be fetched.\<close>

lemma fetched:
  assumes "servesCluster E S" and "k \<in> set (clusterCalls E req)" and "storedBy k \<noteq> None \<or> isCreate k"
  obtains c where "e_cluster E [] (KGetCluster req) = Inr c" "portrays S c" "settledPrefix c (cf_Prefix S)"
proof (cases "e_cluster E [] (KGetCluster req)")
  case (Inl err)
  then have "k = KGetCluster req"
    using assms(2) by (simp add: emitted_def cluster_reconcile_unfetched)
  then show ?thesis
    using assms(3) by simp
next
  case (Inr c)
  then show ?thesis
    using assms(1) that unfolding servesCluster_def by blast
qed

lemma stored_is:
  assumes fetch: "e_cluster E [] (KGetCluster req) = Inr c" and k: "k \<in> set (clusterCalls E req)"
    and x: "storedBy k = Some x"
  shows "sameMarks c x \<or> k = KUpdateCluster x \<and> updateOf E c x"
proof -
  have "k = KUpdateCluster x \<or> k = KStatusCluster x \<or> (\<exists>b. k = KPatchCluster b x)"
    using x by (cases k) simp_all
  then show ?thesis
    using k update_is [OF fetch] status_marks [OF fetch] patched_marks [OF fetch] by blast
qed

text \<open>Creates are of a live, owned and protected cluster, and found again.\<close>

lemma cluster_create_ready:
  assumes serves: "servesCluster E S" and k: "k \<in> set (clusterCalls E req)" and create: "isCreate k"
  obtains c where "e_cluster E [] (KGetCluster req) = Inr c" "portrays S c" "settledPrefix c (cf_Prefix S)"
    "clusterLive c" "clusterOwned c" "clusterProtected c" "clusterWrite E c k"
proof -
  obtain c where c: "e_cluster E [] (KGetCluster req) = Inr c" "portrays S c" "settledPrefix c (cf_Prefix S)"
    by (rule fetched [OF serves k]) (use create in blast)+
  moreover have "isCloudWrite k" "\<nexists>kind n. k = SdkDelete kind n"
    using create by (cases k, simp_all)+
  ultimately show ?thesis
    using cluster_guarded [OF c(1) k] by (intro that [of c]) (auto simp: clusterGuard_def split: if_splits)
qed

lemma cluster_create_found:
  assumes serves: "servesCluster E S" and plain: "plainClusterOwner S"
    and k: "k \<in> set (clusterCalls E req)" and r: "r \<in> set (madeBy k)"
  shows "foundCluster S r"
proof -
  obtain q where q: "k = SdkCreate q" "r = (requestKind q, requestName q, requestLabels q)"
    using r by (cases k) auto
  then obtain c where c: "portrays S c" "settledPrefix c (cf_Prefix S)" and w: "clusterWrite E c (SdkCreate q)"
    using cluster_create_ready [OF serves k] by auto
  note marks = portrays_marks [OF c(1)]
  note found = clusterWrite_found [OF w, unfolded marks, OF plain]
  show ?thesis
  proof (cases "\<exists>g. q = CreateSecurityGroup g")
    case True
    then show ?thesis
      using found q by auto
  next
    case False
    have managed: "cf_Managed S"
      using w False marks(3) by (cases q) simp_all
    have "lbCreates E (buildLoadBalancerCreateRequest c (cf_Prefix S @ ''-cp-lb'')) q"
      by (rule clusterWrite_lb [OF w False c(2)])
    then show ?thesis
      using found c(2) managed q by (cases q) (auto simp: lbResourceKinds_def)
  qed
qed

text \<open>The release.\<close>

lemma cluster_released_empty:
  assumes found: "Ball (cf_Cloud S) (foundCluster S)" and serves: "servesCluster E S"
    and tracks: "tracks E present" "present [] = cf_Cloud S"
    and fetch: "e_cluster E [] (KGetCluster req) = Inr c" and deleting: "\<not> clusterLive c"
    and h: "h = take j (clusterCalls E req)" and none: "\<not> list_ex isCreate h"
    and x: "KUpdateCluster x \<in> set h"
  shows "present h = {}"
proof -
  obtain ys zs where split: "h = ys @ KUpdateCluster x # zs"
    using x by (meson split_list)
  have "clusterCalls E req = ys @ KUpdateCluster x # (zs @ drop j (clusterCalls E req))"
    using append_take_drop_id [of j "clusterCalls E req"] split h by (metis append.assoc append_Cons)
  then have "clusterReleaseJudge E c ys (KUpdateCluster x)"
    by (rule cluster_judged [OF fetch deleting])
  then have gone: "clusterGone E c ys"
    by (simp add: clusterReleaseJudge_def)
  have c: "portrays S c" "settledPrefix c (cf_Prefix S)"
    using serves fetch unfolding servesCluster_def by blast+
  have before: "\<not> list_ex isCreate ys" "present h \<subseteq> present ys"
    using none absent_stays [OF tracks(1), of _ ys] split by auto
  have start: "present ys \<subseteq> present []"
    using absent_stays [OF tracks(1) before(1), of "[]"] by simp
  note gone' = gone [unfolded clusterGone_def Let_def portrays_marks [OF c(1)] settledPrefix_lbName [OF c(2)]]
  have groups: "noneListed E (ownerSelector LabelClusterID (cf_Owner S)) ys SecurityGroupK"
    using gone' by blast
  have lb: "lbChainGone E (cf_Owner S) (cf_Prefix S @ ''-cp-lb'') (cf_OwnsIP S) ys" if "cf_Managed S"
    using gone' that by auto
  have "\<not> foundCluster S (k, n, l)" if r: "(k, n, l) \<in> present ys" for k n l
  proof -
    have "\<not> (k \<in> snd ` set lbResourceKinds \<and> selectorMatches (ownerSelector LabelClusterID (cf_Owner S)) l)"
      if "cf_Managed S"
    proof
      assume k: "k \<in> snd ` set lbResourceKinds \<and> selectorMatches (ownerSelector LabelClusterID (cf_Owner S)) l"
      then have "noneListed E (ownerSelector LabelClusterID (cf_Owner S)) ys k"
        using lb [OF that] unfolding lbChainGone_def by blast
      then show False
        using none_absent [OF tracks(1) _ before(1)] k r by blast
    qed
    moreover have "\<not> (k = LoadBalancerK \<and> n = cf_Prefix S @ ''-cp-lb'')" if "cf_Managed S"
      using lb [OF that] lb_absent [OF tracks(1) _ before(1)] r by (auto simp: lbChainGone_def)
    moreover have "\<not> (k = PublicIPK \<and> n = ipName (cf_Prefix S @ ''-cp-lb''))" if "cf_Managed S" "cf_OwnsIP S"
      using lb [OF that(1)] that(2) ip_absent [OF tracks(1) _ before(1)] r by (auto simp: lbChainGone_def)
    moreover have "\<not> (k = SecurityGroupK \<and> selectorMatches (ownerSelector LabelClusterID (cf_Owner S)) l)"
      using none_absent [OF tracks(1) groups before(1)] r by blast
    ultimately show ?thesis
      unfolding foundCluster.simps by blast
  qed
  then have "(k, n, l) \<notin> present h" for k n l
    using before(2) start tracks(2) found by blast
  then show ?thesis by auto
qed

section \<open>Many reconciles\<close>

text \<open>The owner ID stays, once it is there.\<close>

lemma cluster_round_owner:
  assumes "clusterRound req S T" and "plainClusterOwner S"
  shows "plainClusterOwner T"
proof -
  obtain E h where serves: "servesCluster E S" and uuid: "\<And>h. CHR '','' \<notin> set (e_uuid E h)"
    and h: "set h \<subseteq> set (clusterCalls E req)"
    and ident: "T\<lparr>cf_Cloud := {}\<rparr> = S\<lparr>cf_Cloud := {}\<rparr> \<or> (\<exists>k x. k \<in> set h \<and> storedBy k = Some x \<and> portrays T x)"
    by (rule cluster_round_facts [OF assms(1)]) blast
  from ident show ?thesis
  proof
    assume "T\<lparr>cf_Cloud := {}\<rparr> = S\<lparr>cf_Cloud := {}\<rparr>"
    then show ?thesis
      using same_life(1) [of T S] assms(2) by simp
  next
    assume "\<exists>k x. k \<in> set h \<and> storedBy k = Some x \<and> portrays T x"
    then obtain k x where k: "k \<in> set (clusterCalls E req)" and x: "storedBy k = Some x" "portrays T x"
      using h by blast
    obtain c where c: "e_cluster E [] (KGetCluster req) = Inr c" "portrays S c"
      by (rule fetched [OF serves k]) (use x in auto)
    have "clusterOwnershipID (Some x) = clusterOwnershipID (Some c) \<or>
        (\<exists>h. clusterOwnershipID (Some x) = e_uuid E h)"
      using stored_is [OF c(1) k x(1)] by (auto simp: sameMarks_def updateOf_def)
    then show ?thesis
      using x(2) c(2) uuid assms(2) by (auto simp: portrays_def)
  qed
qed

lemma cluster_round_adds:
  assumes "clusterRound req S T" and "\<not> cf_Cloud T \<subseteq> cf_Cloud S"
  shows "awaitedCluster S \<and> awaitedCluster T"
proof -
  obtain E present h where serves: "servesCluster E S"
    and tracks: "tracks E present" "present [] = cf_Cloud S" and cloud: "cf_Cloud T = present h"
    and h: "set h \<subseteq> set (clusterCalls E req)"
    and ident: "T\<lparr>cf_Cloud := {}\<rparr> = S\<lparr>cf_Cloud := {}\<rparr> \<or> (\<exists>k x. k \<in> set h \<and> storedBy k = Some x \<and> portrays T x)"
    by (rule cluster_round_facts [OF assms(1)]) blast
  have "list_ex isCreate h"
    using absent_stays [OF tracks(1), of h "[]"] assms(2) tracks(2) cloud by auto
  then obtain k where "k \<in> set (clusterCalls E req)" "isCreate k"
    using h by (auto simp: list_ex_iff)
  then obtain c where c: "e_cluster E [] (KGetCluster req) = Inr c" "portrays S c" "clusterLive c"
      "clusterOwned c" "clusterProtected c"
    using cluster_create_ready [OF serves] by blast
  have S: "awaitedCluster S"
    using c by (simp add: portrays_marks [OF c(2)])
  from ident have "awaitedCluster T"
  proof
    assume "T\<lparr>cf_Cloud := {}\<rparr> = S\<lparr>cf_Cloud := {}\<rparr>"
    then show ?thesis
      using same_life(1,2) [of T S] S by simp
  next
    assume "\<exists>k x. k \<in> set h \<and> storedBy k = Some x \<and> portrays T x"
    then obtain k x where k: "k \<in> set (clusterCalls E req)" and x: "storedBy k = Some x" "portrays T x"
      using h by blast
    have "sameMarks c x"
      using stored_is [OF c(1) k x(1)] c(3,4,5) by (simp add: updateOf_def)
    then show ?thesis
      using c(4,5) portrays_marks(1,2) [OF x(2)] by (simp add: sameMarks_def)
  qed
  then show ?thesis
    using S by blast
qed

lemma cluster_round_found:
  assumes "clusterRound req S T" and plain: "plainClusterOwner S" and r: "r \<in> cf_Cloud T" "r \<notin> cf_Cloud S"
  shows "foundCluster S r"
proof -
  obtain E present h where serves: "servesCluster E S"
    and tracks: "tracks E present" "present [] = cf_Cloud S" and cloud: "cf_Cloud T = present h"
    and h: "set h \<subseteq> set (clusterCalls E req)"
    by (rule cluster_round_facts [OF assms(1)]) blast
  obtain k where "k \<in> set (clusterCalls E req)" "r \<in> set (madeBy k)"
    using present_bound [OF tracks(1), of "[]" h] r tracks(2) cloud h by fastforce
  then show ?thesis
    by (rule cluster_create_found [OF serves plain])
qed

text \<open>While anything is left, the finalizer stays and so do the marks.\<close>

lemma cluster_round_keeps:
  assumes "clusterRound req S T" and found: "Ball (cf_Cloud S) (foundCluster S)"
    and S: "awaitedCluster S" and left: "cf_Cloud T \<noteq> {}"
  shows "awaitedCluster T \<and> (\<forall>r. foundCluster S r \<longrightarrow> foundCluster T r)"
proof -
  obtain E present h j where serves: "servesCluster E S"
    and tracks: "tracks E present" "present [] = cf_Cloud S" and cloud: "cf_Cloud T = present h"
    and h: "h = take j (clusterCalls E req)" "set h \<subseteq> set (clusterCalls E req)"
    and ident: "T\<lparr>cf_Cloud := {}\<rparr> = S\<lparr>cf_Cloud := {}\<rparr> \<or> (\<exists>k x. k \<in> set h \<and> storedBy k = Some x \<and> portrays T x)"
    by (rule cluster_round_facts [OF assms(1)]) blast
  have "cf_Owner T = cf_Owner S \<and> cf_Protected T = cf_Protected S \<and> cf_Prefix T = cf_Prefix S \<and>
      cf_Managed T = cf_Managed S \<and> cf_OwnsIP T = cf_OwnsIP S"
    using ident
  proof
    assume "T\<lparr>cf_Cloud := {}\<rparr> = S\<lparr>cf_Cloud := {}\<rparr>"
    then show ?thesis
      using same_life [of T S] by blast
  next
    assume "\<exists>k x. k \<in> set h \<and> storedBy k = Some x \<and> portrays T x"
    then obtain k x where k: "k \<in> set h" and x: "storedBy k = Some x" "portrays T x"
      by blast
    have k': "k \<in> set (clusterCalls E req)"
      using k h(2) by blast
    obtain c where c: "e_cluster E [] (KGetCluster req) = Inr c" "portrays S c" "settledPrefix c (cf_Prefix S)"
      by (rule fetched [OF serves k']) (use x in auto)
    have "sameMarks c x"
    proof (rule ccontr)
      assume "\<not> sameMarks c x"
      then have upd: "k = KUpdateCluster x" "updateOf E c x"
        using stored_is [OF c(1) k' x(1)] by blast+
      then have deleting: "\<not> clusterLive c"
        using S by (auto simp: updateOf_def portrays_marks [OF c(2)])
      have "\<not> list_ex isCreate h"
      proof
        assume "list_ex isCreate h"
        then obtain k where k: "k \<in> set (clusterCalls E req)" "isCreate k"
          using h(2) by (auto simp: list_ex_iff)
        obtain c' where "e_cluster E [] (KGetCluster req) = Inr c'" "clusterLive c'"
          by (rule cluster_create_ready [OF serves k])
        then show False
          using c(1) deleting by simp
      qed
      then have "present h = {}"
        using cluster_released_empty [OF found serves tracks c(1) deleting h(1)] k upd(1) by blast
      then show False
        using left cloud by simp
    qed
    note marks = this [unfolded sameMarks_def samePrefix_def portrays_marks [OF c(2)] portrays_marks [OF x(2)]]
    then have "settledPrefix x (cf_Prefix S)"
      using c(3) by blast
    then have "cf_Prefix T = cf_Prefix S"
      using x(2) unfolding portrays_def by blast
    then show ?thesis
      using marks by blast
  qed
  then show ?thesis
    using S foundCluster_same [of T S] by auto
qed

interpretation clusterCycle:
  teardown_cycle "clusterRound req" cf_Cloud plainClusterOwner awaitedCluster foundCluster for req
proof
  fix S T r
  assume step: "clusterRound req S T" and S: "plainClusterOwner S"
  show "plainClusterOwner T"
    by (rule cluster_round_owner [OF step S])
  show "awaitedCluster S \<and> awaitedCluster T" if "\<not> cf_Cloud T \<subseteq> cf_Cloud S"
    by (rule cluster_round_adds [OF step that])
  show "foundCluster S r" if "r \<in> cf_Cloud T" "r \<notin> cf_Cloud S"
    by (rule cluster_round_found [OF step S that])
  show "awaitedCluster T \<and> (\<forall>r. foundCluster S r \<longrightarrow> foundCluster T r)"
    if "Ball (cf_Cloud S) (foundCluster S)" "awaitedCluster S" "cf_Cloud T \<noteq> {}"
    by (rule cluster_round_keeps [OF step that])
qed

text \<open>
  C2. A cluster never leaks either: over any number of reconciles, each stopped anywhere, with
  creates that took effect without an answer and writes of the object that were or were not
  stored, whatever the provider made for the cluster and did not delete is a security group or,
  when the endpoint is managed, a part of a load balancer with its ownership label, the load
  balancer or the public IP with the name that its prefix gives, all of which the teardown looks
  for; and the finalizer is there as long as anything is.
\<close>

theorem cluster_never_leaks:
  assumes reach: "(clusterRound req)\<^sup>*\<^sup>* S T"
    and start: "cf_Cloud S = {}" "CHR '','' \<notin> set (cf_Owner S)"
  shows "(cf_Cloud T \<noteq> {} \<longrightarrow> cf_Protected T \<and> cf_Owner T \<noteq> '''') \<and>
    (\<forall>(k, n, l) \<in> cf_Cloud T.
       k = SecurityGroupK \<and> selectorMatches (ownerSelector LabelClusterID (cf_Owner T)) l \<or>
       cf_Managed T \<and>
         (k \<in> {L4RouteK, BackendServiceK, BackendPoolK} \<and>
            selectorMatches (ownerSelector LabelClusterID (cf_Owner T)) l \<or>
          k = LoadBalancerK \<and> n = cf_Prefix T @ ''-cp-lb'' \<or>
          cf_OwnsIP T \<and> k = PublicIPK \<and> n = ipName (cf_Prefix T @ ''-cp-lb'')))"
proof -
  have "(k, n, l) \<in> cf_Cloud T \<Longrightarrow> foundCluster T (k, n, l)" for k n l
    using clusterCycle.never_leaks [OF reach start(2,1)] by blast
  then show ?thesis
    using clusterCycle.never_leaks [OF reach start(2,1)] by (fastforce simp: lbResourceKinds_def)
qed

text \<open>In the simulated cloud the example cluster gets its load balancer.\<close>

definition clusterLifeWorld :: Env where
  "clusterLifeWorld = simCloud (clusterWorld None)"

definition newClusterLife :: clusterLife where
  "newClusterLife = \<lparr>cf_Owner = ''y'', cf_Protected = True, cf_Prefix = ''m-uid'', cf_Managed = True,
     cf_OwnsIP = True, cf_Cloud = {}\<rparr>"

definition lbClusterLife :: clusterLife where
  "lbClusterLife = newClusterLife\<lparr>cf_Cloud := set (alive (clusterCalls clusterLifeWorld exampleKey))\<rparr>"

lemma lbClusterLife_route:
  "list_ex (\<lambda>(k, _). k = L4RouteK) (alive (clusterCalls clusterLifeWorld exampleKey))"
  by code_simp

lemma newClusterLife_portrays:
  "portrays newClusterLife (liveCluster None) \<and> settledPrefix (liveCluster None) (cf_Prefix newClusterLife)"
proof -
  have "clusterResourcePrefix (liveCluster None) =
      Inr (''m-uid'', setClusterResourcePrefixAnnotation ''m-uid'' (liveCluster None))"
    by code_simp
  moreover have "ownsLBPublicIP (liveCluster None)" "hasFinalizer (cl_Meta (liveCluster None)) clusterFinalizer"
    by code_simp+
  ultimately show ?thesis
    by (simp add: portrays_def newClusterLife_def settledPrefix_def prefixOf_def liveCluster_simps)
qed

theorem cluster_never_leaks_witness:
  "\<exists>n l. (L4RouteK, n, l) \<in> cf_Cloud lbClusterLife \<and>
     selectorMatches (ownerSelector LabelClusterID ''y'') l"
proof -
  have "tracks clusterLifeWorld (\<lambda>h. set (alive h))"
    unfolding clusterLifeWorld_def by (rule simCloud_tracks)
  moreover have "servesCluster clusterLifeWorld newClusterLife"
    using newClusterLife_portrays by (auto simp: servesCluster_def clusterLifeWorld_def simCloud_def clusterWorld_def)
  ultimately have "clusterRound exampleKey newClusterLife lbClusterLife"
    by (intro clusterRound.round [where E = clusterLifeWorld and present = "\<lambda>h. set (alive h)"
          and j = "length (clusterCalls clusterLifeWorld exampleKey)"])
       (simp_all add: lbClusterLife_def newClusterLife_def alive_def clusterLifeWorld_def simCloud_def
         clusterWorld_def emptyWorld_def)
  then have "(clusterRound exampleKey)\<^sup>*\<^sup>* newClusterLife lbClusterLife"
    by (rule r_into_rtranclp)
  note found = cluster_never_leaks [OF this]
  obtain n l where "(L4RouteK, n, l) \<in> cf_Cloud lbClusterLife"
    using lbClusterLife_route by (auto simp: lbClusterLife_def list_ex_iff)
  then show ?thesis
    using found by (fastforce simp: lbClusterLife_def newClusterLife_def)
qed

end
