(* ===== verification/FreshCreate.thy ===== *)
theory FreshCreate
  imports MachineCreate CloudTrack
begin

text \<open>
  What is known of a resource when its create is sent: a lookup in the same history answered that
  it is not there, and no create of it was sent since.  Both controllers create in this way, so a
  reconcile that is run again does not make a second copy of what it made before.
\<close>

section \<open>The judgement\<close>

text \<open>The lookup of a resource, sent in the history \<open>h\<close>, answers that it is not found.\<close>

definition saysMissing :: "Env \<Rightarrow> Call list \<Rightarrow> SdkKind \<Rightarrow> string \<Rightarrow> bool" where
  "saysMissing E h k n \<longleftrightarrow> (case lookupError E h k n of None \<Rightarrow> False | Some err \<Rightarrow> errIs err NotFoundM)"

definition knownMissing :: "Env \<Rightarrow> Call list \<Rightarrow> SdkKind \<Rightarrow> string \<Rightarrow> bool" where
  "knownMissing E h k n \<longleftrightarrow> (\<exists>h1 h2. h = h1 @ SdkGet k n # h2 \<and> saysMissing E h1 k n \<and>
     (\<forall>r. SdkCreate r \<in> set h2 \<longrightarrow> (requestKind r, requestName r) \<noteq> (k, n)))"

lemma knownMissing_asked: "saysMissing E h k n \<Longrightarrow> knownMissing E (h @ [SdkGet k n]) k n"
  unfolding knownMissing_def by (intro exI [of _ h] exI [of _ "[]"]) simp

lemma knownMissing_append:
  assumes "knownMissing E h k n"
    and "\<And>r. SdkCreate r \<in> set xs \<Longrightarrow> (requestKind r, requestName r) \<noteq> (k, n)"
  shows "knownMissing E (h @ xs) k n"
proof -
  obtain h1 h2 where "h = h1 @ SdkGet k n # h2" "saysMissing E h1 k n"
      "\<forall>r. SdkCreate r \<in> set h2 \<longrightarrow> (requestKind r, requestName r) \<noteq> (k, n)"
    using assms(1) unfolding knownMissing_def by blast
  then show ?thesis
    unfolding knownMissing_def using assms(2) by (intro exI [of _ h1] exI [of _ "h2 @ xs"]) auto
qed

lemma knownMissing_run:
  assumes "knownMissing E (calls s) k n" and "emits P m" and "run_state m s = (x, t)"
    and "\<And>r. P (SdkCreate r) \<Longrightarrow> (requestKind r, requestName r) \<noteq> (k, n)"
  shows "knownMissing E (calls t) k n"
proof -
  obtain xs where "calls t = calls s @ xs" "\<forall>c\<in>set xs. P c"
    using emits_calls [OF assms(2), of s] assms(3) by auto
  then show ?thesis
    using knownMissing_append [OF assms(1), of xs] assms(4) by auto
qed

text \<open>In a cloud that answers truly, what is known to be missing is not there.\<close>

lemma knownMissing_absent:
  assumes tracks: "tracks E present" and missing: "knownMissing E h k n"
  shows "(k, n, l) \<notin> present h"
proof -
  obtain h1 h2 where h: "h = h1 @ SdkGet k n # h2" "saysMissing E h1 k n"
      "\<forall>r. SdkCreate r \<in> set h2 \<longrightarrow> (requestKind r, requestName r) \<noteq> (k, n)"
    using missing unfolding knownMissing_def by blast
  have "(k, n, l) \<notin> present h1"
    using tracksD(4) [OF tracks, of h1 k n _ l] h(2) by (auto simp: saysMissing_def split: option.splits)
  moreover have "(k, n, l) \<notin> set (madeBy c)" if "c \<in> set (SdkGet k n # h2)" for c
    using that h(3) by (cases c rule: madeBy.cases) auto
  ultimately show ?thesis
    using present_bound [OF tracks, of h1 "SdkGet k n # h2"] h(1) by auto
qed

definition machineFresh :: "Env \<Rightarrow> Call list \<Rightarrow> Call \<Rightarrow> bool" where
  "machineFresh E h c \<longleftrightarrow> (\<forall>r. c = SdkCreate r \<longrightarrow> knownMissing E h (requestKind r) (requestName r))"

section \<open>A computation from one state\<close>

definition justAt :: "('c list \<Rightarrow> 'c \<Rightarrow> bool) \<Rightarrow> (('o, 'c) st, 'a) state \<Rightarrow> ('o, 'c) st \<Rightarrow> bool" where
  "justAt J m s \<longleftrightarrow> justRel J [] s (snd (run_state m s))"

lemma justAt_justifies: "justifies J [] m \<Longrightarrow> justAt J m s"
  by (simp add: state_io_rel_def justAt_def)

lemma justifies_at: "(\<And>s. justAt J m s) \<Longrightarrow> justifies J [] m"
  by (simp add: state_io_rel_def justAt_def)

lemma justAt_bind:
  assumes "justAt J m s" and "\<And>x t. run_state m s = (x, t) \<Longrightarrow> justAt J (f x) t"
  shows "justAt J (State_Monad.bind m f) s"
proof -
  obtain x t where "run_state m s = (x, t)"
    by fastforce
  then show ?thesis
    using assms by (auto simp: justAt_def intro: justRel_trans)
qed

lemma justAt_onResult:
  assumes "justAt J m s" and "\<And>e t. run_state m s = (Inl e, t) \<Longrightarrow> justAt J (g e) t"
    and "\<And>x t. run_state m s = (Inr x, t) \<Longrightarrow> justAt J (k x) t"
  shows "justAt J (onResult m g k) s"
  unfolding onResult_def using assms by (intro justAt_bind) (auto split: sum.split)

lemma justAt_onError:
  assumes "justAt J m s" and "\<And>e t. run_state m s = (Some e, t) \<Longrightarrow> justAt J (g e) t"
    and "\<And>t. run_state m s = (None, t) \<Longrightarrow> justAt J k t"
  shows "justAt J (onError m g k) s"
  unfolding onError_def using assms by (intro justAt_bind) (auto split: option.split)

lemma justAt_getCur: "justAt J (f (cur s)) s \<Longrightarrow> justAt J (State_Monad.bind getCur f) s"
  by (simp add: justAt_def)

lemma justAt_invoke: "J (calls s) c \<Longrightarrow> justAt J (invoke f c) s"
  by (auto simp: justAt_def justRel_def Cons_eq_append_conv)

lemma justAt_ret: "justAt J (ret x) s"
  by (simp add: justAt_def justRel_refl)

lemma justAt_if: "(b \<Longrightarrow> justAt J m s) \<Longrightarrow> (\<not> b \<Longrightarrow> justAt J m' s) \<Longrightarrow> justAt J (if b then m else m') s"
  by simp

lemma justAt_option:
  "(x = None \<Longrightarrow> justAt J m s) \<Longrightarrow> (\<And>y. x = Some y \<Longrightarrow> justAt J (f y) s) \<Longrightarrow>
    justAt J (case x of None \<Rightarrow> m | Some y \<Rightarrow> f y) s"
  by (cases x) simp_all

lemmas at_rules = justAt_onResult justAt_onError justAt_getCur justAt_ret justAt_if justAt_option

section \<open>Lookups\<close>

context cloud_resource
begin

lemma get_gone:
  assumes "run_state (getR n) s = (Inl e, t)" and "IsNotFoundError e"
  shows "calls t = calls s @ [SdkGet kind n] \<and> (\<exists>err. reply (calls s) (SdkGet kind n) = Inl err \<and> errIs err NotFoundM)"
  by (rule run_get [of n s]) (use assms in \<open>auto simp: IsNotFoundError_def split: sum.splits\<close>)

lemma exists_gone:
  assumes "run_state (existsR n) s = (Inr False, t)"
  shows "calls t = calls s @ [SdkGet kind n] \<and> (\<exists>err. reply (calls s) (SdkGet kind n) = Inl err \<and> errIs err NotFoundM)"
  by (rule run_exists [of n s]) (use assms in \<open>auto simp: IsNotFoundError_def split: sum.splits if_splits\<close>)

end

lemma missing_answers:
  "run_state (DiskService_Get E n) s = (Inl e, t) \<Longrightarrow> IsNotFoundError e \<Longrightarrow> knownMissing E (calls t) DiskK n"
  "run_state (VirtualMachineService_Get E n) s = (Inl e, t) \<Longrightarrow> IsNotFoundError e \<Longrightarrow>
    knownMissing E (calls t) VirtualMachineK n"
  "run_state (PublicIPService_Exists E n) s = (Inr False, t) \<Longrightarrow> knownMissing E (calls t) PublicIPK n"
  "run_state (SecurityGroupService_Exists E n) s = (Inr False, t) \<Longrightarrow> knownMissing E (calls t) SecurityGroupK n"
  by (auto simp: saysMissing_def lookupError_def intro!: knownMissing_asked
      dest!: diskR.get_gone virtualMachineR.get_gone publicIPR.exists_gone securityGroupR.exists_gone)

section \<open>Creates\<close>

lemma fresh_nothing: "emits createsNothing m \<Longrightarrow> justifies (machineFresh E) [] m"
  by (erule emits_justifies) (auto simp: machineFresh_def)

lemma fresh_nothingAt: "emits createsNothing m \<Longrightarrow> justAt (machineFresh E) m s"
  by (intro justAt_justifies fresh_nothing)

text \<open>What comes first makes nothing, so what was missing before it still is.\<close>

lemma fresh_after:
  assumes "knownMissing E (calls s) kn n" and "emits createsNothing m"
    and "\<And>e. emits createsNothing (g e)"
    and "\<And>x t. knownMissing E (calls t) kn n \<Longrightarrow> justAt (machineFresh E) (k x) t"
  shows "justAt (machineFresh E) (onResult m g k) s"
  by (intro justAt_onResult fresh_nothingAt assms) (auto intro: knownMissing_run [OF assms(1,2)])

lemma fresh_after_check:
  assumes "knownMissing E (calls s) kn n" and "emits createsNothing m"
    and "\<And>e. emits createsNothing (g e)"
    and "\<And>t. knownMissing E (calls t) kn n \<Longrightarrow> justAt (machineFresh E) k t"
  shows "justAt (machineFresh E) (onError m g k) s"
  by (intro justAt_onError fresh_nothingAt assms) (auto intro: knownMissing_run [OF assms(1,2)])

lemma fresh_create:
  "justAt (machineFresh E) (invoke f (SdkCreate r)) s"
  if "knownMissing E (calls s) (requestKind r) (requestName r)"
  using that by (intro justAt_invoke) (simp add: machineFresh_def)

lemma fresh_DiskService_Create:
  assumes "knownMissing E (calls s) DiskK n"
  shows "justAt (machineFresh E) (DiskService_Create E n sz i z l) s"
  unfolding DiskService_Create_def
  by (rule fresh_after [OF assms], intro go_rules, simp, intro go_rules,
      intro justAt_onResult justAt_ret fresh_create) simp

lemma fresh_VirtualMachineService_Create:
  assumes "knownMissing E (calls s) VirtualMachineK (vr_Name r)"
  shows "justAt (machineFresh E) (VirtualMachineService_Create E r) s"
  unfolding VirtualMachineService_Create_def
  by (rule fresh_after_check [OF assms], intro go_rules, simp, intro go_rules,
      intro justAt_onResult justAt_ret fresh_create) simp

lemma fresh_creates:
  "knownMissing E (calls s) PublicIPK n \<Longrightarrow> justAt (machineFresh E) (PublicIPService_Create E n l) s"
  "knownMissing E (calls s) SecurityGroupK n \<Longrightarrow>
    justAt (machineFresh E) (SecurityGroupService_Create E n rs l v) s"
  unfolding PublicIPService_Create_def SecurityGroupService_Create_def Let_def
  by (intro justAt_onResult justAt_ret fresh_create; simp)+

section \<open>The stages of a machine\<close>

lemma createsNothing_lookups:
  "emits createsNothing (DiskService_Get E n)" "emits createsNothing (PublicIPService_Get E n)"
  "emits createsNothing (PublicIPService_Exists E n)" "emits createsNothing (SecurityGroupService_Get E n)"
  "emits createsNothing (SecurityGroupService_Exists E n)" "emits createsNothing (VirtualMachineService_Get E n)"
  "emits createsNothing (SecurityGroupService_Update E n g)"
  by (intro emits_ops; simp)+

lemma fresh_oneDisk: "justifies (machineFresh E) [] (reconcileOneDisk E m info d)"
  unfolding reconcileOneDisk_def Let_def
  by (intro justifies_at at_rules fresh_nothingAt [OF createsNothing_lookups(1)] fresh_DiskService_Create
      missing_answers; (assumption | rule fresh_nothingAt, (intro go_rules)))

lemma fresh_bootDisk: "justifies (machineFresh E) [] (ensureBootDisk E info)"
  unfolding ensureBootDisk_def bootDiskFor_def Let_def
  by (intro justifies_at at_rules fresh_nothingAt [OF createsNothing_lookups(1)] fresh_DiskService_Create
      missing_answers; (assumption | rule fresh_nothingAt, (intro go_rules emits_early createsNothing_status)))

lemma fresh_publicIP: "justifies (machineFresh E) [] (reconcilePublicIPCreation E m info)"
proof -
  have warn: "emits createsNothing (warnPublicIPTimeout E m n)" for n
    unfolding warnPublicIPTimeout_def by (intro go_rules emits_ops) simp_all
  show ?thesis
    unfolding reconcilePublicIPCreation_def Let_def
    by (intro justifies_at at_rules fresh_nothingAt [OF createsNothing_lookups(2)]
        fresh_nothingAt [OF createsNothing_lookups(3)] fresh_creates missing_answers;
        (simp; fail | rule fresh_nothingAt, (intro go_rules warn)))
qed

lemma fresh_machineSG: "justifies (machineFresh E) [] (ensureMachineSG E m info g)"
  unfolding ensureMachineSG_def Let_def
  by (intro justifies_at at_rules fresh_nothingAt [OF createsNothing_lookups(4)]
      fresh_nothingAt [OF createsNothing_lookups(5)] fresh_nothingAt [OF createsNothing_lookups(7)]
      fresh_creates missing_answers; simp)

lemma fresh_additionalDisks: "justifies (machineFresh E) [] (reconcileAdditionalDisks E m info)"
proof -
  have stale: "emits createsNothing (deleteStaleDisks E tracked desired)" for tracked desired
    unfolding deleteStaleDisks_def by (intro go_rules emits_deleteTolerant emits_ops) simp_all
  show ?thesis
    unfolding reconcileAdditionalDisks_def Let_def
    by (intro just_rules fresh_oneDisk fresh_nothing [OF stale])
qed

lemma fresh_pendingStage:
  assumes "\<And>m. justifies (machineFresh E) [] (step m)"
  shows "justifies (machineFresh E) [] (pendingStage E step ec store pm d)"
  unfolding pendingStage_def
  by (intro just_rules assms fresh_nothing [OF emits_early [OF createsNothing_status(1)]]
      fresh_nothing [OF createsNothing_status(2)] fresh_nothing [OF createsNothing_status(3)]
      fresh_nothing [OF createsNothing_status(4)])

lemma fresh_stages:
  "justifies (machineFresh E) [] (ensureBootDisk E info)" "justifies (machineFresh E) [] (ensureAdditionalDisks E info)"
  "justifies (machineFresh E) [] (ensurePlacementGroup E)" "justifies (machineFresh E) [] (ensurePublicIP E info)"
  "justifies (machineFresh E) [] (ensureSecurityGroups E info)"
proof -
  show "justifies (machineFresh E) [] (ensureBootDisk E info)"
    by (rule fresh_bootDisk)
  show "justifies (machineFresh E) [] (ensureAdditionalDisks E info)"
    unfolding ensureAdditionalDisks_def by (intro fresh_pendingStage fresh_additionalDisks)
  show "justifies (machineFresh E) [] (ensurePlacementGroup E)"
    unfolding ensurePlacementGroup_def reconcilePlacementGroup_def
    by (intro fresh_pendingStage fresh_nothing go_rules emits_ops) simp
  show "justifies (machineFresh E) [] (ensurePublicIP E info)"
    unfolding ensurePublicIP_def by (intro fresh_pendingStage fresh_publicIP)
  show "justifies (machineFresh E) [] (ensureSecurityGroups E info)"
    unfolding ensureSecurityGroups_def reconcileMachineSecurityGroups_def
    by (intro just_rules fresh_machineSG fresh_nothing [OF emits_early [OF createsNothing_status(1)]])
qed

section \<open>The virtual machine\<close>

text \<open>A stage that ends without an outcome leaves the part of the machine that its request is built from.\<close>

lemma stage_view:
  "run_state (ensureBootDisk E info) s = (None, t) \<Longrightarrow> requestView (cur t) = requestView (cur s)"
  "run_state (ensureAdditionalDisks E info) s = (None, t) \<Longrightarrow> requestView (cur t) = requestView (cur s)"
  "run_state (ensurePlacementGroup E) s = (None, t) \<Longrightarrow> requestView (cur t) = requestView (cur s)"
  "run_state (ensurePublicIP E info) s = (None, t) \<Longrightarrow> requestView (cur t) = requestView (cur s)"
  "run_state (ensureSecurityGroups E info) s = (None, t) \<Longrightarrow> requestView (cur t) = requestView (cur s)"
proof -
  show "run_state (ensureBootDisk E info) s = (None, t) \<Longrightarrow> requestView (cur t) = requestView (cur s)"
    by (drule bootDisk_seen) simp
  show "run_state (ensureSecurityGroups E info) s = (None, t) \<Longrightarrow> requestView (cur t) = requestView (cur s)"
    by (drule securityGroups_None) simp
  show "run_state (ensureAdditionalDisks E info) s = (None, t) \<Longrightarrow> requestView (cur t) = requestView (cur s)"
    unfolding ensureAdditionalDisks_def by (erule pendingStage_None) (simp add: run_frames [OF frames_reconcileAdditionalDisks])
  show "run_state (ensurePlacementGroup E) s = (None, t) \<Longrightarrow> requestView (cur t) = requestView (cur s)"
    unfolding ensurePlacementGroup_def by (erule pendingStage_None) (simp add: run_frames [OF frames_reconcilePlacementGroup])
  show "run_state (ensurePublicIP E info) s = (None, t) \<Longrightarrow> requestView (cur t) = requestView (cur s)"
    unfolding ensurePublicIP_def by (erule pendingStage_None) (simp add: run_frames [OF frames_reconcilePublicIPCreation])
qed

text \<open>While the stages pass, the virtual machine of the machine's name is known to be missing.\<close>

abbreviation vmMissing :: "Env \<Rightarrow> EvrocMachine cst \<Rightarrow> bool" where
  "vmMissing E s \<equiv> knownMissing E (calls s) VirtualMachineK (om_Name (m_Meta (cur s)))"

lemma vmMissing_stage:
  assumes "vmMissing E s" and "emits noCreateVM m" and "run_state m s = (x, t)"
    and "requestView (cur t) = requestView (cur s)"
  shows "vmMissing E t"
proof -
  have "knownMissing E (calls t) VirtualMachineK (om_Name (m_Meta (cur s)))"
    using assms(1-3) by (rule knownMissing_run) (auto elim: requestKind.elims)
  then show ?thesis
    using assms(4) by (simp add: requestView_def)
qed

lemma vmMissing_passed:
  "vmMissing E s \<Longrightarrow> run_state (ensureBootDisk E info) s = (None, t) \<Longrightarrow> vmMissing E t"
  "vmMissing E s \<Longrightarrow> run_state (ensureAdditionalDisks E info) s = (None, t) \<Longrightarrow> vmMissing E t"
  "vmMissing E s \<Longrightarrow> run_state (ensurePlacementGroup E) s = (None, t) \<Longrightarrow> vmMissing E t"
  "vmMissing E s \<Longrightarrow> run_state (ensurePublicIP E info) s = (None, t) \<Longrightarrow> vmMissing E t"
  "vmMissing E s \<Longrightarrow> run_state (ensureSecurityGroups E info) s = (None, t) \<Longrightarrow> vmMissing E t"
  by (erule (1) vmMissing_stage [OF _ noCreate_stages(1) _ stage_view(1)]
        vmMissing_stage [OF _ noCreate_stages(2) _ stage_view(2)]
        vmMissing_stage [OF _ noCreate_stages(3) _ stage_view(3)]
        vmMissing_stage [OF _ noCreate_stages(4) _ stage_view(4)]
        vmMissing_stage [OF _ noCreate_stages(5) _ stage_view(5)], assumption)+

lemma fresh_submitVM:
  assumes "vmMissing E s"
  shows "justAt (machineFresh E) (submitVM E u cl) s"
proof (cases "buildVMRequest E (cur s) u cl")
  case (Inl e)
  then show ?thesis
    unfolding submitVM_def
    by (intro justAt_getCur) (simp add: fresh_nothingAt [OF createsNothing_status(1)])
next
  case (Inr r)
  then have "justAt (machineFresh E) (VirtualMachineService_Create E r) s"
    using assms by (intro fresh_VirtualMachineService_Create) (simp add: buildVMRequest_fields(1))
  then show ?thesis
    unfolding submitVM_def
    by (intro justAt_getCur)
       (auto simp: Inr intro!: justAt_onResult justAt_ret fresh_nothingAt [OF createsNothing_status(1)])
qed

lemma fresh_createVM: "vmMissing E s \<Longrightarrow> justAt (machineFresh E) (createVM E u info cl) s"
  unfolding createVM_def
  by (intro justAt_onError justAt_justifies [OF fresh_stages(1)] justAt_justifies [OF fresh_stages(2)]
      justAt_justifies [OF fresh_stages(3)] justAt_justifies [OF fresh_stages(4)]
      justAt_justifies [OF fresh_stages(5)] justAt_ret fresh_submitVM,
      drule (1) vmMissing_passed(1), drule (1) vmMissing_passed(2), drule (1) vmMissing_passed(3),
      drule (1) vmMissing_passed(4), erule (1) vmMissing_passed(5))

section \<open>The machine's reconcile\<close>

lemma fresh_owned: "justifies (machineFresh E) [] (reconcileOwned E ow cl)"
  unfolding reconcileOwned_def
proof (intro justifies_at justAt_onError justAt_getCur justAt_onResult justAt_if justAt_ret
    fresh_nothingAt [OF createsNothing_assignZone] fresh_nothingAt [OF createsNothing_lookups(6)]
    fresh_nothingAt [OF createsNothing_existing] fresh_nothingAt [OF createsNothing_status(1)]
    fresh_nothingAt [OF createsNothing_steps(9)] fresh_createVM)
  fix s t u e v x
  assume get: "run_state (VirtualMachineService_Get E (om_Name (m_Meta (cur t)))) t = (Inl e, u)"
    and gone: "\<not> \<not> IsNotFoundError e" and boot: "run_state (bootstrapData E ow) u = (Inr x, v)"
  have "cur u = cur t"
    by (rule run_frames [OF virtualMachineR.frames_get get])
  moreover have "cur v = cur u"
    by (rule run_frames [OF _ boot]) (unfold bootstrapData_def, intro frames_rules)
  moreover have "knownMissing E (calls u) VirtualMachineK (om_Name (m_Meta (cur t)))"
    using missing_answers(2) [OF get] gone by simp
  ultimately have "vmMissing E u" "requestView (cur v) = requestView (cur u)"
    by simp_all
  then show "vmMissing E v"
    by (rule vmMissing_stage [OF _ createsNothing_noVM [OF createsNothing_steps(9)] boot])
qed

lemma fresh_Reconcile: "justifies (machineFresh E) [] (Machine_Reconcile E req)"
  by (intro justifies_from_owned fresh_owned) (auto simp: machineFresh_def)

end
