(* ===== verification/ClusterFresh.thy ===== *)
theory ClusterFresh
  imports FreshCreate ClusterControl
begin

text \<open>
  What the cluster controller knows when it creates: a security group was looked up and not found,
  and a part of the load balancer's chain is made only while the load balancer itself is known to
  be missing.
\<close>

section \<open>The judgement\<close>

text \<open>The requests \<open>LoadBalancerService.Create\<close> sends for the load balancer \<open>n\<close>.\<close>

fun lbPart :: "string \<Rightarrow> SdkRequest \<Rightarrow> bool" where
  "lbPart n (CreateLB r) \<longleftrightarrow> lbq_Name r = n"
| "lbPart n (CreatePublicIP i _) \<longleftrightarrow> i = ipName n"
| "lbPart n (CreateBackendPool p _) \<longleftrightarrow> p = poolName n"
| "lbPart n (CreateBackendService s _ _ _ _) \<longleftrightarrow>
     s = svcName n \<or> (\<exists>port. s = svcName n @ ''-'' @ showInt port)"
| "lbPart n (CreateL4Route s _ _) \<longleftrightarrow>
     s = routeName n \<or> (\<exists>port. s = routeName n @ ''-'' @ showInt port)"
| "lbPart n _ \<longleftrightarrow> False"

definition clusterFresh :: "Env \<Rightarrow> Call list \<Rightarrow> Call \<Rightarrow> bool" where
  "clusterFresh E h c \<longleftrightarrow> (\<forall>r. c = SdkCreate r \<longrightarrow>
     (if requestKind r = SecurityGroupK then knownMissing E h SecurityGroupK (requestName r)
      else \<exists>n. knownMissing E h LoadBalancerK n \<and> lbPart n r))"

lemma cluster_nothing: "emits createsNothing m \<Longrightarrow> justifies (clusterFresh E) [] m"
  by (erule emits_justifies) (auto simp: clusterFresh_def)

lemma cluster_nothingAt: "emits createsNothing m \<Longrightarrow> justAt (clusterFresh E) m s"
  by (intro justAt_justifies cluster_nothing)

section \<open>The load balancer\<close>

text \<open>A step before the last one makes parts of the chain, and not the load balancer.\<close>

abbreviation belowLB :: "string \<Rightarrow> Call \<Rightarrow> bool" where
  "belowLB n c \<equiv> (\<forall>r. c = SdkCreate r \<longrightarrow> lbPart n r \<and> requestKind r \<noteq> LoadBalancerK)"

lemma lbPart_kind: "lbPart n r \<Longrightarrow> requestKind r \<noteq> SecurityGroupK"
  by (cases r) auto

lemma below_at:
  assumes missing: "knownMissing E (calls s) LoadBalancerK n" and m: "emits (belowLB n) m"
  shows "justAt (clusterFresh E) m s"
proof -
  obtain xs where xs: "calls (snd (run_state m s)) = calls s @ xs" "\<forall>c\<in>set xs. belowLB n c"
    using emits_calls [OF m] by blast
  have "clusterFresh E (calls s @ ys) c" if "xs = ys @ c # zs" for ys c zs
  proof -
    have "knownMissing E (calls s @ ys) LoadBalancerK n"
      by (rule knownMissing_append [OF missing]) (use xs(2) that in auto)
    then show ?thesis
      using xs(2) that by (auto simp: clusterFresh_def dest: lbPart_kind)
  qed
  then show ?thesis
    unfolding justAt_def justRel_def using xs(1) by blast
qed

lemma below_step:
  assumes missing: "knownMissing E (calls s) LoadBalancerK n" and m: "emits (belowLB n) m"
    and k: "\<And>x t. knownMissing E (calls t) LoadBalancerK n \<Longrightarrow> justAt (clusterFresh E) (k x) t"
  shows "justAt (clusterFresh E) (onResult m (\<lambda>err. ret (Inl err)) k) s"
  by (intro justAt_onResult below_at [OF missing m] justAt_ret k)
     (auto intro: knownMissing_run [OF missing m])

lemma emits_below:
  assumes "lcr_Name req = n"
  shows "emits (belowLB n) (lbPublicIP E req)" "emits (belowLB n) (lbPool E req)"
    "emits (belowLB n) (lbService E req p)" "emits (belowLB n) (lbRoute E req v)"
    "emits (belowLB n) (mapEach (lbExtraPort E req p) ports)"
  unfolding lbPublicIP_def lbPool_def lbService_def lbRoute_def lbExtraPort_def createOrGet_def Let_def assms [symmetric]
  by (intro go_rules; auto)+

lemma fresh_lbSubmit:
  assumes "knownMissing E (calls s) LoadBalancerK (lcr_Name req)"
  shows "justAt (clusterFresh E) (lbSubmit E req ip rt ls) s"
proof -
  have read: "emits createsNothing (buildLoadBalancer E n)" for n
    by (intro emits_ops) simp
  show ?thesis
    unfolding lbSubmit_def Let_def
    by (intro at_rules justAt_invoke cluster_nothingAt [OF read])
       (use assms in \<open>auto simp: clusterFresh_def\<close>)
qed

lemma fresh_LoadBalancerService_Create:
  assumes "knownMissing E (calls s) LoadBalancerK (lcr_Name req)"
  shows "justAt (clusterFresh E) (LoadBalancerService_Create E (Some req)) s"
  unfolding LoadBalancerService_Create_def option.case
  by (intro below_step [OF _ emits_below(1) [OF refl]] below_step [OF _ emits_below(2) [OF refl]]
      below_step [OF _ emits_below(3) [OF refl]] below_step [OF _ emits_below(4) [OF refl]]
      below_step [OF _ emits_below(5) [OF refl]] fresh_lbSubmit assms)

lemma lb_missing:
  assumes "run_state (LoadBalancerService_Get E n) s = (Inl e, t)" and "IsNotFoundError e"
  shows "knownMissing E (calls t) LoadBalancerK n"
  using assms unfolding LoadBalancerService_Get_def buildLoadBalancer_def Let_def
  by (auto simp: IsNotFoundError_def saysMissing_def lookupError_def intro!: knownMissing_asked split: sum.splits prod.splits if_splits)

lemma fresh_getOrCreateLB: "justifies (clusterFresh E) [] (getOrCreateLB E c n)"
proof -
  have get: "emits createsNothing (LoadBalancerService_Get E n)"
    by (intro emits_ops) simp
  have create: "justAt (clusterFresh E)
      (LoadBalancerService_Create E (Some (buildLoadBalancerCreateRequest c n))) s"
    if "knownMissing E (calls s) LoadBalancerK n" for s :: "('a, Call) st"
    using that by (intro fresh_LoadBalancerService_Create) (simp add: buildLoadBalancerCreateRequest_def Let_def)
  show ?thesis
    unfolding getOrCreateLB_def
    by (intro justifies_at at_rules cluster_nothingAt [OF get] create lb_missing; simp)
qed

section \<open>The stages of a cluster\<close>

lemma createsNothing_cluster:
  "emits createsNothing (handleClusterError E err)" "emits createsNothing (useLoadBalancer E lb)"
  "emits createsNothing (deleteStaleSecurityGroups E c d)" "emits createsNothing (checkExistingSG E role i)"
  "emits createsNothing (reconcileClusterSecurityGroupsOnVMs E c)" "emits createsNothing (removeAllSGs E)"
  "emits createsNothing (securityGroupPrefix cfg)"
proof -
  show "emits createsNothing (handleClusterError E err)"
    by (intro emits_handleClusterError) simp
  show stale: "emits createsNothing (deleteStaleSecurityGroups E c d)" for c d
    unfolding deleteStaleSecurityGroups_def by (intro go_rules emits_deleteTolerant emits_ops) simp
  show propagate: "emits createsNothing (reconcileClusterSecurityGroupsOnVMs E c)" for c
    unfolding reconcileClusterSecurityGroupsOnVMs_def touchMachine_def by (intro go_rules) simp_all
  show "emits createsNothing (useLoadBalancer E lb)" "emits createsNothing (checkExistingSG E role i)"
    "emits createsNothing (removeAllSGs E)" "emits createsNothing (securityGroupPrefix cfg)"
    unfolding useLoadBalancer_def checkExistingSG_def removeAllSGs_def securityGroupPrefix_def
    by (intro go_rules emits_ops stale propagate; simp)+
qed

lemma fresh_clusterSG: "justifies (clusterFresh E) [] (ensureClusterSG E c p role g)"
proof -
  have create: "justAt (clusterFresh E) (SecurityGroupService_Create E n rs l v) s"
    if "knownMissing E (calls s) SecurityGroupK n" for n rs l v and s :: "('a, Call) st"
    unfolding SecurityGroupService_Create_def Let_def
    by (intro at_rules justAt_invoke) (simp add: clusterFresh_def that)
  show ?thesis
    unfolding ensureClusterSG_def Let_def
    by (intro justifies_at at_rules cluster_nothingAt [OF createsNothing_lookups(4)]
        cluster_nothingAt [OF createsNothing_lookups(5)] cluster_nothingAt [OF createsNothing_lookups(7)]
        create missing_answers; simp)
qed

lemma fresh_securityGroups: "justifies (clusterFresh E) [] (reconcileSecurityGroups E)"
  unfolding reconcileSecurityGroups_def reconcileWantedSGs_def reconcileSecurityGroupSection_def
  by (intro just_rules fresh_clusterSG cluster_nothing [OF createsNothing_cluster(3)]
      cluster_nothing [OF createsNothing_cluster(4)] cluster_nothing [OF createsNothing_cluster(5)]
      cluster_nothing [OF createsNothing_cluster(6)] cluster_nothing [OF createsNothing_cluster(7)])

lemma fresh_endpoint: "justifies (clusterFresh E) [] (ensureEndpoint E)"
  unfolding ensureEndpoint_def reconcileAutoCreatedLoadBalancer_def
  by (intro just_rules fresh_getOrCreateLB cluster_nothing [OF createsNothing_cluster(2)]
      cluster_nothing [OF emits_early [OF createsNothing_cluster(1)]]
      cluster_nothing [OF emits_setClusterCondition])

section \<open>The cluster's reconcile\<close>

lemma createsNothing_around:
  "emits createsNothing (ensureCredentialSecretCopy E c)" "emits createsNothing (k8sGetCluster E req)"
  "emits createsNothing (k8sUpdateCluster E)" "emits createsNothing (IsPaused clusterOps E)"
  "emits createsNothing (Cluster_pausedBranch E)" "emits createsNothing (Cluster_credentialFailure E err)"
  "emits createsNothing (Cluster_resolveCloudClient E c)"
  "emits createsNothing (HandleDeletion clusterOps (k8sUpdateCluster E) clusterFinalizer (cleanupResources E))"
  "emits createsNothing (EnsureFinalizer clusterOps (k8sUpdateCluster E) clusterFinalizer)"
  unfolding Cluster_pausedBranch_def Cluster_credentialFailure_def Let_def k8s_defs
  by (intro go_rules emits_ops emits_cleanupResources emits_HandleDeletion emits_EnsureFinalizer; simp)+

lemma fresh_Cluster_Reconcile: "justifies (clusterFresh E) [] (Cluster_Reconcile E req)"
  unfolding Cluster_Reconcile_def Cluster_afterFetch_def Cluster_active_def Cluster_dispatch_def
    Cluster_reconcileNormal_def reconcileClusterBody_def
  by (intro just_rules fresh_endpoint fresh_securityGroups cluster_nothing [OF createsNothing_cluster(1)]
      cluster_nothing [OF createsNothing_around(1)] cluster_nothing [OF createsNothing_around(2)]
      cluster_nothing [OF createsNothing_around(3)] cluster_nothing [OF createsNothing_around(4)]
      cluster_nothing [OF createsNothing_around(5)] cluster_nothing [OF createsNothing_around(6)]
      cluster_nothing [OF createsNothing_around(7)] cluster_nothing [OF createsNothing_around(8)]
      cluster_nothing [OF createsNothing_around(9)] cluster_nothing [OF emits_ensureOwnershipID]
      cluster_nothing [OF emits_setClusterCondition] justifies_invoke)
    (simp_all add: clusterFresh_def)

end
