(* ===== verification/CreateProperties.thy ===== *)
theory CreateProperties
  imports MachineProperties ClusterExamples ClusterFresh CloudSim
begin

text \<open>
  What both controllers know when they create something, and that it is not there yet in a cloud
  that answers truly.
\<close>

lemma sentCreate:
  assumes "list_ex (\<lambda>c. case c of SdkCreate r \<Rightarrow> P r | _ \<Rightarrow> False) xs"
  obtains ys r zs where "xs = ys @ SdkCreate r # zs" "P r"
proof -
  obtain c where c: "c \<in> set xs" "case c of SdkCreate r \<Rightarrow> P r | _ \<Rightarrow> False"
    using assms by (auto simp: list_ex_iff)
  obtain r where r: "c = SdkCreate r" "P r"
    using c(2) by (cases c) auto
  then show ?thesis
    using that split_list [OF c(1)] by blast
qed

section \<open>Machines\<close>

text \<open>
  C14. A machine's reconcile creates only what is missing: when a create is sent, a lookup of the
  same kind and name was answered by not found, and no create of it was sent since.  In a cloud
  that does not deny what is there, nothing of that kind and name exists at that moment.
\<close>

theorem machine_creates_missing:
  assumes split: "machineCalls E req = ys @ SdkCreate r # zs"
  shows "knownMissing E ys (requestKind r) (requestName r) \<and>
    (\<forall>present l. tracks E present \<longrightarrow> (requestKind r, requestName r, l) \<notin> present ys)"
proof -
  have missing: "knownMissing E ys (requestKind r) (requestName r)"
    using justifies_emitted [OF fresh_Reconcile split] by (simp add: machineFresh_def)
  then show ?thesis
    by (auto dest: knownMissing_absent)
qed

text \<open>A reconcile in a simulated cloud that is empty: the boot disk is created.\<close>

lemma firstCreate:
  "list_ex (\<lambda>c. case c of SdkCreate r \<Rightarrow> requestKind r = DiskK \<and> requestName r = ''m-boot-disk'' | _ \<Rightarrow> False)
     (machineCalls (simCloud readyWorld) exampleKey)"
  by code_simp

theorem machine_creates_missing_witness:
  "\<exists>ys zs r. machineCalls (simCloud readyWorld) exampleKey = ys @ SdkCreate r # zs \<and>
     knownMissing (simCloud readyWorld) ys DiskK ''m-boot-disk'' \<and> (DiskK, ''m-boot-disk'', []) \<notin> set (alive ys)"
proof -
  obtain ys r zs where split: "machineCalls (simCloud readyWorld) exampleKey = ys @ SdkCreate r # zs"
      and r: "requestKind r = DiskK \<and> requestName r = ''m-boot-disk''"
    using firstCreate by (rule sentCreate)
  from machine_creates_missing [OF split] r simCloud_tracks split show ?thesis
    by auto
qed

section \<open>Clusters\<close>

text \<open>
  C23. A cluster's reconcile creates only what is missing: a security group was looked up and not
  found, and a part of the load balancer's chain is created only while its load balancer was
  looked up, not found, and not created since.  In a cloud that does not deny what is there, no
  security group and no load balancer is created over an existing one.
\<close>

theorem cluster_creates_missing:
  assumes split: "clusterCalls E req = ys @ SdkCreate r # zs"
  shows "(if requestKind r = SecurityGroupK then knownMissing E ys SecurityGroupK (requestName r)
      else \<exists>n. knownMissing E ys LoadBalancerK n \<and> lbPart n r) \<and>
    (\<forall>present l. tracks E present \<longrightarrow> requestKind r \<in> {SecurityGroupK, LoadBalancerK} \<longrightarrow>
       (requestKind r, requestName r, l) \<notin> present ys)"
proof -
  have fresh: "if requestKind r = SecurityGroupK then knownMissing E ys SecurityGroupK (requestName r)
      else \<exists>n. knownMissing E ys LoadBalancerK n \<and> lbPart n r"
    using justifies_emitted [OF fresh_Cluster_Reconcile split] by (simp add: clusterFresh_def)
  have "knownMissing E ys (requestKind r) (requestName r)" if "requestKind r \<in> {SecurityGroupK, LoadBalancerK}"
    using fresh that by (cases r) auto
  then show ?thesis
    using fresh by (auto dest: knownMissing_absent)
qed

lemma firstLB:
  "list_ex (\<lambda>c. case c of SdkCreate r \<Rightarrow> requestKind r = LoadBalancerK | _ \<Rightarrow> False)
     (clusterCalls (simCloud (clusterWorld None)) exampleKey)"
  by code_simp

theorem cluster_creates_missing_witness:
  "\<exists>ys zs r. clusterCalls (simCloud (clusterWorld None)) exampleKey = ys @ SdkCreate r # zs \<and>
     requestKind r = LoadBalancerK \<and> knownMissing (simCloud (clusterWorld None)) ys LoadBalancerK (requestName r) \<and>
     (LoadBalancerK, requestName r, []) \<notin> set (alive ys)"
proof -
  obtain ys r zs where split: "clusterCalls (simCloud (clusterWorld None)) exampleKey = ys @ SdkCreate r # zs"
      and r: "requestKind r = LoadBalancerK"
    using firstLB by (rule sentCreate)
  obtain n where "knownMissing (simCloud (clusterWorld None)) ys LoadBalancerK n" "lbPart n r"
    and absent: "\<forall>l. (requestKind r, requestName r, l) \<notin> set (alive ys)"
    using cluster_creates_missing [OF split] r simCloud_tracks by auto
  then have "knownMissing (simCloud (clusterWorld None)) ys LoadBalancerK (requestName r)"
    using r by (cases r) auto
  then show ?thesis
    using split r absent by auto
qed

end
