(* ===== verification/Agreement.thy ===== *)
theory Agreement
  imports ClusterProperties CreateProperties
begin

text \<open>
  Where the two controllers meet: a machine joins the security groups that the cluster controller
  recorded for its role, and registers in the backend pool that the cluster controller made.
\<close>

section \<open>Groups\<close>

text \<open>The groups of the common section and of the one of a role, by the names they have in the cloud.\<close>

definition optionalNames :: "string \<Rightarrow> SecurityGroupsConfig option \<Rightarrow> string list" where
  "optionalNames p cfg = (case cfg of None \<Rightarrow> [] | Some c \<Rightarrow> sectionNames p c)"

definition roleGroups :: "string \<Rightarrow> ClusterSecurityGroupsConfig \<Rightarrow> bool \<Rightarrow> string list" where
  "roleGroups p cfg cp = optionalNames p (csg_Common cfg) @
     optionalNames p (if cp then csg_ControlPlane cfg else csg_Worker cfg)"

lemma ensureClusterSG_role:
  "run_state (ensureClusterSG E x p role i) s = (Inr g, t) \<Longrightarrow> msg_Role g = role"
  by (auto simp: ensureClusterSG_def Let_def split: prod.splits sum.splits if_splits)

lemma checkExistingSG_role: "run_state (checkExistingSG E role n) s = (Inr g, t) \<Longrightarrow> msg_Role g = role"
  by (auto simp: checkExistingSG_def split: prod.splits sum.splits if_splits)

lemma section_roles:
  assumes "run_state (reconcileSecurityGroupSection E x p role cfg) s = (Inr sgs, t)"
  shows "map (\<lambda>g. (msg_Role g, msg_ID g)) sgs = map (Pair role) (sectionNames p cfg)"
proof -
  obtain managed existing u
    where managed: "run_state (mapEach (ensureClusterSG E x p role) (sgc_InlineSecurityGroups cfg)) s = (Inr managed, u)"
      and existing: "run_state (mapEach (checkExistingSG E role) (sgc_ExistingIDs cfg)) u = (Inr existing, t)"
      and sgs: "sgs = managed @ existing"
    using assms by (auto simp: reconcileSecurityGroupSection_def split: prod.splits sum.splits)
  have "map (\<lambda>g. (msg_Role g, msg_ID g)) managed =
      map (\<lambda>i. (role, inlineSGName p i)) (sgc_InlineSecurityGroups cfg)"
    by (rule mapEach_result [OF _ managed]) (auto dest: ensureClusterSG_role ensureClusterSG_name)
  moreover have "map (\<lambda>g. (msg_Role g, msg_ID g)) existing = map (Pair role) (sgc_ExistingIDs cfg)"
    by (rule mapEach_result [OF _ existing]) (auto dest: checkExistingSG_role checkExistingSG_name)
  ultimately show ?thesis
    by (simp add: sgs sectionNames_def)
qed

lemma sections_roles:
  assumes "run_state (mapEach (\<lambda>(role, config). reconcileSecurityGroupSection E x p role config) secs) s
    = (Inr sgs, t)"
  shows "map (\<lambda>g. (msg_Role g, msg_ID g)) (concat sgs) =
    concat (map (\<lambda>(role, config). map (Pair role) (sectionNames p config)) secs)"
proof -
  have "map (map (\<lambda>g. (msg_Role g, msg_ID g))) sgs =
      map (\<lambda>(role, config). map (Pair role) (sectionNames p config)) secs"
    by (rule mapEach_result [OF _ assms]) (auto split: prod.splits dest: section_roles)
  then show ?thesis
    by (simp add: map_concat)
qed

text \<open>Of the recorded groups a machine takes those of its role.\<close>

lemma names_of_role:
  assumes "map (\<lambda>g. (msg_Role g, msg_ID g)) gs =
    concat (map (\<lambda>(role, config). map (Pair role) (sectionNames p config)) (sgSections cfg))"
  shows "map msg_ID (filter (\<lambda>g. msg_Role g = ''common'' \<or> msg_Role g = (if cp then ''controlPlane'' else ''worker'')) gs)
    = roleGroups p cfg cp"
proof -
  let ?Q = "\<lambda>r. r = ''common'' \<or> r = (if cp then ''controlPlane'' else ''worker'')"
  have "map msg_ID (filter (\<lambda>g. ?Q (msg_Role g)) gs) =
      map snd (filter (\<lambda>x. ?Q (fst x)) (map (\<lambda>g. (msg_Role g, msg_ID g)) gs))"
    by (induction gs) auto
  also have "\<dots> = roleGroups p cfg cp"
    unfolding assms
    by (auto simp: sgSections_def roleGroups_def optionalNames_def filter_map o_def split: option.splits)
  finally show ?thesis .
qed

lemma wantedSGs_recorded:
  assumes "run_state (reconcileWantedSGs E cfg p) s = (None, t)"
  shows "clusterSecurityGroupNamesForRole (Some (cur t)) cp = roleGroups p cfg cp"
proof -
  let ?m = "mapEach (\<lambda>(role, config). reconcileSecurityGroupSection E (cur s) p role config) (sgSections cfg)"
  obtain r u where run: "run_state ?m s = (r, u)"
    by fastforce
  obtain sgs where sgs: "r = Inr sgs"
    using assms run by (cases r) (auto simp: reconcileWantedSGs_def)
  obtain e v where stale: "run_state (deleteStaleSecurityGroups E (cur s) (concat sgs)) u = (e, v)"
    by fastforce
  have e: "e = None"
    using assms run sgs stale by (cases e) (auto simp: reconcileWantedSGs_def)
  let ?v = "v\<lparr>cur := setClusterResources (\<lambda>r. r\<lparr>cr_SecurityGroups := concat sgs\<rparr>) (cur v)\<rparr>"
  obtain e' w where told: "run_state (reconcileClusterSecurityGroupsOnVMs E (cur s)) ?v = (e', w)"
    by fastforce
  have "t = w"
    using assms run sgs stale e told by (cases e') (auto simp: reconcileWantedSGs_def)
  moreover have "frames (\<lambda>x. x) (reconcileClusterSecurityGroupsOnVMs E (cur s) :: (EvrocCluster, goerr option) go)"
    unfolding reconcileClusterSecurityGroupsOnVMs_def touchMachine_def by (intro frames_rules)
  ultimately have "cur t = setClusterResources (\<lambda>r. r\<lparr>cr_SecurityGroups := concat sgs\<rparr>) (cur v)"
    using run_frames [OF _ told] by simp
  then have "clusterSecurityGroupNamesForRole (Some (cur t)) cp = map msg_ID (filter (\<lambda>g. msg_Role g = ''common'' \<or>
      msg_Role g = (if cp then ''controlPlane'' else ''worker'')) (concat sgs))"
    by (simp add: clusterSecurityGroupNamesForRole_def setClusterResources_def Let_def)
  also have "\<dots> = roleGroups p cfg cp"
    by (rule names_of_role) (use run sgs in \<open>auto intro: sections_roles\<close>)
  finally show ?thesis .
qed

lemma unprefixed_groups:
  "\<not> needsPrefix cfg \<Longrightarrow> roleGroups p cfg cp = roleGroups q cfg cp"
  by (auto simp: needsPrefix_def roleGroups_def optionalNames_def sgSections_def sectionNames_def split: option.splits)

text \<open>The prefix that the inline groups of a cluster are named with.\<close>

definition groupPrefix :: "EvrocCluster \<Rightarrow> string" where
  "groupPrefix c = (case prefixOf c of None \<Rightarrow> '''' | Some p \<Rightarrow> p)"

lemma groups_recorded:
  assumes run: "run_state (reconcileSecurityGroups E) s = (None, t)"
    and cfg: "cs_SecurityGroups (cl_Spec (cur s)) = Some cfg"
  shows "clusterSecurityGroupNamesForRole (Some (cur t)) cp = roleGroups (groupPrefix (cur s)) cfg cp"
proof (cases "needsPrefix cfg")
  case True
  then obtain p c' where p: "clusterResourcePrefix (cur s) = Inr (p, c')"
    using run cfg by (cases "clusterResourcePrefix (cur s)") (auto simp: reconcileSecurityGroups_def securityGroupPrefix_def)
  then have "run_state (reconcileWantedSGs E cfg p) (s\<lparr>cur := c'\<rparr>) = (None, t)"
    using run cfg True by (simp add: reconcileSecurityGroups_def securityGroupPrefix_def)
  then show ?thesis
    using wantedSGs_recorded p by (simp add: groupPrefix_def prefixOf_def)
next
  case False
  then have "run_state (reconcileWantedSGs E cfg '''') s = (None, t)"
    using run cfg by (simp add: reconcileSecurityGroups_def securityGroupPrefix_def)
  from wantedSGs_recorded [OF this] show ?thesis
    using unprefixed_groups [OF False] by simp
qed

lemma requested_groups:
  assumes "buildVMRequest E m u cl = Inr r"
  shows "(case vnw_SecurityGroupMemberRefs (vr_Networking r) of None \<Rightarrow> [] | Some gs \<Rightarrow> gs) = desiredSecurityGroups m cl"
  using assms by (auto simp: buildVMRequest_def buildNetworking_def Let_def split: sum.splits option.splits if_splits)

section \<open>The backend pool\<close>

text \<open>Every change of a backend pool is of the pool \<open>q\<close>.\<close>

fun inPool :: "string \<Rightarrow> Call \<Rightarrow> bool" where
  "inPool q (SdkAddBackendRef p b) \<longleftrightarrow> p = q"
| "inPool q (SdkRemoveBackendRef p b) \<longleftrightarrow> p = q"
| "inPool q c \<longleftrightarrow> True"

text \<open>The clusters a machine's reconcile reads have the prefix \<open>p\<close> for their names.\<close>

definition readsPrefix :: "Env \<Rightarrow> string \<Rightarrow> bool" where
  "readsPrefix E p \<longleftrightarrow> (\<forall>h k c. e_cluster E h (KGetCluster k) = Inr c \<longrightarrow> settledPrefix c p)"

definition fits :: "string \<Rightarrow> EvrocCluster option \<Rightarrow> bool" where
  "fits p cl \<longleftrightarrow> (\<forall>c. cl = Some c \<longrightarrow> settledPrefix c p)"

lemma resolved_fits:
  assumes "readsPrefix E p" and "run_state (resolveEvrocCluster E m) s = (Inr cl, t)"
  shows "fits p cl"
  using assms
  by (auto simp: resolveEvrocCluster_def readsPrefix_def fits_def Let_def split: if_splits sum.splits)

lemma fits_lbName:
  assumes "fits p (Some c)"
  shows "\<exists>c'. resolveLoadBalancerName c = Inr (p @ ''-cp-lb'', c')"
  using assms
  by (auto simp: fits_def settledPrefix_def prefixOf_def resolveLoadBalancerName_def split: sum.splits)

abbreviation poolOf :: "string \<Rightarrow> string" where
  "poolOf p \<equiv> poolName (p @ ''-cp-lb'')"

text \<open>The load balancer name of a cluster that fits is known.\<close>

lemma emits_named:
  assumes "fits p cl" and "emits P m"
    and "\<And>c c'. cl = Some c \<Longrightarrow> resolveLoadBalancerName c = Inr (p @ ''-cp-lb'', c') \<Longrightarrow> emits P (f c)"
  shows "emits P (case cl of None \<Rightarrow> m | Some c \<Rightarrow> f c)"
  using assms by (cases cl) (auto dest!: fits_lbName)

lemma pool_deregister:
  assumes "readsPrefix E p"
  shows "emits (inPool (poolOf p)) (deregisterFromLB E m)"
  unfolding deregisterFromLB_def LoadBalancerService_RemoveBackend_def
  by (rule emit.keeps_if, rule emit.keeps_return, rule emits_onResult_after, rule emits_resolveEvrocCluster,
      simp, simp, rule emit.keeps_return, drule resolved_fits [OF assms], erule emits_named, rule emit.keeps_return)
    (auto intro!: go_rules emits_deleteTolerant)

lemma pool_deletion:
  assumes "readsPrefix E p"
  shows "emits (inPool (poolOf p)) (deleteMachineFromCloud E m)"
  unfolding deleteMachineFromCloud_def deleteVMThenOwned_def Let_def
  by (intro go_rules pool_deregister assms emits_ops emits_deleteTolerant emits_deleteOwnedResources) simp_all

lemma pool_normal:
  assumes "fits p cl"
  shows "emits (inPool (poolOf p)) (Machine_reconcileNormal E cl)"
proof -
  have "stableInv E (\<lambda>_. True)"
    by (simp add: stableInv_def)
  then have allowed: "emits (allowed E cl (\<lambda>_. True)) (Machine_reconcileNormal E cl)"
    using maintains_reconcileNormal [of E "\<lambda>_. True" cl] by (simp add: state_io_rel_def invRel_def)
  have "clusterPool cl = Some q \<Longrightarrow> q = poolOf p" for q
    using assms fits_lbName by (fastforce simp: clusterPool_def split: option.splits)
  then have "inPool (poolOf p) c" if "allowed E cl (\<lambda>_. True) c" for c
    using that by (cases "(poolOf p, c)" rule: inPool.cases) auto
  then show ?thesis
    by (rule emits_mono [OF allowed])
qed

lemma pool_dispatch:
  assumes "readsPrefix E p" and "fits p cl"
  shows "emits (inPool (poolOf p)) (Machine_dispatch E cl)"
  unfolding Machine_dispatch_def machineCleanup_def k8s_defs
  by (intro go_rules emits_ops emits_HandleDeletion emits_EnsureFinalizer pool_deletion pool_normal assms) simp_all

lemma pool_Reconcile:
  assumes "readsPrefix E p"
  shows "emits (inPool (poolOf p)) (Machine_Reconcile E req)"
proof -
  have active: "emits (inPool (poolOf p)) (Machine_active E)"
    unfolding Machine_active_def Machine_credentialFailure_def Let_def k8s_defs
    by (rule emit.keeps_bind [OF emits_getCur], rule emits_onResult_after, rule emits_resolveEvrocCluster, simp, simp,
        intro go_rules, drule resolved_fits [OF assms])
      (intro go_rules emits_ops pool_dispatch assms; simp)
  show ?thesis
    unfolding Machine_Reconcile_def Machine_afterFetch_def Machine_pausedBranch_def k8s_defs
    by (intro go_rules active emits_ops) simp_all
qed

section \<open>What a machine joins\<close>

text \<open>
  C24. A machine that inherits joins exactly the groups that its cluster wants for its role: after
  the cluster controller reconciled the groups, the request of a machine built from the stored
  cluster has, in order, the common groups, the groups of its role and its own, under the names
  that the two controllers derive on their own.
\<close>

theorem machine_joins_cluster_groups:
  assumes run: "run_state (reconcileSecurityGroups E) s = (None, t)"
    and cfg: "cs_SecurityGroups (cl_Spec (cur s)) = Some cfg"
    and stored: "cst_Resources (cl_Status c) = cst_Resources (cl_Status (cur t))"
    and own: "machineSGConfig m = Some g"
    and request: "buildVMRequest E' m u (Some c) = Inr r"
  shows "(case vnw_SecurityGroupMemberRefs (vr_Networking r) of None \<Rightarrow> [] | Some gs \<Rightarrow> gs) =
    (if msgc_InheritFromCluster g then roleGroups (groupPrefix (cur s)) cfg (isControlPlane m) else []) @
    map (inlineSGName (om_Name (m_Meta m))) (msgc_InlineSecurityGroups g) @ msgc_ExistingIDs g"
proof -
  have "clusterSecurityGroupNamesForRole (Some c) (isControlPlane m) =
      clusterSecurityGroupNamesForRole (Some (cur t)) (isControlPlane m)"
    by (simp add: clusterSecurityGroupNamesForRole_def stored)
  also have "\<dots> = roleGroups (groupPrefix (cur s)) cfg (isControlPlane m)"
    by (rule groups_recorded [OF run cfg])
  finally show ?thesis
    using own by (simp add: requested_groups [OF request] desiredSecurityGroups_def)
qed

definition joiningMachine :: EvrocMachine where
  "joiningMachine = (exampleMachine None)\<lparr>m_Spec := (m_Spec (exampleMachine None))\<lparr>ms_NetworkingConfig :=
     Some \<lparr>mnc_PublicIP = None, mnc_SecurityGroups = Some \<lparr>msgc_InheritFromCluster = True,
       msgc_InlineSecurityGroups = [], msgc_ExistingIDs = [''e'']\<rparr>\<rparr>\<rparr>\<rparr>"

lemma joinRun: "fst (run_state (reconcileSecurityGroups (clusterWorld None)) (startOf (liveCluster None))) = None"
  by code_simp

lemma joinRequest: "\<exists>r. buildVMRequest emptyWorld joiningMachine [] (Some c) = Inr r"
  by (simp add: buildVMRequest_def buildOSSettings_def joiningMachine_def exampleMachine_def zeroMachine_def)

theorem machine_joins_cluster_groups_witness:
  "\<exists>c r. buildVMRequest emptyWorld joiningMachine [] (Some c) = Inr r \<and>
     vnw_SecurityGroupMemberRefs (vr_Networking r) = Some [''m-uid-g'', ''e'']"
proof -
  obtain t where run: "run_state (reconcileSecurityGroups (clusterWorld None)) (startOf (liveCluster None)) = (None, t)"
    using joinRun by (metis prod.collapse)
  obtain r where r: "buildVMRequest emptyWorld joiningMachine [] (Some (cur t)) = Inr r"
    using joinRequest by blast
  have cfg: "cs_SecurityGroups (cl_Spec (cur (startOf (liveCluster None)))) = Some exampleGroups"
    by (simp add: startOf_def liveCluster_def)
  have own: "machineSGConfig joiningMachine = Some \<lparr>msgc_InheritFromCluster = True,
      msgc_InlineSecurityGroups = [], msgc_ExistingIDs = [''e'']\<rparr>"
    by (simp add: machineSGConfig_def joiningMachine_def)
  have "roleGroups (groupPrefix (cur (startOf (liveCluster None)))) exampleGroups (isControlPlane joiningMachine) =
      [''m-uid-g'']"
    by code_simp
  then show ?thesis
    using machine_joins_cluster_groups [OF run cfg refl own r] r by (auto split: option.splits)
qed

text \<open>
  C25. A machine registers with, and leaves, the backend pool that its cluster's controller made:
  when both read the same prefix, every pool that a machine's reconcile changes has the name of
  every pool that the cluster's reconcile creates.
\<close>

theorem machine_uses_cluster_pool:
  assumes reads: "readsPrefix E p"
    and change: "SdkAddBackendRef q b \<in> set (machineCalls E req) \<or> SdkRemoveBackendRef q b \<in> set (machineCalls E req)"
    and fetch: "e_cluster E' [] (KGetCluster req') = Inr c" and settled: "settledPrefix c p"
    and made: "SdkCreate (CreateBackendPool n l) \<in> set (clusterCalls E' req')"
  shows "q = n"
proof -
  have "q = poolOf p"
    using emitted_emits [OF pool_Reconcile [OF reads]] change by fastforce
  moreover have "clusterWrite E' c (SdkCreate (CreateBackendPool n l))"
    using cluster_guarded [OF fetch made] by (simp add: clusterGuard_def split: if_splits)
  from clusterWrite_lb [OF this _ settled]
  have "lbCreates E' (buildLoadBalancerCreateRequest c (p @ ''-cp-lb'')) (CreateBackendPool n l)"
    by blast
  then have "n = poolOf p"
    by (simp add: buildLoadBalancerCreateRequest_def Let_def)
  ultimately show ?thesis
    by simp
qed

definition poolMachine :: EvrocMachine where
  "poolMachine = (exampleMachine None)\<lparr>m_Meta := exampleMeta [(ClusterNameLabel, ''c''), (MachineControlPlaneLabel, '''')]
     [(machineOwnershipIDAnnotation, ''x'')] [machineFinalizer] None\<rparr>"

definition poolWorld :: Env where
  "poolWorld = (machineWorld None)\<lparr>e_machine := (\<lambda>_ _. Inr poolMachine), e_cluster := (\<lambda>_ _. Inr (liveCluster None)),
     e_vm := (\<lambda>_ _. Inr \<lparr>vm_Meta = \<lparr>md_Id = ''m'', md_Uid = ''1''\<rparr>, vm_PlacementGroupRef = None,
       vm_PublicIPRef = None, vm_Networking = None, vm_State = ''''\<rparr>)\<rparr>"

lemma poolReads: "readsPrefix poolWorld ''m-uid'' \<and> settledPrefix (liveCluster None) ''m-uid''"
proof -
  have "settledPrefix (liveCluster None) ''m-uid''"
    by code_simp
  then show ?thesis
    by (auto simp: readsPrefix_def poolWorld_def)
qed

lemma poolChange: "SdkAddBackendRef ''m-uid-cp-lb-pool'' (s_ref poolWorld VMRefK ''m'') \<in> set (machineCalls poolWorld exampleKey)"
  by code_simp

lemma poolMade:
  "list_ex (\<lambda>c. case c of SdkCreate r \<Rightarrow> requestKind r = BackendPoolK | _ \<Rightarrow> False)
     (clusterCalls (clusterWorld None) exampleKey)"
  by code_simp

theorem machine_uses_cluster_pool_witness:
  "\<exists>l. SdkCreate (CreateBackendPool ''m-uid-cp-lb-pool'' l) \<in> set (clusterCalls (clusterWorld None) exampleKey)"
proof -
  obtain ys r zs where split: "clusterCalls (clusterWorld None) exampleKey = ys @ SdkCreate r # zs"
      and r: "requestKind r = BackendPoolK"
    using poolMade by (rule sentCreate)
  obtain n l where "r = CreateBackendPool n l"
    using r by (cases r) auto
  then have made: "SdkCreate (CreateBackendPool n l) \<in> set (clusterCalls (clusterWorld None) exampleKey)"
    using split by simp
  then show ?thesis
    using machine_uses_cluster_pool [OF _ disjI1 [OF poolChange] clusterWorld_fetch _ made] poolReads by blast
qed

end
