(* ===== verification/Divergences.thy ===== *)
theory Divergences
  imports WebhookProperties
begin

text \<open>
  Where the code does something else than it means to, as theorems about the same definitions: a
  cleanup that cannot see the machines it waits for, a public IP that an update makes forgotten, a
  rule that loses its remote group, listeners without IPv6, machines whose additions are never
  made, and a pause that an error of the API server lifts.
\<close>

section \<open>Machines the cleanup of a cluster does not see\<close>

text \<open>
  \<open>Cleanup\<close> waits until no virtual machine is listed by the labels of the cluster's resources.
  The labels of a virtual machine are others: unless the user adds the marker, none is listed.
\<close>

lemma map_of_mergeInto_absent: "\<not> mhas e k \<Longrightarrow> map_of (mergeInto e l) k = map_of l k"
  by (induction e arbitrary: l) (auto simp: mhas_def split: if_splits)

theorem vm_unseen_by_cleanup:
  assumes "buildVMRequest E m u cl = Inr r" and "\<not> mhas (ms_AdditionalLabels (m_Spec m)) LabelManagedBy"
    and "\<And>c. cl = Some c \<Longrightarrow> \<not> mhas (cs_AdditionalLabels (cl_Spec c)) LabelManagedBy"
    and "CHR '','' \<notin> set i"
  shows "\<not> selectorMatches (ownerSelector LabelClusterID i) (vr_Labels r)"
proof -
  have "map_of (buildLabels m cl) LabelManagedBy = None"
    using assms(2,3)
    by (cases cl) (simp_all add: buildLabels_def MergeLabels_def Let_def map_of_mergeInto_absent label_defs)
  then show ?thesis
    using assms(4) by (subst selectorMatches_owner) (simp_all add: buildVMRequest_fields(2) [OF assms(1)] label_defs)
qed

section \<open>A public IP that is forgotten\<close>

text \<open>
  The choice of the public IP is not frozen: every cluster that is admitted may be updated to name
  an existing one, also after its own was made.
\<close>

definition withLBConfig :: "LoadBalancerConfig \<Rightarrow> EvrocCluster \<Rightarrow> EvrocCluster" where
  "withLBConfig cfg c = c\<lparr>cl_Spec := (cl_Spec c)\<lparr>cs_ControlPlaneConfig := Some \<lparr>cpc_LoadBalancer = Some cfg\<rparr>\<rparr>\<rparr>"

theorem public_ip_choice_unfrozen:
  assumes "snd (ClusterValidator_ValidateCreate parseURL (ClusterObject c)) = None"
    and "lbc_ExistingPublicIPID cfg = Some i" and "i \<noteq> ''''"
  shows "snd (ClusterValidator_ValidateUpdate parseURL errText (ClusterObject c) (ClusterObject (withLBConfig cfg c))) =
      None \<and> \<not> ownsLBPublicIP (withLBConfig cfg c)"
proof -
  have "validCluster parseURL c"
    using assms(1) by (auto simp: ClusterValidator_ValidateCreate_def validateEvrocCluster_def clusterErrs_iff
        rejectErrs_def split: if_splits)
  moreover have "clusterGroupOk (withLBConfig cfg c) = clusterGroupOk c"
    by (simp add: clusterGroupOk_def [abs_def] withLBConfig_def)
  ultimately have "validCluster parseURL (withLBConfig cfg c)"
    by (simp add: validCluster_def Let_def) (simp add: withLBConfig_def)
  moreover have "frozen c (withLBConfig cfg c)"
    by (simp add: frozen_def withLBConfig_def ShouldManageControlPlaneEndpoint_def)
  ultimately show ?thesis
    using assms(2,3)
    by (simp add: ClusterValidator_ValidateUpdate_def validateEvrocCluster_def clusterErrs_iff
        clusterImmutableErrs_iff rejectErrs_def ownsLBPublicIP_def GetLoadBalancer_def)
       (simp add: withLBConfig_def)
qed

text \<open>After that no reconcile deletes the IP that was made, unless a driver's label selects it.\<close>

theorem managed_ip_forgotten:
  assumes fetch: "e_cluster E [] (KGetCluster req) = Inr c" and other: "\<not> ownsLBPublicIP c"
    and split: "clusterCalls E req = ys @ SdkDelete PublicIPK n # zs"
  shows "listedByDriver E (clusterOwnershipID (Some c)) ys PublicIPK n"
proof (cases "clusterLive c")
  case True
  then show ?thesis
    using cluster_guarded [OF fetch, of "SdkDelete PublicIPK n"] split by (simp add: clusterGuard_def)
next
  case False
  then show ?thesis
    using cluster_judged [OF fetch False split] other
    by (auto simp: clusterReleaseJudge_def lbDeleteJudge_def lbResourceKinds_def)
qed

section \<open>Rules and listeners\<close>

text \<open>An egress rule towards a security group is created without the group and without an address.\<close>

theorem egress_reference_lost:
  assumes "r_Direction rule = ''Egress''" and "r_RemoteSecurityGroup rule = g" and "r_RemoteCIDR rule = ''''"
  shows "\<exists>n p a b. builderRule (convertRule rule) = [AllowEgressRule n p a b '''']"
  using assms by (simp add: builderRule_def convertRule_def)

text \<open>The services of the additional ports never get the IPv6 selection, whatever the stack type.\<close>

theorem additional_ports_without_ipv6:
  assumes "SdkCreate (CreateBackendService n p pl v6 l) \<in> set (emitted (lbExtraPort E q pool port) s)"
  shows "\<not> v6"
proof -
  let ?P = "\<lambda>k. \<forall>n p pl v6 l. k = SdkCreate (CreateBackendService n p pl v6 l) \<longrightarrow> \<not> v6"
  have "emits ?P (lbExtraPort E q pool port)"
    unfolding lbExtraPort_def Let_def by (intro go_rules emits_createOrGet) simp_all
  from emitted_emits [OF this assms] show ?thesis
    by blast
qed

section \<open>Additions to an existing machine\<close>

text \<open>
  Once the virtual machine is there, nothing more is created for it: no disk, group or public IP
  that the specification gained since.
\<close>

theorem existing_machine_gains_nothing:
  assumes "k \<in> set (emitted (reconcileExistingVM E vm cl) s)"
  shows "\<not> isCreate k"
proof -
  have "emits (\<lambda>k. \<not> isCreate k) (reconcileExistingVM E vm cl)"
    unfolding reconcileExistingVM_def driftStep_def reportVM_def early_def reconcileVMSecurityGroups_def
      reconcilePublicIPAttachment_def reconcileVMDisks_def reconcileVMPlacement_def reconcileLBBackend_def
      ensureMachineProviderID_def linkNode_def adoptNodeProviderID_def patchNodeProviderID_def
      reconcileNodeInitialization_def getWorkloadClusterClient_def reconcileNodeLabelsAndTaints_def k8s_defs Let_def
    by (intro go_rules emits_ops emits_deleteTolerant emits_handleMachineError) simp_all
  from emitted_emits [OF this assms] show ?thesis .
qed

section \<open>A pause that an error lifts\<close>

text \<open>Whatever the error of the lookup, the object counts as not paused.\<close>

theorem pause_lifted_by_error:
  assumes "\<not> HasPausedAnnotation (oo_Meta ops (cur s))"
    and "\<And>k. e_capiCluster E (calls s) (KGetCapiCluster k) = Inl err"
  shows "resultOf (IsPaused ops E) s = False"
  using assms by (simp add: IsPaused_def Let_def resultOf_def split: option.split)

end
