(* ===== verification/ServiceReads.thy ===== *)
theory ServiceReads
  imports LoadBalancers Credentials
begin

text \<open>
  The methods of the cloud services that no controller calls: the lists of all resources of a
  kind, the waits, and the client from a YAML document.  The SDK's list of a kind is an argument,
  as are the YAML parser and the SDK's validation.
\<close>

section \<open>Lists\<close>

definition listWith :: "string \<Rightarrow> ('o, goerr + 'i list) go \<Rightarrow> ('o, goerr + 'i list) go" where
  "listWith ctx sdkList = onResult sdkList (\<lambda>err. ret (Inl (wrapErr ctx err))) (\<lambda>items. ret (Inr items))"

definition DiskService_List :: "('o, goerr + Disk list) go \<Rightarrow> ('o, goerr + Disk list) go" where
  "DiskService_List = listWith ''failed to list disks''"

definition PublicIPService_List :: "('o, goerr + PublicIP list) go \<Rightarrow> ('o, goerr + PublicIP list) go" where
  "PublicIPService_List = listWith ''failed to list public IPs''"

definition SecurityGroupService_List ::
    "('o, goerr + SecurityGroup list) go \<Rightarrow> ('o, goerr + SecurityGroup list) go" where
  "SecurityGroupService_List = listWith ''failed to list security groups''"

definition PlacementGroupService_List ::
    "('o, goerr + PlacementGroup list) go \<Rightarrow> ('o, goerr + PlacementGroup list) go" where
  "PlacementGroupService_List = listWith ''failed to list placement groups''"

definition VirtualMachineService_List ::
    "('o, goerr + VirtualMachine list) go \<Rightarrow> ('o, goerr + VirtualMachine list) go" where
  "VirtualMachineService_List = listWith ''failed to list virtual machines''"

text \<open>The load balancers: name, UID and status, the rest left zero; an error comes back as it is.\<close>

definition listedLoadBalancer :: "Env \<Rightarrow> SdkLoadBalancer \<Rightarrow> LoadBalancer" where
  "listedLoadBalancer E sdkLB =
     \<lparr>lbr_Name = md_Id (lb_Meta sdkLB), lbr_ID = md_Uid (lb_Meta sdkLB), lbr_Address = '''',
      lbr_Status = (if s_lbReady E sdkLB then LoadBalancerStatusActive else LoadBalancerStatusCreating),
      lbr_Backends = []\<rparr>"

definition LoadBalancerService_List ::
    "Env \<Rightarrow> ('o, goerr + SdkLoadBalancer list) go \<Rightarrow> ('o, goerr + LoadBalancer list) go" where
  "LoadBalancerService_List E sdkList =
     onResult sdkList (\<lambda>err. ret (Inl err)) (\<lambda>items. ret (Inr (map (listedLoadBalancer E) items)))"

text \<open>The names in a list, which may be nil.\<close>

definition l4RouteNames :: "L4Route list option \<Rightarrow> string list" where
  "l4RouteNames list = (case list of None \<Rightarrow> [] | Some items \<Rightarrow> map (\<lambda>item. md_Id (l4_Meta item)) items)"

definition backendServiceNames :: "BackendService list option \<Rightarrow> string list" where
  "backendServiceNames list = (case list of None \<Rightarrow> [] | Some items \<Rightarrow> map (\<lambda>item. md_Id (bs_Meta item)) items)"

definition backendPoolNames :: "BackendPool list option \<Rightarrow> string list" where
  "backendPoolNames list = (case list of None \<Rightarrow> [] | Some items \<Rightarrow> map (\<lambda>item. md_Id (bp_Meta item)) items)"

definition loadBalancerNames :: "SdkLoadBalancer list option \<Rightarrow> string list" where
  "loadBalancerNames list = (case list of None \<Rightarrow> [] | Some items \<Rightarrow> map (\<lambda>item. md_Id (lb_Meta item)) items)"

definition publicIPNames :: "PublicIP list \<Rightarrow> string list" where
  "publicIPNames items = map (\<lambda>item. md_Id (ip_Meta item)) items"

definition diskNames :: "Disk list \<Rightarrow> string list" where
  "diskNames items = map (\<lambda>item. md_Id (d_Meta item)) items"

section \<open>Waits\<close>

definition DiskService_WaitForReady :: "Env \<Rightarrow> string \<Rightarrow> int \<Rightarrow> ('o, goerr + Disk) go" where
  "DiskService_WaitForReady E name timeout = invoke (e_disk E) (SdkWaitForReady DiskK name timeout)"

definition PublicIPService_WaitForReady :: "Env \<Rightarrow> string \<Rightarrow> int \<Rightarrow> ('o, goerr + PublicIP) go" where
  "PublicIPService_WaitForReady E name timeout = invoke (e_ip E) (SdkWaitForReady PublicIPK name timeout)"

definition SecurityGroupService_WaitForReady :: "Env \<Rightarrow> string \<Rightarrow> int \<Rightarrow> ('o, goerr + SecurityGroup) go" where
  "SecurityGroupService_WaitForReady E name timeout =
     invoke (e_sg E) (SdkWaitForReady SecurityGroupK name timeout)"

definition PlacementGroupService_WaitForReady :: "Env \<Rightarrow> string \<Rightarrow> int \<Rightarrow> ('o, goerr + PlacementGroup) go" where
  "PlacementGroupService_WaitForReady E name timeout =
     invoke (e_pg E) (SdkWaitForReady PlacementGroupK name timeout)"

definition VirtualMachineService_WaitForReady :: "Env \<Rightarrow> string \<Rightarrow> int \<Rightarrow> ('o, goerr + VirtualMachine) go" where
  "VirtualMachineService_WaitForReady E name timeout =
     invoke (e_vm E) (SdkWaitForReady VirtualMachineK name timeout)"

text \<open>The load balancer is read back in full once the SDK reports it ready.\<close>

definition LoadBalancerService_WaitForReady :: "Env \<Rightarrow> string \<Rightarrow> int \<Rightarrow> ('o, goerr + LoadBalancer) go" where
  "LoadBalancerService_WaitForReady E name timeout =
     onResult (invoke (e_lb E) (SdkWaitForReady LoadBalancerK name timeout))
       (\<lambda>err. ret (Inl (wrapErr (''timeout waiting for load balancer '' @ quoted name @ '' to be ready'') err)))
       (\<lambda>_. buildLoadBalancer E name)"

section \<open>A client from YAML\<close>

definition NewClientFromYAML ::
    "(string \<Rightarrow> goerr + CloudConfig) \<Rightarrow> (CloudConfig \<Rightarrow> goerr option) \<Rightarrow> Env \<Rightarrow> string \<Rightarrow> ('o, goerr option) go" where
  "NewClientFromYAML parse validate E data =
     (case parse data of
        Inl err \<Rightarrow> ret (Some (wrapErr ''failed to parse credentials YAML'' err))
      | Inr cfg \<Rightarrow>
          let cfg = s_setDefaults E cfg in
          case validate cfg of
            Some err \<Rightarrow> ret (Some (wrapErr ''invalid credentials'' err))
          | None \<Rightarrow> NewClientFromConfig E cfg)"

section \<open>What they keep\<close>

text \<open>None of them writes, whatever the SDK's list calls.\<close>

lemma reads_only:
  assumes "emits (\<lambda>c. \<not> isCloudWrite c) sdkList"
  shows "emits (\<lambda>c. \<not> isCloudWrite c) (listWith ctx sdkList)"
    and "emits (\<lambda>c. \<not> isCloudWrite c) (DiskService_WaitForReady E n t)"
    and "emits (\<lambda>c. \<not> isCloudWrite c) (LoadBalancerService_WaitForReady E n t)"
  unfolding listWith_def DiskService_WaitForReady_def LoadBalancerService_WaitForReady_def
  by (intro go_rules emits_ops assms; simp)+

text \<open>A client is made of validated configurations only, and not without one.\<close>

lemma client_validated:
  assumes "SdkNewClient cfg \<in> set (emitted (NewClientFromYAML parse validate E data) s)"
  shows "\<exists>raw. parse data = Inr raw \<and> cfg = s_setDefaults E raw \<and> validate cfg = None"
  using assms
  by (auto simp: NewClientFromYAML_def NewClientFromConfig_def Let_def emitted_def
      split: sum.splits option.splits)

text \<open>What the list reports as active is what the SDK reports ready, in the order of the list.\<close>

lemma listed_active:
  assumes "run_state (LoadBalancerService_List E sdkList) s = (Inr lbs, t)"
  shows "\<exists>items. run_state sdkList s = (Inr items, t) \<and> map lbr_Name lbs = loadBalancerNames (Some items) \<and>
    map IsActive lbs = map (s_lbReady E) items"
  using assms
  by (auto simp: LoadBalancerService_List_def loadBalancerNames_def listedLoadBalancer_def IsActive_def
      split: prod.splits sum.splits)

end
