(* ===== verification/ServiceInterfaces.thy ===== *)
theory ServiceInterfaces
  imports ServiceReads Workload
begin

text \<open>
  The interfaces through which the controllers see the cloud (\<open>cloud/interfaces.go\<close>), as records of
  operations, and the client that implements them (\<open>cloud/client.go\<close>), built from the operations of
  the services.  A method table is a record value, so the checks at the end of \<open>interfaces.go\<close> that
  \<open>*DiskService\<close> and the others satisfy their interfaces are the types of the definitions below.
  The calls of the SDK that no controller makes are the fields of \<open>SdkCalls\<close>.  Shown: what each
  service does behind its interface, whatever the SDK answers.
\<close>

section \<open>The interfaces\<close>

record 'o DiskServiceInterface =
  di_Create :: "string \<Rightarrow> int \<Rightarrow> string \<Rightarrow> string \<Rightarrow> gomap \<Rightarrow> ('o, goerr + Disk) go"
  di_Get :: "string \<Rightarrow> ('o, goerr + Disk) go"
  di_Delete :: "string \<Rightarrow> ('o, goerr option) go"
  di_List :: "('o, goerr + Disk list) go"
  di_ListByOwner :: "string \<Rightarrow> ('o, goerr + string list) go"
  di_Exists :: "string \<Rightarrow> ('o, goerr + bool) go"
  di_WaitForReady :: "string \<Rightarrow> int \<Rightarrow> ('o, goerr + Disk) go"
  di_WaitForDeleted :: "string \<Rightarrow> int \<Rightarrow> ('o, goerr option) go"

record 'o PublicIPServiceInterface =
  pi_Create :: "string \<Rightarrow> gomap \<Rightarrow> ('o, goerr + PublicIP) go"
  pi_Get :: "string \<Rightarrow> ('o, goerr + PublicIP) go"
  pi_Delete :: "string \<Rightarrow> ('o, goerr option) go"
  pi_List :: "('o, goerr + PublicIP list) go"
  pi_ListByOwner :: "string \<Rightarrow> ('o, goerr + string list) go"
  pi_Exists :: "string \<Rightarrow> ('o, goerr + bool) go"
  pi_WaitForReady :: "string \<Rightarrow> int \<Rightarrow> ('o, goerr + PublicIP) go"
  pi_WaitForDeleted :: "string \<Rightarrow> int \<Rightarrow> ('o, goerr option) go"

record 'o SecurityGroupServiceInterface =
  si_Create :: "string \<Rightarrow> SgRule list \<Rightarrow> gomap \<Rightarrow> string \<Rightarrow> ('o, goerr + SecurityGroup) go"
  si_Get :: "string \<Rightarrow> ('o, goerr + SecurityGroup) go"
  si_Delete :: "string \<Rightarrow> ('o, goerr option) go"
  si_List :: "('o, goerr + SecurityGroup list) go"
  si_ListByOwner :: "string \<Rightarrow> ('o, goerr + string list) go"
  si_ListByMachineOwner :: "string \<Rightarrow> ('o, goerr + string list) go"
  si_Update :: "string \<Rightarrow> SecurityGroup \<Rightarrow> ('o, goerr + SecurityGroup) go"
  si_Exists :: "string \<Rightarrow> ('o, goerr + bool) go"
  si_WaitForReady :: "string \<Rightarrow> int \<Rightarrow> ('o, goerr + SecurityGroup) go"
  si_WaitForDeleted :: "string \<Rightarrow> int \<Rightarrow> ('o, goerr option) go"

record 'o PlacementGroupServiceInterface =
  gi_Create :: "string \<Rightarrow> string \<Rightarrow> string \<Rightarrow> gomap \<Rightarrow> ('o, goerr + PlacementGroup) go"
  gi_Get :: "string \<Rightarrow> ('o, goerr + PlacementGroup) go"
  gi_Delete :: "string \<Rightarrow> ('o, goerr option) go"
  gi_List :: "('o, goerr + PlacementGroup list) go"
  gi_Exists :: "string \<Rightarrow> ('o, goerr + bool) go"
  gi_WaitForReady :: "string \<Rightarrow> int \<Rightarrow> ('o, goerr + PlacementGroup) go"

record 'o VirtualMachineServiceInterface =
  vi_Create :: "VirtualMachineRequest \<Rightarrow> ('o, goerr + VirtualMachine) go"
  vi_Get :: "string \<Rightarrow> ('o, goerr + VirtualMachine) go"
  vi_Delete :: "string \<Rightarrow> ('o, goerr option) go"
  vi_List :: "('o, goerr + VirtualMachine list) go"
  vi_Exists :: "string \<Rightarrow> ('o, goerr + bool) go"
  vi_UpdateSecurityGroups :: "string \<Rightarrow> string list \<Rightarrow> ('o, goerr option) go"
  vi_UpdatePublicIP :: "string \<Rightarrow> string \<Rightarrow> ('o, goerr option) go"
  vi_UpdateDisks :: "string \<Rightarrow> string list \<Rightarrow> ('o, goerr option) go"
  vi_UpdatePlacement :: "string \<Rightarrow> VmPlacement \<Rightarrow> ('o, goerr option) go"
  vi_WaitForReady :: "string \<Rightarrow> int \<Rightarrow> ('o, goerr + VirtualMachine) go"
  vi_WaitForDeleted :: "string \<Rightarrow> int \<Rightarrow> ('o, goerr option) go"

text \<open>The request of \<open>Create\<close> is a pointer; a backend is the name of its machine.\<close>

record 'o LoadBalancerServiceInterface =
  li_Create :: "LoadBalancerCreateRequest option \<Rightarrow> ('o, goerr + LoadBalancer) go"
  li_Get :: "string \<Rightarrow> ('o, goerr + LoadBalancer) go"
  li_Delete :: "string \<Rightarrow> string \<Rightarrow> bool \<Rightarrow> ('o, goerr option) go"
  li_DeletionComplete :: "string \<Rightarrow> string \<Rightarrow> bool \<Rightarrow> ('o, goerr + bool) go"
  li_List :: "('o, goerr + LoadBalancer list) go"
  li_Exists :: "string \<Rightarrow> ('o, goerr + bool) go"
  li_AddBackend :: "string \<Rightarrow> string \<Rightarrow> ('o, goerr option) go"
  li_RemoveBackend :: "string \<Rightarrow> string \<Rightarrow> ('o, goerr option) go"
  li_ListBackends :: "string \<Rightarrow> ('o, goerr + string list) go"
  li_WaitForReady :: "string \<Rightarrow> int \<Rightarrow> ('o, goerr + LoadBalancer) go"
  li_WaitForDeleted :: "string \<Rightarrow> int \<Rightarrow> ('o, goerr option) go"

record 'o WorkloadResourceServiceInterface =
  wi_Cleanup :: "string \<Rightarrow> bool \<Rightarrow> ('o, goerr + bool) go"

text \<open>\<open>SDKClient\<close> gives out the SDK's own client, whose operations the services are made of.\<close>

record 'o ClientInterface =
  Disks :: "'o DiskServiceInterface"
  PublicIPs :: "'o PublicIPServiceInterface"
  SecurityGroups :: "'o SecurityGroupServiceInterface"
  PlacementGroups :: "'o PlacementGroupServiceInterface"
  VirtualMachines :: "'o VirtualMachineServiceInterface"
  LoadBalancers :: "'o LoadBalancerServiceInterface"
  WorkloadResources :: "'o WorkloadResourceServiceInterface"

section \<open>Waiting for a deletion\<close>

text \<open>The SDK's lists of all resources of a kind, and its wait until a resource is gone.\<close>

record 'o SdkCalls =
  sdk_Disks :: "('o, goerr + Disk list) go"
  sdk_PublicIPs :: "('o, goerr + PublicIP list) go"
  sdk_SecurityGroups :: "('o, goerr + SecurityGroup list) go"
  sdk_PlacementGroups :: "('o, goerr + PlacementGroup list) go"
  sdk_VirtualMachines :: "('o, goerr + VirtualMachine list) go"
  sdk_LoadBalancers :: "('o, goerr + SdkLoadBalancer list) go"
  sdk_WaitForDeleted :: "SdkKind \<Rightarrow> string \<Rightarrow> int \<Rightarrow> ('o, goerr option) go"

definition DiskService_WaitForDeleted :: "'o SdkCalls \<Rightarrow> string \<Rightarrow> int \<Rightarrow> ('o, goerr option) go" where
  "DiskService_WaitForDeleted sdk name timeout = sdk_WaitForDeleted sdk DiskK name timeout"

definition PublicIPService_WaitForDeleted :: "'o SdkCalls \<Rightarrow> string \<Rightarrow> int \<Rightarrow> ('o, goerr option) go" where
  "PublicIPService_WaitForDeleted sdk name timeout = sdk_WaitForDeleted sdk PublicIPK name timeout"

definition SecurityGroupService_WaitForDeleted :: "'o SdkCalls \<Rightarrow> string \<Rightarrow> int \<Rightarrow> ('o, goerr option) go" where
  "SecurityGroupService_WaitForDeleted sdk name timeout = sdk_WaitForDeleted sdk SecurityGroupK name timeout"

definition VirtualMachineService_WaitForDeleted :: "'o SdkCalls \<Rightarrow> string \<Rightarrow> int \<Rightarrow> ('o, goerr option) go" where
  "VirtualMachineService_WaitForDeleted sdk name timeout = sdk_WaitForDeleted sdk VirtualMachineK name timeout"

definition LoadBalancerService_WaitForDeleted :: "'o SdkCalls \<Rightarrow> string \<Rightarrow> int \<Rightarrow> ('o, goerr option) go" where
  "LoadBalancerService_WaitForDeleted sdk name timeout = sdk_WaitForDeleted sdk LoadBalancerK name timeout"

section \<open>The client\<close>

definition Client_Disks :: "'o SdkCalls \<Rightarrow> Env \<Rightarrow> 'o DiskServiceInterface" where
  "Client_Disks sdk E = \<lparr>di_Create = DiskService_Create E, di_Get = DiskService_Get E,
     di_Delete = DiskService_Delete E, di_List = DiskService_List (sdk_Disks sdk),
     di_ListByOwner = DiskService_ListByOwner E, di_Exists = DiskService_Exists E,
     di_WaitForReady = DiskService_WaitForReady E,
     di_WaitForDeleted = DiskService_WaitForDeleted sdk\<rparr>"

definition Client_PublicIPs :: "'o SdkCalls \<Rightarrow> Env \<Rightarrow> 'o PublicIPServiceInterface" where
  "Client_PublicIPs sdk E = \<lparr>pi_Create = PublicIPService_Create E, pi_Get = PublicIPService_Get E,
     pi_Delete = PublicIPService_Delete E, pi_List = PublicIPService_List (sdk_PublicIPs sdk),
     pi_ListByOwner = PublicIPService_ListByOwner E, pi_Exists = PublicIPService_Exists E,
     pi_WaitForReady = PublicIPService_WaitForReady E,
     pi_WaitForDeleted = PublicIPService_WaitForDeleted sdk\<rparr>"

definition Client_SecurityGroups :: "'o SdkCalls \<Rightarrow> Env \<Rightarrow> 'o SecurityGroupServiceInterface" where
  "Client_SecurityGroups sdk E = \<lparr>si_Create = SecurityGroupService_Create E,
     si_Get = SecurityGroupService_Get E, si_Delete = SecurityGroupService_Delete E,
     si_List = SecurityGroupService_List (sdk_SecurityGroups sdk),
     si_ListByOwner = SecurityGroupService_ListByOwner E,
     si_ListByMachineOwner = SecurityGroupService_ListByMachineOwner E,
     si_Update = SecurityGroupService_Update E, si_Exists = SecurityGroupService_Exists E,
     si_WaitForReady = SecurityGroupService_WaitForReady E,
     si_WaitForDeleted = SecurityGroupService_WaitForDeleted sdk\<rparr>"

definition Client_PlacementGroups :: "'o SdkCalls \<Rightarrow> Env \<Rightarrow> 'o PlacementGroupServiceInterface" where
  "Client_PlacementGroups sdk E = \<lparr>gi_Create = PlacementGroupService_Create E,
     gi_Get = PlacementGroupService_Get E, gi_Delete = PlacementGroupService_Delete E,
     gi_List = PlacementGroupService_List (sdk_PlacementGroups sdk),
     gi_Exists = PlacementGroupService_Exists E,
     gi_WaitForReady = PlacementGroupService_WaitForReady E\<rparr>"

definition Client_VirtualMachines :: "'o SdkCalls \<Rightarrow> Env \<Rightarrow> 'o VirtualMachineServiceInterface" where
  "Client_VirtualMachines sdk E = \<lparr>vi_Create = VirtualMachineService_Create E,
     vi_Get = VirtualMachineService_Get E, vi_Delete = VirtualMachineService_Delete E,
     vi_List = VirtualMachineService_List (sdk_VirtualMachines sdk),
     vi_Exists = VirtualMachineService_Exists E,
     vi_UpdateSecurityGroups = VirtualMachineService_UpdateSecurityGroups E,
     vi_UpdatePublicIP = VirtualMachineService_UpdatePublicIP E,
     vi_UpdateDisks = VirtualMachineService_UpdateDisks E,
     vi_UpdatePlacement = VirtualMachineService_UpdatePlacement E,
     vi_WaitForReady = VirtualMachineService_WaitForReady E,
     vi_WaitForDeleted = VirtualMachineService_WaitForDeleted sdk\<rparr>"

definition Client_LoadBalancers :: "'o SdkCalls \<Rightarrow> Env \<Rightarrow> 'o LoadBalancerServiceInterface" where
  "Client_LoadBalancers sdk E = \<lparr>li_Create = LoadBalancerService_Create E,
     li_Get = LoadBalancerService_Get E, li_Delete = LoadBalancerService_Delete E,
     li_DeletionComplete = LoadBalancerService_DeletionComplete E,
     li_List = LoadBalancerService_List E (sdk_LoadBalancers sdk),
     li_Exists = LoadBalancerService_Exists E, li_AddBackend = LoadBalancerService_AddBackend E,
     li_RemoveBackend = LoadBalancerService_RemoveBackend E,
     li_ListBackends = LoadBalancerService_ListBackends E,
     li_WaitForReady = LoadBalancerService_WaitForReady E,
     li_WaitForDeleted = LoadBalancerService_WaitForDeleted sdk\<rparr>"

definition Client_WorkloadResources :: "Env \<Rightarrow> 'o WorkloadResourceServiceInterface" where
  "Client_WorkloadResources E = \<lparr>wi_Cleanup = Cleanup E\<rparr>"

definition Client_client :: "'o SdkCalls \<Rightarrow> Env \<Rightarrow> 'o ClientInterface" where
  "Client_client sdk E = \<lparr>Disks = Client_Disks sdk E, PublicIPs = Client_PublicIPs sdk E,
     SecurityGroups = Client_SecurityGroups sdk E, PlacementGroups = Client_PlacementGroups sdk E,
     VirtualMachines = Client_VirtualMachines sdk E, LoadBalancers = Client_LoadBalancers sdk E,
     WorkloadResources = Client_WorkloadResources E\<rparr>"

lemmas client_tables = Client_client_def Client_Disks_def Client_PublicIPs_def
  Client_SecurityGroups_def Client_PlacementGroups_def Client_VirtualMachines_def
  Client_LoadBalancers_def Client_WorkloadResources_def

section \<open>Each service keeps to its own resources\<close>

text \<open>The kinds a call of the cloud is about; the pool's references are part of the pool.\<close>

fun callKind :: "Call \<Rightarrow> SdkKind option" where
  "callKind (SdkGet k _) = Some k"
| "callKind (SdkList k _) = Some k"
| "callKind (SdkCreate r) = Some (requestKind r)"
| "callKind (SdkDelete k _) = Some k"
| "callKind (SdkPatchVM _ _) = Some VirtualMachineK"
| "callKind (SdkPatchSG _ _) = Some SecurityGroupK"
| "callKind (SdkWaitForReady k _ _) = Some k"
| "callKind (SdkAddBackendRef _ _) = Some BackendPoolK"
| "callKind (SdkRemoveBackendRef _ _) = Some BackendPoolK"
| "callKind (SdkValidateImage _) = Some DiskK"
| "callKind (SdkValidateProfile _) = Some VirtualMachineK"
| "callKind _ = None"

abbreviation about :: "SdkKind set \<Rightarrow> Call \<Rightarrow> bool" where
  "about K c \<equiv> callKind c \<in> Some ` K"

text \<open>
  Behind the interface of a kind there are calls about that kind only: a controller that is given
  one service cannot touch the resources of another.
\<close>

lemma disk_service_keeps_to_disks:
  fixes sdk :: "'o SdkCalls" and E :: Env
  defines "disks \<equiv> Disks (Client_client sdk E)"
  shows "emits (about {DiskK}) (di_Create disks n sz img z l)" and "emits (about {DiskK}) (di_Get disks n)"
    and "emits (about {DiskK}) (di_Delete disks n)" and "emits (about {DiskK}) (di_ListByOwner disks i)"
    and "emits (about {DiskK}) (di_Exists disks n)" and "emits (about {DiskK}) (di_WaitForReady disks n t)"
  unfolding disks_def client_tables ClientInterface.simps DiskServiceInterface.simps
    DiskService_WaitForReady_def
  by (intro go_rules emits_ops; simp)+

lemma public_ip_service_keeps_to_public_ips:
  fixes sdk :: "'o SdkCalls" and E :: Env
  defines "ips \<equiv> PublicIPs (Client_client sdk E)"
  shows "emits (about {PublicIPK}) (pi_Create ips n l)" and "emits (about {PublicIPK}) (pi_Get ips n)"
    and "emits (about {PublicIPK}) (pi_Delete ips n)" and "emits (about {PublicIPK}) (pi_ListByOwner ips i)"
    and "emits (about {PublicIPK}) (pi_Exists ips n)" and "emits (about {PublicIPK}) (pi_WaitForReady ips n t)"
  unfolding ips_def client_tables ClientInterface.simps PublicIPServiceInterface.simps
    PublicIPService_WaitForReady_def
  by (intro go_rules emits_ops; simp)+

lemma security_group_service_keeps_to_security_groups:
  fixes sdk :: "'o SdkCalls" and E :: Env
  defines "sgs \<equiv> SecurityGroups (Client_client sdk E)"
  shows "emits (about {SecurityGroupK}) (si_Create sgs n rs l w)" and "emits (about {SecurityGroupK}) (si_Get sgs n)"
    and "emits (about {SecurityGroupK}) (si_Delete sgs n)"
    and "emits (about {SecurityGroupK}) (si_ListByOwner sgs i)"
    and "emits (about {SecurityGroupK}) (si_ListByMachineOwner sgs i)"
    and "emits (about {SecurityGroupK}) (si_Update sgs n g)"
    and "emits (about {SecurityGroupK}) (si_Exists sgs n)"
    and "emits (about {SecurityGroupK}) (si_WaitForReady sgs n t)"
  unfolding sgs_def client_tables ClientInterface.simps SecurityGroupServiceInterface.simps
    SecurityGroupService_WaitForReady_def
  by (intro go_rules emits_ops; simp)+

lemma placement_group_service_keeps_to_placement_groups:
  fixes sdk :: "'o SdkCalls" and E :: Env
  defines "pgs \<equiv> PlacementGroups (Client_client sdk E)"
  shows "emits (about {PlacementGroupK}) (gi_Create pgs n st z l)" and "emits (about {PlacementGroupK}) (gi_Get pgs n)"
    and "emits (about {PlacementGroupK}) (gi_Delete pgs n)" and "emits (about {PlacementGroupK}) (gi_Exists pgs n)"
    and "emits (about {PlacementGroupK}) (gi_WaitForReady pgs n t)"
  unfolding pgs_def client_tables ClientInterface.simps PlacementGroupServiceInterface.simps
    PlacementGroupService_WaitForReady_def
  by (intro go_rules emits_ops; simp)+

lemma virtual_machine_service_keeps_to_virtual_machines:
  fixes sdk :: "'o SdkCalls" and E :: Env
  defines "vms \<equiv> VirtualMachines (Client_client sdk E)"
  shows "emits (about {VirtualMachineK}) (vi_Create vms r)" and "emits (about {VirtualMachineK}) (vi_Get vms n)"
    and "emits (about {VirtualMachineK}) (vi_Delete vms n)" and "emits (about {VirtualMachineK}) (vi_Exists vms n)"
    and "emits (about {VirtualMachineK}) (vi_UpdateSecurityGroups vms n gs)"
    and "emits (about {VirtualMachineK}) (vi_UpdatePublicIP vms n ip)"
    and "emits (about {VirtualMachineK}) (vi_UpdateDisks vms n ds)"
    and "emits (about {VirtualMachineK}) (vi_UpdatePlacement vms n p)"
    and "emits (about {VirtualMachineK}) (vi_WaitForReady vms n t)"
  unfolding vms_def client_tables ClientInterface.simps VirtualMachineServiceInterface.simps
    VirtualMachineService_WaitForReady_def
  by (intro go_rules emits_ops; simp)+

text \<open>
  The load balancer service keeps to the parts of a load balancer, and the workload service to
  what the drivers create: a machine's disk is never deleted through the former, and a security
  group or virtual machine through neither.
\<close>

abbreviation loadBalancerKinds :: "SdkKind set" where
  "loadBalancerKinds \<equiv> {LoadBalancerK, L4RouteK, BackendServiceK, BackendPoolK, PublicIPK}"

text \<open>A lookup of the load balancer's parts, whatever their kinds, is a read.\<close>

abbreviation lbCall :: "Call \<Rightarrow> bool" where
  "lbCall c \<equiv> isCloudWrite c \<longrightarrow> about loadBalancerKinds c"

lemma lbResourceKinds_kinds: "k \<in> snd ` set lbResourceKinds \<Longrightarrow> k \<in> loadBalancerKinds"
  by (auto simp: lbResourceKinds_def)

lemma load_balancer_service_writes:
  fixes sdk :: "'o SdkCalls" and E :: Env
  defines "lbs \<equiv> LoadBalancers (Client_client sdk E)"
  shows "emits lbCall (li_Get lbs n)" and "emits lbCall (li_Delete lbs n i ip)"
    and "emits lbCall (li_DeletionComplete lbs n i ip)" and "emits lbCall (li_Exists lbs n)"
    and "emits lbCall (li_AddBackend lbs n b)" and "emits lbCall (li_RemoveBackend lbs n b)"
    and "emits lbCall (li_ListBackends lbs n)" and "emits lbCall (li_WaitForReady lbs n t)"
  unfolding lbs_def client_tables ClientInterface.simps LoadBalancerServiceInterface.simps
    LoadBalancerService_WaitForReady_def LoadBalancerService_Exists_def
    LoadBalancerService_ListBackends_def
  by (intro go_rules emits_ops emits_LoadBalancerService_Delete;
      use lbResourceKinds_kinds in \<open>auto simp: image_iff\<close>)+

text \<open>What \<open>Create\<close> makes are the parts of a load balancer, and nothing is deleted or patched.\<close>

lemma load_balancer_create_kinds:
  "emits (\<lambda>c. isCloudWrite c \<longrightarrow> isCreate c \<and> about loadBalancerKinds c)
     (li_Create (LoadBalancers (Client_client sdk E)) req)"
  unfolding client_tables ClientInterface.simps LoadBalancerServiceInterface.simps
    LoadBalancerService_Create_def lbPublicIP_def lbPool_def lbService_def lbRoute_def
    lbExtraPort_def lbSubmit_def Let_def
  by (intro go_rules emits_createOrGet emits_ops; simp)

section \<open>The contract of a kind, through the interface\<close>

text \<open>
  The operations behind \<open>Get\<close>, \<open>Exists\<close> and \<open>Delete\<close> of five interfaces obey the contract of
  \<open>cloud_resource\<close>, so what is proved of it holds of a client that only sees the interface.
\<close>

interpretation diskI: cloud_resource DiskK "e_disk E" "di_Get (Disks (Client_client sdk E))"
    "di_Exists (Disks (Client_client sdk E))" "di_Delete (Disks (Client_client sdk E))" "e_err E"
  for sdk :: "'o SdkCalls" and E :: Env
  by (simp add: client_tables diskR.cloud_resource_axioms)

interpretation publicIPI: cloud_resource PublicIPK "e_ip E" "pi_Get (PublicIPs (Client_client sdk E))"
    "pi_Exists (PublicIPs (Client_client sdk E))" "pi_Delete (PublicIPs (Client_client sdk E))" "e_err E"
  for sdk :: "'o SdkCalls" and E :: Env
  by (simp add: client_tables publicIPR.cloud_resource_axioms)

interpretation securityGroupI: cloud_resource SecurityGroupK "e_sg E"
    "si_Get (SecurityGroups (Client_client sdk E))" "si_Exists (SecurityGroups (Client_client sdk E))"
    "si_Delete (SecurityGroups (Client_client sdk E))" "e_err E"
  for sdk :: "'o SdkCalls" and E :: Env
  by (simp add: client_tables securityGroupR.cloud_resource_axioms)

interpretation placementGroupI: cloud_resource PlacementGroupK "e_pg E"
    "gi_Get (PlacementGroups (Client_client sdk E))" "gi_Exists (PlacementGroups (Client_client sdk E))"
    "gi_Delete (PlacementGroups (Client_client sdk E))" "e_err E"
  for sdk :: "'o SdkCalls" and E :: Env
  by (simp add: client_tables placementGroupR.cloud_resource_axioms)

interpretation virtualMachineI: cloud_resource VirtualMachineK "e_vm E"
    "vi_Get (VirtualMachines (Client_client sdk E))" "vi_Exists (VirtualMachines (Client_client sdk E))"
    "vi_Delete (VirtualMachines (Client_client sdk E))" "e_err E"
  for sdk :: "'o SdkCalls" and E :: Env
  by (simp add: client_tables virtualMachineR.cloud_resource_axioms)

text \<open>A delete that the interface reports done is one that the SDK accepted.\<close>

lemma accepted_through_interface:
  "resultOf (vi_Delete (VirtualMachines (Client_client sdk E)) n) s = None \<longleftrightarrow>
     e_err E (calls s) (SdkDelete VirtualMachineK n) = None"
  by (rule virtualMachineI.run_delete [of sdk E n s]) (simp add: resultOf_def)

text \<open>\<open>Exists\<close> and \<open>Get\<close> of one interface agree in every history.\<close>

lemma exists_agrees_with_get:
  "resultOf (di_Exists (Disks (Client_client sdk E)) n) s = Inr True \<longleftrightarrow>
     (\<exists>d. resultOf (di_Get (Disks (Client_client sdk E)) n) s = Inr d)"
  using diskI.exists_result [of sdk E n s True]
  by (rule_tac diskI.run_get [of sdk E n s]) (auto simp: resultOf_def split: sum.splits)

end
