(* ===== verification/Manager.thy ===== *)
theory Manager
  imports ClusterReconcile MachineReconcile
begin

text \<open>
  The process around the controllers: the version text (\<open>pkg/version\<close>), the flags and the start of
  \<open>cmd/manager/main.go\<close>, what is registered under the API group (\<open>api/v1beta1\<close>), and which events
  wake which reconciles (\<open>SetupWithManager\<close> of both controllers).  A start is a computation over
  steps whose outcome the environment decides; what it leaves behind is the list of the steps and
  the exit code.  Shown: the manager starts after everything it needs and only then, and an event
  wakes exactly the objects whose reconciles read what changed.
\<close>

section \<open>Version\<close>

text \<open>The variables that the linker sets, and their values in a plain build.\<close>

record BuildVars =
  bv_Version :: string
  bv_GitCommit :: string
  bv_BuildDate :: string

definition plainBuild :: BuildVars where
  "plainBuild = \<lparr>bv_Version = ''dev'', bv_GitCommit = ''unknown'', bv_BuildDate = ''unknown''\<rparr>"

record Info =
  in_Version :: string
  in_GitCommit :: string
  in_BuildDate :: string
  in_GoVersion :: string
  in_Platform :: string

text \<open>The version of the Go runtime, its operating system and its architecture are arguments.\<close>

definition version_Get :: "BuildVars \<Rightarrow> string \<Rightarrow> string \<Rightarrow> string \<Rightarrow> Info" where
  "version_Get b goVersion goos goarch =
     \<lparr>in_Version = bv_Version b, in_GitCommit = bv_GitCommit b, in_BuildDate = bv_BuildDate b,
      in_GoVersion = goVersion, in_Platform = goos @ ''/'' @ goarch\<rparr>"

definition Info_String :: "Info \<Rightarrow> string" where
  "Info_String i = ''Version: '' @ in_Version i @ '', GitCommit: '' @ in_GitCommit i @
     '', BuildDate: '' @ in_BuildDate i @ '', GoVersion: '' @ in_GoVersion i @
     '', Platform: '' @ in_Platform i"

section \<open>The API group\<close>

record GroupVersionName =
  gv_Group :: string
  gv_Version :: string

definition GroupVersion :: GroupVersionName where
  "GroupVersion = \<lparr>gv_Group = ''infrastructure.cluster.x-k8s.io'', gv_Version = ''v1beta1''\<rparr>"

text \<open>How Kubernetes writes a group and a version in \<open>apiVersion\<close>.\<close>

definition gvString :: "GroupVersionName \<Rightarrow> string" where
  "gvString gv = gv_Group gv @ ''/'' @ gv_Version gv"

text \<open>The lists and the templates of both kinds.\<close>

record EvrocClusterList =
  cll_Items :: "EvrocCluster list"

record EvrocMachineList =
  ml_Items :: "EvrocMachine list"

record EvrocClusterTemplateResource =
  ctr_Spec :: EvrocClusterSpec

record EvrocClusterTemplateSpec =
  cts_Template :: EvrocClusterTemplateResource

record EvrocClusterTemplate =
  ct_Meta :: ObjectMeta
  ct_Spec :: EvrocClusterTemplateSpec

record EvrocClusterTemplateList =
  ctl_Items :: "EvrocClusterTemplate list"

record EvrocMachineTemplateResource =
  mtr_Spec :: EvrocMachineSpec

record EvrocMachineTemplateSpec =
  mts_Template :: EvrocMachineTemplateResource

record EvrocMachineTemplate =
  mt_Meta :: ObjectMeta
  mt_Spec :: EvrocMachineTemplateSpec

record EvrocMachineTemplateList =
  mtl_Items :: "EvrocMachineTemplate list"

text \<open>
  What the \<open>init\<close> functions of the package register, as \<open>SchemeBuilder.Register\<close> names them: by
  the name of the Go type, in the order of the files.
\<close>

definition clusterKinds :: "string list" where
  "clusterKinds = [''EvrocCluster'', ''EvrocClusterList'']"

definition clusterTemplateKinds :: "string list" where
  "clusterTemplateKinds = [''EvrocClusterTemplate'', ''EvrocClusterTemplateList'']"

definition machineKinds :: "string list" where
  "machineKinds = [''EvrocMachine'', ''EvrocMachineList'']"

definition machineTemplateKinds :: "string list" where
  "machineTemplateKinds = [''EvrocMachineTemplate'', ''EvrocMachineTemplateList'']"

definition registeredKinds :: "string list" where
  "registeredKinds = clusterKinds @ clusterTemplateKinds @ machineKinds @ machineTemplateKinds"

section \<open>Flags\<close>

record Flags =
  fl_ProbeAddr :: string
  fl_MetricsAddr :: string
  fl_WebhookPort :: int
  fl_WebhookCertDir :: string
  fl_EnableLeaderElection :: bool
  fl_PrintVersion :: bool

definition defaultFlags :: Flags where
  "defaultFlags = \<lparr>fl_ProbeAddr = '':8081'', fl_MetricsAddr = ''0'', fl_WebhookPort = 9443,
     fl_WebhookCertDir = ''/tmp/k8s-webhook-server/serving-certs'',
     fl_EnableLeaderElection = False, fl_PrintVersion = False\<rparr>"

record ManagerOptions =
  mo_HealthProbeBindAddress :: string
  mo_LeaderElection :: bool
  mo_LeaderElectionID :: string
  mo_MetricsBindAddress :: string
  mo_WebhookPort :: int
  mo_WebhookCertDir :: string

definition managerOptions :: "Flags \<Rightarrow> ManagerOptions" where
  "managerOptions f = \<lparr>mo_HealthProbeBindAddress = fl_ProbeAddr f,
     mo_LeaderElection = fl_EnableLeaderElection f, mo_LeaderElectionID = ''evroc.cluster.x-k8s.io'',
     mo_MetricsBindAddress = fl_MetricsAddr f, mo_WebhookPort = fl_WebhookPort f,
     mo_WebhookCertDir = fl_WebhookCertDir f\<rparr>"

section \<open>Start\<close>

datatype Startup =
    AddToScheme string            \<comment> \<open>the package whose types are added\<close>
  | SetLogger
  | LogInfo string
  | LogError string
  | RegisterCollectors "string list"
  | GetConfig
  | NewManager ManagerOptions
  | SetupController string nat    \<comment> \<open>the kind, and how many reconciles may run at a time\<close>
  | SetupWebhook string
  | AddHealthzCheck string
  | AddReadyzCheck string
  | StartManager

type_synonym 'a start = "((unit, Startup) st, 'a) state"

text \<open>
  The outside of a start: an error for each step that may fail, the flags or the exit code of
  \<open>flag.Parse\<close>, and what \<open>version.Get\<close> reads.
\<close>

record Process =
  pr_err :: "Startup list \<Rightarrow> Startup \<Rightarrow> goerr option"
  pr_parse :: "int + Flags"
  pr_build :: BuildVars
  pr_go :: string
  pr_os :: string
  pr_arch :: string

definition maxConcurrentReconciles :: nat where
  "maxConcurrentReconciles = 10"

definition sdkCollectors :: "string list" where
  "sdkCollectors = [''AuthTokenRefreshesTotal'', ''AuthTokenRefreshErrors'', ''AuthTokenRefreshTime'',
     ''AuthInitialAuthTotal'', ''AuthInitialAuthErrors'', ''AuthInitialAuthTime'',
     ''RetriesTotal'', ''RetryBackoffTime'',
     ''WaiterOperationsTotal'', ''WaiterDuration'', ''WaiterAttempts'']"

text \<open>A step that cannot fail, and the rest of the start.\<close>

definition andThen :: "Startup \<Rightarrow> int start \<Rightarrow> int start" where
  "andThen step rest = do { invoke (\<lambda>_ _. ()) step; rest }"

text \<open>
  Three ways to fail: a panic, which is what \<open>Must\<close> and \<open>MustRegister\<close> make of an error, exits with
  2; \<open>GetConfigOrDie\<close> exits with 1 on its own; and \<open>main\<close> logs the error and exits with 1.
\<close>

definition orPanic :: "Process \<Rightarrow> Startup \<Rightarrow> int start \<Rightarrow> int start" where
  "orPanic P step rest = onError (invoke (pr_err P) step) (\<lambda>_. ret 2) rest"

definition orDie :: "Process \<Rightarrow> Startup \<Rightarrow> int start \<Rightarrow> int start" where
  "orDie P step rest = onError (invoke (pr_err P) step) (\<lambda>_. ret 1) rest"

definition orExit :: "Process \<Rightarrow> string \<Rightarrow> Startup \<Rightarrow> int start \<Rightarrow> int start" where
  "orExit P msg step rest =
     onError (invoke (pr_err P) step) (\<lambda>_. andThen (LogError msg) (ret 1)) rest"

definition Main_init :: "Process \<Rightarrow> int start \<Rightarrow> int start" where
  "Main_init P rest =
     orPanic P (AddToScheme ''client-go'')
       (orPanic P (AddToScheme ''cluster-api'')
         (orPanic P (AddToScheme (gvString GroupVersion)) rest))"

definition Main_run :: "Process \<Rightarrow> Flags \<Rightarrow> int start" where
  "Main_run P f =
     andThen SetLogger
     (orPanic P (RegisterCollectors sdkCollectors)
     (andThen (LogInfo ''evroc SDK metrics registered with controller-runtime'')
     (orDie P GetConfig
     (orExit P ''unable to start manager'' (NewManager (managerOptions f))
     (orExit P ''unable to create controller'' (SetupController ''EvrocCluster'' maxConcurrentReconciles)
     (orExit P ''unable to create controller'' (SetupController ''EvrocMachine'' maxConcurrentReconciles)
     (orExit P ''unable to create webhook'' (SetupWebhook ''EvrocMachine'')
     (orExit P ''unable to create webhook'' (SetupWebhook ''EvrocCluster'')
     (orExit P ''unable to set up health check'' (AddHealthzCheck ''healthz'')
     (orExit P ''unable to set up ready check'' (AddReadyzCheck ''readyz'')
     (andThen (LogInfo ''starting manager'')
     (orExit P ''problem running manager'' StartManager (ret 0)))))))))))))"

text \<open>The version is logged as the value of the key \<open>version\<close>.\<close>

definition Main_main :: "Process \<Rightarrow> int start" where
  "Main_main P = (case pr_parse P of
     Inl code \<Rightarrow> ret code
   | Inr f \<Rightarrow>
       if fl_PrintVersion f then
         andThen (LogInfo (''evroc Cluster API Provider version='' @
           Info_String (version_Get (pr_build P) (pr_go P) (pr_os P) (pr_arch P)))) (ret 0)
       else Main_run P f)"

definition Main_process :: "Process \<Rightarrow> int start" where
  "Main_process P = Main_init P (Main_main P)"

text \<open>
  What a log shows: controller-runtime drops what is logged before \<open>SetLogger\<close>.
\<close>

fun displayed :: "bool \<Rightarrow> Startup list \<Rightarrow> string list" where
  "displayed on [] = []"
| "displayed on (SetLogger # steps) = displayed True steps"
| "displayed on (LogInfo msg # steps) = (if on then msg # displayed on steps else displayed on steps)"
| "displayed on (LogError msg # steps) = (if on then msg # displayed on steps else displayed on steps)"
| "displayed on (_ # steps) = displayed on steps"

section \<open>What wakes a reconcile\<close>

text \<open>
  The events the manager delivers: a change of an object that a controller is for or watches.  The
  controllers name no event they have no mapping for, so the other cases wake nothing.
\<close>

datatype Event =
    ClusterChanged EvrocCluster
  | MachineChanged EvrocMachine
  | SecretChanged Secret
  | CapiClusterChanged CapiCluster
  | CapiMachineChanged CapiMachine

definition Cluster_watches :: "Env \<Rightarrow> Event \<Rightarrow> ('o, Key list) go" where
  "Cluster_watches E ev = (case ev of
       ClusterChanged c \<Rightarrow> ret [clusterKey c]
     | SecretChanged secret \<Rightarrow> secretToCluster E secret
     | MachineChanged m \<Rightarrow> machineToCluster E (m_Meta m)
     | CapiClusterChanged cc \<Rightarrow> ret (capiClusterToEvrocCluster cc)
     | CapiMachineChanged _ \<Rightarrow> ret [])"

definition Machine_watches :: "Event \<Rightarrow> Key list" where
  "Machine_watches ev = (case ev of
       MachineChanged m \<Rightarrow> [machineKey m]
     | CapiMachineChanged cm \<Rightarrow> capiMachineToEvrocMachine cm
     | _ \<Rightarrow> [])"

section \<open>The manager starts last, and only when everything before it worked\<close>

text \<open>The steps of a start that goes all the way, in order.\<close>

definition initSteps :: "Startup list" where
  "initSteps = [AddToScheme ''client-go'', AddToScheme ''cluster-api'',
     AddToScheme ''infrastructure.cluster.x-k8s.io/v1beta1'']"

definition setupSteps :: "Flags \<Rightarrow> Startup list" where
  "setupSteps f = initSteps @ [SetLogger, RegisterCollectors sdkCollectors,
     LogInfo ''evroc SDK metrics registered with controller-runtime'', GetConfig,
     NewManager (managerOptions f),
     SetupController ''EvrocCluster'' 10, SetupController ''EvrocMachine'' 10,
     SetupWebhook ''EvrocMachine'', SetupWebhook ''EvrocCluster'',
     AddHealthzCheck ''healthz'', AddReadyzCheck ''readyz'', LogInfo ''starting manager'']"

fun fallible :: "Startup \<Rightarrow> bool" where
  "fallible SetLogger = False"
| "fallible (LogInfo _) = False"
| "fallible (LogError _) = False"
| "fallible _ = True"

text \<open>Every step of a list works, each in the history that the ones before it leave.\<close>

fun works :: "Process \<Rightarrow> Startup list \<Rightarrow> Startup list \<Rightarrow> bool" where
  "works P h [] \<longleftrightarrow> True"
| "works P h (step # steps) \<longleftrightarrow>
     (fallible step \<longrightarrow> pr_err P h step = None) \<and> works P (h @ [step]) steps"

abbreviation fresh :: "(unit, Startup) st" where
  "fresh \<equiv> \<lparr>cur = (), calls = []\<rparr>"

lemma run_andThen [simp]: "run_state (andThen step rest) s = run_state rest (s\<lparr>calls := calls s @ [step]\<rparr>)"
  by (simp add: andThen_def)

lemma run_orPanic [simp]:
  "run_state (orPanic P step rest) s =
     (if pr_err P (calls s) step = None then run_state rest (s\<lparr>calls := calls s @ [step]\<rparr>)
      else (2, s\<lparr>calls := calls s @ [step]\<rparr>))"
  by (auto simp: orPanic_def split: option.split)

lemma run_orDie [simp]:
  "run_state (orDie P step rest) s =
     (if pr_err P (calls s) step = None then run_state rest (s\<lparr>calls := calls s @ [step]\<rparr>)
      else (1, s\<lparr>calls := calls s @ [step]\<rparr>))"
  by (auto simp: orDie_def split: option.split)

lemma run_orExit [simp]:
  "run_state (orExit P msg step rest) s =
     (if pr_err P (calls s) step = None then run_state rest (s\<lparr>calls := calls s @ [step]\<rparr>)
      else (1, s\<lparr>calls := calls s @ [step, LogError msg]\<rparr>))"
  by (auto simp: orExit_def split: option.split)

lemma gvString_GroupVersion [simp]: "gvString GroupVersion = ''infrastructure.cluster.x-k8s.io/v1beta1''"
  by (simp add: gvString_def GroupVersion_def)

lemmas start_defs = Main_process_def Main_init_def Main_main_def Main_run_def emitted_def resultOf_def
  setupSteps_def initSteps_def maxConcurrentReconciles_def

text \<open>
  The manager is started exactly when the flags parse and do not ask for the version, and every
  step before it works; the steps taken then are all of \<open>setupSteps\<close>, both controllers and both
  webhooks among them, and then the start of the manager.
\<close>

lemma manager_starts_iff:
  "StartManager \<in> set (emitted (Main_process P) fresh) \<longleftrightarrow>
     (\<exists>f. pr_parse P = Inr f \<and> \<not> fl_PrintVersion f \<and> works P [] (setupSteps f))"
  by (cases "pr_parse P") (simp_all add: start_defs)

lemma manager_starts_last:
  assumes "StartManager \<in> set (emitted (Main_process P) fresh)"
  shows "\<exists>f rest. pr_parse P = Inr f \<and>
    emitted (Main_process P) fresh = setupSteps f @ StartManager # rest \<and>
    rest = (if pr_err P (setupSteps f) StartManager = None then [] else [LogError ''problem running manager''])"
proof -
  obtain f where "pr_parse P = Inr f" "\<not> fl_PrintVersion f" "works P [] (setupSteps f)"
    using assms manager_starts_iff by blast
  then show ?thesis by (simp add: start_defs)
qed

text \<open>
  The process ends with 0 only if the types could be registered and then the flags said so (with
  \<open>-help\<close>), or the version was asked for, or the manager ran and stopped without an error.
\<close>

lemma exit_zero_iff:
  "resultOf (Main_process P) fresh = 0 \<longleftrightarrow> works P [] initSteps \<and>
     (case pr_parse P of Inl code \<Rightarrow> code = 0
      | Inr f \<Rightarrow> fl_PrintVersion f \<or> works P [] (setupSteps f @ [StartManager]))"
proof (cases "works P [] initSteps")
  case False
  then show ?thesis by (auto simp: Main_process_def Main_init_def resultOf_def initSteps_def)
next
  case True
  then show ?thesis
  proof (cases "pr_parse P")
    case (Inl code)
    with True show ?thesis
      by (simp add: Main_process_def Main_init_def Main_main_def resultOf_def initSteps_def)
  next
    case (Inr f)
    with True show ?thesis by (cases "fl_PrintVersion f") (simp_all add: start_defs)
  qed
qed

text \<open>
  Asked for the version, the process logs it and exits without touching the cluster.  The logger
  is not set by then, so nothing of it is shown.
\<close>

lemma version_not_shown:
  assumes "pr_parse P = Inr f" "fl_PrintVersion f" "works P [] initSteps"
  shows "emitted (Main_process P) fresh = initSteps @ [LogInfo (''evroc Cluster API Provider version='' @
      Info_String (version_Get (pr_build P) (pr_go P) (pr_os P) (pr_arch P)))]"
    and "displayed False (emitted (Main_process P) fresh) = []"
  using assms by (simp_all add: start_defs)

text \<open>A plain build says that it is one.\<close>

lemma plain_version:
  "Info_String (version_Get plainBuild ''go1.25'' ''linux'' ''amd64'') =
     ''Version: dev, GitCommit: unknown, BuildDate: unknown, GoVersion: go1.25, Platform: linux/amd64''"
  by code_simp

section \<open>An event wakes the objects whose reconciles read what changed\<close>

text \<open>
  A change of a secret wakes, of the clusters in its namespace, exactly those that read this secret
  first when they build their cloud client.
\<close>

text \<open>A computation that begins with a call begins with it whatever comes after.\<close>

definition opens :: "'c \<Rightarrow> (('o, 'c) st, 'a) state \<Rightarrow> bool" where
  "opens c m \<longleftrightarrow> (\<forall>s. \<exists>more. calls (snd (run_state m s)) = calls s @ c # more)"

abbreviation appends :: "(('o, 'c) st, 'a) state \<Rightarrow> bool" where
  "appends m \<equiv> emits (\<lambda>_. True) m"

lemma opens_onResult:
  fixes h :: "goerr \<Rightarrow> (('o, 'c) st, 'a) state"
  assumes "\<And>e. appends (h e)" and "\<And>x. appends (k x)"
  shows "opens c (onResult (invoke f c) h k)"
  unfolding opens_def
proof
  fix s :: "('o, 'c) st"
  let ?t = "s\<lparr>calls := calls s @ [c]\<rparr>"
  have "\<exists>more. calls (snd (run_state (h e) ?t)) = calls ?t @ more" for e
    using emits_calls [OF assms(1) [of e], of ?t] by blast
  moreover have "\<exists>more. calls (snd (run_state (k x) ?t)) = calls ?t @ more" for x
    using emits_calls [OF assms(2) [of x], of ?t] by blast
  ultimately show "\<exists>more. calls (snd (run_state (onResult (invoke f c) h k) s)) = calls s @ c # more"
    by (simp split: sum.split)
qed

lemma opens_onError:
  fixes h :: "goerr \<Rightarrow> (('o, 'c) st, 'a) state"
  assumes "opens c m" and "\<And>e. appends (h e)" and "appends k"
  shows "opens c (onError m h k)"
  unfolding opens_def
proof
  fix s :: "('o, 'c) st"
  obtain r t where run: "run_state m s = (r, t)" by (cases "run_state m s")
  obtain more where t: "calls t = calls s @ c # more"
    using assms(1) run by (auto simp: opens_def) (metis snd_conv)
  have "\<exists>more. calls (snd (run_state (h e) t)) = calls t @ more" for e
    using emits_calls [OF assms(2) [of e], of t] by blast
  moreover have "\<exists>more. calls (snd (run_state k t)) = calls t @ more"
    using emits_calls [OF assms(3), of t] by blast
  ultimately show "\<exists>more. calls (snd (run_state (onError m h k) s)) = calls s @ c # more"
    by (auto simp: run t split: option.split)
qed

lemma opens_emitted: "opens c m \<Longrightarrow> take 1 (emitted m s) = [c]"
  by (auto simp: opens_def emitted_def dest!: spec [of _ s])

lemma opens_resolveCloudClient:
  assumes "cs_CredentialsRef (cl_Spec c) = Some r" and "sref_Name r \<noteq> ''''"
  shows "opens (KGetSecret \<lparr>k_Namespace = om_Namespace (cl_Meta c), k_Name = sref_Name r\<rparr>)
    (Cluster_resolveCloudClient E c)"
proof -
  have "opens (KGetSecret \<lparr>k_Namespace = ns, k_Name = sref_Name r\<rparr>)
      (ClientForCluster E (sref_Name r) ns ctx)" for ns ctx
    unfolding ClientForCluster_def Let_def if_not_P [OF assms(2)]
    by (intro opens_onResult) (auto intro!: go_rules emits_ops simp: NewClientFromConfig_def split: sum.split)
  then show ?thesis
    unfolding Cluster_resolveCloudClient_def Let_def assms(1) option.case
    by (intro opens_onError) (auto intro!: go_rules emits_ops)
qed

lemma Key_eq: "key = \<lparr>k_Namespace = ns, k_Name = n\<rparr> \<longleftrightarrow> k_Namespace key = ns \<and> k_Name key = n"
  by (cases key) simp

lemma first_secret_read:
  assumes "k_Name key \<noteq> ''''"
  shows "take 1 (emitted (Cluster_resolveCloudClient E c) s) = [KGetSecret key] \<longleftrightarrow>
    (\<exists>r. cs_CredentialsRef (cl_Spec c) = Some r \<and>
       sref_Name r = k_Name key \<and> om_Namespace (cl_Meta c) = k_Namespace key)"
proof (cases "cs_CredentialsRef (cl_Spec c)")
  case None
  then show ?thesis
    by (simp add: Cluster_resolveCloudClient_def ClientForCluster_def Let_def emitted_def newErr_def)
next
  case (Some r)
  show ?thesis
  proof (cases "sref_Name r = ''''")
    case True
    with Some assms show ?thesis
      by (auto simp: Cluster_resolveCloudClient_def ClientForCluster_def Let_def emitted_def newErr_def)
  next
    case False
    let ?key = "\<lparr>k_Namespace = om_Namespace (cl_Meta c), k_Name = sref_Name r\<rparr>"
    have "take 1 (emitted (Cluster_resolveCloudClient E c) s) = [KGetSecret ?key]"
      by (rule opens_emitted [OF opens_resolveCloudClient [OF Some False]])
    then show ?thesis using Some by (auto simp: Key_eq)
  qed
qed

lemma secret_change_wakes_readers:
  assumes clusters: "e_clusters E (calls s) (KListClusters (k_Namespace (sec_Key secret))) = Inr items"
    and here: "\<And>c. c \<in> set items \<Longrightarrow> om_Namespace (cl_Meta c) = k_Namespace (sec_Key secret)"
    and named: "k_Name (sec_Key secret) \<noteq> ''''"
  shows "k \<in> set (resultOf (Cluster_watches E (SecretChanged secret)) s) \<longleftrightarrow>
    (\<exists>c\<in>set items. clusterKey c = k \<and>
       take 1 (emitted (Cluster_resolveCloudClient E' c) (t c)) = [KGetSecret (sec_Key secret)])"
proof -
  have "k \<in> set (resultOf (Cluster_watches E (SecretChanged secret)) s) \<longleftrightarrow>
      (\<exists>c\<in>set items. clusterKey c = k \<and> (\<exists>r. cs_CredentialsRef (cl_Spec c) = Some r \<and>
         sref_Name r = k_Name (sec_Key secret)))"
    using clusters
    by (auto simp: Cluster_watches_def secretToCluster_def resultOf_def split: option.splits)
  then show ?thesis
    unfolding first_secret_read [OF named] using here by auto
qed

text \<open>
  A change of a machine wakes exactly the cluster that the machine's reconcile reads, when the
  CAPI cluster is answered the same way.
\<close>

lemma machine_change_wakes_its_cluster:
  "set (resultOf (Cluster_watches E (MachineChanged m)) s) =
     {k. KGetCluster k \<in> set (emitted (resolveEvrocCluster E m) s)}"
  by (auto simp: Cluster_watches_def machineToCluster_def resolveEvrocCluster_def resultOf_def
      emitted_def Let_def split: sum.splits)

text \<open>
  A cluster that waits because its CAPI cluster is paused is woken when that changes: the CAPI
  cluster whose flag it read names it as its infrastructure.
\<close>

lemma unpausing_wakes:
  assumes "cc_RefKind cc = ''EvrocCluster''" and "cc_RefName cc = om_Name (cl_Meta c)"
    and "cc_Namespace cc = om_Namespace (cl_Meta c)" and "om_Name (cl_Meta c) \<noteq> ''''"
  shows "resultOf (Cluster_watches E (CapiClusterChanged cc)) s = [clusterKey c]"
  using assms
  by (simp add: Cluster_watches_def capiClusterToEvrocCluster_def clusterKey_def resultOf_def)

text \<open>The owner that the copy of the credentials names is of a kind the provider registers.\<close>

lemma copy_owner_registered:
  "\<forall>owner \<in> set (sec_OwnerReferences (desiredCopy c src)).
     or_APIVersion owner = gvString GroupVersion \<and> or_Kind owner \<in> set registeredKinds"
  by (simp add: desiredCopy_def registeredKinds_def clusterKinds_def)

end
