(* ===== verification/Provision.thy ===== *)
theory Provision
  imports FreshCreate
begin

text \<open>
  Progress of a provisioning: which resources one reconcile of a machine creates in a cloud that
  answers truly and accepts what it is sent, as a function of what is there.
\<close>

section \<open>What a machine wants\<close>

type_synonym inventory = "(SdkKind \<times> string) set"

definition bootWanted :: "EvrocMachine \<Rightarrow> inventory" where
  "bootWanted m =
     (if ms_RootDiskSize (m_Spec m) > 0 then {(DiskK, bootDiskName (om_Name (m_Meta m)))} else {})"

definition extraWanted :: "EvrocMachine \<Rightarrow> inventory" where
  "extraWanted m = (\<lambda>d. (DiskK, additionalDiskName (om_Name (m_Meta m)) (ad_Name d))) ` set (ms_AdditionalDisks (m_Spec m))"

definition publicIPConfig :: "EvrocMachine \<Rightarrow> PublicIPConfig option" where
  "publicIPConfig m = (case ms_NetworkingConfig (m_Spec m) of None \<Rightarrow> None | Some n \<Rightarrow> mnc_PublicIP n)"

definition ipWanted :: "EvrocMachine \<Rightarrow> inventory" where
  "ipWanted m = (case publicIPConfig m of None \<Rightarrow> {}
     | Some c \<Rightarrow> if pip_ExistingID c = None \<and> pip_Enabled c
                 then {(PublicIPK, managedPublicIPName (om_Name (m_Meta m)))} else {})"

definition groupsWanted :: "EvrocMachine \<Rightarrow> inventory" where
  "groupsWanted m = (\<lambda>i. (SecurityGroupK, inlineSGName (om_Name (m_Meta m)) i)) ` set (inlineGroupsOf m)"

abbreviation vmOf :: "EvrocMachine \<Rightarrow> SdkKind \<times> string" where
  "vmOf m \<equiv> (VirtualMachineK, om_Name (m_Meta m))"

text \<open>What the user said is there already.\<close>

definition needed :: "EvrocMachine \<Rightarrow> inventory" where
  "needed m = {(PublicIPK, i) | i c. publicIPConfig m = Some c \<and> pip_ExistingID c = Some i} \<union>
     {(PlacementGroupK, g) | g p. ms_PlacementConfig (m_Spec m) = Some p \<and> pc_ExistingGroupID p = Some g}"

text \<open>The next resources: the boot disk, then the other disks, then the address, then the rest.\<close>

definition nextWanted :: "EvrocMachine \<Rightarrow> inventory \<Rightarrow> inventory" where
  "nextWanted m R =
     (if \<not> bootWanted m \<subseteq> R then bootWanted m - R
      else if \<not> extraWanted m \<subseteq> R then extraWanted m - R
      else if \<not> ipWanted m \<subseteq> R then ipWanted m - R
      else insert (vmOf m) (groupsWanted m - R))"

lemma wanted_view:
  assumes "requestView x = requestView m"
  shows "bootWanted x = bootWanted m" "extraWanted x = extraWanted m" "ipWanted x = ipWanted m"
    "groupsWanted x = groupsWanted m" "vmOf x = vmOf m" "needed x = needed m" "nextWanted x R = nextWanted m R"
proof -
  have same: "m_Meta x = m_Meta m" "m_Spec x = m_Spec m"
    using assms by (simp_all add: requestView_def)
  show "bootWanted x = bootWanted m" "extraWanted x = extraWanted m" "ipWanted x = ipWanted m"
    "groupsWanted x = groupsWanted m" "vmOf x = vmOf m" "needed x = needed m" "nextWanted x R = nextWanted m R"
    unfolding bootWanted_def extraWanted_def ipWanted_def groupsWanted_def needed_def nextWanted_def
      publicIPConfig_def inlineGroupsOf_def machineSGConfig_def same
    by (rule refl)+
qed

section \<open>A cloud that provides\<close>

definition madeIn :: "Call list \<Rightarrow> inventory" where
  "madeIn h = {(requestKind r, requestName r) | r. SdkCreate r \<in> set h}"

definition removedIn :: "Call list \<Rightarrow> inventory" where
  "removedIn h = {(k, n). SdkDelete k n \<in> set h}"

lemma madeIn_simps [simp]:
  "madeIn [] = {}" "madeIn (h @ g) = madeIn h \<union> madeIn g"
  "madeIn (c # h) = (case c of SdkCreate r \<Rightarrow> {(requestKind r, requestName r)} | _ \<Rightarrow> {}) \<union> madeIn h"
  by (auto simp: madeIn_def split: Call.split)

lemma madeIn_none: "(\<And>c. c \<in> set h \<Longrightarrow> createsNothing c) \<Longrightarrow> madeIn h = {}"
  by (force simp: madeIn_def)

text \<open>
  A cloud with \<open>R\<close> in it: a lookup finds what was there at the start and what was created since,
  ready for use, and nothing else; creates, patches, deletes and validations are accepted.
\<close>

definition provides :: "Env \<Rightarrow> inventory \<Rightarrow> bool" where
  "provides E R \<longleftrightarrow>
     (\<forall>h n. if (DiskK, n) \<in> R \<union> madeIn h then \<exists>d. e_disk E h (SdkGet DiskK n) = Inr d \<and> s_diskReady E d
        else \<exists>e. e_disk E h (SdkGet DiskK n) = Inl e \<and> errIs e NotFoundM) \<and>
     (\<forall>h n. if (PublicIPK, n) \<in> R \<union> madeIn h
        then \<exists>i a. e_ip E h (SdkGet PublicIPK n) = Inr i \<and> ip_Address i = Some a \<and> a \<noteq> ''''
        else \<exists>e. e_ip E h (SdkGet PublicIPK n) = Inl e \<and> errIs e NotFoundM) \<and>
     (\<forall>h n. if (SecurityGroupK, n) \<in> R \<union> madeIn h then \<exists>g. e_sg E h (SdkGet SecurityGroupK n) = Inr g
        else \<exists>e. e_sg E h (SdkGet SecurityGroupK n) = Inl e \<and> errIs e NotFoundM) \<and>
     (\<forall>h n. if (VirtualMachineK, n) \<in> R \<union> madeIn h then \<exists>v. e_vm E h (SdkGet VirtualMachineK n) = Inr v
        else \<exists>e. e_vm E h (SdkGet VirtualMachineK n) = Inl e \<and> errIs e NotFoundM) \<and>
     (\<forall>h n. (PlacementGroupK, n) \<in> R \<longrightarrow> (\<exists>g. e_pg E h (SdkGet PlacementGroupK n) = Inr g)) \<and>
     (\<forall>h r. (\<exists>d. e_disk E h (SdkCreate r) = Inr d) \<and> (\<exists>i. e_ip E h (SdkCreate r) = Inr i) \<and>
        (\<exists>g. e_sg E h (SdkCreate r) = Inr g) \<and> (\<exists>v. e_vm E h (SdkCreate r) = Inr v)) \<and>
     (\<forall>h n g. \<exists>x. e_sg E h (SdkPatchSG n g) = Inr x) \<and>
     (\<forall>h c. e_err E h c = None)"

lemma providesD:
  assumes "provides E R"
  shows "(DiskK, n) \<in> R \<union> madeIn h \<Longrightarrow> \<exists>d. e_disk E h (SdkGet DiskK n) = Inr d \<and> s_diskReady E d"
    and "(DiskK, n) \<notin> R \<union> madeIn h \<Longrightarrow> \<exists>e. e_disk E h (SdkGet DiskK n) = Inl e \<and> errIs e NotFoundM"
    and "(PublicIPK, n) \<in> R \<union> madeIn h \<Longrightarrow>
      \<exists>i a. e_ip E h (SdkGet PublicIPK n) = Inr i \<and> ip_Address i = Some a \<and> a \<noteq> ''''"
    and "(PublicIPK, n) \<notin> R \<union> madeIn h \<Longrightarrow> \<exists>e. e_ip E h (SdkGet PublicIPK n) = Inl e \<and> errIs e NotFoundM"
    and "(SecurityGroupK, n) \<in> R \<union> madeIn h \<Longrightarrow> \<exists>g. e_sg E h (SdkGet SecurityGroupK n) = Inr g"
    and "(SecurityGroupK, n) \<notin> R \<union> madeIn h \<Longrightarrow> \<exists>e. e_sg E h (SdkGet SecurityGroupK n) = Inl e \<and> errIs e NotFoundM"
    and "(VirtualMachineK, n) \<in> R \<union> madeIn h \<Longrightarrow> \<exists>v. e_vm E h (SdkGet VirtualMachineK n) = Inr v"
    and "(VirtualMachineK, n) \<notin> R \<union> madeIn h \<Longrightarrow> \<exists>e. e_vm E h (SdkGet VirtualMachineK n) = Inl e \<and> errIs e NotFoundM"
    and "(PlacementGroupK, n) \<in> R \<Longrightarrow> \<exists>g. e_pg E h (SdkGet PlacementGroupK n) = Inr g"
    and "\<exists>d. e_disk E h (SdkCreate r) = Inr d" and "\<exists>i. e_ip E h (SdkCreate r) = Inr i"
    and "\<exists>g. e_sg E h (SdkCreate r) = Inr g" and "\<exists>v. e_vm E h (SdkCreate r) = Inr v"
    and "\<exists>x. e_sg E h (SdkPatchSG n sg) = Inr x" and "e_err E h c = None"
  using assms unfolding provides_def by presburger+

section \<open>Creating in such a cloud\<close>

lemma made_quiet:
  assumes "emits createsNothing m" and "run_state m s = (x, t)"
  shows "madeIn (calls t) = madeIn (calls s)"
proof -
  obtain xs where "calls t = calls s @ xs" "\<forall>c\<in>set xs. createsNothing c"
    using emits_calls [OF assms(1), of s] assms(2) by auto
  then show ?thesis
    using madeIn_none [of xs] by simp
qed

text \<open>A create is accepted, whatever is there.\<close>

definition accepts :: "('o, goerr + 'a) go \<Rightarrow> SdkKind \<times> string \<Rightarrow> bool" where
  "accepts m x \<longleftrightarrow> (\<forall>s. \<exists>r t. run_state m s = (Inr r, t) \<and> madeIn (calls t) = insert x (madeIn (calls s)))"

lemma acceptsE:
  assumes "accepts m x"
  obtains r t where "run_state m s = (Inr r, t)" "madeIn (calls t) = insert x (madeIn (calls s))"
  using assms unfolding accepts_def by blast

lemma accepts_creates:
  assumes "provides E R"
  shows "accepts (DiskService_Create E n sz i z l) (DiskK, n)"
    and "accepts (PublicIPService_Create E n l) (PublicIPK, n)"
    and "accepts (SecurityGroupService_Create E n rs l v) (SecurityGroupK, n)"
    and "accepts (VirtualMachineService_Create E r) (VirtualMachineK, vr_Name r)"
proof -
  have err: "e_err E h c = None" for h c
    by (rule providesD(15) [OF assms])
  obtain d f g k where "\<And>h r. e_disk E h (SdkCreate r) = Inr (d h r)" "\<And>h r. e_ip E h (SdkCreate r) = Inr (f h r)"
      "\<And>h r. e_sg E h (SdkCreate r) = Inr (g h r)" "\<And>h r. e_vm E h (SdkCreate r) = Inr (k h r)"
    using providesD(10-13) [OF assms] by metis
  then show "accepts (DiskService_Create E n sz i z l) (DiskK, n)"
    "accepts (PublicIPService_Create E n l) (PublicIPK, n)"
    "accepts (SecurityGroupService_Create E n rs l v) (SecurityGroupK, n)"
    "accepts (VirtualMachineService_Create E r) (VirtualMachineK, vr_Name r)"
    by (auto simp: accepts_def DiskService_Create_def PublicIPService_Create_def SecurityGroupService_Create_def
        VirtualMachineService_Create_def Let_def err split: option.split)
qed

section \<open>Lookups in such a cloud\<close>

context cloud_resource
begin

lemma get_answer:
  assumes "reply (calls s) (SdkGet kind n) = Inr x"
  shows "run_state (getR n) s = (Inr x, s\<lparr>calls := calls s @ [SdkGet kind n]\<rparr>)"
  by (rule run_get [of n s]) (simp add: assms)

lemma get_refusal:
  assumes "reply (calls s) (SdkGet kind n) = Inl e" and "errIs e NotFoundM"
  obtains e' where "run_state (getR n) s = (Inl e', s\<lparr>calls := calls s @ [SdkGet kind n]\<rparr>)" "IsNotFoundError e'"
  by (rule run_get [of n s]) (use assms in \<open>auto simp: IsNotFoundError_def intro: that\<close>)

lemma exists_answer:
  assumes "reply (calls s) (SdkGet kind n) = Inr x"
  shows "run_state (existsR n) s = (Inr True, s\<lparr>calls := calls s @ [SdkGet kind n]\<rparr>)"
  by (rule run_exists [of n s]) (simp add: assms)

lemma exists_refusal:
  assumes "reply (calls s) (SdkGet kind n) = Inl e" and "errIs e NotFoundM"
  shows "run_state (existsR n) s = (Inr False, s\<lparr>calls := calls s @ [SdkGet kind n]\<rparr>)"
  by (rule run_exists [of n s]) (use assms in \<open>simp add: IsNotFoundError_def\<close>)

end

section \<open>The stages\<close>

lemma oneDisk_run:
  assumes E: "provides E R" and x_def: "x = (DiskK, additionalDiskName (om_Name (m_Meta m)) (ad_Name d))"
  shows "\<exists>y t. run_state (reconcileOneDisk E m info d) s = (Inr (y, x \<notin> R \<union> madeIn (calls s)), t) \<and>
    madeIn (calls t) = madeIn (calls s) \<union> ({x} - R)"
proof (cases "x \<in> R \<union> madeIn (calls s)")
  case True
  then obtain disk where "e_disk E (calls s) (SdkGet DiskK (snd x)) = Inr disk" "s_diskReady E disk"
    using providesD(1) [OF E, of "snd x" "calls s"] by (auto simp: x_def)
  with True show ?thesis
    by (auto simp: reconcileOneDisk_def Let_def x_def diskR.get_answer)
next
  case False
  then obtain e where "e_disk E (calls s) (SdkGet DiskK (snd x)) = Inl e" "errIs e NotFoundM"
    using providesD(2) [OF E, of "snd x" "calls s"] by (auto simp: x_def)
  then obtain e' where get: "run_state (DiskService_Get E (snd x)) s =
      (Inl e', s\<lparr>calls := calls s @ [SdkGet DiskK (snd x)]\<rparr>)" "IsNotFoundError e'"
    by (rule diskR.get_refusal)
  let ?s = "s\<lparr>calls := calls s @ [SdkGet DiskK (snd x)]\<rparr>"
  obtain y t where "run_state (DiskService_Create E (snd x) (ad_SizeGB d) (case ad_Image d of None \<Rightarrow> [] | Some i \<Rightarrow> i)
      (mst_AvailabilityZone (m_Status m)) (machineResourceLabels m (ci_ID info) (ci_AdditionalLabels info))) ?s = (Inr y, t)"
      "madeIn (calls t) = insert (DiskK, snd x) (madeIn (calls ?s))"
    by (rule acceptsE [OF accepts_creates(1) [OF E]])
  then show ?thesis
    using False get by (auto simp: reconcileOneDisk_def Let_def x_def)
qed

lemma allDisks_run:
  assumes E: "provides E R"
    and W: "W = (\<lambda>d. (DiskK, additionalDiskName (om_Name (m_Meta m)) (ad_Name d))) ` set ds"
  shows "\<exists>rs t. run_state (mapEach (reconcileOneDisk E m info) ds) s = (Inr rs, t) \<and>
    (list_ex snd rs \<longleftrightarrow> \<not> W \<subseteq> R \<union> madeIn (calls s)) \<and> madeIn (calls t) = madeIn (calls s) \<union> (W - R)"
  using W
proof (induction ds arbitrary: W s)
  case (Cons d ds)
  let ?x = "(DiskK, additionalDiskName (om_Name (m_Meta m)) (ad_Name d))"
  let ?W = "(\<lambda>d. (DiskK, additionalDiskName (om_Name (m_Meta m)) (ad_Name d))) ` set ds"
  obtain y u where one: "run_state (reconcileOneDisk E m info d) s = (Inr (y, ?x \<notin> R \<union> madeIn (calls s)), u)"
      "madeIn (calls u) = madeIn (calls s) \<union> ({?x} - R)"
    using oneDisk_run [OF E refl] by blast
  obtain rs t where rest: "run_state (mapEach (reconcileOneDisk E m info) ds) u = (Inr rs, t)"
      "list_ex snd rs \<longleftrightarrow> \<not> ?W \<subseteq> R \<union> madeIn (calls u)" "madeIn (calls t) = madeIn (calls u) \<union> (?W - R)"
    using Cons.IH [OF refl, of u] by blast
  show ?case
  proof (intro exI conjI)
    show "run_state (mapEach (reconcileOneDisk E m info) (d # ds)) s =
        (Inr ((y, ?x \<notin> R \<union> madeIn (calls s)) # rs), t)"
      using one rest by simp
    show "list_ex snd ((y, ?x \<notin> R \<union> madeIn (calls s)) # rs) \<longleftrightarrow> \<not> W \<subseteq> R \<union> madeIn (calls s)"
      using rest(2) one(2) by (auto simp: Cons.prems)
    show "madeIn (calls t) = madeIn (calls s) \<union> (W - R)"
      unfolding Cons.prems rest(3) one(2) by auto
  qed
qed simp

lemma createsNothing_stale: "emits createsNothing (deleteStaleDisks E tracked desired)"
  unfolding deleteStaleDisks_def by (intro go_rules emits_deleteTolerant emits_ops) simp_all

lemma stale_run:
  assumes "provides E R"
  shows "\<exists>t. run_state (deleteStaleDisks E tracked desired) s = (None, t) \<and> madeIn (calls t) = madeIn (calls s)"
proof -
  have err: "e_err E h c = None" for h c
    by (rule providesD(15) [OF assms])
  have "\<exists>t. run_state (deleteStaleDisks E tracked desired) s = (None, t)"
  proof (induction tracked arbitrary: s)
    case (Cons d tracked)
    show ?case
    proof (cases "mdk_Managed d \<and> \<not> desired (mdk_ID d)")
      case True
      obtain u where "run_state (deleteTolerant (''failed to delete stale additional disk '' @ mdk_ID d)
          (DiskService_Delete E (mdk_ID d))) s = (None, u)"
        by (simp add: deleteTolerant_def DiskService_Delete_def err)
      then show ?thesis
        using Cons [of u] True by (simp add: deleteStaleDisks_def)
    next
      case False
      then show ?thesis
        using Cons [of s] by (auto simp: deleteStaleDisks_def)
    qed
  qed (simp add: deleteStaleDisks_def)
  then show ?thesis
    using made_quiet [OF createsNothing_stale] by blast
qed

lemma additionalDisks_run:
  assumes E: "provides E R"
  shows "\<exists>x t. run_state (reconcileAdditionalDisks E m info) s =
      (Inr (\<not> extraWanted m \<subseteq> R \<union> madeIn (calls s), x), t) \<and>
    madeIn (calls t) = madeIn (calls s) \<union> (extraWanted m - R)"
proof (cases "ms_AdditionalDisks (m_Spec m) = []")
  case True
  then have "extraWanted m = {}"
    by (simp add: extraWanted_def)
  obtain t where "run_state (deleteStaleDisks E (trackedDisks m) (\<lambda>_. False)) s = (None, t)"
      "madeIn (calls t) = madeIn (calls s)"
    using stale_run [OF E] by blast
  then show ?thesis
    using True \<open>extraWanted m = {}\<close> by (simp add: reconcileAdditionalDisks_def Let_def)
next
  case False
  obtain rs u where all: "run_state (mapEach (reconcileOneDisk E m info) (ms_AdditionalDisks (m_Spec m))) s = (Inr rs, u)"
      "list_ex snd rs \<longleftrightarrow> \<not> extraWanted m \<subseteq> R \<union> madeIn (calls s)"
      "madeIn (calls u) = madeIn (calls s) \<union> (extraWanted m - R)"
    using allDisks_run [OF E extraWanted_def] by blast
  obtain t where "run_state (deleteStaleDisks E (trackedDisks m)
      (\<lambda>i. i \<in> set (map (\<lambda>d. additionalDiskName (om_Name (m_Meta m)) (ad_Name d)) (ms_AdditionalDisks (m_Spec m))))) u
      = (None, t)" "madeIn (calls t) = madeIn (calls u)"
    using stale_run [OF E] by blast
  then show ?thesis
    using False all by (cases "list_ex snd rs") (auto simp: reconcileAdditionalDisks_def Let_def)
qed

text \<open>
  A stage in a reconcile that has created nothing so far: it goes on when what it wants is there,
  and otherwise creates it and comes back.
\<close>

definition brings ::
    "inventory \<Rightarrow> (EvrocMachine \<Rightarrow> inventory) \<Rightarrow> (EvrocMachine, outcome option) go \<Rightarrow> bool" where
  "brings R W stage \<longleftrightarrow>
     (\<forall>s. madeIn (calls s) = {} \<longrightarrow> needed (cur s) \<subseteq> R \<longrightarrow>
        (\<exists>r t. run_state stage s = (r, t) \<and> (r = None \<longleftrightarrow> W (cur s) \<subseteq> R) \<and> madeIn (calls t) = W (cur s) - R))"

lemma bringsE [consumes 3, case_names pass wait]:
  assumes "brings R W stage" and "madeIn (calls s) = {}" and "needed (cur s) \<subseteq> R"
  obtains (pass) t where "run_state stage s = (None, t)" "madeIn (calls t) = {}" "W (cur s) \<subseteq> R"
    | (wait) r t where "run_state stage s = (Some r, t)" "madeIn (calls t) = W (cur s) - R" "\<not> W (cur s) \<subseteq> R"
proof -
  obtain r t where run: "run_state stage s = (r, t)" and stop: "r = None \<longleftrightarrow> W (cur s) \<subseteq> R"
      and made: "madeIn (calls t) = W (cur s) - R"
    using assms(1) [unfolded brings_def, rule_format, OF assms(2,3)] by blast
  show thesis
  proof (cases "W (cur s) \<subseteq> R")
    case True
    then have "r = None" "W (cur s) - R = {}"
      using stop by blast+
    with run made show thesis
      by (intro pass [of t]) (simp_all add: True)
  next
    case False
    then obtain x where "r = Some x"
      using stop by blast
    with run show thesis
      by (intro wait [of x t] made False) simp
  qed
qed

lemma pendingStage_run:
  assumes "run_state (step (cur s)) s = (Inr (p, x), u)"
  shows "\<exists>r t. run_state (pendingStage E step ec store pm d) s = (r, t) \<and> (r = None \<longleftrightarrow> \<not> p) \<and>
    madeIn (calls t) = madeIn (calls u)"
proof -
  obtain u1 where u1: "run_state ensureResources u = ((), u1)" "calls u1 = calls u"
      "requestView (cur u1) = requestView (cur u)"
    by (rule run_storing)
  obtain u2 where u2: "run_state (setResources (store x)) u1 = ((), u2)" "calls u2 = calls u1"
      "requestView (cur u2) = requestView (cur u1)"
    by (rule run_setting)
  obtain r v where v: "run_state (persistResourcesStatus E) u2 = (r, v)"
    by fastforce
  note made = made_quiet [OF createsNothing_status(4) v]
  show ?thesis
    using assms u1 u2 v made by (cases p; cases r) (simp_all add: pendingStage_def)
qed

lemma brings_pending:
  assumes "\<And>s. madeIn (calls s) = {} \<Longrightarrow> needed (cur s) \<subseteq> R \<Longrightarrow> \<exists>x t. run_state (step (cur s)) s =
      (Inr (\<not> W (cur s) \<subseteq> R, x), t) \<and> madeIn (calls t) = W (cur s) - R"
  shows "brings R W (pendingStage E step ec store pm d)"
  unfolding brings_def
proof (intro allI impI)
  fix s :: "EvrocMachine cst"
  assume "madeIn (calls s) = {}" and "needed (cur s) \<subseteq> R"
  then obtain x u where "run_state (step (cur s)) s = (Inr (\<not> W (cur s) \<subseteq> R, x), u)"
      "madeIn (calls u) = W (cur s) - R"
    using assms by blast
  then show "\<exists>r t. run_state (pendingStage E step ec store pm d) s = (r, t) \<and>
      (r = None \<longleftrightarrow> W (cur s) \<subseteq> R) \<and> madeIn (calls t) = W (cur s) - R"
    using pendingStage_run [of step s "\<not> W (cur s) \<subseteq> R" x u E ec store pm d] by auto
qed

lemma brings_additionalDisks: "provides E R \<Longrightarrow> brings R extraWanted (ensureAdditionalDisks E info)"
  unfolding ensureAdditionalDisks_def
proof (rule brings_pending)
  fix s :: "EvrocMachine cst"
  assume "provides E R" and none: "madeIn (calls s) = {}"
  then show "\<exists>x t. run_state (reconcileAdditionalDisks E (cur s) info) s = (Inr (\<not> extraWanted (cur s) \<subseteq> R, x), t) \<and>
      madeIn (calls t) = extraWanted (cur s) - R"
    using additionalDisks_run [of E R "cur s" info s] by (simp only: none Un_empty_right Un_empty_left)
qed

lemma brings_placementGroup:
  assumes "provides E R"
  shows "brings R (\<lambda>_. {}) (ensurePlacementGroup E)"
  unfolding ensurePlacementGroup_def
proof (rule brings_pending)
  fix s :: "EvrocMachine cst"
  assume none: "madeIn (calls s) = {}" and needed: "needed (cur s) \<subseteq> R"
  show "\<exists>x t. run_state (reconcilePlacementGroup E (cur s)) s = (Inr (\<not> {} \<subseteq> R, x), t) \<and> madeIn (calls t) = {} - R"
  proof (cases "\<exists>p g. ms_PlacementConfig (m_Spec (cur s)) = Some p \<and> pc_ExistingGroupID p = Some g")
    case True
    then obtain p g where p: "ms_PlacementConfig (m_Spec (cur s)) = Some p" "pc_ExistingGroupID p = Some g"
      by blast
    then have "(PlacementGroupK, g) \<in> R"
      using needed by (auto simp: needed_def)
    then obtain x where "e_pg E (calls s) (SdkGet PlacementGroupK g) = Inr x"
      using providesD(9) [OF assms] by blast
    then show ?thesis
      using p none by (simp add: reconcilePlacementGroup_def placementGroupR.get_answer)
  next
    case False
    then show ?thesis
      using none by (auto simp: reconcilePlacementGroup_def split: option.split)
  qed
qed

lemma publicIP_run:
  assumes E: "provides E R" and none: "madeIn (calls s) = {}" and needed: "needed m \<subseteq> R"
  shows "\<exists>x t. run_state (reconcilePublicIPCreation E m info) s = (Inr (\<not> ipWanted m \<subseteq> R, x), t) \<and>
    madeIn (calls t) = ipWanted m - R"
proof -
  let ?n = "managedPublicIPName (om_Name (m_Meta m))"
  consider (off) "publicIPConfig m = None \<or> (\<exists>c. publicIPConfig m = Some c \<and> pip_ExistingID c = None \<and> \<not> pip_Enabled c)"
    | (existing) c i where "publicIPConfig m = Some c" "pip_ExistingID c = Some i"
    | (managed) c where "publicIPConfig m = Some c" "pip_ExistingID c = None" "pip_Enabled c"
    by (cases "publicIPConfig m"; cases "pip_ExistingID (the (publicIPConfig m))") auto
  then show ?thesis
  proof cases
    case off
    then show ?thesis
      using none by (auto simp: reconcilePublicIPCreation_def ipWanted_def publicIPConfig_def [symmetric])
  next
    case existing
    then have "(PublicIPK, i) \<in> R"
      using needed by (auto simp: needed_def)
    then obtain x where "e_ip E (calls s) (SdkGet PublicIPK i) = Inr x"
      using providesD(3) [OF E, of i "calls s"] by blast
    then show ?thesis
      using existing none
      by (simp add: reconcilePublicIPCreation_def ipWanted_def publicIPConfig_def [symmetric] publicIPR.get_answer)
  next
    case managed
    note defs = reconcilePublicIPCreation_def ipWanted_def publicIPConfig_def [symmetric] Let_def
    show ?thesis
    proof (cases "(PublicIPK, ?n) \<in> R")
      case True
      let ?s = "s\<lparr>calls := calls s @ [SdkGet PublicIPK ?n]\<rparr>"
      obtain x where "e_ip E (calls s) (SdkGet PublicIPK ?n) = Inr x"
        using providesD(3) [OF E, of ?n "calls s"] True by blast
      moreover obtain y a where "e_ip E (calls ?s) (SdkGet PublicIPK ?n) = Inr y" "ip_Address y = Some a" "a \<noteq> ''''"
        using providesD(3) [OF E, of ?n "calls ?s"] True by blast
      ultimately show ?thesis
        using managed none True by (simp add: defs publicIPR.exists_answer publicIPR.get_answer)
    next
      case False
      then obtain e where e: "e_ip E (calls s) (SdkGet PublicIPK ?n) = Inl e" "errIs e NotFoundM"
        using providesD(4) [OF E, of ?n "calls s"] none by auto
      let ?s = "s\<lparr>calls := calls s @ [SdkGet PublicIPK ?n]\<rparr>"
      obtain y t where "run_state (PublicIPService_Create E ?n
          (machineResourceLabels m (ci_ID info) (ci_AdditionalLabels info))) ?s = (Inr y, t)"
          "madeIn (calls t) = insert (PublicIPK, ?n) (madeIn (calls ?s))"
        by (rule acceptsE [OF accepts_creates(2) [OF E]])
      then show ?thesis
        using managed none False publicIPR.exists_refusal [OF e] by (auto simp: defs)
    qed
  qed
qed

lemma brings_publicIP: "provides E R \<Longrightarrow> brings R ipWanted (ensurePublicIP E info)"
  unfolding ensurePublicIP_def by (rule brings_pending) (rule publicIP_run)

lemma brings_bootDisk:
  assumes E: "provides E R"
  shows "brings R bootWanted (ensureBootDisk E info)"
  unfolding brings_def
proof (intro allI impI)
  fix s :: "EvrocMachine cst"
  assume none: "madeIn (calls s) = {}" and "needed (cur s) \<subseteq> R"
  let ?m = "cur s"
  let ?n = "bootDiskName (om_Name (m_Meta ?m))"
  let ?s = "s\<lparr>calls := calls s @ [SdkGet DiskK ?n]\<rparr>"
  note defs = ensureBootDisk_def bootDiskFor_def bootWanted_def Let_def
  show "\<exists>r t. run_state (ensureBootDisk E info) s = (r, t) \<and> (r = None \<longleftrightarrow> bootWanted ?m \<subseteq> R) \<and>
      madeIn (calls t) = bootWanted ?m - R"
  proof (cases "ms_RootDiskSize (m_Spec ?m) > 0")
    case False
    then show ?thesis
      using none by (simp add: defs)
  next
    case size: True
    show ?thesis
    proof (cases "(DiskK, ?n) \<in> R")
      case True
      then obtain d where "e_disk E (calls s) (SdkGet DiskK ?n) = Inr d" "s_diskReady E d"
        using providesD(1) [OF E, of ?n "calls s"] by blast
      then show ?thesis
        using none size True
        by (simp add: defs diskR.get_answer ensureResources_def setResources_def)
    next
      case False
      then obtain e where "e_disk E (calls s) (SdkGet DiskK ?n) = Inl e" "errIs e NotFoundM"
        using providesD(2) [OF E, of ?n "calls s"] none by auto
      then obtain e' where get: "run_state (DiskService_Get E ?n) s = (Inl e', ?s)" "IsNotFoundError e'"
        by (rule diskR.get_refusal)
      obtain y t where create: "run_state (DiskService_Create E ?n (ms_RootDiskSize (m_Spec ?m)) (ms_Image (m_Spec ?m))
          (mst_AvailabilityZone (m_Status ?m)) (machineResourceLabels ?m (ci_ID info) (ci_AdditionalLabels info))) ?s
          = (Inr y, t)" "madeIn (calls t) = insert (DiskK, ?n) (madeIn (calls ?s))"
        by (rule acceptsE [OF accepts_creates(1) [OF E]])
      obtain u where u: "run_state ensureResources t = ((), u)" "calls u = calls t" 
          "requestView (cur u) = requestView (cur t)"
        by (rule run_storing)
      let ?f = "\<lambda>r. r\<lparr>mr_BootDisk := Some \<lparr>mdk_ID = ?n, mdk_UID = '''',
          mdk_SizeGB = ms_RootDiskSize (m_Spec ?m), mdk_Managed = True\<rparr>\<rparr>"
      obtain v where v: "run_state (setResources ?f) u = ((), v)" "calls v = calls u"
          "requestView (cur v) = requestView (cur u)"
        by (rule run_setting)
      obtain x w where w: "run_state (persistResourcesStatus E) v = (x, w)"
        by fastforce
      have made: "madeIn (calls w) = {(DiskK, ?n)}"
        using made_quiet [OF createsNothing_status(4) w] create(2) none u(2) v(2) by simp
      obtain r where "run_state (ensureBootDisk E info) s = (Some r, w)"
        using size get create(1) u(1) v(1) w by (cases x) (simp_all add: defs)
      then show ?thesis
        using made size False by (auto simp: bootWanted_def)
    qed
  qed
qed

lemma machineSG_run:
  assumes E: "provides E R" and x_def: "x = (SecurityGroupK, inlineSGName (om_Name (m_Meta m)) g)"
  shows "\<exists>t. run_state (ensureMachineSG E m info g) s = (None, t) \<and> madeIn (calls t) = madeIn (calls s) \<union> ({x} - R)"
proof (cases "x \<in> R \<union> madeIn (calls s)")
  case True
  let ?n = "snd x"
  let ?s = "s\<lparr>calls := calls s @ [SdkGet SecurityGroupK ?n]\<rparr>"
  let ?t = "?s\<lparr>calls := calls ?s @ [SdkGet SecurityGroupK ?n]\<rparr>"
  obtain a where a: "e_sg E (calls s) (SdkGet SecurityGroupK ?n) = Inr a"
    using providesD(5) [OF E, of ?n "calls s"] True by (auto simp: x_def)
  obtain b where b: "e_sg E (calls ?s) (SdkGet SecurityGroupK ?n) = Inr b"
    using providesD(5) [OF E, of ?n "calls ?s"] True by (auto simp: x_def)
  let ?b = "b\<lparr>sg_Rules := Some (ConvertSecurityGroupRulesToSDK (isg_Rules g))\<rparr>"
  obtain c where c: "e_sg E (calls ?t) (SdkPatchSG ?n ?b) = Inr c"
    using providesD(14) [OF E, of "calls ?t" ?n ?b] by blast
  have "run_state (ensureMachineSG E m info g) s = (None, ?t\<lparr>calls := calls ?t @ [SdkPatchSG ?n ?b]\<rparr>)"
    using securityGroupR.exists_answer [OF a] securityGroupR.get_answer [OF b] c
    by (simp add: ensureMachineSG_def Let_def x_def SecurityGroupService_Update_def)
  then show ?thesis
    using True by auto
next
  case False
  let ?n = "snd x"
  let ?s = "s\<lparr>calls := calls s @ [SdkGet SecurityGroupK ?n]\<rparr>"
  obtain e where e: "e_sg E (calls s) (SdkGet SecurityGroupK ?n) = Inl e" "errIs e NotFoundM"
    using providesD(6) [OF E, of ?n "calls s"] False by (auto simp: x_def)
  obtain y t where "run_state (SecurityGroupService_Create E ?n (ConvertSecurityGroupRulesToSDK (isg_Rules g))
      (machineResourceLabels m (ci_ID info) (ci_AdditionalLabels info)) (ci_VPCName info)) ?s = (Inr y, t)"
      "madeIn (calls t) = insert (SecurityGroupK, ?n) (madeIn (calls ?s))"
    by (rule acceptsE [OF accepts_creates(3) [OF E]])
  then show ?thesis
    using False securityGroupR.exists_refusal [OF e] by (auto simp: ensureMachineSG_def Let_def x_def)
qed

lemma allGroups_run:
  assumes E: "provides E R"
  shows "\<exists>t. run_state (forEach (ensureMachineSG E m info) gs) s = (None, t) \<and> madeIn (calls t) =
    madeIn (calls s) \<union> ((\<lambda>i. (SecurityGroupK, inlineSGName (om_Name (m_Meta m)) i)) ` set gs - R)"
proof (induction gs arbitrary: s)
  case (Cons g gs)
  obtain u where u: "run_state (ensureMachineSG E m info g) s = (None, u)"
      "madeIn (calls u) = madeIn (calls s) \<union> ({(SecurityGroupK, inlineSGName (om_Name (m_Meta m)) g)} - R)"
    using machineSG_run [OF E refl] by blast
  show ?case
    using Cons.IH [of u] u by auto
qed simp

lemma securityGroups_run:
  assumes E: "provides E R" and none: "madeIn (calls s) = {}"
  shows "\<exists>t. run_state (ensureSecurityGroups E info) s = (None, t) \<and> madeIn (calls t) = groupsWanted (cur s) - R"
proof -
  have "\<exists>t. run_state (reconcileMachineSecurityGroups E (cur s) info) s = (None, t) \<and>
      madeIn (calls t) = groupsWanted (cur s) - R"
    using allGroups_run [OF E, of "cur s" info _ s] none
    by (auto simp: reconcileMachineSecurityGroups_def groupsWanted_def inlineGroupsOf_def split: option.split)
  then show ?thesis
    by (auto simp: ensureSecurityGroups_def)
qed

section \<open>The whole creation\<close>

lemma submitVM_run:
  assumes E: "provides E R" and os: "buildOSSettings (cur s) u = Inr os"
  shows "\<exists>r t. run_state (submitVM E u cl) s = (r, t) \<and>
    madeIn (calls t) = insert (vmOf (cur s)) (madeIn (calls s))"
proof -
  obtain q where q: "buildVMRequest E (cur s) u cl = Inr q"
    using os by (simp add: buildVMRequest_def Let_def)
  obtain y t where "run_state (VirtualMachineService_Create E q) s = (Inr y, t)"
      "madeIn (calls t) = insert (VirtualMachineK, vr_Name q) (madeIn (calls s))"
    by (rule acceptsE [OF accepts_creates(4) [OF E]])
  then show ?thesis
    by (simp add: submitVM_def q buildVMRequest_fields(1) [OF q])
qed

lemma needed_view: "requestView x = requestView m \<Longrightarrow> needed m \<subseteq> R \<Longrightarrow> needed x \<subseteq> R"
  using wanted_view(6) [of x m] by blast

lemma osSettings_view:
  assumes "requestView x = requestView m" and "buildOSSettings m u = Inr os"
  shows "buildOSSettings x u = Inr os"
proof -
  have "m_Spec x = m_Spec m"
    using assms(1) by (simp add: requestView_def)
  then show ?thesis
    using assms(2) unfolding buildOSSettings_def by presburger
qed

text \<open>One creation sends the creates of the next resources, and no others.\<close>

lemma createVM_made:
  assumes E: "provides E R" and none: "madeIn (calls s) = {}" and needed: "needed (cur s) \<subseteq> R"
    and os: "buildOSSettings (cur s) u = Inr os"
  shows "madeIn (calls (stateAfter (createVM E u info cl) s)) = nextWanted (cur s) R"
  using brings_bootDisk [OF E] none needed
proof (cases rule: bringsE [of R _ "ensureBootDisk E info"])
  case (wait r t)
  then show ?thesis
    by (simp add: createVM_def stateAfter_def nextWanted_def)
next
  case (pass t1)
  note p1 = pass and v1 = stage_view(1) [OF pass(1)]
  show ?thesis
    using brings_additionalDisks [OF E] p1(2) needed_view [OF v1 needed]
  proof (cases rule: bringsE [of R _ "ensureAdditionalDisks E info"])
    case (wait r t)
    then show ?thesis
      using p1 by (simp add: createVM_def stateAfter_def nextWanted_def wanted_view [OF v1])
  next
    case (pass t2)
    note p2 = pass and v2 = stage_view(2) [OF pass(1), unfolded v1]
    show ?thesis
      using brings_placementGroup [OF E] p2(2) needed_view [OF v2 needed]
    proof (cases rule: bringsE [of R _ "ensurePlacementGroup E"])
      case (pass t3)
      note p3 = pass and v3 = stage_view(3) [OF pass(1), unfolded v2]
      show ?thesis
        using brings_publicIP [OF E] p3(2) needed_view [OF v3 needed]
      proof (cases rule: bringsE [of R _ "ensurePublicIP E info"])
        case (wait r t)
        then show ?thesis
          using p1 p2 p3
          by (simp add: createVM_def stateAfter_def nextWanted_def wanted_view [OF v1] wanted_view [OF v3])
      next
        case (pass t4)
        note p4 = pass and v4 = stage_view(4) [OF pass(1), unfolded v3]
        obtain t5 where p5: "run_state (ensureSecurityGroups E info) t4 = (None, t5)"
            "madeIn (calls t5) = groupsWanted (cur t4) - R"
          using securityGroups_run [OF E p4(2)] by blast
        note v5 = stage_view(5) [OF p5(1), unfolded v4]
        obtain r t6 where p6: "run_state (submitVM E u cl) t5 = (r, t6)"
            "madeIn (calls t6) = insert (vmOf (cur t5)) (madeIn (calls t5))"
          using submitVM_run [OF E osSettings_view [OF v5 os]] by blast
        show ?thesis
          using p1 p2 p3 p4 p5 p6
          by (simp add: createVM_def stateAfter_def nextWanted_def wanted_view [OF v1] wanted_view [OF v3]
              wanted_view [OF v4] wanted_view [OF v5])
      qed
    qed simp
  qed
qed

section \<open>What is deleted meanwhile\<close>

text \<open>Before the virtual machine is there, only tracked disks that are not wanted any more are deleted.\<close>

definition staleOnly :: "EvrocMachine \<Rightarrow> Call \<Rightarrow> bool" where
  "staleOnly m c \<longleftrightarrow> (\<forall>k n. c = SdkDelete k n \<longrightarrow>
     k = DiskK \<and> n \<in> mdk_ID ` set (trackedDisks m) \<and> (DiskK, n) \<notin> extraWanted m)"

abbreviation deletesNothing :: "Call \<Rightarrow> bool" where
  "deletesNothing c \<equiv> \<not> isDelete c"

lemma deletesNothing_stale: "emits deletesNothing k \<Longrightarrow> justAt (\<lambda>_. staleOnly m) k s"
  by (intro justAt_justifies emits_justifies) (auto simp: staleOnly_def elim!: emits_mono)

lemma stale_status:
  "emits deletesNothing (handleMachineError E err)" "emits deletesNothing ensureResources"
  "emits deletesNothing (setResources f)" "emits deletesNothing (persistResourcesStatus E)"
  unfolding ensureResources_def setResources_def persistResourcesStatus_def k8s_defs
  by (intro go_rules emits_handleMachineError; simp)+

lemma stale_stages:
  "emits deletesNothing (ensureBootDisk E info)" "emits deletesNothing (ensurePlacementGroup E)"
  "emits deletesNothing (ensurePublicIP E info)" "emits deletesNothing (ensureSecurityGroups E info)"
  "emits deletesNothing (submitVM E u cl)" "emits deletesNothing (bootstrapData E ow)"
  unfolding ensureBootDisk_def bootDiskFor_def ensurePlacementGroup_def reconcilePlacementGroup_def ensurePublicIP_def
    reconcilePublicIPCreation_def warnPublicIPTimeout_def ensureSecurityGroups_def reconcileMachineSecurityGroups_def
    ensureMachineSG_def submitVM_def bootstrapData_def pendingStage_def Let_def
  by (intro go_rules emits_early stale_status emits_ops; simp)+

lemma stale_additionalDisks: "emits (staleOnly m) (reconcileAdditionalDisks E m info)"
proof -
  have stale: "emits (staleOnly m) (deleteStaleDisks E (trackedDisks m) desired)"
    if "\<And>i. (DiskK, i) \<in> extraWanted m \<Longrightarrow> desired i" for desired
    unfolding deleteStaleDisks_def using that
    by (intro go_rules emits_deleteTolerant emits_ops) (auto simp: staleOnly_def)
  show ?thesis
    unfolding reconcileAdditionalDisks_def reconcileOneDisk_def Let_def
    by (intro go_rules stale emits_ops) (auto simp: staleOnly_def extraWanted_def)
qed

lemma bootDisk_tracked:
  assumes "run_state (ensureBootDisk E info) s = (None, t)"
  shows "trackedDisks (cur t) = trackedDisks (cur s)"
proof (cases "ms_RootDiskSize (m_Spec (cur s)) > 0")
  case False
  then show ?thesis
    using assms by (simp add: ensureBootDisk_def bootDiskFor_def)
next
  case True
  let ?n = "bootDiskName (om_Name (m_Meta (cur s)))"
  obtain d where "e_disk E (calls s) (SdkGet DiskK ?n) = Inr d" "s_diskReady E d"
    using assms True
    by (auto simp: ensureBootDisk_def bootDiskFor_def Let_def DiskService_Get_def
        split: sum.splits if_splits prod.splits option.splits)
  then show ?thesis
    using assms True
    by (auto simp: ensureBootDisk_def bootDiskFor_def Let_def DiskService_Get_def ensureResources_def
        setResources_def trackedDisks_def zeroMachineResources_def split: option.splits)
qed

lemma stale_ensureDisks:
  assumes "staleOnly (cur s) = staleOnly m"
  shows "justAt (\<lambda>_. staleOnly m) (ensureAdditionalDisks E info) s"
proof -
  have step: "justAt (\<lambda>_. staleOnly m) (reconcileAdditionalDisks E (cur s) info) s"
    using stale_additionalDisks [of "cur s" E info] assms
    by (intro justAt_justifies emits_justifies) simp_all
  show ?thesis
    unfolding ensureAdditionalDisks_def pendingStage_def
  proof (intro justAt_getCur justAt_onResult step)
  qed (intro deletesNothing_stale go_rules emits_early stale_status)+
qed

lemma stale_createVM: "justAt (\<lambda>_. staleOnly (cur s)) (createVM E u info cl) s"
proof -
  have "staleOnly (cur t) = staleOnly (cur s)" if "run_state (ensureBootDisk E info) s = (None, t)" for t
    using bootDisk_tracked [OF that] wanted_view(2) [OF stage_view(1) [OF that]]
    by (simp add: staleOnly_def fun_eq_iff)
  then show ?thesis
    unfolding createVM_def
    by (intro justAt_onError justAt_ret stale_ensureDisks deletesNothing_stale [OF stale_stages(1)]
        deletesNothing_stale [OF stale_stages(2)] deletesNothing_stale [OF stale_stages(3)]
        deletesNothing_stale [OF stale_stages(4)] deletesNothing_stale [OF stale_stages(5)]) simp
qed

end
