(* ===== verification/Provisioned.thy ===== *)
theory Provisioned
  imports Provision CreateProperties
begin

text \<open>
  A machine is provisioned: in a cloud that answers truly, accepts what it is sent and has it ready
  when it is next looked up, the reconciles of a machine whose cluster and bootstrap data are there
  set the machine up, give it a zone and create its virtual machine, from the first reconcile on.
\<close>

section \<open>A reconcile that comes to the creation\<close>

text \<open>The secret of a cluster makes a client.\<close>

definition credentialed :: "Env \<Rightarrow> EvrocCluster \<Rightarrow> bool" where
  "credentialed E cl \<longleftrightarrow>
     (\<exists>ref. cs_CredentialsRef (cl_Spec cl) = Some ref \<and> sref_Name ref \<noteq> '''' \<and>
        (\<forall>h. \<exists>s. e_secret E h (KGetSecret \<lparr>k_Namespace = om_Namespace (cl_Meta cl), k_Name = sref_Name ref\<rparr>) = Inr s \<and>
           mget (sec_Data s) ''serviceAccountID'' \<noteq> '''' \<and> mget (sec_Data s) ''serviceAccountSecret'' \<noteq> ''''))"

text \<open>The cluster of a machine is there, not paused, and its credentials make a client.\<close>

definition connected :: "Env \<Rightarrow> EvrocCluster \<Rightarrow> EvrocMachine \<Rightarrow> bool" where
  "connected E cl m \<longleftrightarrow>
     (\<exists>name ref. map_of (om_Labels (m_Meta m)) ClusterNameLabel = Some name \<and> name \<noteq> '''' \<and>
        (\<forall>h. \<exists>cc. e_capiCluster E h (KGetCapiCluster \<lparr>k_Namespace = om_Namespace (m_Meta m), k_Name = name\<rparr>) = Inr cc \<and>
           cc_Paused cc \<noteq> Some True \<and> cc_RefName cc = ref) \<and> ref \<noteq> '''' \<and>
        (\<forall>h. e_cluster E h (KGetCluster \<lparr>k_Namespace = om_Namespace (m_Meta m), k_Name = ref\<rparr>) = Inr cl)) \<and>
     credentialed E cl"

text \<open>Its owner names bootstrap data that a request can carry.\<close>

definition bootable :: "Env \<Rightarrow> EvrocMachine \<Rightarrow> bool" where
  "bootable E m \<longleftrightarrow>
     (case getOwnerMachineRef E (om_OwnerReferences (m_Meta m)) of (owner, version) \<Rightarrow> owner \<noteq> '''' \<and>
        (\<exists>n. n \<noteq> '''' \<and>
          (\<forall>h. \<exists>ow. e_owner E h (KGetOwnerMachine version \<lparr>k_Namespace = om_Namespace (m_Meta m), k_Name = owner\<rparr>) = Inr ow \<and>
             ow_DataSecretName ow = NestedFound n) \<and>
          (\<forall>h. \<exists>s os. e_secret E h (KGetSecret \<lparr>k_Namespace = om_Namespace (m_Meta m), k_Name = n\<rparr>) = Inr s \<and>
             buildOSSettings m (mergeUserData (s_mimeBoundary E) (mget (sec_Data s) ''value'')
               (ms_UserData (m_Spec m))) = Inr os)))"

text \<open>
  Its zone is set, or the controller can find one: the owner names it, or the cluster has failure
  domains among which to choose.
\<close>

definition zoneable :: "Env \<Rightarrow> EvrocCluster \<Rightarrow> EvrocMachine \<Rightarrow> bool" where
  "zoneable E cl m \<longleftrightarrow> mst_AvailabilityZone (m_Status m) \<noteq> '''' \<or>
     (case getOwnerMachineRef E (om_OwnerReferences (m_Meta m)) of (owner, version) \<Rightarrow>
        \<forall>h ow. e_owner E h (KGetOwnerMachine version \<lparr>k_Namespace = om_Namespace (m_Meta m), k_Name = owner\<rparr>) = Inr ow \<longrightarrow>
          (\<exists>z. z \<noteq> '''' \<and> ow_FailureDomain ow = NestedFound z) \<or>
          ow_FailureDomain ow = NestedAbsent \<and> cs_FailureDomains (cl_Spec cl) \<noteq> [] \<and>
            '''' \<notin> set (cs_FailureDomains (cl_Spec cl)) \<and>
            (\<forall>h. \<exists>items. e_machines E h (KListMachines (om_Namespace (m_Meta m))
               (mget (om_Labels (m_Meta m)) ClusterNameLabel)) = Inr items))"

text \<open>The API server accepts a write of the status, and answers with what was sent.\<close>

definition storesStatus :: "Env \<Rightarrow> bool" where
  "storesStatus E \<longleftrightarrow> (\<forall>h x. \<exists>y. e_machine E h (KStatusMachine x) = Inr y \<and>
     m_Meta y = (m_Meta x)\<lparr>om_ResourceVersion := om_ResourceVersion (m_Meta y)\<rparr> \<and>
     m_Spec y = m_Spec x \<and> m_Status y = m_Status x)"

text \<open>
  A machine that a reconcile can work for.  Its finalizer, its ownership ID and its zone may be
  missing: that the controller sets them is part of what is shown.
\<close>

definition attended :: "Env \<Rightarrow> Key \<Rightarrow> EvrocCluster \<Rightarrow> EvrocMachine \<Rightarrow> bool" where
  "attended E req cl m \<longleftrightarrow>
     e_machine E [] (KGetMachine req) = Inr m \<and> \<not> HasPausedAnnotation (m_Meta m) \<and> machineLive m \<and>
     \<not> customImageForeign m (Some cl) \<and> connected E cl m \<and> bootable E m \<and> zoneable E cl m \<and>
     storesStatus E \<and> (\<forall>h. e_uuid E h \<noteq> '''')"

abbreviation machineSetUp :: "EvrocMachine \<Rightarrow> bool" where
  "machineSetUp m \<equiv> machineOwned m \<and> machineProtected m"

lemma client_run:
  assumes "credentialed E cl" and err: "\<And>h c. e_err E h c = None"
  shows "fst (run_state (Machine_resolveCloudClient E m (Some cl)) s) = None"
proof -
  obtain ref where ref: "cs_CredentialsRef (cl_Spec cl) = Some ref" "sref_Name ref \<noteq> ''''"
      "\<And>h. \<exists>s. e_secret E h (KGetSecret \<lparr>k_Namespace = om_Namespace (cl_Meta cl), k_Name = sref_Name ref\<rparr>) = Inr s \<and>
           mget (sec_Data s) ''serviceAccountID'' \<noteq> '''' \<and> mget (sec_Data s) ''serviceAccountSecret'' \<noteq> ''''"
    using assms(1) unfolding credentialed_def by blast
  obtain s' where "e_secret E (calls s) (KGetSecret \<lparr>k_Namespace = om_Namespace (cl_Meta cl), k_Name = sref_Name ref\<rparr>) = Inr s'"
      "mget (sec_Data s') ''serviceAccountID'' \<noteq> ''''" "mget (sec_Data s') ''serviceAccountSecret'' \<noteq> ''''"
    using ref(3) by blast
  then show ?thesis
    using ref(1,2) err
    by (simp add: Machine_resolveCloudClient_def ClientForCluster_def configFromServiceAccountKeys_def
        NewClientFromConfig_def Let_def)
qed

lemma prelude_results:
  assumes "connected E cl m" and "\<not> HasPausedAnnotation (m_Meta m)" and "cur s = m"
  shows "fst (run_state (IsPaused machineOps E) s) = False"
    and "fst (run_state (resolveEvrocCluster E m) s') = Inr (Some cl)"
proof -
  obtain name ref where name: "map_of (om_Labels (m_Meta m)) ClusterNameLabel = Some name" "name \<noteq> ''''"
      "\<And>h. \<exists>cc. e_capiCluster E h (KGetCapiCluster \<lparr>k_Namespace = om_Namespace (m_Meta m), k_Name = name\<rparr>) = Inr cc \<and>
         cc_Paused cc \<noteq> Some True \<and> cc_RefName cc = ref"
    and ref: "ref \<noteq> ''''"
      "\<And>h. e_cluster E h (KGetCluster \<lparr>k_Namespace = om_Namespace (m_Meta m), k_Name = ref\<rparr>) = Inr cl"
    using assms(1) unfolding connected_def by blast
  obtain cc where "e_capiCluster E (calls s) (KGetCapiCluster \<lparr>k_Namespace = om_Namespace (m_Meta m), k_Name = name\<rparr>) = Inr cc"
      "cc_Paused cc \<noteq> Some True"
    using name(3) by blast
  then show "fst (run_state (IsPaused machineOps E) s) = False"
    using name(1,2) assms(2,3) by (simp add: IsPaused_def Let_def)
  obtain cc' where "e_capiCluster E (calls s') (KGetCapiCluster \<lparr>k_Namespace = om_Namespace (m_Meta m), k_Name = name\<rparr>) = Inr cc'"
      "cc_RefName cc' = ref"
    using name(3) by blast
  then show "fst (run_state (resolveEvrocCluster E m) s') = Inr (Some cl)"
    using name(1,2) ref by (simp add: resolveEvrocCluster_def Let_def mget_def)
qed

text \<open>What the prelude leaves: the machine as it was fetched, and no write.\<close>

definition untouched :: "EvrocMachine \<Rightarrow> EvrocMachine cst \<Rightarrow> bool" where
  "untouched m s \<longleftrightarrow> cur s = m \<and> list_all preludeCall (calls s)"

lemma untouched_step:
  assumes "untouched m s" and "emits preludeCall k" and "frames (\<lambda>x. x) k" and "run_state k s = (x, t)"
  shows "untouched m t"
proof -
  have "cur t = cur s"
    by (rule run_frames [OF assms(3,4)])
  moreover obtain xs where "calls t = calls s @ xs" "\<forall>c\<in>set xs. preludeCall c"
    using emits_calls [OF assms(2), of s] assms(4) by auto
  ultimately show ?thesis
    using assms(1) by (auto simp: untouched_def list_all_iff)
qed

lemma reach_dispatch:
  assumes "attended E req cl m" and err: "\<And>h c. e_err E h c = None"
  obtains s where "run_state (Machine_Reconcile E req) (startOf zeroMachine) = run_state (Machine_dispatch E (Some cl)) s"
    "untouched m s"
proof -
  have m: "e_machine E [] (KGetMachine req) = Inr m" "\<not> HasPausedAnnotation (m_Meta m)" "connected E cl m"
    using assms(1) unfolding attended_def by blast+
  have cred: "credentialed E cl"
    using m(3) by (simp add: connected_def)
  let ?s = "\<lparr>cur = m, calls = [KGetMachine req]\<rparr>"
  have s: "untouched m ?s"
    by (simp add: untouched_def)
  obtain p t where t: "run_state (IsPaused machineOps E) ?s = (p, t)"
    by fastforce
  have p: "p = False"
    using prelude_results(1) [OF m(3,2), of ?s] t by simp
  have ut: "untouched m t"
    by (rule untouched_step [OF s _ _ t]; intro emits_ops frames_ops) simp
  obtain r u where u: "run_state (resolveEvrocCluster E m) t = (r, u)"
    by fastforce
  have r: "r = Inr (Some cl)"
    using prelude_results(2) [OF m(3,2), of ?s t] u by simp
  have uu: "untouched m u"
    by (rule untouched_step [OF ut _ _ u]; intro emits_ops frames_ops) simp_all
  obtain x v where v: "run_state (Machine_resolveCloudClient E m (Some cl)) u = (x, v)"
    by fastforce
  have x: "x = None"
    using client_run [OF cred err, of m u] v by simp
  have uv: "untouched m v"
    by (rule untouched_step [OF uu _ _ v]; intro emits_ops frames_ops) simp_all
  have "cur t = m"
    using ut by (simp add: untouched_def)
  then have "run_state (Machine_afterFetch E) ?s = run_state (Machine_dispatch E (Some cl)) v"
    using t u v p r x by (simp add: Machine_afterFetch_def Machine_active_def)
  then show thesis
    using reconcile_fetched [OF m(1)] uv that by simp
qed

text \<open>
  A step that reads: no create, no delete and no update of the object.  What matters of the
  machine for the creation, its name, its namespace and its specification, stays.
\<close>

fun updatesMachine :: "Call \<Rightarrow> bool" where
  "updatesMachine (KUpdateMachine _) = True"
| "updatesMachine _ = False"

abbreviation readsOnly :: "Call \<Rightarrow> bool" where
  "readsOnly c \<equiv> \<not> isCreate c \<and> \<not> isDelete c \<and> \<not> updatesMachine c"

definition wishes :: "EvrocMachine \<Rightarrow> string \<times> string \<times> EvrocMachineSpec \<times> ManagedDisk list" where
  "wishes m = (om_Name (m_Meta m), om_Namespace (m_Meta m), m_Spec m, trackedDisks m)"

definition beside :: "EvrocMachine \<Rightarrow> EvrocMachine cst \<Rightarrow> bool" where
  "beside m s \<longleftrightarrow> wishes (cur s) = wishes m \<and> list_all readsOnly (calls s)"

lemma beside_quiet:
  assumes "beside m s"
  shows "madeIn (calls s) = {}" and "removedIn (calls s) = {}"
  using assms unfolding beside_def madeIn_def removedIn_def by (force simp: list_all_iff)+

lemma beside_frame:
  assumes "beside m s" and "emits readsOnly k" and "run_state k s = (x, t)" and "wishes (cur t) = wishes (cur s)"
  shows "beside m t"
proof -
  obtain xs where "calls t = calls s @ xs" "\<forall>c\<in>set xs. readsOnly c"
    using emits_calls [OF assms(2), of s] assms(3) by auto
  then show ?thesis
    using assms(1,4) by (auto simp: beside_def list_all_iff)
qed

lemma beside_step:
  assumes "beside m s" and "emits readsOnly k" and "frames (\<lambda>x. x) k" and "run_state k s = (x, t)"
  shows "beside m t"
  using beside_frame [OF assms(1,2,4)] run_frames [OF assms(3,4)] by simp

lemma prelude_reads: "preludeCall c \<Longrightarrow> readsOnly c"
  by (cases c) simp_all

lemma untouched_beside: "untouched m s \<Longrightarrow> beside m s"
  using prelude_reads by (auto simp: untouched_def beside_def list_all_iff)

lemma condition_run:
  obtains t where "run_state (setMachineCondition E c st sv r msg) s = ((), t)" "calls t = calls s"
    "m_Meta (cur t) = m_Meta (cur s)" "m_Spec (cur t) = m_Spec (cur s)"
    "mst_AvailabilityZone (m_Status (cur t)) = mst_AvailabilityZone (m_Status (cur s))"
    "trackedDisks (cur t) = trackedDisks (cur s)"
  by (rule that [of "snd (run_state (setMachineCondition E c st sv r msg) s)"])
     (simp_all add: setMachineCondition_def Machine_SetConditions_def trackedDisks_def)

text \<open>The zone is found, and stored in the status, before anything else is asked of the cloud.\<close>

lemma pickZone_run:
  assumes "cs_FailureDomains (cl_Spec cl) \<noteq> []" and "'''' \<notin> set (cs_FailureDomains (cl_Spec cl))"
    and "mget (om_Labels (m_Meta m)) ClusterNameLabel \<noteq> ''''"
    and "\<And>h. \<exists>items. e_machines E h (KListMachines (om_Namespace (m_Meta m))
               (mget (om_Labels (m_Meta m)) ClusterNameLabel)) = Inr items"
  obtains z where "run_state (pickZoneForMachine E m (Some cl)) s = (Inr z, s\<lparr>calls := calls s @
      [KListMachines (om_Namespace (m_Meta m)) (mget (om_Labels (m_Meta m)) ClusterNameLabel)]\<rparr>)" "z \<noteq> ''''"
proof -
  obtain items where items: "e_machines E (calls s) (KListMachines (om_Namespace (m_Meta m))
      (mget (om_Labels (m_Meta m)) ClusterNameLabel)) = Inr items"
    using assms(4) by blast
  let ?z = "leastUsedZone (cs_FailureDomains (cl_Spec cl)) (countZones (om_Name (m_Meta m)) items)"
  have "?z \<noteq> ''''"
    using leastUsedZone_in [OF assms(1)] assms(2) by metis
  then show thesis
    using assms(1,3) items by (intro that [of ?z]) (simp_all add: pickZoneForMachine_def Let_def)
qed

lemma persistZone_run:
  assumes "storesStatus E" and "z \<noteq> ''''"
  shows "\<exists>t. run_state (do {
       modCur (\<lambda>m. m\<lparr>m_Status := (m_Status m)\<lparr>mst_AvailabilityZone := z\<rparr>\<rparr>);
       onError (k8sStatusMachine E)
         (\<lambda>err. ret (Some (wrapErr ''persisting availability zone'' err))) (ret None) }) s = (None, t) \<and>
     wishes (cur t) = wishes (cur s)"
proof -
  let ?x = "(cur s)\<lparr>m_Status := (m_Status (cur s))\<lparr>mst_AvailabilityZone := z\<rparr>\<rparr>"
  obtain y where y: "e_machine E (calls s) (KStatusMachine ?x) = Inr y"
      "m_Meta y = (m_Meta ?x)\<lparr>om_ResourceVersion := om_ResourceVersion (m_Meta y)\<rparr>"
      "m_Spec y = m_Spec ?x" "m_Status y = m_Status ?x"
    using assms(1) [unfolded storesStatus_def, rule_format, of "calls s" ?x] by (elim exE conjE)
  have "om_Name (m_Meta y) = om_Name (m_Meta (cur s))" "om_Namespace (m_Meta y) = om_Namespace (m_Meta (cur s))"
    by (subst y(2), simp)+
  then show ?thesis
    using y(1,3,4) by (simp add: k8sStatusMachine_def storeReply_def wishes_def trackedDisks_def)
qed

lemma assignZone_run:
  assumes zone: "zoneable E cl m" and store: "storesStatus E"
    and named: "mget (om_Labels (m_Meta m)) ClusterNameLabel \<noteq> ''''"
    and ref: "getOwnerMachineRef E (om_OwnerReferences (m_Meta m)) = (owner, version)"
    and ow: "e_owner E h (KGetOwnerMachine version \<lparr>k_Namespace = om_Namespace (m_Meta m), k_Name = owner\<rparr>) = Inr ow"
    and s: "m_Meta (cur s) = m_Meta m" "mst_AvailabilityZone (m_Status (cur s)) = mst_AvailabilityZone (m_Status m)"
  obtains t where "run_state (assignZone E ow (Some cl)) s = (None, t)" "wishes (cur t) = wishes (cur s)"
proof (cases "mst_AvailabilityZone (m_Status m) = ''''")
  case False
  then show thesis
    using s(2) by (intro that [of s]) (simp_all add: assignZone_def)
next
  case True
  have source: "(\<exists>z. z \<noteq> '''' \<and> ow_FailureDomain ow = NestedFound z) \<or>
      ow_FailureDomain ow = NestedAbsent \<and> cs_FailureDomains (cl_Spec cl) \<noteq> [] \<and>
        '''' \<notin> set (cs_FailureDomains (cl_Spec cl)) \<and>
        (\<forall>h. \<exists>items. e_machines E h (KListMachines (om_Namespace (m_Meta m))
           (mget (om_Labels (m_Meta m)) ClusterNameLabel)) = Inr items)"
    using zone True ow unfolding zoneable_def ref prod.case by blast
  have "\<exists>t. run_state (pickAndUpdateZoneForMachine E ow (Some cl)) s = (None, t) \<and> wishes (cur t) = wishes (cur s)"
    using source
  proof (elim disjE exE conjE)
    fix z
    assume "z \<noteq> ''''" "ow_FailureDomain ow = NestedFound z"
    then show ?thesis
      using persistZone_run [OF store, of z s]
      by (simp add: pickAndUpdateZoneForMachine_def nestedString_def)
  next
    assume absent: "ow_FailureDomain ow = NestedAbsent" and fds: "cs_FailureDomains (cl_Spec cl) \<noteq> []"
        "'''' \<notin> set (cs_FailureDomains (cl_Spec cl))"
      and lists: "\<forall>h. \<exists>items. e_machines E h (KListMachines (om_Namespace (m_Meta m))
           (mget (om_Labels (m_Meta m)) ClusterNameLabel)) = Inr items"
    obtain z where z: "run_state (pickZoneForMachine E (cur s) (Some cl)) s = (Inr z, s\<lparr>calls := calls s @
        [KListMachines (om_Namespace (m_Meta m)) (mget (om_Labels (m_Meta m)) ClusterNameLabel)]\<rparr>)" "z \<noteq> ''''"
      using pickZone_run [OF fds, where m = "cur s" and E = E and s = s] named lists unfolding s(1) by blast
    let ?u = "s\<lparr>calls := calls s @ [KListMachines (om_Namespace (m_Meta m)) (mget (om_Labels (m_Meta m)) ClusterNameLabel)]\<rparr>"
    show ?thesis
      using persistZone_run [OF store z(2), of ?u] z absent
      by (simp add: pickAndUpdateZoneForMachine_def nestedString_def)
  qed
  then show thesis
    using True s(2) that by (auto simp: assignZone_def)
qed

lemma reads_assignZone: "emits readsOnly (assignZone E ow cl)"
  unfolding assignZone_def pickAndUpdateZoneForMachine_def pickZoneForMachine_def k8s_defs Let_def
  by (intro go_rules emits_early emits_handleMachineError emits_ops; simp)

lemma bootstrap_run:
  assumes "bootable E m" and "om_Namespace (m_Meta (cur s)) = om_Namespace (m_Meta m)"
    and "getOwnerMachineRef E (om_OwnerReferences (m_Meta m)) = (owner, version)"
    and "e_owner E h (KGetOwnerMachine version \<lparr>k_Namespace = om_Namespace (m_Meta m), k_Name = owner\<rparr>) = Inr ow"
  obtains d os where "fst (run_state (bootstrapData E ow) s) = Inr d"
    "buildOSSettings m (mergeUserData (s_mimeBoundary E) d (ms_UserData (m_Spec m))) = Inr os"
proof -
  obtain n where n: "n \<noteq> ''''"
    and named: "\<forall>h. \<exists>ow. e_owner E h (KGetOwnerMachine version \<lparr>k_Namespace = om_Namespace (m_Meta m), k_Name = owner\<rparr>) =
          Inr ow \<and> ow_DataSecretName ow = NestedFound n"
    and data: "\<forall>h. \<exists>s os. e_secret E h (KGetSecret \<lparr>k_Namespace = om_Namespace (m_Meta m), k_Name = n\<rparr>) = Inr s \<and>
          buildOSSettings m (mergeUserData (s_mimeBoundary E) (mget (sec_Data s) ''value'') (ms_UserData (m_Spec m))) = Inr os"
    using assms(1) unfolding bootable_def assms(3) prod.case by (elim conjE exE)
  have ow: "ow_DataSecretName ow = NestedFound n"
    using named [rule_format, of h] assms(4) by simp
  obtain s' os where s': "e_secret E (calls s) (KGetSecret \<lparr>k_Namespace = om_Namespace (m_Meta m), k_Name = n\<rparr>) = Inr s'"
      "buildOSSettings m (mergeUserData (s_mimeBoundary E) (mget (sec_Data s') ''value'') (ms_UserData (m_Spec m))) = Inr os"
    using data [rule_format, of "calls s"] by (elim conjE exE)
  have "fst (run_state (bootstrapData E ow) s) = Inr (mget (sec_Data s') ''value'')"
    using n ow s'(1) assms(2) by (simp add: bootstrapData_def nestedString_def)
  then show thesis
    using s'(2) by (rule that)
qed

lemma reads_bootstrapData: "emits readsOnly (bootstrapData E ow)" "frames (\<lambda>x. x) (bootstrapData E ow)"
  unfolding bootstrapData_def by (intro go_rules frames_rules; simp)+

lemma reach_creation:
  assumes att: "attended E req cl m" and ready: "machineSetUp m" and E: "provides E R" and absent: "vmOf m \<notin> R"
    and s: "untouched m s"
  obtains u os v where "run_state (Machine_dispatch E (Some cl)) s =
      run_state (createVM E u (clusterLabelInfoFrom (Some cl)) (Some cl)) v"
    "beside m v" "buildOSSettings m u = Inr os"
proof -
  have m: "machineLive m" "\<not> customImageForeign m (Some cl)" "connected E cl m" "bootable E m" "zoneable E cl m"
      "storesStatus E"
    using att unfolding attended_def by blast+
  have cur: "cur s = m"
    using s by (simp add: untouched_def)
  have named: "mget (om_Labels (m_Meta m)) ClusterNameLabel \<noteq> ''''"
    using m(3) unfolding connected_def by (auto simp: mget_def)
  obtain owner version where ref: "getOwnerMachineRef E (om_OwnerReferences (m_Meta m)) = (owner, version)"
    by fastforce
  have owner: "owner \<noteq> ''''" and answers: "\<And>h. \<exists>ow. e_owner E h (KGetOwnerMachine version
      \<lparr>k_Namespace = om_Namespace (m_Meta m), k_Name = owner\<rparr>) = Inr ow"
    using m(4) ref unfolding bootable_def by auto
  let ?ask = "KGetOwnerMachine version \<lparr>k_Namespace = om_Namespace (m_Meta m), k_Name = owner\<rparr>"
  obtain t where t: "run_state (setMachineCondition E PausedCondition ConditionFalse SeverityNone ''Reconciling''
      ''Reconciliation is active'') s = ((), t)" "calls t = calls s" "m_Meta (cur t) = m_Meta (cur s)"
      "m_Spec (cur t) = m_Spec (cur s)"
      "mst_AvailabilityZone (m_Status (cur t)) = mst_AvailabilityZone (m_Status (cur s))"
      "trackedDisks (cur t) = trackedDisks (cur s)"
    by (rule condition_run)
  have bt: "beside m t"
    using untouched_beside [OF s] t(2-) by (simp add: beside_def wishes_def)
  obtain ow where ow: "e_owner E (calls t) ?ask = Inr ow"
    using answers by blast
  let ?u = "t\<lparr>calls := calls t @ [?ask]\<rparr>"
  have bu: "beside m ?u"
    using bt by (simp add: beside_def)
  obtain z where z: "run_state (assignZone E ow (Some cl)) ?u = (None, z)" "wishes (cur z) = wishes (cur ?u)"
    using assignZone_run [OF m(5,6) named ref ow, of ?u thesis] t(3,5) cur by auto
  have bz: "beside m z"
    by (rule beside_frame [OF bu reads_assignZone z])
  have name: "om_Name (m_Meta (cur z)) = om_Name (m_Meta m)"
    using bz by (simp add: beside_def wishes_def)
  obtain e where e: "e_vm E (calls z) (SdkGet VirtualMachineK (om_Name (m_Meta m))) = Inl e" "errIs e NotFoundM"
    using providesD(8) [OF E, of "om_Name (m_Meta m)" "calls z"] beside_quiet(1) [OF bz] absent by auto
  let ?w = "z\<lparr>calls := calls z @ [SdkGet VirtualMachineK (om_Name (m_Meta m))]\<rparr>"
  obtain e' where get: "run_state (VirtualMachineService_Get E (om_Name (m_Meta m))) z = (Inl e', ?w)" "IsNotFoundError e'"
    by (rule virtualMachineR.get_refusal [OF e])
  have bw: "beside m ?w"
    using bz by (simp add: beside_def)
  obtain d os where d: "fst (run_state (bootstrapData E ow) ?w) = Inr d"
      "buildOSSettings m (mergeUserData (s_mimeBoundary E) d (ms_UserData (m_Spec m))) = Inr os"
    using bootstrap_run [OF m(4) _ ref ow, of ?w thesis] bw by (auto simp: beside_def wishes_def)
  obtain v where v: "run_state (bootstrapData E ow) ?w = (Inr d, v)"
    using d(1) by (metis prod.collapse)
  have bv: "beside m v"
    by (rule beside_step [OF bw reads_bootstrapData v])
  have "m_Spec (cur v) = m_Spec m"
    using bv by (simp add: beside_def wishes_def)
  then have "run_state (Machine_dispatch E (Some cl)) s = run_state (createVM E
      (mergeUserData (s_mimeBoundary E) d (ms_UserData (m_Spec m))) (clusterLabelInfoFrom (Some cl)) (Some cl)) v"
    using m(1,2) ready cur ref owner t(1) ow z(1) get v name
    by (simp add: dispatch_ready Machine_reconcileNormal_def reconcileOwned_def)
  then show thesis
    by (rule that [OF _ bv d(2)])
qed

lemma wanted_same:
  assumes "om_Name (m_Meta x) = om_Name (m_Meta m)" and "m_Spec x = m_Spec m"
  shows "extraWanted x = extraWanted m" "needed x = needed m" "vmOf x = vmOf m" "nextWanted x = nextWanted m"
  using assms unfolding nextWanted_def bootWanted_def extraWanted_def ipWanted_def groupsWanted_def needed_def
    publicIPConfig_def inlineGroupsOf_def machineSGConfig_def by presburger+

lemma createVM_keepsObject: "emits (\<lambda>c. \<not> updatesMachine c) (createVM E u info cl)"
  unfolding createVM_def ensureBootDisk_def bootDiskFor_def ensureAdditionalDisks_def reconcileAdditionalDisks_def
    reconcileOneDisk_def deleteStaleDisks_def ensurePlacementGroup_def reconcilePlacementGroup_def ensurePublicIP_def
    reconcilePublicIPCreation_def warnPublicIPTimeout_def ensureSecurityGroups_def reconcileMachineSecurityGroups_def
    ensureMachineSG_def submitVM_def pendingStage_def ensureResources_def setResources_def
    persistResourcesStatus_def k8s_defs Let_def
  by (intro go_rules emits_early emits_handleMachineError emits_deleteTolerant emits_ops; simp)

text \<open>
  One reconcile of a machine that is set up creates what is next, deletes only disks that are not
  wanted, and leaves the finalizer and the ownership ID alone.
\<close>

lemma reconcile_provisions:
  assumes att: "attended E req cl m" and ready: "machineSetUp m" and E: "provides E R" and needed: "needed m \<subseteq> R"
    and absent: "vmOf m \<notin> R"
  shows "madeIn (machineCalls E req) = nextWanted m R \<and>
    (\<forall>c\<in>set (machineCalls E req). staleOnly m c \<and> \<not> updatesMachine c)"
proof -
  have err: "e_err E h c = None" for h c
    by (rule providesD(15) [OF E])
  obtain s where s: "run_state (Machine_Reconcile E req) (startOf zeroMachine) = run_state (Machine_dispatch E (Some cl)) s"
      "untouched m s"
    using reach_dispatch [OF att err] by blast
  obtain u os v where v: "run_state (Machine_dispatch E (Some cl)) s =
      run_state (createVM E u (clusterLabelInfoFrom (Some cl)) (Some cl)) v" "beside m v" "buildOSSettings m u = Inr os"
    by (rule reach_creation [OF att ready E absent s(2)])
  have view: "om_Name (m_Meta (cur v)) = om_Name (m_Meta m)" "m_Spec (cur v) = m_Spec m"
      "trackedDisks (cur v) = trackedDisks m" "list_all readsOnly (calls v)"
    using v(2) by (simp_all add: beside_def wishes_def)
  note same = wanted_same [OF view(1,2)]
  have os: "buildOSSettings (cur v) u = Inr os"
    using v(3) view(2) unfolding buildOSSettings_def by presburger
  let ?create = "createVM E u (clusterLabelInfoFrom (Some cl)) (Some cl)"
  have sent: "machineCalls E req = calls (stateAfter ?create v)"
    using s(1) v(1) by (simp add: emitted_def stateAfter_def startOf_def)
  have made: "madeIn (calls (stateAfter ?create v)) = nextWanted (cur v) R"
    by (rule createVM_made [OF E beside_quiet(1) [OF v(2)] _ os]) (use needed same in simp)
  have "staleOnly (cur v) = staleOnly m"
    using view(3) same(1) by (simp add: staleOnly_def fun_eq_iff)
  then have rel: "justRel (\<lambda>_. staleOnly m) [] v (stateAfter ?create v)"
    using stale_createVM [of v E u "clusterLabelInfoFrom (Some cl)" "Some cl"] by (simp add: justAt_def stateAfter_def)
  obtain xs where xs: "calls (stateAfter ?create v) = calls v @ xs"
      "\<forall>ys c zs. xs = ys @ c # zs \<longrightarrow> staleOnly m c"
    using rel unfolding justRel_def by auto
  have kept: "\<forall>c\<in>set xs. \<not> updatesMachine c"
    using emits_calls [OF createVM_keepsObject [of E u "clusterLabelInfoFrom (Some cl)" "Some cl"], of v] xs(1)
    by (auto simp: stateAfter_def)
  have "staleOnly m c" if "c \<in> set xs" for c
    using xs(2) split_list [OF that] by blast
  moreover have "staleOnly m c \<and> \<not> updatesMachine c" if "c \<in> set (calls v)" for c
    using view(4) that by (auto simp: list_all_iff staleOnly_def)
  ultimately have "\<forall>c\<in>set (calls (stateAfter ?create v)). staleOnly m c \<and> \<not> updatesMachine c"
    using xs(1) kept by auto
  with made show ?thesis
    using sent same(4) by simp
qed

text \<open>One of a machine that is not yet set up does that, and nothing else.\<close>

lemma reconcile_sets_up:
  assumes att: "attended E req cl m" and unready: "\<not> machineSetUp m" and err: "\<And>h c. e_err E h c = None"
  shows "madeIn (machineCalls E req) = {} \<and> removedIn (machineCalls E req) = {} \<and>
    (\<exists>x. KUpdateMachine x \<in> set (machineCalls E req)) \<and>
    (\<forall>x. KUpdateMachine x \<in> set (machineCalls E req) \<longrightarrow> machineSetUp x \<and>
       (\<exists>h. machineOwnershipID (Some x) = (if machineOwned m then machineOwnershipID (Some m) else e_uuid E h)))"
proof -
  obtain s where s: "run_state (Machine_Reconcile E req) (startOf zeroMachine) = run_state (Machine_dispatch E (Some cl)) s"
      "untouched m s"
    using reach_dispatch [OF att err] by blast
  have live: "machineLive (cur s)" "\<not> machineSetUp (cur s)" and uuid: "\<And>h. e_uuid E h \<noteq> ''''"
    using att unready s(2) by (simp_all add: attended_def untouched_def)
  obtain x where x: "calls (stateAfter (Machine_dispatch E (Some cl)) s) = calls s @ [KUpdateMachine x]" "machineProtected x"
      "machineOwnershipID (Some x) = (if machineOwned (cur s) then machineOwnershipID (Some (cur s)) else e_uuid E (calls s))"
    by (rule dispatch_unready [OF live])
  have sent: "machineCalls E req = calls s @ [KUpdateMachine x]"
    using s(1) x(1) by (simp add: emitted_def stateAfter_def startOf_def)
  have b: "beside m s"
    by (rule untouched_beside [OF s(2)])
  then have "\<forall>c\<in>set (calls s). \<not> updatesMachine c"
    by (auto simp: beside_def list_all_iff)
  then have only: "y = x" if "KUpdateMachine y \<in> set (machineCalls E req)" for y
    using that sent by auto
  have "machineSetUp x"
    using x(2,3) uuid by (simp split: if_splits)
  moreover have "machineOwnershipID (Some x) = (if machineOwned m then machineOwnershipID (Some m) else e_uuid E (calls s))"
    using x(3) s(2) by (simp add: untouched_def)
  ultimately have "\<forall>y. KUpdateMachine y \<in> set (machineCalls E req) \<longrightarrow> machineSetUp y \<and>
      (\<exists>h. machineOwnershipID (Some y) = (if machineOwned m then machineOwnershipID (Some m) else e_uuid E h))"
    using only by metis
  moreover have "KUpdateMachine x \<in> set (machineCalls E req)"
    unfolding sent by simp
  moreover have "madeIn (machineCalls E req) = {}" "removedIn (machineCalls E req) = removedIn (calls s)"
    unfolding sent using beside_quiet(1) [OF b] by (simp, simp add: removedIn_def)
  ultimately show ?thesis
    unfolding beside_quiet(2) [OF b] by blast
qed

section \<open>Progress\<close>

definition allWanted :: "EvrocMachine \<Rightarrow> inventory" where
  "allWanted m = insert (vmOf m) (bootWanted m \<union> extraWanted m \<union> ipWanted m \<union> groupsWanted m)"

definition stageOf :: "EvrocMachine \<Rightarrow> inventory \<Rightarrow> nat" where
  "stageOf m R = (if \<not> bootWanted m \<subseteq> R then 0 else if \<not> extraWanted m \<subseteq> R then 1
     else if \<not> ipWanted m \<subseteq> R then 2 else 3)"

lemma wanted_kept:
  assumes stale: "\<forall>c\<in>set h. staleOnly m c" and boot: "bootDiskName (om_Name (m_Meta m)) \<notin> mdk_ID ` set (trackedDisks m)"
    and x: "x \<in> allWanted m \<union> needed m"
  shows "x \<notin> removedIn h"
proof
  assume "x \<in> removedIn h"
  then have "fst x = DiskK" "snd x \<in> mdk_ID ` set (trackedDisks m)" "x \<notin> extraWanted m"
    using stale by (auto simp: removedIn_def staleOnly_def)
  then show False
    using x boot by (auto simp: allWanted_def bootWanted_def ipWanted_def groupsWanted_def needed_def split: option.splits if_splits)
qed

lemma provision_step:
  assumes made: "madeIn h = nextWanted m R" and stale: "\<forall>c\<in>set h. staleOnly m c"
    and boot: "bootDiskName (om_Name (m_Meta m)) \<notin> mdk_ID ` set (trackedDisks m)"
    and step: "(R \<union> madeIn h) - removedIn h \<subseteq> R'"
  shows "stageOf m R < stageOf m R' \<or> allWanted m \<subseteq> R'" and "needed m \<subseteq> R \<Longrightarrow> needed m \<subseteq> R'"
proof -
  have kept: "W \<subseteq> R'" if "W \<subseteq> R \<union> nextWanted m R" "W \<subseteq> allWanted m \<union> needed m" for W
    using that step wanted_kept [OF stale boot] made by blast
  then show "needed m \<subseteq> R \<Longrightarrow> needed m \<subseteq> R'"
    by blast
  have parts: "bootWanted m \<subseteq> allWanted m" "extraWanted m \<subseteq> allWanted m" "ipWanted m \<subseteq> allWanted m"
    by (auto simp: allWanted_def)
  consider (boot) "\<not> bootWanted m \<subseteq> R" "nextWanted m R = bootWanted m - R"
    | (extra) "bootWanted m \<subseteq> R" "\<not> extraWanted m \<subseteq> R" "nextWanted m R = extraWanted m - R"
    | (ip) "bootWanted m \<subseteq> R" "extraWanted m \<subseteq> R" "\<not> ipWanted m \<subseteq> R" "nextWanted m R = ipWanted m - R"
    | (vm) "bootWanted m \<subseteq> R" "extraWanted m \<subseteq> R" "ipWanted m \<subseteq> R"
    by (auto simp: nextWanted_def)
  then show "stageOf m R < stageOf m R' \<or> allWanted m \<subseteq> R'"
  proof cases
    case boot
    have "bootWanted m \<subseteq> R'"
      by (rule kept; use boot parts in blast)
    then show ?thesis
      using boot by (simp add: stageOf_def)
  next
    case extra
    have "bootWanted m \<subseteq> R'" "extraWanted m \<subseteq> R'"
      by (rule kept; use extra parts in blast)+
    then show ?thesis
      using extra by (simp add: stageOf_def)
  next
    case ip
    have "bootWanted m \<subseteq> R'" "extraWanted m \<subseteq> R'" "ipWanted m \<subseteq> R'"
      by (rule kept; use ip parts in blast)+
    then show ?thesis
      using ip by (simp add: stageOf_def)
  next
    case vm
    then have "allWanted m \<subseteq> R \<union> nextWanted m R"
      by (auto simp: nextWanted_def allWanted_def)
    then show ?thesis
      using kept [of "allWanted m"] by blast
  qed
qed

lemma vm_last: "stageOf m R < 3 \<Longrightarrow> vmOf m \<notin> nextWanted m R"
  by (auto simp: stageOf_def nextWanted_def bootWanted_def extraWanted_def ipWanted_def split: if_splits option.splits)

lemma stage_bound: "stageOf m R \<le> 3"
  by (simp add: stageOf_def)

text \<open>
  The machine as it is stored after a reconcile: with the finalizer and the ownership ID of the
  update that was sent, if there was one, and otherwise with those it had.
\<close>

definition sameSetUp :: "EvrocMachine \<Rightarrow> EvrocMachine \<Rightarrow> bool" where
  "sameSetUp x y \<longleftrightarrow> machineOwnershipID (Some x) = machineOwnershipID (Some y) \<and> machineProtected x = machineProtected y"

definition storedAfter :: "Call list \<Rightarrow> EvrocMachine \<Rightarrow> EvrocMachine \<Rightarrow> bool" where
  "storedAfter h x y \<longleftrightarrow> (\<forall>u. KUpdateMachine u \<in> set h \<longrightarrow> sameSetUp y u) \<and>
     ((\<forall>u. KUpdateMachine u \<notin> set h) \<longrightarrow> sameSetUp y x)"

text \<open>
  The reconciles of a machine, one after another, in a cloud whose content they change, as long as
  its virtual machine is not there.  Its name
  and specification stay, nobody else makes a virtual machine of its name, and its status does not
  list its boot disk among the data disks.
\<close>

definition provisioning ::
    "(nat \<Rightarrow> Env) \<Rightarrow> (nat \<Rightarrow> EvrocMachine) \<Rightarrow> (nat \<Rightarrow> inventory) \<Rightarrow> Key \<Rightarrow> bool" where
  "provisioning E m R req \<longleftrightarrow>
     (\<forall>i. vmOf (m 0) \<notin> R i \<longrightarrow> provides (E i) (R i) \<and> (\<exists>cl. attended (E i) req cl (m i)) \<and>
        om_Name (m_Meta (m i)) = om_Name (m_Meta (m 0)) \<and> m_Spec (m i) = m_Spec (m 0) \<and>
        bootDiskName (om_Name (m_Meta (m i))) \<notin> mdk_ID ` set (trackedDisks (m i)) \<and>
        (let h = machineCalls (E i) req in (R i \<union> madeIn h) - removedIn h \<subseteq> R (Suc i) \<and>
           (vmOf (m 0) \<in> R (Suc i) \<longrightarrow> vmOf (m 0) \<in> R i \<union> madeIn h) \<and>
           storedAfter h (m i) (m (Suc i))))"

lemma goal_same:
  assumes "om_Name (m_Meta x) = om_Name (m_Meta m)" and "m_Spec x = m_Spec m"
  shows "allWanted x = allWanted m" "stageOf x = stageOf m"
  using assms unfolding allWanted_def stageOf_def bootWanted_def extraWanted_def ipWanted_def groupsWanted_def
    publicIPConfig_def inlineGroupsOf_def machineSGConfig_def by presburger+

lemma stored_kept:
  assumes "storedAfter h x y" and "machineSetUp x" and "\<forall>c\<in>set h. \<not> updatesMachine c"
  shows "machineSetUp y"
proof -
  have "sameSetUp y x"
    using assms(1,3) unfolding storedAfter_def by (metis updatesMachine.simps(1))
  then show ?thesis
    using assms(2) by (simp add: sameSetUp_def)
qed

lemma stored_set_up:
  assumes "storedAfter h x y" and "KUpdateMachine u \<in> set h" and "machineSetUp u"
  shows "machineSetUp y"
proof -
  have "sameSetUp y u"
    using assms(1,2) unfolding storedAfter_def by blast
  then show ?thesis
    using assms(3) by (simp add: sameSetUp_def)
qed

lemma provisioning_step:
  assumes run: "provisioning E m R req" and needed: "needed (m 0) \<subseteq> R i" and absent: "vmOf (m 0) \<notin> R i"
  shows "madeIn (machineCalls (E i) req) = (if machineSetUp (m i) then nextWanted (m 0) (R i) else {})"
    and "machineSetUp (m (Suc i))" and "needed (m 0) \<subseteq> R (Suc i)"
    and "allWanted (m 0) \<subseteq> R (Suc i) \<or> vmOf (m 0) \<notin> R (Suc i) \<and>
      stageOf (m 0) (R i) + (if machineSetUp (m i) then 1 else 0) \<le> stageOf (m 0) (R (Suc i))"
proof -
  let ?h = "machineCalls (E i) req"
  obtain cl where E: "provides (E i) (R i)" and att: "attended (E i) req cl (m i)"
      and same: "om_Name (m_Meta (m i)) = om_Name (m_Meta (m 0))" "m_Spec (m i) = m_Spec (m 0)"
      and boot: "bootDiskName (om_Name (m_Meta (m i))) \<notin> mdk_ID ` set (trackedDisks (m i))"
      and step: "(R i \<union> madeIn ?h) - removedIn ?h \<subseteq> R (Suc i)"
      and vm: "vmOf (m 0) \<in> R (Suc i) \<longrightarrow> vmOf (m 0) \<in> R i \<union> madeIn ?h"
      and stored: "storedAfter ?h (m i) (m (Suc i))"
    using run absent unfolding provisioning_def Let_def by blast
  note view = wanted_same [OF same] goal_same [OF same]
  have "madeIn ?h = (if machineSetUp (m i) then nextWanted (m 0) (R i) else {}) \<and>
      machineSetUp (m (Suc i)) \<and> needed (m 0) \<subseteq> R (Suc i) \<and>
      (allWanted (m 0) \<subseteq> R (Suc i) \<or> vmOf (m 0) \<notin> R (Suc i) \<and>
        stageOf (m 0) (R i) + (if machineSetUp (m i) then 1 else 0) \<le> stageOf (m 0) (R (Suc i)))"
  proof (cases "machineSetUp (m i)")
    case True
    have made: "madeIn ?h = nextWanted (m i) (R i)" and stale: "\<forall>c\<in>set ?h. staleOnly (m i) c"
        and kept: "\<forall>c\<in>set ?h. \<not> updatesMachine c"
      using reconcile_provisions [OF att True E] needed absent view by auto
    have "vmOf (m 0) \<notin> R (Suc i)" if "stageOf (m 0) (R i) < stageOf (m 0) (R (Suc i))"
    proof -
      have "stageOf (m 0) (R i) < 3"
        using that stage_bound [of "m 0" "R (Suc i)"] by linarith
      then show ?thesis
        using vm vm_last absent made view(4) by auto
    qed
    then show ?thesis
      using True made stored_kept [OF stored True kept] provision_step [OF made stale boot step] needed view by auto
  next
    case False
    have quiet: "madeIn ?h = {}" "removedIn ?h = {}"
        and sent: "\<exists>x. KUpdateMachine x \<in> set ?h \<and> machineSetUp x"
      using reconcile_sets_up [OF att False] providesD(15) [OF E] by blast+
    then have next_set: "machineSetUp (m (Suc i))"
      using stored_set_up [OF stored] by blast
    have more: "R i \<subseteq> R (Suc i)"
      using step quiet by simp
    then have "stageOf (m 0) (R i) \<le> stageOf (m 0) (R (Suc i))"
      by (auto simp: stageOf_def)
    moreover have "vmOf (m 0) \<notin> R (Suc i)"
      using vm absent quiet(1) by blast
    moreover have "needed (m 0) \<subseteq> R (Suc i)"
      using needed more by blast
    ultimately show ?thesis
      using False quiet(1) next_set unfolding if_not_P [OF False] by simp
  qed
  then show "madeIn ?h = (if machineSetUp (m i) then nextWanted (m 0) (R i) else {})"
    "machineSetUp (m (Suc i))" "needed (m 0) \<subseteq> R (Suc i)"
    "allWanted (m 0) \<subseteq> R (Suc i) \<or> vmOf (m 0) \<notin> R (Suc i) \<and>
      stageOf (m 0) (R i) + (if machineSetUp (m i) then 1 else 0) \<le> stageOf (m 0) (R (Suc i))"
    by blast+
qed

text \<open>
  C3. In a cloud that answers truly, accepts what it is sent and has it ready when it is next looked
  up, a machine without a virtual machine gets it, and with it everything its specification asks
  for: its boot disk, its other disks, its address and its security groups.  It takes four
  reconciles at most from a machine that has its finalizer and its ownership ID, and five from a
  fresh one: its first reconcile stores these two and creates nothing, and every later one creates
  exactly what is next.  The machine is neither paused nor being deleted; its cluster, the
  cluster's credentials, its owner and its bootstrap data are there; a missing zone is found on
  the way, from the owner or the cluster; and the user keeps the specification, supplies what the
  machine names as existing, and does not list the boot disk among the data disks of its status.
\<close>

theorem machine_provisioned:
  assumes run: "provisioning E m R req" and start: "needed (m 0) \<subseteq> R 0" "vmOf (m 0) \<notin> R 0"
  shows "\<exists>i < (if machineSetUp (m 0) then 4 else 5). allWanted (m 0) \<subseteq> R (Suc i) \<and>
    (\<forall>j\<le>i. vmOf (m 0) \<notin> R j \<and> (0 < j \<longrightarrow> machineSetUp (m j)) \<and>
       madeIn (machineCalls (E j) req) = (if machineSetUp (m j) then nextWanted (m 0) (R j) else {}))"
proof (rule ccontr)
  assume contra: "\<not> ?thesis"
  let ?n = "if machineSetUp (m 0) then 4 else 5 :: nat"
  let ?right = "\<lambda>j. vmOf (m 0) \<notin> R j \<and> (0 < j \<longrightarrow> machineSetUp (m j)) \<and>
    madeIn (machineCalls (E j) req) = (if machineSetUp (m j) then nextWanted (m 0) (R j) else {})"
  have "(\<forall>j<i. ?right j) \<and> vmOf (m 0) \<notin> R i \<and> needed (m 0) \<subseteq> R i \<and> (0 < i \<longrightarrow> machineSetUp (m i)) \<and>
      i \<le> stageOf (m 0) (R i) + (?n - 4)" if "i \<le> ?n" for i
    using that
  proof (induction i)
    case (Suc i)
    have IH: "\<forall>j<i. ?right j" "vmOf (m 0) \<notin> R i" "needed (m 0) \<subseteq> R i" "0 < i \<longrightarrow> machineSetUp (m i)"
        "i \<le> stageOf (m 0) (R i) + (?n - 4)"
      using Suc by simp_all
    note step = provisioning_step [OF run IH(3,2)]
    have right: "\<forall>j\<le>i. ?right j"
      using IH(1,2,4) step(1) by (auto simp: le_less)
    have "i < ?n"
      using Suc.prems by simp
    then have "\<not> allWanted (m 0) \<subseteq> R (Suc i)"
      using contra right by blast
    then have "vmOf (m 0) \<notin> R (Suc i)"
        "stageOf (m 0) (R i) + (if machineSetUp (m i) then 1 else 0) \<le> stageOf (m 0) (R (Suc i))"
      using step(4) by blast+
    moreover have "Suc i \<le> stageOf (m 0) (R (Suc i)) + (?n - 4)"
      using calculation(2) IH(4,5) by (cases i) (auto split: if_splits)
    ultimately show ?case
      using right step(2,3) by (simp add: less_Suc_eq_le)
  qed (use start in simp)
  from this [of ?n] have "?n \<le> stageOf (m 0) (R ?n) + (?n - 4)"
    by blast
  moreover have "\<not> ?n \<le> 3 + (?n - 4)"
    by simp
  ultimately show False
    using stage_bound [of "m 0" "R ?n"] by (meson add_le_mono1 le_trans)
qed

text \<open>
  A machine as the user makes it, with a data disk and an address of its own and nothing that the
  controller sets, in a cloud that starts empty.
\<close>

definition freshMachine :: EvrocMachine where
  "freshMachine = (exampleMachine None)\<lparr>m_Meta := exampleMeta [(ClusterNameLabel, ''c'')] [] [] None,
     m_Spec := (m_Spec (exampleMachine None))
       \<lparr>ms_AdditionalDisks := [\<lparr>ad_Name = ''d'', ad_SizeGB = 1, ad_Image = None\<rparr>],
        ms_NetworkingConfig := Some \<lparr>mnc_PublicIP = Some \<lparr>pip_Enabled = True, pip_ExistingID = None\<rparr>,
          mnc_SecurityGroups = None\<rparr>\<rparr>,
     m_Status := (m_Status (exampleMachine None))\<lparr>mst_AvailabilityZone := ''''\<rparr>\<rparr>"

text \<open>What the API server has after the first reconcile.\<close>

definition setUpMachine :: EvrocMachine where
  "setUpMachine = freshMachine\<lparr>m_Meta := exampleMeta [(ClusterNameLabel, ''c'')]
     [(machineOwnershipIDAnnotation, ''u'')] [machineFinalizer] None\<rparr>"

definition machineAt :: "nat \<Rightarrow> EvrocMachine" where
  "machineAt i = (if i = 0 then freshMachine else setUpMachine)"

definition onShelf :: "inventory \<Rightarrow> 'a \<Rightarrow> 'a reply" where
  "onShelf R x h c = (case c of SdkGet k n \<Rightarrow> if (k, n) \<in> R \<union> madeIn h then Inr x else Inl notFound | _ \<Rightarrow> Inr x)"

definition stocked :: "EvrocMachine \<Rightarrow> inventory \<Rightarrow> Env" where
  "stocked m R = (machineWorld None)
     \<lparr>e_machine := (\<lambda>_ c. case c of KUpdateMachine x \<Rightarrow> Inr x | KStatusMachine x \<Rightarrow> Inr x | _ \<Rightarrow> Inr m),
      e_disk := onShelf R \<lparr>d_Meta = \<lparr>md_Id = ''d'', md_Uid = ''1''\<rparr>, d_Conditions = None, d_State = ''''\<rparr>,
      e_ip := onShelf R \<lparr>ip_Meta = \<lparr>md_Id = ''i'', md_Uid = ''1''\<rparr>, ip_Address = Some ''1''\<rparr>,
      e_sg := onShelf R \<lparr>sg_Meta = \<lparr>md_Id = ''g'', md_Uid = ''1''\<rparr>, sg_Rules = None\<rparr>,
      e_pg := onShelf R \<lparr>pg_Meta = \<lparr>md_Id = ''p'', md_Uid = ''1''\<rparr>\<rparr>,
      e_vm := onShelf R \<lparr>vm_Meta = \<lparr>md_Id = ''m'', md_Uid = ''1''\<rparr>, vm_PlacementGroupRef = None,
        vm_PublicIPRef = None, vm_Networking = None, vm_State = ''''\<rparr>\<rparr>"

primrec stock :: "nat \<Rightarrow> inventory" where
  "stock 0 = {}"
| "stock (Suc i) = (let h = machineCalls (stocked (machineAt i) (stock i)) exampleKey in (stock i \<union> madeIn h) - removedIn h)"

lemma onShelf_simps:
  "onShelf R x h (SdkGet k n) = (if (k, n) \<in> R \<union> madeIn h then Inr x else Inl notFound)"
  "onShelf R x h (SdkCreate r) = Inr x" "onShelf R x h (SdkPatchSG n g) = Inr x"
  by (simp_all add: onShelf_def)

lemma stocked_provides: "provides (stocked m R) R"
proof -
  have "errIs notFound NotFoundM"
    by (simp add: notFound_def errIs_def)
  then show ?thesis
    unfolding provides_def
    by (intro conjI allI) (simp_all add: stocked_def machineWorld_def emptyWorld_def onShelf_simps)
qed

lemma machineAt_cases: "machineAt i = freshMachine \<or> machineAt i = setUpMachine"
  by (simp add: machineAt_def)

lemma stocked_attended: "attended (stocked (machineAt i) R) exampleKey exampleCluster (machineAt i)"
proof -
  have "attended (stocked m R) exampleKey exampleCluster m" if "m = freshMachine \<or> m = setUpMachine" for m
  proof -
    note defs = stocked_def machineWorld_def emptyWorld_def setUpMachine_def freshMachine_def exampleMachine_def
      exampleMeta_def exampleCluster_def exampleSecret_def zeroMachine_def zeroCluster_def
    have "connected (stocked m R) exampleCluster m"
      using that by (auto simp: connected_def credentialed_def defs mget_def)
    moreover have "bootable (stocked m R) m"
      using that by (auto simp: bootable_def defs mget_def buildOSSettings_def injectSSHKeyIntoCloudInit_def)
    moreover have "zoneable (stocked m R) exampleCluster m"
      using that by (auto simp: zoneable_def defs)
    moreover have "storesStatus (stocked m R)"
      by (simp add: storesStatus_def stocked_def)
    moreover have "\<not> HasPausedAnnotation (m_Meta m) \<and> machineLive m \<and> \<not> customImageForeign m (Some exampleCluster)"
      using that by (elim disjE; simp only:; code_simp)
    moreover have "e_machine (stocked m R) [] (KGetMachine exampleKey) = Inr m" "\<And>h. e_uuid (stocked m R) h \<noteq> ''''"
      by (simp_all add: stocked_def machineWorld_def emptyWorld_def)
    ultimately show ?thesis
      unfolding attended_def by blast
  qed
  then show ?thesis
    using machineAt_cases by blast
qed

lemma freshMachine_simps:
  "om_Name (m_Meta freshMachine) = ''m''" "\<not> machineOwned freshMachine" "trackedDisks freshMachine = []"
  "needed freshMachine = {}"
  "om_Name (m_Meta setUpMachine) = ''m''" "m_Spec setUpMachine = m_Spec freshMachine" "trackedDisks setUpMachine = []"
  "machineOwnershipID (Some setUpMachine) = ''u''" "machineProtected setUpMachine"
  by (simp_all add: setUpMachine_def freshMachine_def exampleMachine_def exampleMeta_def zeroMachine_def
      machineOwnershipID_def mget_def trackedDisks_def needed_def publicIPConfig_def hasFinalizer_def)

lemma stocked_err: "e_err (stocked m R) h c = None" "e_uuid (stocked m R) h = ''u''"
  by (simp_all add: stocked_def machineWorld_def emptyWorld_def)

lemma stocked_stores:
  assumes "vmOf freshMachine \<notin> R"
  shows "storedAfter (machineCalls (stocked (machineAt i) R) exampleKey) (machineAt i) (machineAt (Suc i))"
proof (cases i)
  case 0
  have "\<not> machineSetUp (machineAt i)"
    using 0 freshMachine_simps(2) by (simp add: machineAt_def)
  note fixed = reconcile_sets_up [OF stocked_attended this stocked_err(1)]
  have "sameSetUp setUpMachine u" if "KUpdateMachine u \<in> set (machineCalls (stocked (machineAt i) R) exampleKey)" for u
    using fixed that freshMachine_simps 0 stocked_err(2) by (auto simp: machineAt_def sameSetUp_def)
  then show ?thesis
    using fixed [of R] 0 unfolding storedAfter_def by (simp add: machineAt_def) blast
next
  case (Suc j)
  then have here: "machineAt i = setUpMachine" "machineAt (Suc i) = setUpMachine"
    by (simp_all add: machineAt_def)
  have ready: "machineSetUp (machineAt i)"
    unfolding here by (simp add: freshMachine_simps)
  have needs: "needed (machineAt i) \<subseteq> R" "vmOf (machineAt i) \<notin> R"
    using assms wanted_same(2) [of setUpMachine freshMachine] unfolding here by (simp_all add: freshMachine_simps)
  have "\<forall>c\<in>set (machineCalls (stocked (machineAt i) R) exampleKey). \<not> updatesMachine c"
    using reconcile_provisions [OF stocked_attended ready stocked_provides needs] by blast
  then show ?thesis
    unfolding storedAfter_def here by (auto simp: sameSetUp_def)
qed

theorem machine_provisioned_witness:
  "\<exists>i<5. {(DiskK, ''m-boot-disk''), (DiskK, additionalDiskName ''m'' ''d''), (PublicIPK, managedPublicIPName ''m''),
     (VirtualMachineK, ''m'')} \<subseteq> stock (Suc i)"
proof -
  let ?E = "\<lambda>i. stocked (machineAt i) (stock i)"
  have here: "om_Name (m_Meta (machineAt i)) = ''m'' \<and> m_Spec (machineAt i) = m_Spec freshMachine \<and>
      trackedDisks (machineAt i) = []" for i
    by (simp add: machineAt_def freshMachine_simps)
  have start: "machineAt 0 = freshMachine"
    by (simp add: machineAt_def)
  have "provisioning ?E machineAt stock exampleKey"
    unfolding provisioning_def Let_def start
  proof (intro allI impI conjI exI)
    fix i
    assume absent: "vmOf freshMachine \<notin> stock i"
    show "provides (?E i) (stock i)"
      by (rule stocked_provides)
    show "attended (?E i) exampleKey exampleCluster (machineAt i)"
      by (rule stocked_attended)
    show "storedAfter (machineCalls (?E i) exampleKey) (machineAt i) (machineAt (Suc i))"
      by (rule stocked_stores [OF absent])
    show "bootDiskName (om_Name (m_Meta (machineAt i))) \<notin> mdk_ID ` set (trackedDisks (machineAt i))"
      using here [of i] by simp
  qed (use here freshMachine_simps in \<open>auto simp: Let_def\<close>)
  moreover have "needed (machineAt 0) \<subseteq> stock 0" "vmOf (machineAt 0) \<notin> stock 0"
    unfolding start by (simp_all add: freshMachine_simps)
  moreover have "\<not> machineSetUp (machineAt 0)"
    unfolding start using freshMachine_simps(2) by blast
  ultimately obtain i where "i < 5" "allWanted (machineAt 0) \<subseteq> stock (Suc i)"
    using machine_provisioned [of ?E machineAt stock exampleKey] by (auto split: if_splits)
  moreover have "{(DiskK, ''m-boot-disk''), (DiskK, additionalDiskName ''m'' ''d''), (PublicIPK, managedPublicIPName ''m''),
      (VirtualMachineK, ''m'')} \<subseteq> allWanted freshMachine"
    unfolding allWanted_def bootWanted_def extraWanted_def ipWanted_def publicIPConfig_def freshMachine_simps
    by (simp add: freshMachine_def exampleMachine_def zeroMachine_def bootDiskName_def)
  ultimately show ?thesis
    unfolding start by blast
qed

end
