(* ===== verification/ClusterReady.thy ===== *)
theory ClusterReady
  imports Provisioned ClusterStatus
begin

text \<open>
  Progress of a cluster: once its load balancer is active, one reconcile brings it to ready, in a
  cloud that answers truly and accepts what it is sent.
\<close>

section \<open>Computations that succeed\<close>

definition succeeds :: "('o, goerr + 'a) go \<Rightarrow> bool" where
  "succeeds m \<longleftrightarrow> (\<forall>s. \<exists>y t. run_state m s = (Inr y, t))"

definition passes :: "('o, goerr option) go \<Rightarrow> bool" where
  "passes m \<longleftrightarrow> (\<forall>s. \<exists>t. run_state m s = (None, t))"

lemma succeedsE:
  assumes "succeeds m"
  obtains y t where "run_state m s = (Inr y, t)"
  using assms unfolding succeeds_def by blast

lemma passesE:
  assumes "passes m"
  obtains t where "run_state m s = (None, t)"
  using assms unfolding passes_def by blast

lemma succeeds_ret: "succeeds (ret (Inr x))"
  by (simp add: succeeds_def)

lemma passes_ret: "passes (ret None)"
  by (simp add: passes_def)

lemma succeeds_onResult:
  assumes "succeeds m" and "\<And>x. succeeds (k x)"
  shows "succeeds (onResult m h k)"
  unfolding succeeds_def
proof
  fix s
  obtain x t where x: "run_state m s = (Inr x, t)"
    by (rule succeedsE [OF assms(1)])
  obtain y u where "run_state (k x) t = (Inr y, u)"
    by (rule succeedsE [OF assms(2)])
  with x show "\<exists>y t. run_state (onResult m h k) s = (Inr y, t)"
    by simp
qed

lemma passes_onResult:
  assumes "succeeds m" and "\<And>x. passes (k x)"
  shows "passes (onResult m h k)"
  unfolding passes_def
proof
  fix s
  obtain x t where x: "run_state m s = (Inr x, t)"
    by (rule succeedsE [OF assms(1)])
  obtain u where "run_state (k x) t = (None, u)"
    by (rule passesE [OF assms(2)])
  with x show "\<exists>t. run_state (onResult m h k) s = (None, t)"
    by simp
qed

lemma passes_onError:
  assumes "passes m" and "passes k"
  shows "passes (onError m h k)"
  unfolding passes_def
proof
  fix s
  obtain t where t: "run_state m s = (None, t)"
    by (rule passesE [OF assms(1)])
  obtain u where "run_state k t = (None, u)"
    by (rule passesE [OF assms(2)])
  with t show "\<exists>t. run_state (onError m h k) s = (None, t)"
    by simp
qed

lemma passes_getCur: "(\<And>x. passes (f x)) \<Longrightarrow> passes (State_Monad.bind getCur f)"
  by (simp add: passes_def)

lemma passes_modCur: "passes k \<Longrightarrow> passes (State_Monad.bind (modCur f) (\<lambda>_. k))"
  by (simp add: passes_def)

lemma passes_if: "(b \<Longrightarrow> passes m) \<Longrightarrow> (\<not> b \<Longrightarrow> passes m') \<Longrightarrow> passes (if b then m else m')"
  by simp

lemma succeeds_mapEach:
  assumes "\<And>x. x \<in> set xs \<Longrightarrow> succeeds (f x)"
  shows "succeeds (mapEach f xs)"
  unfolding succeeds_def
proof
  fix s
  show "\<exists>y t. run_state (mapEach f xs) s = (Inr y, t)"
    using assms
  proof (induction xs arbitrary: s)
    case (Cons x xs)
    obtain y t where x: "run_state (f x) s = (Inr y, t)"
      by (rule succeedsE [of "f x"]) (simp add: Cons.prems)
    obtain z u where "run_state (mapEach f xs) t = (Inr z, u)"
      using Cons.IH [of t] Cons.prems by auto
    with x show ?case
      by simp
  qed simp
qed

lemma passes_forEach:
  assumes "\<And>x. x \<in> set xs \<Longrightarrow> passes (f x)"
  shows "passes (forEach f xs)"
  unfolding passes_def
proof
  fix s
  show "\<exists>t. run_state (forEach f xs) s = (None, t)"
    using assms
  proof (induction xs arbitrary: s)
    case (Cons x xs)
    obtain t where x: "run_state (f x) s = (None, t)"
      by (rule passesE [of "f x"]) (simp add: Cons.prems)
    obtain u where "run_state (forEach f xs) t = (None, u)"
      using Cons.IH [of t] Cons.prems by auto
    with x show ?case
      by simp
  qed simp
qed

section \<open>The security groups\<close>

lemma clusterSG_succeeds:
  assumes E: "provides E R"
  shows "succeeds (ensureClusterSG E c p role g :: ('a, _) go)"
  unfolding succeeds_def
proof
  fix s :: "'a cst"
  let ?n = "inlineSGName p g"
  let ?s = "s\<lparr>calls := calls s @ [SdkGet SecurityGroupK ?n]\<rparr>"
  let ?rules = "ConvertSecurityGroupRulesToSDK (isg_Rules g)"
  note defs = ensureClusterSG_def Let_def
  show "\<exists>y t. run_state (ensureClusterSG E c p role g) s = (Inr y, t)"
  proof (cases "(SecurityGroupK, ?n) \<in> R \<union> madeIn (calls s)")
    case True
    then have there: "(SecurityGroupK, ?n) \<in> R \<union> madeIn (calls ?s)"
      by simp
    obtain a where a: "e_sg E (calls s) (SdkGet SecurityGroupK ?n) = Inr a"
      using providesD(5) [OF E True] by blast
    obtain b where b: "e_sg E (calls ?s) (SdkGet SecurityGroupK ?n) = Inr b"
      using providesD(5) [OF E there] by blast
    let ?t = "?s\<lparr>calls := calls ?s @ [SdkGet SecurityGroupK ?n]\<rparr>"
    obtain x where "e_sg E (calls ?t) (SdkPatchSG ?n (b\<lparr>sg_Rules := Some ?rules\<rparr>)) = Inr x"
      using providesD(14) [OF E, of "calls ?t" ?n "b\<lparr>sg_Rules := Some ?rules\<rparr>"] by blast
    then show ?thesis
      using securityGroupR.exists_answer [OF a] securityGroupR.get_answer [OF b]
      by (simp add: defs SecurityGroupService_Update_def)
  next
    case False
    obtain e where e: "e_sg E (calls s) (SdkGet SecurityGroupK ?n) = Inl e" "errIs e NotFoundM"
      using providesD(6) [OF E False] by blast
    obtain y t where "run_state (SecurityGroupService_Create E ?n ?rules (clusterResourceLabels c) (resolveVPCName c)) ?s
        = (Inr y, t)" "madeIn (calls t) = insert (SecurityGroupK, ?n) (madeIn (calls ?s))"
      by (rule acceptsE [OF accepts_creates(3) [OF E]])
    then show ?thesis
      using securityGroupR.exists_refusal [OF e] by (simp add: defs)
  qed
qed

lemma checkExistingSG_succeeds:
  assumes E: "provides E R" and there: "(SecurityGroupK, n) \<in> R"
  shows "succeeds (checkExistingSG E role n :: ('a, _) go)"
  unfolding succeeds_def
proof
  fix s :: "'a cst"
  obtain a where "e_sg E (calls s) (SdkGet SecurityGroupK n) = Inr a"
    using providesD(5) [OF E, of n "calls s"] there by blast
  then show "\<exists>y t. run_state (checkExistingSG E role n) s = (Inr y, t)"
    by (simp add: checkExistingSG_def securityGroupR.exists_answer)
qed

text \<open>The groups that the specification names as existing.\<close>

definition namedGroups :: "EvrocCluster \<Rightarrow> inventory" where
  "namedGroups c = (case cs_SecurityGroups (cl_Spec c) of None \<Rightarrow> {}
     | Some cfg \<Rightarrow> {(SecurityGroupK, i) | i role sg. (role, sg) \<in> set (sgSections cfg) \<and> i \<in> set (sgc_ExistingIDs sg)})"

lemma tolerant_passes: "(\<And>h c. e_err E h c = None) \<Longrightarrow> passes (deleteTolerant b (SecurityGroupService_Delete E n))"
  by (simp add: passes_def deleteTolerant_def SecurityGroupService_Delete_def)

lemma touchMachine_passes: "passes (touchMachine E v m)"
  unfolding touchMachine_def passes_def by (simp split: sum.split)

lemma onVMs_passes:
  assumes "\<And>h c. \<exists>ms. e_machines E h c = Inr ms"
  shows "passes (reconcileClusterSecurityGroupsOnVMs E c)"
proof -
  have "succeeds (invoke (e_machines E) k)" for k :: Call
    using assms by (simp add: succeeds_def)
  then show ?thesis
    unfolding reconcileClusterSecurityGroupsOnVMs_def
    by (intro passes_onResult passes_forEach touchMachine_passes)
qed

lemma stale_passes: "(\<And>h c. e_err E h c = None) \<Longrightarrow> passes (deleteStaleSecurityGroups E c d)"
  unfolding deleteStaleSecurityGroups_def by (intro passes_forEach passes_if passes_ret tolerant_passes)

lemma section_succeeds:
  assumes "provides E R" and "\<And>i. i \<in> set (sgc_ExistingIDs sg) \<Longrightarrow> (SecurityGroupK, i) \<in> R"
  shows "succeeds (reconcileSecurityGroupSection E c p role sg)"
  unfolding reconcileSecurityGroupSection_def
  by (intro succeeds_onResult succeeds_mapEach succeeds_ret clusterSG_succeeds [OF assms(1)]
      checkExistingSG_succeeds [OF assms(1)] assms(2))

lemma wantedSGs_passes:
  assumes E: "provides E R" and machines: "\<And>h c. \<exists>ms. e_machines E h c = Inr ms"
    and named: "\<And>role sg i. (role, sg) \<in> set (sgSections cfg) \<Longrightarrow> i \<in> set (sgc_ExistingIDs sg) \<Longrightarrow> (SecurityGroupK, i) \<in> R"
  shows "passes (reconcileWantedSGs E cfg p)"
proof -
  have "succeeds (mapEach (\<lambda>(role, config). reconcileSecurityGroupSection E c p role config) (sgSections cfg))"
    for c :: EvrocCluster
    using named by (intro succeeds_mapEach) (auto intro!: section_succeeds [OF E])
  then show ?thesis
    unfolding reconcileWantedSGs_def
    by (intro passes_getCur passes_onResult passes_onError passes_modCur passes_ret onVMs_passes machines
        stale_passes providesD(15) [OF E])
qed

lemma removeAllSGs_passes:
  assumes "\<And>h c. e_err E h c = None" and "\<And>h c. \<exists>ms. e_machines E h c = Inr ms"
  shows "passes (removeAllSGs E)"
  unfolding removeAllSGs_def
  by (intro passes_getCur passes_onError passes_if passes_modCur passes_ret onVMs_passes stale_passes assms)

lemma prefix_there: "om_UID (cl_Meta c) \<noteq> '''' \<Longrightarrow> \<exists>p c'. clusterResourcePrefix c = Inr (p, c')"
  unfolding clusterResourcePrefix_def Let_def by (auto split: option.split)

lemma securityGroups_pass:
  assumes E: "provides E R" and machines: "\<And>h c. \<exists>ms. e_machines E h c = Inr ms"
    and named: "namedGroups (cur s) \<subseteq> R" and uid: "om_UID (cl_Meta (cur s)) \<noteq> ''''"
  obtains t where "run_state (reconcileSecurityGroups E) s = (None, t)"
proof (cases "cs_SecurityGroups (cl_Spec (cur s))")
  case None
  then show thesis
    using passesE [OF removeAllSGs_passes [of E, OF providesD(15) [OF E] machines], of s] that
    by (auto simp: reconcileSecurityGroups_def)
next
  case (Some cfg)
  have wanted: "passes (reconcileWantedSGs E cfg p)" for p
    using named Some by (intro wantedSGs_passes [OF E machines]) (auto simp: namedGroups_def)
  obtain q c' where "clusterResourcePrefix (cur s) = Inr (q, c')"
    using prefix_there [OF uid] by blast
  then have "\<exists>p u. run_state (securityGroupPrefix cfg) s = (Inr p, u)"
    by (simp add: securityGroupPrefix_def)
  then obtain p u where "run_state (securityGroupPrefix cfg) s = (Inr p, u)"
    by blast
  moreover obtain t where "run_state (reconcileWantedSGs E cfg p) u = (None, t)"
    by (rule passesE [OF wanted])
  ultimately show thesis
    using that Some by (simp add: reconcileSecurityGroups_def)
qed

section \<open>The load balancer\<close>

text \<open>The load balancer of the name is there, active, and has an address.\<close>

definition activeLB :: "Env \<Rightarrow> string \<Rightarrow> bool" where
  "activeLB E n \<longleftrightarrow> (\<exists>ip. ip \<noteq> '''' \<and>
     (\<forall>h. (\<exists>lb. e_lb E h (SdkGet LoadBalancerK n) = Inr lb \<and> s_lbReady E lb \<and> s_nameFromRef E (lb_PublicIPRef lb) = ip) \<and>
        (\<exists>i. e_ip E h (SdkGet PublicIPK ip) = Inr i \<and> s_publicIPAddress E i \<noteq> '''')))"

lemma activeLB_run:
  assumes "activeLB E n"
  obtains lb t where "run_state (LoadBalancerService_Get E n) s = (Inr lb, t)" "lbr_Address lb \<noteq> ''''" "IsActive lb"
    "cur t = cur s"
proof -
  obtain ip where ip: "ip \<noteq> ''''"
    and lb: "\<forall>h. \<exists>lb. e_lb E h (SdkGet LoadBalancerK n) = Inr lb \<and> s_lbReady E lb \<and> s_nameFromRef E (lb_PublicIPRef lb) = ip"
    and addr: "\<forall>h. \<exists>i. e_ip E h (SdkGet PublicIPK ip) = Inr i \<and> s_publicIPAddress E i \<noteq> ''''"
    using assms unfolding activeLB_def by blast
  obtain x where x: "e_lb E (calls s) (SdkGet LoadBalancerK n) = Inr x" "s_lbReady E x"
      "s_nameFromRef E (lb_PublicIPRef x) = ip"
    using lb by blast
  let ?h = "calls s @ [SdkGet LoadBalancerK n]"
  obtain i where i: "e_ip E ?h (SdkGet PublicIPK ip) = Inr i" "s_publicIPAddress E i \<noteq> ''''"
    using addr by blast
  show thesis
    using x i ip that
    by (cases "e_pool E (?h @ [SdkGet PublicIPK ip]) (SdkGet BackendPoolK (poolName n))")
       (auto simp: LoadBalancerService_Get_def buildLoadBalancer_def Let_def IsActive_def)
qed

lemma endpoint_passes:
  assumes name: "ShouldManageControlPlaneEndpoint (Some (cur s)) \<Longrightarrow> \<exists>n. lbNameOf (cur s) = Some n \<and> activeLB E n"
  obtains t where "run_state (ensureEndpoint E) s = (None, t)"
proof (cases "ShouldManageControlPlaneEndpoint (Some (cur s))")
  case False
  then show thesis
    using that by (simp add: ensureEndpoint_def)
next
  case True
  then obtain n c' where n: "resolveLoadBalancerName (cur s) = Inr (n, c')" "activeLB E n"
    using name by (auto simp: lbNameOf_def split: sum.splits)
  obtain lb u where u: "run_state (LoadBalancerService_Get E n) (s\<lparr>cur := c'\<rparr>) = (Inr lb, u)" "lbr_Address lb \<noteq> ''''"
      "IsActive lb" "cur u = cur (s\<lparr>cur := c'\<rparr>)"
    by (rule activeLB_run [OF n(2)])
  obtain t where "run_state (useLoadBalancer E lb) u = (Inr 0, t)"
    using useLoadBalancer_settles [OF u(2), of "\<lambda>_. True"] by blast
  then show thesis
    using that True n(1) u(1,2,3)
    by (simp add: ensureEndpoint_def reconcileAutoCreatedLoadBalancer_def getOrCreateLB_def)
qed

section \<open>The reconcile\<close>

text \<open>What the cluster relies on: the names it gives, its load balancer, and the list of its machines.\<close>

definition furnished :: "Env \<Rightarrow> inventory \<Rightarrow> EvrocCluster \<Rightarrow> bool" where
  "furnished E R c \<longleftrightarrow> provides E R \<and> namedGroups c \<subseteq> R \<and> om_UID (cl_Meta c) \<noteq> '''' \<and>
     (\<forall>h k. \<exists>ms. e_machines E h k = Inr ms) \<and> s_newPatchHelper E c = None \<and>
     (ShouldManageControlPlaneEndpoint (Some c) \<longrightarrow> (\<exists>n. lbNameOf c = Some n \<and> activeLB E n))"

definition readyReport :: "Env \<Rightarrow> EvrocCluster \<Rightarrow> bool" where
  "readyReport E a \<longleftrightarrow> cst_Ready (cl_Status a) \<and>
     cst_Initialization (cl_Status a) = \<lparr>ci_Provisioned = Some True, ci_InfrastructureProvisioned = Some True\<rparr> \<and>
     (\<exists>d. conditionOf ReadyCondition (Cluster_GetConditions a) = Some d \<and> c_Status d = ConditionTrue)"

lemma markProvisioned_ready:
  obtains t where "run_state (do { modCur markProvisioned;
      setClusterCondition E ReadyCondition ConditionTrue SeverityNone ClusterReadyReason ''''; ret finished }) s =
        (finished, t)" "readyReport E (cur t)"
proof -
  let ?new = "\<lparr>c_Type = ReadyCondition, c_Status = ConditionTrue, c_Severity = SeverityNone,
      c_LastTransitionTime = e_now E (calls s), c_Reason = ClusterReadyReason, c_Message = ''''\<rparr>"
  let ?x = "markProvisioned (cur s)"
  let ?y = "Cluster_SetConditions ?x (setConditionList ?new (Cluster_GetConditions ?x))"
  have "\<exists>d. conditionOf ReadyCondition (Cluster_GetConditions ?y) = Some d \<and> c_Status d = ConditionTrue"
    using clusterConds.condition_after_set [of ?new ?x] by (auto split: option.splits)
  then have "readyReport E ?y"
    by (simp add: readyReport_def Cluster_SetConditions_def markProvisioned_def)
  then show thesis
    by (intro that [of "s\<lparr>cur := ?y\<rparr>"]) (simp_all add: setClusterCondition_def)
qed

lemma body_ready:
  assumes F: "furnished E R (cur s)"
  obtains t where "run_state (reconcileClusterBody E) s = (finished, t)" "readyReport E (cur t)"
    "ShouldManageControlPlaneEndpoint (Some (cur s)) \<longrightarrow> lbSettled E (cur t)"
proof -
  have E: "provides E R" and named: "namedGroups (cur s) \<subseteq> R" and uid: "om_UID (cl_Meta (cur s)) \<noteq> ''''"
    and machines: "\<And>h k. \<exists>ms. e_machines E h k = Inr ms"
    and lb: "ShouldManageControlPlaneEndpoint (Some (cur s)) \<Longrightarrow> \<exists>n. lbNameOf (cur s) = Some n \<and> activeLB E n"
    using F unfolding furnished_def by blast+
  obtain y where y: "cl_Spec (cur y) = cl_Spec (cur s)" "cl_Meta (cur y) = cl_Meta (cur s)"
      "cst_Resources (cl_Status (cur y)) = cst_Resources (cl_Status (cur s))"
    and run: "run_state (reconcileClusterBody E) s = run_state (onError (ensureEndpoint E) ret
      (onError (reconcileSecurityGroups E) (handleClusterError E)
         (do { modCur markProvisioned;
            setClusterCondition E ReadyCondition ConditionTrue SeverityNone ClusterReadyReason '''';
            ret finished }))) y"
    by (rule run_start [of s E])
  obtain u where u: "run_state (ensureEndpoint E) y = (None, u)"
    using endpoint_passes [of y E] lb y lbNameOf_kept [OF y(2,3)] by (auto simp: ShouldManageControlPlaneEndpoint_def)
  have grown: "clusterGrows E (cur y) (cur u)"
    by (rule grow.follows_run [OF grow_ensureEndpoint u])
  have spec: "(cl_Spec (cur u))\<lparr>cs_ControlPlaneEndpoint := cs_ControlPlaneEndpoint (cl_Spec (cur y))\<rparr> = cl_Spec (cur y)"
    and meta: "(cl_Meta (cur u))\<lparr>om_Annotations := []\<rparr> = (cl_Meta (cur y))\<lparr>om_Annotations := []\<rparr>"
    using grown unfolding clusterGrows_def by blast+
  have "cs_SecurityGroups (cl_Spec (cur u)) = cs_SecurityGroups (cl_Spec (cur y))" "om_UID (cl_Meta (cur u)) = om_UID (cl_Meta (cur y))"
    using arg_cong [OF spec, of cs_SecurityGroups] arg_cong [OF meta, of om_UID] by simp_all
  then obtain v where v: "run_state (reconcileSecurityGroups E) u = (None, v)"
    using securityGroups_pass [OF E machines, of u] named uid y by (auto simp: namedGroups_def)
  obtain t where "run_state (do { modCur markProvisioned;
      setClusterCondition E ReadyCondition ConditionTrue SeverityNone ClusterReadyReason ''''; ret finished }) v =
        (finished, t)" "readyReport E (cur t)"
    by (rule markProvisioned_ready)
  moreover have "lbSettled E (cur t)" if "ShouldManageControlPlaneEndpoint (Some (cur s))"
  proof -
    have "ShouldManageControlPlaneEndpoint (Some (cur y))"
      using that y(1) by (simp add: ShouldManageControlPlaneEndpoint_def)
    then obtain n where "lbSettledBy E (\<lambda>l. lbAnswered E n l (calls u)) (cur u)"
      using ensureEndpoint_settles [OF u] by blast
    then have "lbSettledBy E (\<lambda>l. lbAnswered E n l (calls u)) (cur v)"
      using settle.follows_run [OF settle_securityGroups v] by (simp add: staysSettled_def)
    then show ?thesis
      using run_finish [of E _ v] calculation(1) lbSettled_by by fastforce
  qed
  ultimately show thesis
    using that run u v by simp
qed

lemma normal_ready:
  assumes F: "furnished E R (cur s)"
  obtains t where "run_state (Cluster_reconcileNormal E) s = (finished, t)"
    "last (calls t) = KPatchCluster (cur s) (cur t)" "readyReport E (cur t)"
    "ShouldManageControlPlaneEndpoint (Some (cur s)) \<longrightarrow> lbSettled E (cur t)"
proof -
  obtain u where u: "run_state (reconcileClusterBody E) s = (finished, u)" "readyReport E (cur u)"
      "ShouldManageControlPlaneEndpoint (Some (cur s)) \<longrightarrow> lbSettled E (cur u)"
    by (rule body_ready [OF F])
  have "s_newPatchHelper E (cur s) = None" "e_err E h k = None" for h k
    using F providesD(15) unfolding furnished_def by blast+
  then have "run_state (Cluster_reconcileNormal E) s =
      (finished, u\<lparr>calls := calls u @ [KPatchCluster (cur s) (cur u)]\<rparr>)"
    using u(1) by (simp add: Cluster_reconcileNormal_def)
  then show thesis
    using u(2,3) by (intro that [of "u\<lparr>calls := calls u @ [KPatchCluster (cur s) (cur u)]\<rparr>"]) simp_all
qed

definition unpaused :: "Env \<Rightarrow> EvrocCluster \<Rightarrow> bool" where
  "unpaused E c \<longleftrightarrow> \<not> HasPausedAnnotation (cl_Meta c) \<and>
     (\<forall>n h cc. map_of (om_Labels (cl_Meta c)) ClusterNameLabel = Some n \<longrightarrow>
        e_capiCluster E h (KGetCapiCluster \<lparr>k_Namespace = om_Namespace (cl_Meta c), k_Name = n\<rparr>) = Inr cc \<longrightarrow>
        cc_Paused cc \<noteq> Some True)"

lemma unpaused_run: "unpaused E (cur s) \<Longrightarrow> fst (run_state (IsPaused clusterOps E) s) = False"
  unfolding unpaused_def
  by (auto simp: IsPaused_def Let_def split: option.split sum.split)

lemma cluster_reaches_normal:
  assumes fetch: "e_cluster E [] (KGetCluster req) = Inr c" and live: "clusterLive c" "clusterOwned c" "clusterProtected c"
    and unpaused: "unpaused E c" and cred: "credentialed E c" and err: "\<And>h k. e_err E h k = None"
  obtains s where "run_state (Cluster_Reconcile E req) (startOf zeroCluster) = run_state (Cluster_reconcileNormal E) s"
    "cur s = c"
proof -
  let ?s = "\<lparr>cur = c, calls = [KGetCluster req]\<rparr>"
  obtain p t where t: "run_state (IsPaused clusterOps E) ?s = (p, t)"
    by fastforce
  have p: "p = False"
    using unpaused_run [of E ?s] unpaused t by simp
  have ct: "cur t = c"
    using run_frames [OF frames_IsPaused [where v = "\<lambda>x. x"] t] by simp
  obtain x u where u: "run_state (Cluster_resolveCloudClient E c) t = (x, u)"
    by fastforce
  have x: "x = None"
    using client_run [OF cred err, of undefined t] u by (simp add: Machine_resolveCloudClient_Some)
  have cu: "cur u = c"
    using run_frames [OF frames_Cluster_resolveCloudClient [where v = "\<lambda>x. x"] u] ct by simp
  have "run_state (Cluster_Reconcile E req) (startOf zeroCluster) = run_state (Cluster_dispatch E) u"
    using cluster_reconcile_fetched [OF fetch] t p u x ct by (simp add: Cluster_afterFetch_def Cluster_active_def)
  then show thesis
    using that cu cluster_dispatch_ready [of u E] live by simp
qed

text \<open>
  C4. A cluster whose load balancer is active becomes ready in one reconcile, in a cloud that
  answers truly and accepts what it is sent: the reconcile ends without an error or a requeue, and
  its last call patches the object to ready and provisioned, with a true Ready condition and,
  when the controller manages the endpoint, with the load balancer's address behind it.
\<close>

theorem cluster_becomes_ready:
  assumes fetch: "e_cluster E [] (KGetCluster req) = Inr c"
    and live: "om_DeletionTimestamp (cl_Meta c) = None" and owned: "clusterOwnershipID (Some c) \<noteq> ''''"
    and protected: "hasFinalizer (cl_Meta c) clusterFinalizer"
    and unpaused: "unpaused E c" and credentials: "credentialed E c" and furnished: "furnished E R c"
  shows "resultOf (Cluster_Reconcile E req) (startOf zeroCluster) = finished \<and>
    (\<exists>a. last (clusterCalls E req) = KPatchCluster c a \<and> readyReport E a \<and>
       (ShouldManageControlPlaneEndpoint (Some c) \<longrightarrow> lbSettled E a))"
proof -
  have err: "e_err E h k = None" for h k
    using furnished providesD(15) unfolding furnished_def by blast
  obtain s where s: "run_state (Cluster_Reconcile E req) (startOf zeroCluster) = run_state (Cluster_reconcileNormal E) s"
      "cur s = c"
    by (rule cluster_reaches_normal [OF fetch live owned protected unpaused credentials err])
  have F: "furnished E R (cur s)"
    using furnished s(2) by simp
  obtain t where "run_state (Cluster_reconcileNormal E) s = (finished, t)"
      "last (calls t) = KPatchCluster (cur s) (cur t)" "readyReport E (cur t)"
      "ShouldManageControlPlaneEndpoint (Some (cur s)) \<longrightarrow> lbSettled E (cur t)"
    by (rule normal_ready [OF F])
  then show ?thesis
    using s by (auto simp: resultOf_def emitted_def startOf_def)
qed

text \<open>The example cluster, with a group of its own, and its load balancer behind the address \<open>i\<close>.\<close>

definition servingWorld :: Env where
  "servingWorld = (stocked freshMachine {(PublicIPK, ''i'')})
     \<lparr>e_cluster := (\<lambda>_ _. Inr (liveCluster None)),
      e_lb := (\<lambda>_ _. Inr \<lparr>lb_Meta = \<lparr>md_Id = ''l'', md_Uid = ''1''\<rparr>, lb_PublicIPRef = ''i'', lb_State = ''''\<rparr>)\<rparr>"

lemma provides_same:
  assumes "provides E R" and "e_disk E' = e_disk E" "e_ip E' = e_ip E" "e_sg E' = e_sg E" "e_vm E' = e_vm E"
    "e_pg E' = e_pg E" "e_err E' = e_err E" "s_diskReady E' = s_diskReady E"
  shows "provides E' R"
  using assms(1) unfolding provides_def assms(2-) .

lemma servingWorld_furnished: "furnished servingWorld {(PublicIPK, ''i'')} (liveCluster None)"
proof -
  have "provides servingWorld {(PublicIPK, ''i'')}"
    by (rule provides_same [OF stocked_provides]) (simp_all add: servingWorld_def)
  moreover have "namedGroups (liveCluster None) = {}"
    by (auto simp: namedGroups_def liveCluster_def exampleGroups_def sgSections_def)
  moreover have "activeLB servingWorld n" for n
    unfolding activeLB_def
    by (rule exI [of _ "''i''"]) (simp add: servingWorld_def stocked_def machineWorld_def emptyWorld_def onShelf_simps)
  moreover have "lbNameOf (liveCluster None) \<noteq> None"
    by code_simp
  moreover have "om_UID (cl_Meta (liveCluster None)) \<noteq> ''''"
    by (simp add: liveCluster_def exampleMeta_def)
  ultimately show ?thesis
    by (auto simp: furnished_def servingWorld_def stocked_def machineWorld_def emptyWorld_def)
qed

theorem cluster_becomes_ready_witness:
  "\<exists>a. last (clusterCalls servingWorld exampleKey) = KPatchCluster (liveCluster None) a \<and>
     cst_Ready (cl_Status a) \<and> lbSettled servingWorld a"
proof -
  have "hasFinalizer (cl_Meta (liveCluster None)) clusterFinalizer" "unpaused servingWorld (liveCluster None)"
    by (simp_all add: liveCluster_def exampleMeta_def hasFinalizer_def unpaused_def HasPausedAnnotation_def mhas_def
        PausedAnnotation_def clusterOwnershipIDAnnotation_def)
  moreover have "credentialed servingWorld (liveCluster None)"
    by (simp add: credentialed_def servingWorld_def stocked_def machineWorld_def liveCluster_def exampleCluster_def
        exampleSecret_def mget_def)
  moreover have "e_cluster servingWorld [] (KGetCluster exampleKey) = Inr (liveCluster None)"
    by (simp add: servingWorld_def)
  ultimately show ?thesis
    using cluster_becomes_ready [of servingWorld exampleKey, OF _ _ _ _ _ _ servingWorld_furnished] liveCluster_simps
    unfolding readyReport_def by auto
qed

end
