(* ===== verification/NoStall.thy ===== *)
theory NoStall
  imports MachineCreate MachineProgress ClusterProgress ClusterExamples
begin

text \<open>
  Reconciles that end without an error and without asking to come back: what they are waiting for.
  Nothing else wakes a controller but an event, so such an end is right only when the object is
  done, paused or gone.
\<close>

section \<open>Ends of a computation\<close>

text \<open>A computation ends for good only where \<open>Q\<close> holds of the calls; a stage, when it ends the reconcile.\<close>

definition endsIf :: "(Call list \<Rightarrow> bool) \<Rightarrow> ('o, outcome) go \<Rightarrow> bool" where
  "endsIf Q m \<longleftrightarrow> (\<forall>s t. run_state m s = (finished, t) \<longrightarrow> Q (calls t))"

definition endsEarlyIf :: "(Call list \<Rightarrow> bool) \<Rightarrow> ('o, outcome option) go \<Rightarrow> bool" where
  "endsEarlyIf Q m \<longleftrightarrow> (\<forall>s t. run_state m s = (Some finished, t) \<longrightarrow> Q (calls t))"

lemma endsIf_run: "endsIf Q m \<Longrightarrow> run_state m s = (finished, t) \<Longrightarrow> Q (calls t)"
  by (simp add: endsIf_def)

lemma endsIf_ret: "r \<noteq> finished \<Longrightarrow> endsIf Q (ret r)"
  by (simp add: endsIf_def)

lemma endsIf_bind: "(\<And>x. endsIf Q (f x)) \<Longrightarrow> endsIf Q (State_Monad.bind m f)"
  by (simp add: endsIf_def split: prod.split)

lemma endsIf_onResult: "(\<And>e. endsIf Q (h e)) \<Longrightarrow> (\<And>x. endsIf Q (k x)) \<Longrightarrow> endsIf Q (onResult m h k)"
  unfolding onResult_def by (intro endsIf_bind) (auto split: sum.split)

lemma endsIf_onError: "(\<And>e. endsIf Q (h e)) \<Longrightarrow> endsIf Q k \<Longrightarrow> endsIf Q (onError m h k)"
  unfolding onError_def by (intro endsIf_bind) (auto split: option.split)

lemma endsIf_stage: "endsEarlyIf Q m \<Longrightarrow> endsIf Q k \<Longrightarrow> endsIf Q (onError m ret k)"
  by (auto simp: endsIf_def endsEarlyIf_def onError_def split: prod.splits option.splits)

lemma endsIf_if: "(b \<Longrightarrow> endsIf Q m) \<Longrightarrow> (\<not> b \<Longrightarrow> endsIf Q m') \<Longrightarrow> endsIf Q (if b then m else m')"
  by simp

lemma endsIf_option:
  "endsIf Q m \<Longrightarrow> (\<And>y. endsIf Q (f y)) \<Longrightarrow> endsIf Q (case x of None \<Rightarrow> m | Some y \<Rightarrow> f y)"
  by (cases x) simp_all

lemma endsIf_sum:
  "(\<And>y. endsIf Q (f y)) \<Longrightarrow> (\<And>y. endsIf Q (g y)) \<Longrightarrow> endsIf Q (case x of Inl y \<Rightarrow> f y | Inr y \<Rightarrow> g y)"
  by (cases x) simp_all

lemma endsIf_prod: "(\<And>a b. endsIf Q (f a b)) \<Longrightarrow> endsIf Q (case x of (a, b) \<Rightarrow> f a b)"
  by (cases x) simp

lemma early_ret: "r \<noteq> Some finished \<Longrightarrow> endsEarlyIf Q (ret r)"
  by (simp add: endsEarlyIf_def)

lemma early_early: "endsIf Q m \<Longrightarrow> endsEarlyIf Q (early m)"
  by (auto simp: endsIf_def endsEarlyIf_def early_def split: prod.splits)

lemma early_bind: "(\<And>x. endsEarlyIf Q (f x)) \<Longrightarrow> endsEarlyIf Q (State_Monad.bind m f)"
  by (simp add: endsEarlyIf_def split: prod.split)

lemma early_onResult:
  "(\<And>e. endsEarlyIf Q (h e)) \<Longrightarrow> (\<And>x. endsEarlyIf Q (k x)) \<Longrightarrow> endsEarlyIf Q (onResult m h k)"
  unfolding onResult_def by (intro early_bind) (auto split: sum.split)

lemma early_onError: "(\<And>e. endsEarlyIf Q (h e)) \<Longrightarrow> endsEarlyIf Q k \<Longrightarrow> endsEarlyIf Q (onError m h k)"
  unfolding onError_def by (intro early_bind) (auto split: option.split)

lemma early_if: "(b \<Longrightarrow> endsEarlyIf Q m) \<Longrightarrow> (\<not> b \<Longrightarrow> endsEarlyIf Q m') \<Longrightarrow> endsEarlyIf Q (if b then m else m')"
  by simp

lemma early_sum:
  "(\<And>y. endsEarlyIf Q (f y)) \<Longrightarrow> (\<And>y. endsEarlyIf Q (g y)) \<Longrightarrow> endsEarlyIf Q (case x of Inl y \<Rightarrow> f y | Inr y \<Rightarrow> g y)"
  by (cases x) simp_all

lemma early_prod: "(\<And>a b. endsEarlyIf Q (f a b)) \<Longrightarrow> endsEarlyIf Q (case x of (a, b) \<Rightarrow> f a b)"
  by (cases x) simp

lemmas ends_rules =
  endsIf_stage endsIf_onResult endsIf_onError endsIf_if endsIf_option endsIf_sum endsIf_prod endsIf_bind endsIf_ret
  early_onResult early_onError early_if early_sum early_prod early_bind early_early early_ret

lemma waits [simp]:
  "requeueAfter (Suc n) \<noteq> finished" "requeueAfter requeueShort \<noteq> finished" "requeueAfter requeueMedium \<noteq> finished"
  "requeueAfter requeueLong \<noteq> finished" "requeueAfter requeueImmediately \<noteq> finished" "failWith e \<noteq> finished"
  by (simp_all add: outcome_defs)

lemma error_outcome: "errorOutcome err \<noteq> finished"
  by (simp add: errorOutcome_def outcome_defs transientRequeue_def)

lemma endsIf_never: "(\<And>s. resultOf m s \<noteq> finished) \<Longrightarrow> endsIf Q m"
  by (metis endsIf_def fst_conv resultOf_def)

lemma ends_error: "endsIf Q (handleMachineError E err)" "endsIf Q (handleClusterError E err)"
  by (intro endsIf_never; simp add: resultOf_handleMachineError resultOf_handleClusterError error_outcome)+

section \<open>A machine that goes on\<close>

text \<open>The API server said that the object is gone; the status says that the machine is up.\<close>

definition saidVanished :: "Env \<Rightarrow> Call list \<Rightarrow> bool" where
  "saidVanished E h \<longleftrightarrow> (\<exists>c. answeredIn h c (\<lambda>ys. \<exists>err. e_machine E ys c = Inl err \<and> errIs err K8sNotFoundM))"

definition saidUp :: "Call list \<Rightarrow> bool" where
  "saidUp h \<longleftrightarrow> (\<exists>x. KStatusMachine x \<in> set h \<and> mst_Ready (m_Status x) \<and> mst_Provisioned (m_Status x) = Some True)"

abbreviation vanishedOrUp :: "Env \<Rightarrow> Call list \<Rightarrow> bool" where
  "vanishedOrUp E h \<equiv> saidVanished E h \<or> saidUp h"

lemma ends_stages:
  "endsEarlyIf Q (ensureBootDisk E info)" "endsEarlyIf Q (ensureAdditionalDisks E info)"
  "endsEarlyIf Q (ensurePlacementGroup E)" "endsEarlyIf Q (ensurePublicIP E info)"
  "endsEarlyIf Q (ensureSecurityGroups E info)" "endsEarlyIf Q (driftStep E step msg)"
  "endsEarlyIf Q (assignZone E ow cl)"
  unfolding ensureBootDisk_def bootDiskFor_def Let_def ensureAdditionalDisks_def ensurePlacementGroup_def
    ensurePublicIP_def ensureSecurityGroups_def driftStep_def assignZone_def pendingStage_def
  by (intro ends_rules ends_error; simp)+

lemma ends_createVM: "endsIf Q (createVM E u info cl)"
  unfolding createVM_def submitVM_def by (intro ends_rules ends_error ends_stages) simp_all

lemma saidUp_prefix: "saidUp h \<Longrightarrow> prefix h h' \<Longrightarrow> saidUp h'"
  by (auto simp: saidUp_def prefix_def)

lemma saidVanished_prefix: "saidVanished E h \<Longrightarrow> prefix h h' \<Longrightarrow> saidVanished E h'"
  unfolding saidVanished_def by (blast intro: answeredIn_prefix)

lemma vanished_now: "e_machine E h c = Inl err \<Longrightarrow> errIs err K8sNotFoundM \<Longrightarrow> saidVanished E (h @ [c])"
  unfolding saidVanished_def by (blast intro: answeredIn_snoc)

text \<open>Reporting a virtual machine that is up writes so, whatever comes after.\<close>

lemma ends_reportVM:
  assumes "s_vmReady E vm"
  shows "endsIf (vanishedOrUp E) (reportVM E vm cl)"
  unfolding endsIf_def
proof (intro allI impI disjI2)
  fix s t
  assume run: "run_state (reportVM E vm cl) s = (finished, t)"
  let ?s1 = "s\<lparr>cur := statusFromVM E vm (cur s)\<rparr>"
  obtain u where u: "run_state (setMachineCondition E ReadyCondition ConditionTrue SeverityNone MachineReadyReason '''') ?s1
      = ((), u)" "calls u = calls ?s1" "mst_Ready (m_Status (cur u)) = mst_Ready (m_Status (cur ?s1))"
    by (simp add: setMachineCondition_def Machine_SetConditions_def)
  let ?x = "setProvisioned (cur u)"
  have up: "mst_Ready (m_Status ?x)" "mst_Provisioned (m_Status ?x) = Some True"
    using u(3) assms by (simp_all add: setProvisioned_def statusFromVM_def)
  obtain r v where v: "run_state (k8sStatusMachine E) (u\<lparr>cur := ?x\<rparr>) = (r, v)"
      "calls v = calls u @ [KStatusMachine ?x]"
    by (cases "e_machine E (calls u) (KStatusMachine ?x)") (simp_all add: k8sStatusMachine_def)
  have "saidUp (calls v)"
    using up v(2) by (auto simp: saidUp_def)
  moreover have "prefix (calls v) (calls t)"
  proof (cases r)
    case None
    have "emits createsNothing (do { machine \<leftarrow> getCur;
        (if mst_Ready (m_Status machine) then linkNode E cl else ret finished) })"
      by (intro go_rules createsNothing_steps)
    moreover have "run_state (do { machine \<leftarrow> getCur;
        (if mst_Ready (m_Status machine) then linkNode E cl else ret finished) }) v = (finished, t)"
      using run u(1) v(1) None assms by (simp add: reportVM_def)
    ultimately show ?thesis
      by (rule run_emits)
  next
    case (Some err)
    then show ?thesis
      using run u(1) v(1) assms by (simp add: reportVM_def)
  qed
  ultimately show "saidUp (calls t)"
    by (rule saidUp_prefix)
qed

text \<open>A provider ID that cannot be written ends the reconcile only when the machine is gone.\<close>

lemma providerID_error:
  assumes run: "run_state (ensureMachineProviderID E vm cl) s = (Some err, t)" and gone: "errIs err K8sNotFoundM"
  shows "saidVanished E (calls t)"
proof -
  let ?x = "setProviderID (''evroc://'' @ md_Uid (vm_Meta vm)) (cur s)"
  show ?thesis
  proof (cases "e_machine E (calls s) (KUpdateMachine ?x)")
    case (Inl e)
    then have "t = s\<lparr>cur := ?x, calls := calls s @ [KUpdateMachine ?x]\<rparr>" "errIs e K8sNotFoundM"
      using run gone by (auto simp: ensureMachineProviderID_def k8sUpdateMachine_def split: if_splits)
    then show ?thesis
      using vanished_now [OF Inl] by simp
  next
    case (Inr y)
    let ?h = "calls s @ [KUpdateMachine ?x]"
    have "e_machine E ?h (KGetMachine (machineKey y)) = Inl err" "calls t = ?h @ [KGetMachine (machineKey y)]"
      using run Inr
      by (auto simp: ensureMachineProviderID_def k8sUpdateMachine_def k8sGetMachine_def split: if_splits sum.splits)
    then show ?thesis
      using vanished_now [of E ?h] gone by metis
  qed
qed

lemma ends_existing: "endsIf (vanishedOrUp E) (reconcileExistingVM E vm cl)"
proof -
  have report: "endsIf (vanishedOrUp E) (onError (ensureMachineProviderID E vm cl)
      (\<lambda>err. ret (0, ignoreNotFound err)) (reportVM E vm cl))" if "s_vmReady E vm"
    unfolding endsIf_def
  proof (intro allI impI)
    fix s t
    assume run: "run_state (onError (ensureMachineProviderID E vm cl) (\<lambda>err. ret (0, ignoreNotFound err))
        (reportVM E vm cl)) s = (finished, t)"
    obtain r u where u: "run_state (ensureMachineProviderID E vm cl) s = (r, u)"
      by fastforce
    show "vanishedOrUp E (calls t)"
    proof (cases r)
      case None
      then show ?thesis
        using run u endsIf_run [OF ends_reportVM [OF that]] by simp
    next
      case (Some err)
      then have "errIs err K8sNotFoundM" "t = u"
        using run u by (auto simp: ignoreNotFound_def finished_def split: if_splits)
      then show ?thesis
        using providerID_error u Some by blast
    qed
  qed
  show ?thesis
    unfolding reconcileExistingVM_def by (intro ends_rules ends_stages report) simp_all
qed

lemma ends_bootstrap: "endsIf Q (onResult (bootstrapData E ow) ret k)" if "\<And>x. endsIf Q (k x)"
proof -
  have "run_state (bootstrapData E ow) s \<noteq> (Inl finished, t)" for s t
    by (auto simp: bootstrapData_def split: sum.splits prod.splits if_splits)
  then show ?thesis
    using that by (auto simp: endsIf_def onResult_def split: prod.splits sum.splits)
qed

lemma ends_normal: "endsIf (vanishedOrUp E) (Machine_reconcileNormal E cl)"
proof -
  have owned: "endsIf (vanishedOrUp E) (reconcileOwned E ow cl)" for ow
    unfolding reconcileOwned_def
    by (intro endsIf_stage ends_stages endsIf_bind endsIf_onResult endsIf_if ends_error ends_bootstrap ends_createVM
        ends_existing)
  show ?thesis
    unfolding Machine_reconcileNormal_def by (intro ends_rules owned) simp_all
qed

lemma ends_dispatch_live:
  assumes "machineLive (cur s)" and run: "run_state (Machine_dispatch E cl) s = (finished, t)"
  shows "vanishedOrUp E (calls t)"
proof -
  have "endsIf (vanishedOrUp E) (if requeue then ret (requeueAfter requeueImmediately)
       else if b then onError (k8sUpdateMachine E)
         (\<lambda>err. ret (failWith (wrapErr ''persisting machine ownership ID'' err))) (ret (requeueAfter requeueImmediately))
       else Machine_reconcileNormal E cl)" for b requeue
    by (intro ends_rules ends_normal) simp_all
  moreover have "machineLive (cur u)" if "run_state (ensureOwnershipID machineOps E machineOwnershipIDAnnotation) s = (r, u)" for r u
    using that assms(1) by (auto simp: ensureOwnershipID_def modMeta_def split: if_splits)
  ultimately show ?thesis
    using run assms(1)
    by (auto simp: Machine_dispatch_def HandleDeletion_live split: prod.splits sum.splits dest: endsIf_run)
qed

text \<open>The object carries the annotation, or its CAPI cluster was found paused.\<close>

definition saidPaused :: "Env \<Rightarrow> ObjectMeta \<Rightarrow> Call list \<Rightarrow> bool" where
  "saidPaused E meta h \<longleftrightarrow> HasPausedAnnotation meta \<or>
     (\<exists>k. answeredIn h (KGetCapiCluster k) (\<lambda>ys. \<exists>cc. e_capiCluster E ys (KGetCapiCluster k) = Inr cc \<and> cc_Paused cc = Some True))"

lemma saidPaused_prefix: "saidPaused E meta h \<Longrightarrow> prefix h h' \<Longrightarrow> saidPaused E meta h'"
  by (auto simp: saidPaused_def dest: answeredIn_prefix)

lemma paused_said:
  assumes "run_state (IsPaused ops E) s = (True, t)" and "oo_Meta ops (cur s) = meta"
  shows "saidPaused E meta (calls t)"
proof (cases "HasPausedAnnotation meta")
  case False
  then obtain n cc where "e_capiCluster E (calls s) (KGetCapiCluster \<lparr>k_Namespace = om_Namespace meta, k_Name = n\<rparr>)
      = Inr cc" "cc_Paused cc = Some True"
      "calls t = calls s @ [KGetCapiCluster \<lparr>k_Namespace = om_Namespace meta, k_Name = n\<rparr>]"
    using assms by (auto simp: IsPaused_def Let_def split: option.splits if_splits sum.splits)
  then show ?thesis
    unfolding saidPaused_def by (auto intro!: answeredIn_snoc)
qed (simp add: saidPaused_def)

text \<open>The deletion is over: the finalizer was not there any more, or it was taken off.\<close>

definition letGo :: "EvrocMachine \<Rightarrow> Call list \<Rightarrow> bool" where
  "letGo m h \<longleftrightarrow> om_DeletionTimestamp (m_Meta m) \<noteq> None \<and>
     (hasFinalizer (m_Meta m) machineFinalizer \<longrightarrow> (\<exists>x. KUpdateMachine x \<in> set h \<and> \<not> hasFinalizer (m_Meta x) machineFinalizer))"

lemma ends_dispatch_deleting:
  assumes deleting: "\<not> machineLive (cur s)" and run: "run_state (Machine_dispatch E cl) s = (finished, t)"
  shows "letGo (cur s) (calls t)"
proof (cases "machineProtected (cur s)")
  case False
  then show ?thesis
    using deleting by (simp add: letGo_def)
next
  case True
  obtain e u where u: "run_state (machineCleanup E) s = (e, u)"
    by fastforce
  have cur: "cur u = cur s"
    by (rule cur_cleanup [OF u])
  have "e = None"
  proof (cases e)
    case (Some err)
    then show ?thesis
      using run deleting True u HandleDeletion_cleanup_failed [of machineOps s machineFinalizer "machineCleanup E" err u]
      by (auto simp: dispatch_deletion split: if_splits)
  qed
  let ?x = "(cur s)\<lparr>m_Meta := withoutFinalizer machineFinalizer (m_Meta (cur s))\<rparr>"
  obtain r v where upd: "run_state (RemoveFinalizer machineOps (k8sUpdateMachine E) machineFinalizer) u = (r, v)"
      "calls v = calls u @ [KUpdateMachine ?x]"
    using True cur
    by (cases "e_machine E (calls u) (KUpdateMachine ?x)") (simp_all add: RemoveFinalizer_def modMeta_def k8sUpdateMachine_def)
  have "t = v"
    using run deleting True u \<open>e = None\<close> upd
    by (simp add: dispatch_deletion HandleDeletion_def split: option.splits if_splits)
  then show ?thesis
    using deleting upd(2) by (auto simp: letGo_def withoutFinalizer_def hasFinalizer_def)
qed

text \<open>
  C5. A machine never stalls: a reconcile that ends without an error and without asking to come
  back found the machine gone, or paused, or let go of it at the end of its deletion, or has
  just reported it up, with a status write that says ready and provisioned.
\<close>

theorem machine_never_stalls:
  assumes "resultOf (Machine_Reconcile E req) (startOf zeroMachine) = finished"
  shows "let h = emitted (Machine_Reconcile E req) (startOf zeroMachine) in
    saidVanished E h \<or> saidUp h \<or>
    (\<exists>m. e_machine E [] (KGetMachine req) = Inr m \<and> (saidPaused E (m_Meta m) h \<or> letGo m h))"
proof (cases "e_machine E [] (KGetMachine req)")
  case (Inl err)
  then have "errIs err K8sNotFoundM" "emitted (Machine_Reconcile E req) (startOf zeroMachine) = [KGetMachine req]"
    using assms unfolding resultOf_def emitted_def reconcile_unfetched [OF Inl]
    by (auto simp: startOf_def ignoreNotFound_def finished_def split: if_splits)
  then show ?thesis
    using vanished_now [OF Inl] by simp
next
  case (Inr m)
  let ?s = "\<lparr>cur = m, calls = [KGetMachine req]\<rparr>"
  obtain t where run: "run_state (Machine_afterFetch E) ?s = (finished, t)"
    using assms reconcile_fetched [OF Inr] by (cases "run_state (Machine_afterFetch E) ?s") (simp add: resultOf_def)
  have h: "emitted (Machine_Reconcile E req) (startOf zeroMachine) = calls t"
    using run reconcile_fetched [OF Inr] by (simp add: emitted_def startOf_def)
  obtain p u where u: "run_state (IsPaused machineOps E) ?s = (p, u)"
    by fastforce
  have cu: "cur u = m"
    using run_frames [OF frames_IsPaused [where v = "\<lambda>x. x"] u] by simp
  show ?thesis
  proof (cases p)
    case True
    have "emits (\<lambda>_. True) (Machine_pausedBranch E)"
      unfolding Machine_pausedBranch_def k8s_defs by (intro go_rules emits_ops) simp_all
    then have "prefix (calls u) (calls t)"
      using run u True by (auto simp: Machine_afterFetch_def dest: run_emits)
    moreover have "saidPaused E (m_Meta m) (calls u)"
      using paused_said [of machineOps E ?s u] u True by simp
    ultimately have "saidPaused E (m_Meta m) (calls t)"
      by (rule saidPaused_prefix [rotated])
    then show ?thesis
      using Inr h by simp
  next
    case False
    have active: "run_state (Machine_active E) u = (finished, t)"
      using run u False by (simp add: Machine_afterFetch_def)
    obtain r v where v: "run_state (resolveEvrocCluster E m) u = (r, v)"
      by fastforce
    obtain cl where r: "r = Inr cl"
      using active v cu by (cases r) (auto simp: Machine_active_def finished_def failWith_def)
    obtain x w where w: "run_state (Machine_resolveCloudClient E m cl) v = (x, w)"
      by fastforce
    have fail: "endsIf (\<lambda>_. False) (Machine_credentialFailure E err)" for err
      unfolding Machine_credentialFailure_def Let_def by (intro ends_rules) simp_all
    have x: "x = None"
      using active v r w cu endsIf_run [OF fail] by (cases x) (auto simp: Machine_active_def)
    have cw: "cur w = m"
      using run_frames [OF frames_resolveEvrocCluster [where v = "\<lambda>x. x"] v]
        run_frames [OF frames_Machine_resolveCloudClient [where v = "\<lambda>x. x"] w] cu by simp
    have "run_state (Machine_dispatch E cl) w = (finished, t)"
      using active v r w x cu by (simp add: Machine_active_def)
    then show ?thesis
      using ends_dispatch_live [of w E cl t] ends_dispatch_deleting [of w E cl t] cw Inr h
      by (cases "machineLive m") auto
  qed
qed

section \<open>A cluster that goes on\<close>

definition saidReady :: "Call list \<Rightarrow> bool" where
  "saidReady h \<longleftrightarrow> (\<exists>b a. KPatchCluster b a \<in> set h \<and> cst_Ready (cl_Status a) \<and>
     ci_InfrastructureProvisioned (cst_Initialization (cl_Status a)) = Some True)"

definition clusterLetGo :: "EvrocCluster \<Rightarrow> Call list \<Rightarrow> bool" where
  "clusterLetGo c h \<longleftrightarrow> om_DeletionTimestamp (cl_Meta c) \<noteq> None \<and>
     (hasFinalizer (cl_Meta c) clusterFinalizer \<longrightarrow> (\<exists>x. KUpdateCluster x \<in> set h \<and> \<not> hasFinalizer (cl_Meta x) clusterFinalizer))"

text \<open>The body ends for good only with an object that is marked provisioned.\<close>

lemma body_ends:
  assumes "run_state (reconcileClusterBody E) s = (finished, t)"
  shows "cst_Ready (cl_Status (cur t)) \<and> ci_InfrastructureProvisioned (cst_Initialization (cl_Status (cur t))) = Some True"
proof -
  let ?finish = "do { modCur markProvisioned;
    setClusterCondition E ReadyCondition ConditionTrue SeverityNone ClusterReadyReason ''''; ret finished }"
  obtain y where run: "run_state (onError (ensureEndpoint E) ret
      (onError (reconcileSecurityGroups E) (handleClusterError E) ?finish)) y = (finished, t)"
    using run_start [of s E] assms by metis
  have endpoint: "endsEarlyIf (\<lambda>_. False) (ensureEndpoint E)"
    unfolding ensureEndpoint_def
    by (intro ends_rules ends_error; simp add: outcome_defs)
  obtain r u where u: "run_state (ensureEndpoint E) y = (r, u)"
    by fastforce
  have r: "r = None"
    using run u endpoint by (cases r) (auto simp: endsEarlyIf_def)
  obtain r' v where v: "run_state (reconcileSecurityGroups E) u = (r', v)"
    by fastforce
  have "r' = None"
    using run u r v endsIf_run [OF ends_error(2) [of "\<lambda>_. False"]] by (cases r') auto
  then have "run_state ?finish v = (finished, t)"
    using run u r v by simp
  then show ?thesis
    by (auto simp: setClusterCondition_def Cluster_SetConditions_def markProvisioned_def)
qed

lemma cluster_normal_ends: "endsIf saidReady (Cluster_reconcileNormal E)"
  unfolding endsIf_def
proof (intro allI impI)
  fix s t
  assume run: "run_state (Cluster_reconcileNormal E) s = (finished, t)"
  obtain r u where u: "run_state (reconcileClusterBody E) s = (r, u)"
    by fastforce
  have helper: "s_newPatchHelper E (cur s) = None"
    using run by (cases "s_newPatchHelper E (cur s)") (simp_all add: Cluster_reconcileNormal_def finished_def failWith_def)
  let ?patch = "KPatchCluster (cur s) (cur u)"
  have patch: "e_err E (calls u) ?patch = None"
  proof (cases "e_err E (calls u) ?patch")
    case (Some err)
    then have "(fst r, joinErrs (errList (snd r) @ [err])) = finished"
      using run u helper by (simp add: Cluster_reconcileNormal_def)
    then show ?thesis
      by (simp add: finished_def joinErrs_def split: if_splits)
  qed
  then have "r = finished" "calls t = calls u @ [?patch]"
    using run u helper by (auto simp: Cluster_reconcileNormal_def)
  then show "saidReady (calls t)"
    using body_ends [of E s u] u by (auto simp: saidReady_def)
qed

lemma cluster_ends_live:
  assumes "clusterLive (cur s)" and run: "run_state (Cluster_dispatch E) s = (finished, t)"
  shows "saidReady (calls t)"
proof -
  have "endsIf saidReady (if requeue then ret (requeueAfter 1)
       else if b then onError (k8sUpdateCluster E)
         (\<lambda>err. ret (failWith (wrapErr ''persisting cluster ownership ID'' err))) (ret (requeueAfter 1))
       else Cluster_reconcileNormal E)" for b requeue
    by (intro ends_rules cluster_normal_ends) (simp_all add: outcome_defs)
  moreover have "clusterLive (cur u)" if "run_state (ensureOwnershipID clusterOps E clusterOwnershipIDAnnotation) s = (r, u)" for r u
    using that assms(1) by (auto simp: ensureOwnershipID_def modMeta_def split: if_splits)
  ultimately show ?thesis
    using run assms(1)
    by (auto simp: Cluster_dispatch_def HandleDeletion_live split: prod.splits sum.splits dest: endsIf_run)
qed

lemma cluster_ends_deleting:
  assumes deleting: "\<not> clusterLive (cur s)" and run: "run_state (Cluster_dispatch E) s = (finished, t)"
  shows "clusterLetGo (cur s) (calls t)"
proof (cases "clusterProtected (cur s)")
  case False
  then show ?thesis
    using deleting by (simp add: clusterLetGo_def)
next
  case True
  obtain e u where u: "run_state (cleanupResources E) s = (e, u)"
    by fastforce
  have cur: "clusterProtected (cur u)"
    using cleanupResources_kept [OF u] True by simp
  have "e = None"
  proof (cases e)
    case (Some err)
    then show ?thesis
      using run deleting True u HandleDeletion_cleanup_failed [of clusterOps s clusterFinalizer "cleanupResources E" err u]
      by (auto simp: cluster_dispatch_deleting outcome_defs requeueClusterShort_def split: if_splits)
  qed
  let ?x = "(cur u)\<lparr>cl_Meta := withoutFinalizer clusterFinalizer (cl_Meta (cur u))\<rparr>"
  obtain r v where upd: "run_state (RemoveFinalizer clusterOps (k8sUpdateCluster E) clusterFinalizer) u = (r, v)"
      "calls v = calls u @ [KUpdateCluster ?x]"
    using cur
    by (cases "e_cluster E (calls u) (KUpdateCluster ?x)") (simp_all add: RemoveFinalizer_def modMeta_def k8sUpdateCluster_def)
  have "t = v"
    using run deleting True u \<open>e = None\<close> upd
    by (simp add: cluster_dispatch_deleting HandleDeletion_def split: option.splits if_splits)
  then show ?thesis
    using deleting upd(2) by (auto simp: clusterLetGo_def withoutFinalizer_def hasFinalizer_def)
qed

text \<open>
  C6. A cluster never stalls: a reconcile that ends without an error and without asking to come
  back found the cluster gone, or paused, or let go of it at the end of its deletion, or has
  just patched it to ready and provisioned.
\<close>

theorem cluster_never_stalls:
  assumes "resultOf (Cluster_Reconcile E req) (startOf zeroCluster) = finished"
  shows "let h = clusterCalls E req in saidReady h \<or>
    (case e_cluster E [] (KGetCluster req) of Inl err \<Rightarrow> errIs err K8sNotFoundM
     | Inr c \<Rightarrow> saidPaused E (cl_Meta c) h \<or> clusterLetGo c h)"
proof (cases "e_cluster E [] (KGetCluster req)")
  case (Inl err)
  then have "errIs err K8sNotFoundM"
    using assms unfolding resultOf_def cluster_reconcile_unfetched [OF Inl]
    by (auto simp: ignoreNotFound_def finished_def split: if_splits)
  then show ?thesis
    using Inl by simp
next
  case (Inr c)
  let ?s = "\<lparr>cur = c, calls = [KGetCluster req]\<rparr>"
  obtain t where run: "run_state (Cluster_afterFetch E) ?s = (finished, t)"
    using assms cluster_reconcile_fetched [OF Inr] by (cases "run_state (Cluster_afterFetch E) ?s") (simp add: resultOf_def)
  have h: "clusterCalls E req = calls t"
    using run cluster_reconcile_fetched [OF Inr] by (simp add: emitted_def startOf_def)
  obtain p u where u: "run_state (IsPaused clusterOps E) ?s = (p, u)"
    by fastforce
  have cu: "cur u = c"
    using run_frames [OF frames_IsPaused [where v = "\<lambda>x. x"] u] by simp
  show ?thesis
  proof (cases p)
    case True
    have "emits (\<lambda>_. True) (Cluster_pausedBranch E)"
      unfolding Cluster_pausedBranch_def k8s_defs by (intro go_rules emits_ops) simp_all
    then have "prefix (calls u) (calls t)"
      using run u True by (auto simp: Cluster_afterFetch_def dest: run_emits)
    moreover have "saidPaused E (cl_Meta c) (calls u)"
      using paused_said [of clusterOps E ?s u] u True by simp
    ultimately have "saidPaused E (cl_Meta c) (calls t)"
      by (rule saidPaused_prefix [rotated])
    then show ?thesis
      using Inr h by simp
  next
    case False
    have active: "run_state (Cluster_active E) u = (finished, t)"
      using run u False by (simp add: Cluster_afterFetch_def)
    obtain x w where w: "run_state (Cluster_resolveCloudClient E c) u = (x, w)"
      by fastforce
    have fail: "endsIf (\<lambda>_. False) (Cluster_credentialFailure E err)" for err
      unfolding Cluster_credentialFailure_def Let_def by (intro ends_rules) simp_all
    have x: "x = None"
      using active w cu endsIf_run [OF fail] by (cases x) (auto simp: Cluster_active_def)
    have cw: "cur w = c"
      using run_frames [OF frames_Cluster_resolveCloudClient [where v = "\<lambda>x. x"] w] cu by simp
    have "run_state (Cluster_dispatch E) w = (finished, t)"
      using active w x cu by (simp add: Cluster_active_def)
    then show ?thesis
      using cluster_ends_live [of w E t] cluster_ends_deleting [of w E t] cw Inr h
      by (cases "clusterLive c") auto
  qed
qed

section \<open>Examples\<close>

text \<open>The example machine with its virtual machine up, and the example cluster being set up.\<close>

definition upWorld :: Env where
  "upWorld = fixedWorld\<lparr>e_vm := (\<lambda>_ _. Inr \<lparr>vm_Meta = \<lparr>md_Id = ''m'', md_Uid = ''1''\<rparr>,
     vm_PlacementGroupRef = None, vm_PublicIPRef = None, vm_Networking = None, vm_State = ''''\<rparr>)\<rparr>"

lemma up_finished: "resultOf (Machine_Reconcile upWorld exampleKey) (startOf zeroMachine) = finished"
  by code_simp

theorem machine_never_stalls_witness:
  "saidUp (emitted (Machine_Reconcile upWorld exampleKey) (startOf zeroMachine))"
proof -
  have "\<not> saidVanished upWorld h" for h
    by (simp add: saidVanished_def answeredIn_def upWorld_def fixedWorld_def)
  moreover have "\<not> saidPaused upWorld (m_Meta fixedMachine) h" "\<not> letGo fixedMachine h" for h
    by (simp_all add: saidPaused_def letGo_def answeredIn_def upWorld_def fixedWorld_def machineWorld_def fixedMachine_def
        setProviderID_def exampleMachine_def exampleMeta_def HasPausedAnnotation_def mhas_def PausedAnnotation_def
        machineOwnershipIDAnnotation_def)
  moreover have "e_machine upWorld [] (KGetMachine exampleKey) = Inr fixedMachine"
    by (simp add: upWorld_def fixedWorld_def)
  ultimately show ?thesis
    using machine_never_stalls [OF up_finished] by (auto simp: Let_def)
qed

lemma cluster_finished: "resultOf (Cluster_Reconcile (clusterWorld None) exampleKey) (startOf zeroCluster) = finished"
  by code_simp

theorem cluster_never_stalls_witness: "saidReady (clusterCalls (clusterWorld None) exampleKey)"
proof -
  have "\<not> saidPaused (clusterWorld None) (cl_Meta (liveCluster None)) h" "\<not> clusterLetGo (liveCluster None) h" for h
    by (simp_all add: saidPaused_def clusterLetGo_def answeredIn_def clusterWorld_def emptyWorld_def liveCluster_def
        exampleMeta_def HasPausedAnnotation_def mhas_def PausedAnnotation_def clusterOwnershipIDAnnotation_def)
  then show ?thesis
    using cluster_never_stalls [OF cluster_finished] clusterWorld_fetch by (auto simp: Let_def)
qed

end
