(* ===== verification/Spec2Isabelle.thy ===== *)
theory Spec2Isabelle
  imports WebhookProperties HelperProperties MachineLife ClusterLife Agreement Divergences
    ServiceInterfaces Manager ClusterReady NoStall
begin

text \<open>
  Verification of the Cluster API infrastructure provider for evroc.

  The program.  The provider runs in a Cluster API management cluster and keeps evroc clouds in
  line with two kinds of Kubernetes objects.  An \<open>EvrocCluster\<close> stands for the network side of a
  workload cluster: a load balancer in front of the API server with its public IP, backend pool,
  backend services and L4 routes, and the security groups the machines share.  An \<open>EvrocMachine\<close>
  stands for one virtual machine with its disks, security groups, placement group and public IP.
  Each kind has a controller whose \<open>Reconcile\<close> is called with the key of an object, reads the
  object, calls the cloud through the evroc SDK, writes the object back and says when it wants to
  be called again; nothing else survives between two calls.  Deletion is held up by a finalizer
  until the cloud is clean.  Two admission webhooks default and validate the objects before the API
  server stores them.  The controllers meet in three places: a machine reads its cluster (network,
  group names, labels, load balancer), the cluster touches its machines when its groups change,
  and both build their cloud client from a secret of the user or a copy that the cluster owns.

  The model.  Everything the provider calls is a parameter: a record \<open>Env\<close> has one field for each
  type of reply, a function of the calls made so far and of the call, so the world may answer
  anything, and differently each time.  A handler runs in a state monad (\<open>Prelude\<close>) over the object
  it works on and the list of its calls; \<open>Env\<close>, the calls and the objects of others are in \<open>World\<close>.
  Go errors are values with the sentinels they wrap (\<open>goerr\<close>), \<open>(T, error)\<close> is a sum, an early
  return is a branch of \<open>onResult\<close> or \<open>onError\<close>.  Maps are association lists in the order in which
  Go would range over them, \<open>int32\<close> conversions wrap on 32-bit words, regular expressions are
  functions on byte strings, and time is an integer.  All loops of the program go over lists and
  are recursions on them: no fuel is used anywhere.

  Which theory models which file (all paths under \<open>src/\<close>).

    \<open>ApiTypes\<close>            \<open>api/v1beta1\<close>: the types of both kinds, conditions, accessors
    \<open>Conditions\<close>          setting conditions, \<open>helpers/clouderror.go\<close>, \<open>helpers/cloudresource.go\<close>
    \<open>Labels\<close>              \<open>cloud/labels.go\<close>, \<open>helpers/labels.go\<close>, ownership IDs, selectors
    \<open>ObjectHelpers\<close>       \<open>helpers/finalizer.go\<close>, \<open>helpers/pause.go\<close>, \<open>ensureOwnershipID\<close>
    \<open>CloudServices\<close>       \<open>cloud/client.go\<close>, \<open>virtualmachine.go\<close>, \<open>placementgroup.go\<close>, \<open>diskimage\<close>,
                          \<open>helpers/securitygroups.go\<close>
    \<open>LoadBalancers\<close>       \<open>cloud/loadbalancer.go\<close>, \<open>cloud/types.go\<close>
    \<open>Workload\<close>            \<open>cloud/workload.go\<close>
    \<open>Credentials\<close>         \<open>cloud/credentials.go\<close>, \<open>resolveCloudClient\<close> of both controllers, the copy
    \<open>ServiceReads\<close>        the methods of the services that no controller calls
    \<open>ServiceInterfaces\<close>   \<open>cloud/interfaces.go\<close>, the client of \<open>cloud/client.go\<close>
    \<open>Manager\<close>             \<open>cmd/manager\<close>, \<open>pkg/version\<close>, templates and registration, the watches
    \<open>UserData\<close>, \<open>MachineBuild\<close>, \<open>MachineSteps\<close>, \<open>MachineDelete\<close>, \<open>MachineReconcile\<close>
                          \<open>controller/evrocmachine_controller.go\<close>
    \<open>ClusterSteps\<close>, \<open>ClusterReconcile\<close> (and the naming functions in \<open>MachineBuild\<close>)
                          \<open>controller/evroccluster_controller.go\<close>
    \<open>Admission\<close>, \<open>MachineWebhook\<close>, \<open>ClusterWebhook\<close>
                          \<open>api/v1beta1/evrocmachine_webhook.go\<close>, \<open>evroccluster_webhook.go\<close>

  Functions keep their Go names; \<open>Machine_\<close> and \<open>Cluster_\<close> tell methods of the two controllers apart,
  and a service method is \<open>DiskService_Create\<close>.  A long Go function is a composition of one
  definition per stage, in its order.

  The reasoning.  \<open>Prelude\<close> and \<open>Provenance\<close> hold the interfaces.  The locale \<open>object_relation\<close>
  gives, for a reflexive and transitive relation between states, the rules by which every
  composition of the monad keeps it; its interpretations are the calls a computation may make
  (\<open>emits\<close>), the parts of the object it leaves alone (\<open>frames\<close>), invariants of the object
  (\<open>maintains\<close>), and the reason of each call in the calls before it (\<open>justifies\<close>).  \<open>ClusterStatus\<close>
  adds preorders on the object (\<open>object_preorder\<close>), \<open>Conditions\<close> a locale for objects with
  conditions, \<open>CloudServices\<close> one for a kind of cloud resource, \<open>MachineDelete\<close> one for what a
  machine owns of a kind, \<open>Admission\<close> one for checks that decide a predicate, and \<open>CloudTrack\<close>
  the contract of a life cycle (\<open>teardown_cycle\<close>): what a step adds, the teardown finds, and
  while anything is left the object waits.  Each is interpreted on the definitions of the code.

  What is proved.

    Life cycles (C1, C2: \<open>MachineLife\<close>, \<open>ClusterLife\<close>).  A step is one reconcile in any environment
    that tells the truth about the object and the cloud, stopped after any number of calls, with
    creates that may or may not have taken effect and writes that may or may not be stored.  Over
    any number of steps nothing is leaked.  \<open>ClusterStore\<close> says what a reconcile stores.
    Progress (C3, C4: \<open>Provision\<close>, \<open>Provisioned\<close>, \<open>ClusterReady\<close>).  In a cloud that answers truly,
    accepts what it is sent and has it ready when it is next looked up, a machine has its virtual
    machine after at most five reconciles, the first of which only stores its finalizer and its
    ownership ID, and each later one creates exactly what is next; and a cluster whose load
    balancer is active becomes ready in one.
    No stalls (C5, C6: \<open>NoStall\<close>).  In any environment, a reconcile that ends without an error and
    without asking to come back found its object gone or paused, or has finished with it.
    The machine controller (C7 to C16: \<open>MachineProperties\<close>).  When it writes, what it deletes and
    why, when the finalizer goes, that the zone and the provider ID stay, that a virtual machine
    comes after what it needs, progress of a deletion, and the policy for cloud errors.
    The cluster controller (C17 to C27: \<open>ClusterProperties\<close>).  The same questions; the normal case
    refines an abstract specification of its writes (\<open>clusterWrite\<close>), the patch at its end changes
    what it should, ready means that the cloud just answered that the load balancer is ready and
    has an address, the user's secret is only read.  A paused cluster is left alone (C34).
    Creates (C14, C23: \<open>CreateProperties\<close>).  Both controllers create only what a lookup answered
    is missing and what was not created since, so running a reconcile again makes no second copy.
    Agreement (C24, C25: \<open>Agreement\<close>).  The two controllers derive names on their own and meet in
    them: the groups a machine joins, the pool it registers in.
    The webhooks (C28 to C33: \<open>WebhookProperties\<close>).  They decide declarative predicates; names and
    ports derived from what they admit are in bounds, but for one limit that is too weak
    (\<open>cluster_name_limit_too_weak\<close>) and a prefix annotation of the user, which is not checked
    (\<open>prefix_annotation_unchecked\<close>); and what the controllers write passes them again.
    Shared parts (C35 to C40: \<open>HelperProperties\<close>).  The shape of written objects, the choice of
    a zone and its storing, user data with the case in which the SSH key is lost, group patches, the end of
    the set-up, and names that survive a move.
    Around the handlers (\<open>ServiceInterfaces\<close>, \<open>Manager\<close>).  A service touches only its own kind of
    resource; the manager starts after all it needs; an event wakes the objects that read what
    changed; the version is logged where nobody sees it.
    Divergences (\<open>Divergences\<close>).  Where the code does something else than it means to.

  The supporting theories: \<open>MachineInvariant\<close>, \<open>MachineWhole\<close>, \<open>MachineControl\<close>, \<open>MachineCreate\<close>,
  \<open>MachineProgress\<close> for machines and \<open>ClusterInvariant\<close>, \<open>ClusterTeardown\<close>, \<open>ClusterControl\<close>,
  \<open>ClusterStatus\<close>, \<open>ClusterProgress\<close> for clusters carry the inductions over the handlers;
  \<open>FreshCreate\<close> and \<open>ClusterFresh\<close> follow a create back to its lookup; \<open>Examples\<close>,
  \<open>ClusterExamples\<close> and \<open>CloudSim\<close> hold the worlds in which every hypothesis is met.

  What the hypotheses are.  Most properties hold for every environment.  Some assume that the API
  server answers an update with an object that keeps what was sent (\<open>serverKeeps\<close>, \<open>stableInv\<close>), or
  answers a read of a secret with the one asked for (\<open>answersKey\<close>).  Progress assumes a cloud in
  which a lookup finds what is there, ready for use, and every write is accepted (\<open>provides\<close>), and
  that the user supplies what an object names: for a machine its cluster with credentials, its
  owner, its bootstrap data and a source of a zone (\<open>attended\<close>), for a cluster its groups and an
  active load balancer (\<open>furnished\<close>).  The bounds on the names of a cluster assume the prefix that
  the controller derives (\<open>derivedPrefix\<close>).  The life cycles assume
  that ownership IDs, which are UUIDs, have no comma; that the server serves the stored name, owner
  ID and finalizer; and that the cloud does not deny what is there (\<open>tracks\<close>).  For a cluster they
  further assume that it has a prefix for its names and that nobody else changes that, the
  management of the endpoint, which the webhook freezes, or the choice of the public IP, which it
  does not freeze (\<open>Divergences\<close>).

  Choices of the model.  The deferred patch of a cluster is one call with the object before and
  after it; the API server may answer it with an error, and a stopped reconcile may end before it.
  The annotation that \<open>clusterResourcePrefix\<close> leaves on the copy of a cluster that the machine
  controller reads is discarded there, as in the code, which never writes that copy.  In a handler a cloud
  client is not a value: the calls that build it are in the history, and an error stops the
  reconcile there.  \<open>TrimSpace\<close> trims ASCII white space.  Field errors of the webhooks record path,
  kind and detail; the text of an aggregated error is a parameter, as are \<open>url.Parse\<close>, the YAML
  parser, \<open>capipatch.NewHelper\<close>, the parser of kubeconfigs, the SDK's readiness predicates,
  references and defaults, and the random boundary of a MIME document.

  Not modelled.  Generated deep copies (on immutable values they are identities), the mocks (test
  doubles with no behaviour of their own), the body of \<open>Complete\<close> of controllers and webhooks,
  which is the framework's, metrics, and logging but for what the start of the process shows.
  Two reconciles of one object never run at
  the same time in controller-runtime, so there is no interleaving of handlers in the model; other
  actors are in what \<open>Env\<close> answers.
\<close>

end
